theory Spec2Isabelle
  imports Complex_Main
begin

section \<open>Profile fitting of hipercam: numbers, arrays and the store\<close>

text \<open>
  This theory embeds \<^verbatim>\<open>src/hipercam/fitting.py\<close>: the Moffat and Gaussian profile
  functions with their partial derivatives, the eight function objects handed to the solver,
  and the two drivers \<^verbatim>\<open>fitMoffat\<close> and \<^verbatim>\<open>fitGaussian\<close> with their rejection loop.

  Conventions of the embedding.
  \<^item> A Python float and an entry of a numpy float array is a \<^typ>\<open>real\<close>. Rounding, overflow,
    infinities and nan are not represented: where numpy would produce nan or an infinity
    (division by zero, square root or logarithm of a negative number) the value of the HOL
    term is a real number of no significance, and the theorems that depend on such a value
    carry the hypothesis that excludes it.
  \<^item> A 2D numpy array of shape \<open>(ny, nx)\<close> is the list of its entries in row-major order,
    the order in which boolean-mask indexing and \<^verbatim>\<open>ravel\<close> enumerate them.
  \<^item> Arrays are objects with identity: they live in a store at addresses, and the function
    objects hold addresses, so that two objects sharing one sigma array see each other's
    updates, as in the source.
  \<^item> \<^verbatim>\<open>scipy.optimize.leastsq\<close> is not part of the repository: it is a parameter of the
    drivers.
\<close>

datatype error = HipercamError string | ValueError

type_synonym addr = nat
type_synonym ndarray = "real list"

record store =
  cells :: "addr \<Rightarrow> ndarray"
  fresh :: addr

text \<open>Creating a new array object: it gets the next unused address.\<close>

definition new_array :: "ndarray \<Rightarrow> store \<Rightarrow> addr \<times> store" where
  "new_array a st =
     (fresh st, st\<lparr>cells := (cells st)(fresh st := a), fresh := Suc (fresh st)\<rparr>)"

subsection \<open>The numpy operations the source uses\<close>

text \<open>
  Elementwise operations on two arrays of one shape. All arrays of one fit have the shape of
  the window, so the truncation of \<^const>\<open>zip\<close> on unequal lengths never takes place
  there (numpy raises on arrays that do not broadcast).
\<close>

definition np_sub :: "ndarray \<Rightarrow> ndarray \<Rightarrow> ndarray" where
  "np_sub a b = map2 (-) a b"

definition np_div :: "ndarray \<Rightarrow> ndarray \<Rightarrow> ndarray" where
  "np_div a b = map2 (/) a b"

definition np_neg :: "ndarray \<Rightarrow> ndarray" where
  "np_neg a = map uminus a"

text \<open>\<^verbatim>\<open>a > 0\<close>: the boolean array of the included pixels.\<close>

definition np_gt0 :: "ndarray \<Rightarrow> bool list" where
  "np_gt0 a = map (\<lambda>v. 0 < v) a"

text \<open>\<^verbatim>\<open>a[m]\<close> for a boolean array \<open>m\<close>: the entries of \<open>a\<close> where \<open>m\<close> holds, in order.\<close>

definition np_mask :: "'a list \<Rightarrow> bool list \<Rightarrow> 'a list" where
  "np_mask a m = map fst (filter snd (zip a m))"

text \<open>\<^verbatim>\<open>a[m] *= c\<close>: the array after the in-place update.\<close>

definition np_imul_where :: "ndarray \<Rightarrow> bool list \<Rightarrow> real \<Rightarrow> ndarray" where
  "np_imul_where a m c = map2 (\<lambda>v b. if b then v * c else v) a m"

text \<open>\<^verbatim>\<open>np.diag(c)\<close> of a square matrix given by its rows.\<close>

definition np_diag :: "real list list \<Rightarrow> real list" where
  "np_diag c = map (\<lambda>i. c ! i ! i) [0..<length c]"

text \<open>
  \<^verbatim>\<open>np.meshgrid(x, y)\<close>: two arrays of shape \<open>(len y, len x)\<close>, the first repeating \<open>x\<close>
  along every row, the second constant along each row.
\<close>

definition meshgrid :: "real list \<Rightarrow> real list \<Rightarrow> ndarray \<times> ndarray" where
  "meshgrid xs ys =
     (concat (replicate (length ys) xs), concat (map (replicate (length xs)) ys))"

subsection \<open>The window\<close>

text \<open>
  Modelled from the spec: the class \<^verbatim>\<open>Window\<close> (module \<^verbatim>\<open>hipercam.window\<close>) is not among
  the sources. The spec describes it as a rectangular pixel-value grid that exposes
  pixel-centred x and y ordinates and a data array of the same shape. The record keeps what
  \<^verbatim>\<open>fitting.py\<close> reads: the dimensions \<^verbatim>\<open>nx\<close> and \<^verbatim>\<open>ny\<close>, the maps \<^verbatim>\<open>wind.x\<close> and
  \<^verbatim>\<open>wind.y\<close> from pixel index to ordinate, and the data array (an address in the store).
\<close>

record Window =
  nx :: nat
  ny :: nat
  xord :: "nat \<Rightarrow> real"
  yord :: "nat \<Rightarrow> real"
  wdata :: addr

text \<open>The shape invariant of a window: its data array has \<open>ny * nx\<close> entries and exists.\<close>

definition window_ok :: "Window \<Rightarrow> store \<Rightarrow> bool" where
  "window_ok wind st \<longleftrightarrow>
     length (cells st (wdata wind)) = ny wind * nx wind \<and> wdata wind < fresh st"

subsection \<open>Noise model\<close>

text \<open>
  \<^verbatim>\<open>np.sqrt(read**2+np.maximum(0,wind.data)/gain)\<close>, the first line of the constructors
  of \<^verbatim>\<open>Mfit1\<close>, \<^verbatim>\<open>Mfit2\<close>, \<^verbatim>\<open>Gfit1\<close> and \<^verbatim>\<open>Gfit2\<close>. \<^verbatim>\<open>read\<close> and \<^verbatim>\<open>gain\<close> are a float or
  an array of the shape of the data: both are given here by their value at each pixel
  (a float is a constant function).
\<close>

definition noise_sigma :: "(nat \<Rightarrow> real) \<Rightarrow> (nat \<Rightarrow> real) \<Rightarrow> ndarray \<Rightarrow> ndarray" where
  "noise_sigma read gain dat =
     map (\<lambda>i. sqrt ((read i)\<^sup>2 + max 0 (dat ! i) / gain i)) [0..<length dat]"

section \<open>Profile functions\<close>

subsection \<open>Moffat\<close>

text \<open>
  \<^verbatim>\<open>moffat(xy, sky, height, xcen, ycen, fwhm, beta)\<close>. \<^verbatim>\<open>**\<close> with a float exponent on a
  positive base is \<^const>\<open>powr\<close>; \<^verbatim>\<open>**2\<close> is the square.
\<close>

definition moffat ::
  "ndarray \<times> ndarray \<Rightarrow> real \<Rightarrow> real \<Rightarrow> real \<Rightarrow> real \<Rightarrow> real \<Rightarrow> real \<Rightarrow> ndarray" where
  "moffat xy sky height xcen ycen fwhm beta =
     (let (x, y) = xy;
          rsq = map2 (\<lambda>a b. (a - xcen)\<^sup>2 + (b - ycen)\<^sup>2) x y;
          alpha = 4 * (2 powr (1 / max 0.01 beta) - 1) / fwhm\<^sup>2
      in map (\<lambda>r. height / (1 + alpha * r) powr max 0.01 beta + sky) rsq)"

text \<open>
  \<^verbatim>\<open>dmoffat(xy, sky, height, xcen, ycen, fwhm, beta, skip_dfwhm)\<close>: the list of the arrays
  of partial derivatives, five of them when \<^verbatim>\<open>skip_dfwhm\<close> is set and six otherwise.
\<close>

definition dmoffat ::
  "ndarray \<times> ndarray \<Rightarrow> real \<Rightarrow> real \<Rightarrow> real \<Rightarrow> real \<Rightarrow> real \<Rightarrow> real \<Rightarrow> bool
     \<Rightarrow> ndarray list" where
  "dmoffat xy sky height xcen ycen fwhm beta skip_dfwhm =
     (let (x, y) = xy;
          blim = max 0.01 beta;
          alpha = 4 * (2 powr (1 / blim) - 1) / fwhm\<^sup>2;
          xoff = map (\<lambda>a. a - xcen) x;
          yoff = map (\<lambda>b. b - ycen) y;
          rsq = map2 (\<lambda>a b. a\<^sup>2 + b\<^sup>2) xoff yoff;
          denom = map (\<lambda>r. 1 + alpha * r) rsq;
          save1 = map (\<lambda>d. height / d powr (blim + 1)) denom;
          save2 = map2 (*) save1 rsq;
          d_sky = map (\<lambda>_. 1) x;
          d_height = map (\<lambda>d. 1 / d powr blim) denom;
          d_xcen = map2 (\<lambda>a s. (2 * alpha * blim) * a * s) xoff save1;
          d_ycen = map2 (\<lambda>b s. (2 * alpha * blim) * b * s) yoff save1
      in if skip_dfwhm then
           let d_beta = map2 (+) (map2 (\<lambda>d h. - ln d * height * h) denom d_height)
                          (map (\<lambda>s. (4 * ln 2 * 2 powr (1 / blim) / blim / fwhm\<^sup>2) * s) save2)
           in [d_sky, d_height, d_xcen, d_ycen, d_beta]
         else
           let d_fwhm = map (\<lambda>s. (2 * alpha * blim / fwhm) * s) save2;
               d_beta = map2 (+) (map2 (\<lambda>d h. - ln d * height * h) denom d_height)
                          (map (\<lambda>s. (4 * ln 2 * 2 powr (1 / blim) / blim / fwhm\<^sup>2) * s) save2)
           in [d_sky, d_height, d_xcen, d_ycen, d_fwhm, d_beta])"

subsection \<open>Gaussian\<close>

text \<open>\<^verbatim>\<open>gaussian(xy, sky, height, xcen, ycen, fwhm)\<close>.\<close>

definition gaussian ::
  "ndarray \<times> ndarray \<Rightarrow> real \<Rightarrow> real \<Rightarrow> real \<Rightarrow> real \<Rightarrow> real \<Rightarrow> ndarray" where
  "gaussian xy sky height xcen ycen fwhm =
     (let (x, y) = xy;
          rsq = map2 (\<lambda>a b. (a - xcen)\<^sup>2 + (b - ycen)\<^sup>2) x y;
          alpha = 4 * ln 2 / fwhm\<^sup>2
      in map (\<lambda>r. sky + height * exp (- alpha * r)) rsq)"

text \<open>\<^verbatim>\<open>dgaussian(xy, sky, height, xcen, ycen, fwhm, skip_dfwhm)\<close>: four or five arrays.\<close>

definition dgaussian ::
  "ndarray \<times> ndarray \<Rightarrow> real \<Rightarrow> real \<Rightarrow> real \<Rightarrow> real \<Rightarrow> real \<Rightarrow> bool \<Rightarrow> ndarray list" where
  "dgaussian xy sky height xcen ycen fwhm skip_dfwhm =
     (let (x, y) = xy;
          alpha = 4 * ln 2 / fwhm\<^sup>2;
          xoff = map (\<lambda>a. a - xcen) x;
          yoff = map (\<lambda>b. b - ycen) y;
          rsq = map2 (\<lambda>a b. a\<^sup>2 + b\<^sup>2) xoff yoff;
          d_sky = map (\<lambda>_. 1) x;
          d_height = map (\<lambda>r. exp (- alpha * r)) rsq;
          d_xcen = map2 (\<lambda>h a. (2 * alpha * height) * h * a) d_height xoff;
          d_ycen = map2 (\<lambda>h b. (2 * alpha * height) * h * b) d_height yoff
      in if skip_dfwhm then [d_sky, d_height, d_xcen, d_ycen]
         else
           let d_fwhm = map2 (\<lambda>h r. (2 * alpha * height / fwhm) * h * r) d_height rsq
           in [d_sky, d_height, d_xcen, d_ycen, d_fwhm])"

section \<open>The solver\<close>

text \<open>
  \<^verbatim>\<open>leastsq(func, x0, Dfun=dfun, col_deriv=True, full_output=True)\<close> returns
  \<^verbatim>\<open>(x, cov_x, infodict, mesg, ier)\<close>; \<^verbatim>\<open>cov_x\<close> is \<^verbatim>\<open>None\<close> when the solver could not
  estimate a covariance matrix. The dictionary is never read by the drivers and is left out.
  The two callables are what the solver may evaluate; unpacking a parameter vector of the
  wrong length raises \<^verbatim>\<open>ValueError\<close> inside them.
\<close>

record lsq =
  lsq_x :: "real list"
  lsq_cov :: "real list list option"
  lsq_mesg :: string
  lsq_ier :: int

type_synonym func = "real list \<Rightarrow> error + ndarray"
type_synonym dfun = "real list \<Rightarrow> error + ndarray list"
type_synonym leastsq = "func \<Rightarrow> dfun \<Rightarrow> real list \<Rightarrow> lsq"

text \<open>
  The call of the solver with the check that follows it, as it is written three times in
  each driver: \<^verbatim>\<open>if ier < 1 or ier > 4: raise HipercamError(mesg)\<close>.
\<close>

definition leastsq_check :: "leastsq \<Rightarrow> func \<Rightarrow> dfun \<Rightarrow> real list \<Rightarrow> error + lsq" where
  "leastsq_check leastsq f d param =
     (let r = leastsq f d param
      in if lsq_ier r < 1 \<or> lsq_ier r > 4 then Inl (HipercamError (lsq_mesg r)) else Inr r)"

text \<open>\<^verbatim>\<open>np.sqrt(np.diag(covar))\<close>; \<^verbatim>\<open>np.diag(None)\<close> raises \<^verbatim>\<open>ValueError\<close>.\<close>

definition sqrt_diag :: "real list list option \<Rightarrow> error + real list" where
  "sqrt_diag covar =
     (case covar of None \<Rightarrow> Inl ValueError | Some c \<Rightarrow> Inr (map sqrt (np_diag c)))"

section \<open>Function objects of the Moffat fit\<close>

record Mfit1 =
  m1_sigma :: addr
  m1_xy :: "addr \<times> addr"
  m1_data :: addr

record Dmfit1 =
  dm1_sigma :: addr
  dm1_xy :: "addr \<times> addr"

record Mfit2 =
  m2_sigma :: addr
  m2_xy :: "addr \<times> addr"
  m2_data :: addr
  m2_fwhm :: real

record Dmfit2 =
  dm2_sigma :: addr
  dm2_xy :: "addr \<times> addr"
  dm2_fwhm :: real

text \<open>\<^verbatim>\<open>Mfit1.__init__(self, wind, read, gain)\<close>: a new sigma array and a new pair of grids.\<close>

definition Mfit1_init ::
  "Window \<Rightarrow> (nat \<Rightarrow> real) \<Rightarrow> (nat \<Rightarrow> real) \<Rightarrow> store \<Rightarrow> Mfit1 \<times> store" where
  "Mfit1_init wind read gain st =
     (let (sg, st1) = new_array (noise_sigma read gain (cells st (wdata wind))) st;
          x = map (xord wind) [0..<nx wind];
          y = map (yord wind) [0..<ny wind];
          (gx, gy) = meshgrid x y;
          (ax, st2) = new_array gx st1;
          (ay, st3) = new_array gy st2
      in (\<lparr>m1_sigma = sg, m1_xy = (ax, ay), m1_data = wdata wind\<rparr>, st3))"

text \<open>\<^verbatim>\<open>Mfit1.model(self, param)\<close>.\<close>

fun Mfit1_model :: "Mfit1 \<Rightarrow> real list \<Rightarrow> store \<Rightarrow> (error + ndarray) \<times> store" where
  "Mfit1_model self [sky, height, xcen, ycen, fwhm, beta] st =
     (Inr (moffat (cells st (fst (m1_xy self)), cells st (snd (m1_xy self)))
             sky height xcen ycen fwhm beta), st)"
| "Mfit1_model self _ st = (Inl ValueError, st)"

text \<open>\<^verbatim>\<open>Mfit1.__call__(self, param)\<close>: the normalised residuals of the included pixels.\<close>

definition Mfit1_call :: "Mfit1 \<Rightarrow> real list \<Rightarrow> store \<Rightarrow> (error + ndarray) \<times> store" where
  "Mfit1_call self param st =
     (case Mfit1_model self param st of
        (Inl e, st1) \<Rightarrow> (Inl e, st1)
      | (Inr modl, st1) \<Rightarrow>
          (let diff = np_div (np_sub (cells st1 (m1_data self)) modl) (cells st1 (m1_sigma self));
               ok = np_gt0 (cells st1 (m1_sigma self))
           in (Inr (np_mask diff ok), st1)))"

text \<open>\<^verbatim>\<open>Dmfit1.__init__(self, mfit1)\<close>: the same array objects as \<^verbatim>\<open>mfit1\<close>.\<close>

definition Dmfit1_init :: "Mfit1 \<Rightarrow> Dmfit1" where
  "Dmfit1_init mfit1 = \<lparr>dm1_sigma = m1_sigma mfit1, dm1_xy = m1_xy mfit1\<rparr>"

text \<open>\<^verbatim>\<open>Dmfit1.__call__(self, param)\<close>.\<close>

fun Dmfit1_call :: "Dmfit1 \<Rightarrow> real list \<Rightarrow> store \<Rightarrow> (error + ndarray list) \<times> store" where
  "Dmfit1_call self [sky, height, xcen, ycen, fwhm, beta] st =
     (let derivs = dmoffat (cells st (fst (dm1_xy self)), cells st (snd (dm1_xy self)))
                     sky height xcen ycen fwhm beta False;
          ok = np_gt0 (cells st (dm1_sigma self))
      in (Inr (map (\<lambda>deriv. np_div (np_neg (np_mask deriv ok))
                              (np_mask (cells st (dm1_sigma self)) ok)) derivs), st))"
| "Dmfit1_call self _ st = (Inl ValueError, st)"

text \<open>\<^verbatim>\<open>Mfit2.__init__(self, wind, read, gain, fwhm)\<close>: again a new sigma array and new grids.\<close>

definition Mfit2_init ::
  "Window \<Rightarrow> (nat \<Rightarrow> real) \<Rightarrow> (nat \<Rightarrow> real) \<Rightarrow> real \<Rightarrow> store \<Rightarrow> Mfit2 \<times> store" where
  "Mfit2_init wind read gain fwhm st =
     (let (sg, st1) = new_array (noise_sigma read gain (cells st (wdata wind))) st;
          x = map (xord wind) [0..<nx wind];
          y = map (yord wind) [0..<ny wind];
          (gx, gy) = meshgrid x y;
          (ax, st2) = new_array gx st1;
          (ay, st3) = new_array gy st2
      in (\<lparr>m2_sigma = sg, m2_xy = (ax, ay), m2_data = wdata wind, m2_fwhm = fwhm\<rparr>, st3))"

text \<open>\<^verbatim>\<open>Mfit2.model(self, param)\<close>: the FWHM is the attribute of the object.\<close>

fun Mfit2_model :: "Mfit2 \<Rightarrow> real list \<Rightarrow> store \<Rightarrow> (error + ndarray) \<times> store" where
  "Mfit2_model self [sky, height, xcen, ycen, beta] st =
     (Inr (moffat (cells st (fst (m2_xy self)), cells st (snd (m2_xy self)))
             sky height xcen ycen (m2_fwhm self) beta), st)"
| "Mfit2_model self _ st = (Inl ValueError, st)"

text \<open>\<^verbatim>\<open>Mfit2.__call__(self, param)\<close>.\<close>

definition Mfit2_call :: "Mfit2 \<Rightarrow> real list \<Rightarrow> store \<Rightarrow> (error + ndarray) \<times> store" where
  "Mfit2_call self param st =
     (case Mfit2_model self param st of
        (Inl e, st1) \<Rightarrow> (Inl e, st1)
      | (Inr modl, st1) \<Rightarrow>
          (let diff = np_div (np_sub (cells st1 (m2_data self)) modl) (cells st1 (m2_sigma self));
               ok = np_gt0 (cells st1 (m2_sigma self))
           in (Inr (np_mask diff ok), st1)))"

text \<open>\<^verbatim>\<open>Dmfit2.__init__(self, mfit2)\<close>.\<close>

definition Dmfit2_init :: "Mfit2 \<Rightarrow> Dmfit2" where
  "Dmfit2_init mfit2 =
     \<lparr>dm2_sigma = m2_sigma mfit2, dm2_xy = m2_xy mfit2, dm2_fwhm = m2_fwhm mfit2\<rparr>"

text \<open>\<^verbatim>\<open>Dmfit2.__call__(self, param)\<close>: no derivative with respect to the FWHM.\<close>

fun Dmfit2_call :: "Dmfit2 \<Rightarrow> real list \<Rightarrow> store \<Rightarrow> (error + ndarray list) \<times> store" where
  "Dmfit2_call self [sky, height, xcen, ycen, beta] st =
     (let derivs = dmoffat (cells st (fst (dm2_xy self)), cells st (snd (dm2_xy self)))
                     sky height xcen ycen (dm2_fwhm self) beta True;
          ok = np_gt0 (cells st (dm2_sigma self))
      in (Inr (map (\<lambda>deriv. np_div (np_neg (np_mask deriv ok))
                              (np_mask (cells st (dm2_sigma self)) ok)) derivs), st))"
| "Dmfit2_call self _ st = (Inl ValueError, st)"

section \<open>The rejection step\<close>

text \<open>
  The outlier search that follows the solve in both drivers (\<^verbatim>\<open>fitMoffat\<close> and
  \<^verbatim>\<open>fitGaussian\<close> have the same lines, on \<^verbatim>\<open>mfit1.sigma\<close> and on \<^verbatim>\<open>gfit1.sigma\<close>):
  \<^verbatim>\<open>
  ok = mfit1.sigma > 0
  resid = (wind.data - fit.data) / mfit1.sigma
  chisq = (resid[ok]**2).sum()
  nok1 = len(resid[ok])
  sfac = np.sqrt(chisq/(nok1-len(soln)))
  mfit1.sigma[ok & (np.abs(resid)> sfac*thresh)] *= -1
  \<close>
  \<open>sg\<close> is the address of the sigma array, which is updated in place, \<open>dat\<close> the address of
  \<^verbatim>\<open>wind.data\<close>, \<open>fit\<close> the data of the fit window and \<open>npar\<close> is \<^verbatim>\<open>len(soln)\<close>. The
  difference \<^verbatim>\<open>nok1-len(soln)\<close> is a difference of Python integers and may be negative.
  The result is \<^verbatim>\<open>(chisq, nok1, sfac)\<close> and the store after the update.

  Where \<^verbatim>\<open>nok1\<close> is greater than \<^verbatim>\<open>len(soln)\<close> the scale factor is a real number and the
  definition is the source. Where it is not, numpy's \<^verbatim>\<open>sfac\<close> is an infinity or nan (a
  division by zero, the root of a negative number), the comparison with it is false for every
  pixel and nothing is rejected, while the real number that the HOL term denotes has no
  significance: theorems about the value of the scale factor, or about which pixels a pass
  rejects, carry the hypothesis that there are more included pixels than parameters.
\<close>

definition reject_outliers ::
  "addr \<Rightarrow> addr \<Rightarrow> ndarray \<Rightarrow> nat \<Rightarrow> real \<Rightarrow> store \<Rightarrow> real \<times> nat \<times> real \<times> store" where
  "reject_outliers sg dat fit npar thresh st =
     (let ok = np_gt0 (cells st sg);
          resid = np_div (np_sub (cells st dat) fit) (cells st sg);
          chisq = sum_list (map (\<lambda>r. r\<^sup>2) (np_mask resid ok));
          nok1 = length (np_mask resid ok);
          sfac = sqrt (chisq / real_of_int (int nok1 - int npar));
          st1 = st\<lparr>cells := (cells st)
                  (sg := np_imul_where (cells st sg)
                           (map2 (\<and>) ok (map (\<lambda>r. \<bar>r\<bar> > sfac * thresh) resid)) (- 1))\<rparr>
      in (chisq, nok1, sfac, st1))"

text \<open>The number of included pixels of a sigma array: \<^verbatim>\<open>len(sigma[sigma > 0])\<close>.\<close>

definition count_ok :: "ndarray \<Rightarrow> nat" where
  "count_ok sigma = length (np_mask sigma (np_gt0 sigma))"

text \<open>One pass through the body of \<^verbatim>\<open>while True:\<close> raises, goes round again, or breaks.\<close>

datatype ('s, 'r) step = Raise error | Continue 's | Break 'r

section \<open>The Moffat driver\<close>

text \<open>The four function objects of \<^verbatim>\<open>fitMoffat\<close> and the store they point into.\<close>

record moffat_state =
  mfit1 :: Mfit1
  dmfit1 :: Dmfit1
  mfit2 :: Mfit2
  dmfit2 :: Dmfit2
  mem :: store

type_synonym pars6 = "real \<times> real \<times> real \<times> real \<times> real \<times> real"

text \<open>
  What a solve leaves in the local variables: \<^verbatim>\<open>fit\<close> (its data), \<^verbatim>\<open>soln\<close>,
  \<^verbatim>\<open>(skyf, heightf, xf, yf, fwhmf, betaf)\<close> and \<^verbatim>\<open>(skyfe, heightfe, xfe, yfe, fwhmfe, betafe)\<close>.
\<close>

type_synonym moffat_solved = "ndarray \<times> real list \<times> pars6 \<times> pars6"

text \<open>
  What \<^verbatim>\<open>fitMoffat\<close> returns: the parameters, their errors and
  \<^verbatim>\<open>(fit, x, y, sigma, chisq, nok, nrej, npar)\<close>, where \<open>x\<close>, \<open>y\<close> and \<open>sigma\<close> are the array
  objects of \<^verbatim>\<open>mfit1\<close> (addresses).
\<close>

type_synonym moffat_result =
  "pars6 \<times> pars6 \<times> (ndarray \<times> addr \<times> addr \<times> addr \<times> real \<times> nat \<times> int \<times> nat)"

text \<open>
  The solve with the FWHM held at \<open>fw\<close>. The source has this block twice: with
  \<^verbatim>\<open>fwhm\<close> when \<^verbatim>\<open>fwhm_fix\<close> is set, and with \<^verbatim>\<open>fwhm_min\<close> as the fall-back of the free fit.
\<close>

definition fitMoffat_fixed ::
  "leastsq \<Rightarrow> real \<Rightarrow> real \<Rightarrow> real \<Rightarrow> real \<Rightarrow> real \<Rightarrow> real \<Rightarrow> moffat_state
     \<Rightarrow> error + moffat_solved \<times> moffat_state" where
  "fitMoffat_fixed leastsq sky height xcen ycen beta fw s =
     (let s1 = s\<lparr>mfit2 := (mfit2 s)\<lparr>m2_fwhm := fw\<rparr>, dmfit2 := (dmfit2 s)\<lparr>dm2_fwhm := fw\<rparr>\<rparr>;
          param = [sky, height, xcen, ycen, beta]
      in case leastsq_check leastsq
                (\<lambda>p. fst (Mfit2_call (mfit2 s1) p (mem s1)))
                (\<lambda>p. fst (Dmfit2_call (dmfit2 s1) p (mem s1))) param of
           Inl e \<Rightarrow> Inl e
         | Inr r \<Rightarrow>
             (case Mfit2_model (mfit2 s1) (lsq_x r) (mem s1) of
                (Inl e, st1) \<Rightarrow> Inl e
              | (Inr fit, st1) \<Rightarrow>
                  (case lsq_x r of
                     [skyf, heightf, xf, yf, betaf] \<Rightarrow>
                       (case sqrt_diag (lsq_cov r) of
                          Inl e \<Rightarrow> Inl e
                        | Inr [skyfe, heightfe, xfe, yfe, betafe] \<Rightarrow>
                            Inr ((fit, lsq_x r, (skyf, heightf, xf, yf, fw, betaf),
                                  (skyfe, heightfe, xfe, yfe, - 1, betafe)),
                                 s1\<lparr>mem := st1\<rparr>)
                        | Inr _ \<Rightarrow> Inl ValueError)
                   | _ \<Rightarrow> Inl ValueError)))"

text \<open>The two-pass strategy at the head of the loop body.\<close>

definition fitMoffat_solve ::
  "leastsq \<Rightarrow> real \<Rightarrow> real \<Rightarrow> real \<Rightarrow> real \<Rightarrow> real \<Rightarrow> real \<Rightarrow> bool \<Rightarrow> real \<Rightarrow> moffat_state
     \<Rightarrow> error + moffat_solved \<times> moffat_state" where
  "fitMoffat_solve leastsq sky height xcen ycen fwhm fwhm_min fwhm_fix beta s =
     (if fwhm_fix then fitMoffat_fixed leastsq sky height xcen ycen beta fwhm s
      else
        let param = [sky, height, xcen, ycen, fwhm, beta]
        in case leastsq_check leastsq
                  (\<lambda>p. fst (Mfit1_call (mfit1 s) p (mem s)))
                  (\<lambda>p. fst (Dmfit1_call (dmfit1 s) p (mem s))) param of
             Inl e \<Rightarrow> Inl e
           | Inr r \<Rightarrow>
               (case lsq_x r of
                  [skyf, heightf, xf, yf, fwhmf, betaf] \<Rightarrow>
                    if fwhmf > fwhm_min then
                      (case Mfit1_model (mfit1 s) (lsq_x r) (mem s) of
                         (Inl e, st1) \<Rightarrow> Inl e
                       | (Inr fit, st1) \<Rightarrow>
                           (case sqrt_diag (lsq_cov r) of
                              Inl e \<Rightarrow> Inl e
                            | Inr [skyfe, heightfe, xfe, yfe, fwhmfe, betafe] \<Rightarrow>
                                Inr ((fit, lsq_x r, (skyf, heightf, xf, yf, fwhmf, betaf),
                                      (skyfe, heightfe, xfe, yfe, fwhmfe, betafe)),
                                     s\<lparr>mem := st1\<rparr>)
                            | Inr _ \<Rightarrow> Inl ValueError))
                    else fitMoffat_fixed leastsq sky height xcen ycen beta fwhm_min s
                | _ \<Rightarrow> Inl ValueError))"

text \<open>The body of the loop: the solve, the rejection step, and the test for new rejections.\<close>

definition fitMoffat_iter ::
  "leastsq \<Rightarrow> Window \<Rightarrow> real \<Rightarrow> real \<Rightarrow> real \<Rightarrow> real \<Rightarrow> real \<Rightarrow> real \<Rightarrow> bool \<Rightarrow> real \<Rightarrow> real
     \<Rightarrow> moffat_state \<Rightarrow> (moffat_state, moffat_result \<times> moffat_state) step" where
  "fitMoffat_iter leastsq wind sky height xcen ycen fwhm fwhm_min fwhm_fix beta thresh s =
     (case fitMoffat_solve leastsq sky height xcen ycen fwhm fwhm_min fwhm_fix beta s of
        Inl e \<Rightarrow> Raise e
      | Inr ((fit, soln, (skyf, heightf, xf, yf, fwhmf, betaf),
              (skyfe, heightfe, xfe, yfe, fwhmfe, betafe)), s1) \<Rightarrow>
          (let (chisq, nok1, sfac, st2) =
                 reject_outliers (m1_sigma (mfit1 s1)) (wdata wind) fit (length soln) thresh
                   (mem s1);
               nok = count_ok (cells st2 (m1_sigma (mfit1 s1)))
           in if nok < nok1 then
                Continue (s1\<lparr>mfit2 := (mfit2 s1)\<lparr>m2_sigma := m1_sigma (mfit1 s1)\<rparr>,
                             dmfit1 := (dmfit1 s1)\<lparr>dm1_sigma := m1_sigma (mfit1 s1)\<rparr>,
                             dmfit2 := (dmfit2 s1)\<lparr>dm2_sigma := m1_sigma (mfit1 s1)\<rparr>,
                             mem := st2\<rparr>)
              else
                Break (((skyf, heightf, xf, yf, fwhmf, betaf),
                        (skyfe * sfac, heightfe * sfac, xfe * sfac, yfe * sfac,
                         (if fwhmfe > 0 then fwhmfe * sfac else fwhmfe), betafe * sfac),
                        (fit, fst (m1_xy (mfit1 s1)), snd (m1_xy (mfit1 s1)),
                         m1_sigma (mfit1 s1), chisq, nok,
                         int (length (cells st2 (m1_sigma (mfit1 s1)))) - int nok,
                         length soln)),
                       s1\<lparr>mem := st2\<rparr>)))"

text \<open>
  \<^verbatim>\<open>while True:\<close>. The source puts no bound on the number of passes, so the loop is a
  partial function: \<^const>\<open>None\<close> stands for a loop that never ends.
\<close>

partial_function (option) fitMoffat_loop ::
  "leastsq \<Rightarrow> Window \<Rightarrow> real \<Rightarrow> real \<Rightarrow> real \<Rightarrow> real \<Rightarrow> real \<Rightarrow> real \<Rightarrow> bool \<Rightarrow> real \<Rightarrow> real
     \<Rightarrow> moffat_state \<Rightarrow> (error + moffat_result \<times> moffat_state) option" where
  "fitMoffat_loop leastsq wind sky height xcen ycen fwhm fwhm_min fwhm_fix beta thresh s =
     (case fitMoffat_iter leastsq wind sky height xcen ycen fwhm fwhm_min fwhm_fix beta thresh s of
        Raise e \<Rightarrow> Some (Inl e)
      | Continue s' \<Rightarrow>
          fitMoffat_loop leastsq wind sky height xcen ycen fwhm fwhm_min fwhm_fix beta thresh s'
      | Break r \<Rightarrow> Some (Inr r))"

text \<open>The four constructor calls at the head of \<^verbatim>\<open>fitMoffat\<close>.\<close>

definition fitMoffat_init ::
  "Window \<Rightarrow> real \<Rightarrow> (nat \<Rightarrow> real) \<Rightarrow> (nat \<Rightarrow> real) \<Rightarrow> store \<Rightarrow> moffat_state" where
  "fitMoffat_init wind fwhm read gain st =
     (let (m1, st1) = Mfit1_init wind read gain st;
          dm1 = Dmfit1_init m1;
          (m2, st2) = Mfit2_init wind read gain fwhm st1;
          dm2 = Dmfit2_init m2
      in \<lparr>mfit1 = m1, dmfit1 = dm1, mfit2 = m2, dmfit2 = dm2, mem = st2\<rparr>)"

text \<open>\<^verbatim>\<open>fitMoffat(wind, sky, height, xcen, ycen, fwhm, fwhm_min, fwhm_fix, beta, read, gain, thresh)\<close>.\<close>

definition fitMoffat ::
  "leastsq \<Rightarrow> Window \<Rightarrow> real \<Rightarrow> real \<Rightarrow> real \<Rightarrow> real \<Rightarrow> real \<Rightarrow> real \<Rightarrow> bool \<Rightarrow> real
     \<Rightarrow> (nat \<Rightarrow> real) \<Rightarrow> (nat \<Rightarrow> real) \<Rightarrow> real \<Rightarrow> store
     \<Rightarrow> (error + moffat_result \<times> moffat_state) option" where
  "fitMoffat leastsq wind sky height xcen ycen fwhm fwhm_min fwhm_fix beta read gain thresh st =
     fitMoffat_loop leastsq wind sky height xcen ycen fwhm fwhm_min fwhm_fix beta thresh
       (fitMoffat_init wind fwhm read gain st)"

section \<open>Function objects of the Gaussian fit\<close>

record Gfit1 =
  g1_sigma :: addr
  g1_xy :: "addr \<times> addr"
  g1_data :: addr

record Dgfit1 =
  dg1_sigma :: addr
  dg1_xy :: "addr \<times> addr"

record Gfit2 =
  g2_sigma :: addr
  g2_xy :: "addr \<times> addr"
  g2_data :: addr
  g2_fwhm :: real

record Dgfit2 =
  dg2_sigma :: addr
  dg2_xy :: "addr \<times> addr"
  dg2_fwhm :: real

text \<open>\<^verbatim>\<open>Gfit1.__init__(self, wind, read, gain)\<close>.\<close>

definition Gfit1_init ::
  "Window \<Rightarrow> (nat \<Rightarrow> real) \<Rightarrow> (nat \<Rightarrow> real) \<Rightarrow> store \<Rightarrow> Gfit1 \<times> store" where
  "Gfit1_init wind read gain st =
     (let (sg, st1) = new_array (noise_sigma read gain (cells st (wdata wind))) st;
          x = map (xord wind) [0..<nx wind];
          y = map (yord wind) [0..<ny wind];
          (gx, gy) = meshgrid x y;
          (ax, st2) = new_array gx st1;
          (ay, st3) = new_array gy st2
      in (\<lparr>g1_sigma = sg, g1_xy = (ax, ay), g1_data = wdata wind\<rparr>, st3))"

text \<open>\<^verbatim>\<open>Gfit1.model(self, param)\<close>.\<close>

fun Gfit1_model :: "Gfit1 \<Rightarrow> real list \<Rightarrow> store \<Rightarrow> (error + ndarray) \<times> store" where
  "Gfit1_model self [sky, height, xcen, ycen, fwhm] st =
     (Inr (gaussian (cells st (fst (g1_xy self)), cells st (snd (g1_xy self)))
             sky height xcen ycen fwhm), st)"
| "Gfit1_model self _ st = (Inl ValueError, st)"

text \<open>\<^verbatim>\<open>Gfit1.__call__(self, param)\<close>.\<close>

definition Gfit1_call :: "Gfit1 \<Rightarrow> real list \<Rightarrow> store \<Rightarrow> (error + ndarray) \<times> store" where
  "Gfit1_call self param st =
     (case Gfit1_model self param st of
        (Inl e, st1) \<Rightarrow> (Inl e, st1)
      | (Inr modl, st1) \<Rightarrow>
          (let diff = np_div (np_sub (cells st1 (g1_data self)) modl) (cells st1 (g1_sigma self));
               ok = np_gt0 (cells st1 (g1_sigma self))
           in (Inr (np_mask diff ok), st1)))"

text \<open>\<^verbatim>\<open>Dgfit1.__init__(self, gfit1)\<close>.\<close>

definition Dgfit1_init :: "Gfit1 \<Rightarrow> Dgfit1" where
  "Dgfit1_init gfit1 = \<lparr>dg1_sigma = g1_sigma gfit1, dg1_xy = g1_xy gfit1\<rparr>"

text \<open>\<^verbatim>\<open>Dgfit1.__call__(self, param)\<close>.\<close>

fun Dgfit1_call :: "Dgfit1 \<Rightarrow> real list \<Rightarrow> store \<Rightarrow> (error + ndarray list) \<times> store" where
  "Dgfit1_call self [sky, height, xcen, ycen, fwhm] st =
     (let derivs = dgaussian (cells st (fst (dg1_xy self)), cells st (snd (dg1_xy self)))
                     sky height xcen ycen fwhm False;
          ok = np_gt0 (cells st (dg1_sigma self))
      in (Inr (map (\<lambda>deriv. np_div (np_neg (np_mask deriv ok))
                              (np_mask (cells st (dg1_sigma self)) ok)) derivs), st))"
| "Dgfit1_call self _ st = (Inl ValueError, st)"

text \<open>\<^verbatim>\<open>Gfit2.__init__(self, wind, read, gain, fwhm)\<close>.\<close>

definition Gfit2_init ::
  "Window \<Rightarrow> (nat \<Rightarrow> real) \<Rightarrow> (nat \<Rightarrow> real) \<Rightarrow> real \<Rightarrow> store \<Rightarrow> Gfit2 \<times> store" where
  "Gfit2_init wind read gain fwhm st =
     (let (sg, st1) = new_array (noise_sigma read gain (cells st (wdata wind))) st;
          x = map (xord wind) [0..<nx wind];
          y = map (yord wind) [0..<ny wind];
          (gx, gy) = meshgrid x y;
          (ax, st2) = new_array gx st1;
          (ay, st3) = new_array gy st2
      in (\<lparr>g2_sigma = sg, g2_xy = (ax, ay), g2_data = wdata wind, g2_fwhm = fwhm\<rparr>, st3))"

text \<open>\<^verbatim>\<open>Gfit2.model(self, param)\<close>.\<close>

fun Gfit2_model :: "Gfit2 \<Rightarrow> real list \<Rightarrow> store \<Rightarrow> (error + ndarray) \<times> store" where
  "Gfit2_model self [sky, height, xcen, ycen] st =
     (Inr (gaussian (cells st (fst (g2_xy self)), cells st (snd (g2_xy self)))
             sky height xcen ycen (g2_fwhm self)), st)"
| "Gfit2_model self _ st = (Inl ValueError, st)"

text \<open>\<^verbatim>\<open>Gfit2.__call__(self, param)\<close>.\<close>

definition Gfit2_call :: "Gfit2 \<Rightarrow> real list \<Rightarrow> store \<Rightarrow> (error + ndarray) \<times> store" where
  "Gfit2_call self param st =
     (case Gfit2_model self param st of
        (Inl e, st1) \<Rightarrow> (Inl e, st1)
      | (Inr modl, st1) \<Rightarrow>
          (let diff = np_div (np_sub (cells st1 (g2_data self)) modl) (cells st1 (g2_sigma self));
               ok = np_gt0 (cells st1 (g2_sigma self))
           in (Inr (np_mask diff ok), st1)))"

text \<open>\<^verbatim>\<open>Dgfit2.__init__(self, gfit2)\<close>.\<close>

definition Dgfit2_init :: "Gfit2 \<Rightarrow> Dgfit2" where
  "Dgfit2_init gfit2 =
     \<lparr>dg2_sigma = g2_sigma gfit2, dg2_xy = g2_xy gfit2, dg2_fwhm = g2_fwhm gfit2\<rparr>"

text \<open>\<^verbatim>\<open>Dgfit2.__call__(self, param)\<close>.\<close>

fun Dgfit2_call :: "Dgfit2 \<Rightarrow> real list \<Rightarrow> store \<Rightarrow> (error + ndarray list) \<times> store" where
  "Dgfit2_call self [sky, height, xcen, ycen] st =
     (let derivs = dgaussian (cells st (fst (dg2_xy self)), cells st (snd (dg2_xy self)))
                     sky height xcen ycen (dg2_fwhm self) True;
          ok = np_gt0 (cells st (dg2_sigma self))
      in (Inr (map (\<lambda>deriv. np_div (np_neg (np_mask deriv ok))
                              (np_mask (cells st (dg2_sigma self)) ok)) derivs), st))"
| "Dgfit2_call self _ st = (Inl ValueError, st)"

section \<open>The Gaussian driver\<close>

record gauss_state =
  gfit1 :: Gfit1
  dgfit1 :: Dgfit1
  gfit2 :: Gfit2
  dgfit2 :: Dgfit2
  gmem :: store

type_synonym pars5 = "real \<times> real \<times> real \<times> real \<times> real"

text \<open>
  \<^verbatim>\<open>fit\<close>, \<^verbatim>\<open>soln\<close>, \<^verbatim>\<open>(skyf, heightf, xf, yf, fwhmf)\<close> and
  \<^verbatim>\<open>(skyfe, heightfe, xfe, yfe, fwhmfe)\<close> after a solve.
\<close>

type_synonym gauss_solved = "ndarray \<times> real list \<times> pars5 \<times> pars5"

type_synonym gauss_result =
  "pars5 \<times> pars5 \<times> (ndarray \<times> addr \<times> addr \<times> addr \<times> real \<times> nat \<times> int \<times> nat)"

text \<open>The solve with the FWHM held at \<open>fw\<close> (twice in the source, as in \<^verbatim>\<open>fitMoffat\<close>).\<close>

definition fitGaussian_fixed ::
  "leastsq \<Rightarrow> real \<Rightarrow> real \<Rightarrow> real \<Rightarrow> real \<Rightarrow> real \<Rightarrow> gauss_state
     \<Rightarrow> error + gauss_solved \<times> gauss_state" where
  "fitGaussian_fixed leastsq sky height xcen ycen fw s =
     (let s1 = s\<lparr>gfit2 := (gfit2 s)\<lparr>g2_fwhm := fw\<rparr>, dgfit2 := (dgfit2 s)\<lparr>dg2_fwhm := fw\<rparr>\<rparr>;
          param = [sky, height, xcen, ycen]
      in case leastsq_check leastsq
                (\<lambda>p. fst (Gfit2_call (gfit2 s1) p (gmem s1)))
                (\<lambda>p. fst (Dgfit2_call (dgfit2 s1) p (gmem s1))) param of
           Inl e \<Rightarrow> Inl e
         | Inr r \<Rightarrow>
             (case Gfit2_model (gfit2 s1) (lsq_x r) (gmem s1) of
                (Inl e, st1) \<Rightarrow> Inl e
              | (Inr fit, st1) \<Rightarrow>
                  (case lsq_x r of
                     [skyf, heightf, xf, yf] \<Rightarrow>
                       (case sqrt_diag (lsq_cov r) of
                          Inl e \<Rightarrow> Inl e
                        | Inr [skyfe, heightfe, xfe, yfe] \<Rightarrow>
                            Inr ((fit, lsq_x r, (skyf, heightf, xf, yf, fw),
                                  (skyfe, heightfe, xfe, yfe, - 1)),
                                 s1\<lparr>gmem := st1\<rparr>)
                        | Inr _ \<Rightarrow> Inl ValueError)
                   | _ \<Rightarrow> Inl ValueError)))"

text \<open>The two-pass strategy. In the free fit the errors are unpacked before the model is evaluated.\<close>

definition fitGaussian_solve ::
  "leastsq \<Rightarrow> real \<Rightarrow> real \<Rightarrow> real \<Rightarrow> real \<Rightarrow> real \<Rightarrow> real \<Rightarrow> bool \<Rightarrow> gauss_state
     \<Rightarrow> error + gauss_solved \<times> gauss_state" where
  "fitGaussian_solve leastsq sky height xcen ycen fwhm fwhm_min fwhm_fix s =
     (if fwhm_fix then fitGaussian_fixed leastsq sky height xcen ycen fwhm s
      else
        let param = [sky, height, xcen, ycen, fwhm]
        in case leastsq_check leastsq
                  (\<lambda>p. fst (Gfit1_call (gfit1 s) p (gmem s)))
                  (\<lambda>p. fst (Dgfit1_call (dgfit1 s) p (gmem s))) param of
             Inl e \<Rightarrow> Inl e
           | Inr r \<Rightarrow>
               (case lsq_x r of
                  [skyf, heightf, xf, yf, fwhmf] \<Rightarrow>
                    if fwhmf > fwhm_min then
                      (case sqrt_diag (lsq_cov r) of
                         Inl e \<Rightarrow> Inl e
                       | Inr [skyfe, heightfe, xfe, yfe, fwhmfe] \<Rightarrow>
                           (case Gfit1_model (gfit1 s) (lsq_x r) (gmem s) of
                              (Inl e, st1) \<Rightarrow> Inl e
                            | (Inr fit, st1) \<Rightarrow>
                                Inr ((fit, lsq_x r, (skyf, heightf, xf, yf, fwhmf),
                                      (skyfe, heightfe, xfe, yfe, fwhmfe)),
                                     s\<lparr>gmem := st1\<rparr>))
                       | Inr _ \<Rightarrow> Inl ValueError)
                    else fitGaussian_fixed leastsq sky height xcen ycen fwhm_min s
                | _ \<Rightarrow> Inl ValueError))"

text \<open>The body of the loop.\<close>

definition fitGaussian_iter ::
  "leastsq \<Rightarrow> Window \<Rightarrow> real \<Rightarrow> real \<Rightarrow> real \<Rightarrow> real \<Rightarrow> real \<Rightarrow> real \<Rightarrow> bool \<Rightarrow> real
     \<Rightarrow> gauss_state \<Rightarrow> (gauss_state, gauss_result \<times> gauss_state) step" where
  "fitGaussian_iter leastsq wind sky height xcen ycen fwhm fwhm_min fwhm_fix thresh s =
     (case fitGaussian_solve leastsq sky height xcen ycen fwhm fwhm_min fwhm_fix s of
        Inl e \<Rightarrow> Raise e
      | Inr ((fit, soln, (skyf, heightf, xf, yf, fwhmf),
              (skyfe, heightfe, xfe, yfe, fwhmfe)), s1) \<Rightarrow>
          (let (chisq, nok1, sfac, st2) =
                 reject_outliers (g1_sigma (gfit1 s1)) (wdata wind) fit (length soln) thresh
                   (gmem s1);
               nok = count_ok (cells st2 (g1_sigma (gfit1 s1)))
           in if nok < nok1 then
                Continue (s1\<lparr>gfit2 := (gfit2 s1)\<lparr>g2_sigma := g1_sigma (gfit1 s1)\<rparr>,
                             dgfit1 := (dgfit1 s1)\<lparr>dg1_sigma := g1_sigma (gfit1 s1)\<rparr>,
                             dgfit2 := (dgfit2 s1)\<lparr>dg2_sigma := g1_sigma (gfit1 s1)\<rparr>,
                             gmem := st2\<rparr>)
              else
                Break (((skyf, heightf, xf, yf, fwhmf),
                        (skyfe * sfac, heightfe * sfac, xfe * sfac, yfe * sfac,
                         (if fwhmfe > 0 then fwhmfe * sfac else fwhmfe)),
                        (fit, fst (g1_xy (gfit1 s1)), snd (g1_xy (gfit1 s1)),
                         g1_sigma (gfit1 s1), chisq, nok,
                         int (length (cells st2 (g1_sigma (gfit1 s1)))) - int nok,
                         length soln)),
                       s1\<lparr>gmem := st2\<rparr>)))"

text \<open>\<^verbatim>\<open>while True:\<close> of \<^verbatim>\<open>fitGaussian\<close>.\<close>

partial_function (option) fitGaussian_loop ::
  "leastsq \<Rightarrow> Window \<Rightarrow> real \<Rightarrow> real \<Rightarrow> real \<Rightarrow> real \<Rightarrow> real \<Rightarrow> real \<Rightarrow> bool \<Rightarrow> real
     \<Rightarrow> gauss_state \<Rightarrow> (error + gauss_result \<times> gauss_state) option" where
  "fitGaussian_loop leastsq wind sky height xcen ycen fwhm fwhm_min fwhm_fix thresh s =
     (case fitGaussian_iter leastsq wind sky height xcen ycen fwhm fwhm_min fwhm_fix thresh s of
        Raise e \<Rightarrow> Some (Inl e)
      | Continue s' \<Rightarrow>
          fitGaussian_loop leastsq wind sky height xcen ycen fwhm fwhm_min fwhm_fix thresh s'
      | Break r \<Rightarrow> Some (Inr r))"

text \<open>The four constructor calls at the head of \<^verbatim>\<open>fitGaussian\<close>.\<close>

definition fitGaussian_init ::
  "Window \<Rightarrow> real \<Rightarrow> (nat \<Rightarrow> real) \<Rightarrow> (nat \<Rightarrow> real) \<Rightarrow> store \<Rightarrow> gauss_state" where
  "fitGaussian_init wind fwhm read gain st =
     (let (g1, st1) = Gfit1_init wind read gain st;
          dg1 = Dgfit1_init g1;
          (g2, st2) = Gfit2_init wind read gain fwhm st1;
          dg2 = Dgfit2_init g2
      in \<lparr>gfit1 = g1, dgfit1 = dg1, gfit2 = g2, dgfit2 = dg2, gmem = st2\<rparr>)"

text \<open>\<^verbatim>\<open>fitGaussian(wind, sky, height, xcen, ycen, fwhm, fwhm_min, fwhm_fix, read, gain, thresh)\<close>.\<close>

definition fitGaussian ::
  "leastsq \<Rightarrow> Window \<Rightarrow> real \<Rightarrow> real \<Rightarrow> real \<Rightarrow> real \<Rightarrow> real \<Rightarrow> real \<Rightarrow> bool
     \<Rightarrow> (nat \<Rightarrow> real) \<Rightarrow> (nat \<Rightarrow> real) \<Rightarrow> real \<Rightarrow> store
     \<Rightarrow> (error + gauss_result \<times> gauss_state) option" where
  "fitGaussian leastsq wind sky height xcen ycen fwhm fwhm_min fwhm_fix read gain thresh st =
     fitGaussian_loop leastsq wind sky height xcen ycen fwhm fwhm_min fwhm_fix thresh
       (fitGaussian_init wind fwhm read gain st)"

section \<open>Vocabulary of the properties\<close>

subsection \<open>Passes of the loop and the solves they make\<close>

text \<open>One pass of the loop leads from \<open>s\<close> to \<open>s'\<close> when its body ends without a break.\<close>

definition fitMoffat_next ::
  "leastsq \<Rightarrow> Window \<Rightarrow> real \<Rightarrow> real \<Rightarrow> real \<Rightarrow> real \<Rightarrow> real \<Rightarrow> real \<Rightarrow> bool \<Rightarrow> real \<Rightarrow> real
     \<Rightarrow> moffat_state \<Rightarrow> moffat_state \<Rightarrow> bool" where
  "fitMoffat_next leastsq wind sky height xcen ycen fwhm fwhm_min fwhm_fix beta thresh s s' \<longleftrightarrow>
     fitMoffat_iter leastsq wind sky height xcen ycen fwhm fwhm_min fwhm_fix beta thresh s
       = Continue s'"

definition fitGaussian_next ::
  "leastsq \<Rightarrow> Window \<Rightarrow> real \<Rightarrow> real \<Rightarrow> real \<Rightarrow> real \<Rightarrow> real \<Rightarrow> real \<Rightarrow> bool \<Rightarrow> real
     \<Rightarrow> gauss_state \<Rightarrow> gauss_state \<Rightarrow> bool" where
  "fitGaussian_next leastsq wind sky height xcen ycen fwhm fwhm_min fwhm_fix thresh s s' \<longleftrightarrow>
     fitGaussian_iter leastsq wind sky height xcen ycen fwhm fwhm_min fwhm_fix thresh s
       = Continue s'"

text \<open>
  What the solver returns for the free-FWHM call and for the fixed-FWHM call (FWHM \<open>fw\<close>)
  of a pass that starts in state \<open>s\<close>.
\<close>

definition moffat_free_solve ::
  "leastsq \<Rightarrow> real \<Rightarrow> real \<Rightarrow> real \<Rightarrow> real \<Rightarrow> real \<Rightarrow> real \<Rightarrow> moffat_state \<Rightarrow> lsq" where
  "moffat_free_solve leastsq sky height xcen ycen fwhm beta s =
     leastsq (\<lambda>p. fst (Mfit1_call (mfit1 s) p (mem s)))
       (\<lambda>p. fst (Dmfit1_call (dmfit1 s) p (mem s))) [sky, height, xcen, ycen, fwhm, beta]"

definition moffat_fixed_solve ::
  "leastsq \<Rightarrow> real \<Rightarrow> real \<Rightarrow> real \<Rightarrow> real \<Rightarrow> real \<Rightarrow> real \<Rightarrow> moffat_state \<Rightarrow> lsq" where
  "moffat_fixed_solve leastsq sky height xcen ycen beta fw s =
     leastsq (\<lambda>p. fst (Mfit2_call ((mfit2 s)\<lparr>m2_fwhm := fw\<rparr>) p (mem s)))
       (\<lambda>p. fst (Dmfit2_call ((dmfit2 s)\<lparr>dm2_fwhm := fw\<rparr>) p (mem s)))
       [sky, height, xcen, ycen, beta]"

definition gauss_free_solve ::
  "leastsq \<Rightarrow> real \<Rightarrow> real \<Rightarrow> real \<Rightarrow> real \<Rightarrow> real \<Rightarrow> gauss_state \<Rightarrow> lsq" where
  "gauss_free_solve leastsq sky height xcen ycen fwhm s =
     leastsq (\<lambda>p. fst (Gfit1_call (gfit1 s) p (gmem s)))
       (\<lambda>p. fst (Dgfit1_call (dgfit1 s) p (gmem s))) [sky, height, xcen, ycen, fwhm]"

definition gauss_fixed_solve ::
  "leastsq \<Rightarrow> real \<Rightarrow> real \<Rightarrow> real \<Rightarrow> real \<Rightarrow> real \<Rightarrow> gauss_state \<Rightarrow> lsq" where
  "gauss_fixed_solve leastsq sky height xcen ycen fw s =
     leastsq (\<lambda>p. fst (Gfit2_call ((gfit2 s)\<lparr>g2_fwhm := fw\<rparr>) p (gmem s)))
       (\<lambda>p. fst (Dgfit2_call ((dgfit2 s)\<lparr>dg2_fwhm := fw\<rparr>) p (gmem s)))
       [sky, height, xcen, ycen]"

text \<open>A status code outside the success range 1 to 4.\<close>

definition bad_status :: "lsq \<Rightarrow> bool" where
  "bad_status r \<longleftrightarrow> lsq_ier r < 1 \<or> lsq_ier r > 4"

subsection \<open>Shape of a driver state\<close>

text \<open>
  All arrays of the state have the \<open>ny * nx\<close> entries of the window, and the sigma array of
  the first function object is an object of its own.
\<close>

definition moffat_ok :: "Window \<Rightarrow> moffat_state \<Rightarrow> bool" where
  "moffat_ok wind s \<longleftrightarrow>
     length (cells (mem s) (wdata wind)) = ny wind * nx wind \<and>
     length (cells (mem s) (m1_sigma (mfit1 s))) = ny wind * nx wind \<and>
     length (cells (mem s) (fst (m1_xy (mfit1 s)))) = ny wind * nx wind \<and>
     length (cells (mem s) (snd (m1_xy (mfit1 s)))) = ny wind * nx wind \<and>
     length (cells (mem s) (fst (m2_xy (mfit2 s)))) = ny wind * nx wind \<and>
     length (cells (mem s) (snd (m2_xy (mfit2 s)))) = ny wind * nx wind \<and>
     m1_sigma (mfit1 s) \<noteq> wdata wind \<and>
     m1_sigma (mfit1 s) \<noteq> fst (m1_xy (mfit1 s)) \<and> m1_sigma (mfit1 s) \<noteq> snd (m1_xy (mfit1 s)) \<and>
     m1_sigma (mfit1 s) \<noteq> fst (m2_xy (mfit2 s)) \<and> m1_sigma (mfit1 s) \<noteq> snd (m2_xy (mfit2 s))"

definition gauss_ok :: "Window \<Rightarrow> gauss_state \<Rightarrow> bool" where
  "gauss_ok wind s \<longleftrightarrow>
     length (cells (gmem s) (wdata wind)) = ny wind * nx wind \<and>
     length (cells (gmem s) (g1_sigma (gfit1 s))) = ny wind * nx wind \<and>
     length (cells (gmem s) (fst (g1_xy (gfit1 s)))) = ny wind * nx wind \<and>
     length (cells (gmem s) (snd (g1_xy (gfit1 s)))) = ny wind * nx wind \<and>
     length (cells (gmem s) (fst (g2_xy (gfit2 s)))) = ny wind * nx wind \<and>
     length (cells (gmem s) (snd (g2_xy (gfit2 s)))) = ny wind * nx wind \<and>
     g1_sigma (gfit1 s) \<noteq> wdata wind \<and>
     g1_sigma (gfit1 s) \<noteq> fst (g1_xy (gfit1 s)) \<and> g1_sigma (gfit1 s) \<noteq> snd (g1_xy (gfit1 s)) \<and>
     g1_sigma (gfit1 s) \<noteq> fst (g2_xy (gfit2 s)) \<and> g1_sigma (gfit1 s) \<noteq> snd (g2_xy (gfit2 s))"

subsection \<open>The rejection rule in the words of the specification\<close>

text \<open>The included pixels of a sigma array: those with a strictly positive entry.\<close>

definition included :: "ndarray \<Rightarrow> nat set" where
  "included sg = {i. i < length sg \<and> 0 < sg ! i}"

text \<open>The normalised residual of pixel \<open>i\<close>: (data - fit) / sigma.\<close>

definition spec_resid :: "ndarray \<Rightarrow> ndarray \<Rightarrow> ndarray \<Rightarrow> nat \<Rightarrow> real" where
  "spec_resid dat fit sg i = (dat ! i - fit ! i) / sg ! i"

text \<open>Chi-square over all included pixels.\<close>

definition spec_chisq :: "ndarray \<Rightarrow> ndarray \<Rightarrow> ndarray \<Rightarrow> real" where
  "spec_chisq dat fit sg = (\<Sum>i\<in>included sg. (spec_resid dat fit sg i)\<^sup>2)"

text \<open>The scale factor sqrt(chi-square / (n_included - n_params)).\<close>

definition spec_sfac :: "ndarray \<Rightarrow> ndarray \<Rightarrow> ndarray \<Rightarrow> nat \<Rightarrow> real" where
  "spec_sfac dat fit sg npar =
     sqrt (spec_chisq dat fit sg / (real (card (included sg)) - real npar))"

text \<open>
  The sigma entry of pixel \<open>i\<close> after the rejection step: negated when the pixel is included
  and its absolute residual exceeds scale factor times threshold, otherwise as before.
\<close>

definition spec_rejected :: "ndarray \<Rightarrow> ndarray \<Rightarrow> ndarray \<Rightarrow> nat \<Rightarrow> real \<Rightarrow> nat \<Rightarrow> real" where
  "spec_rejected dat fit sg npar thresh i =
     (if i \<in> included sg \<and> \<bar>spec_resid dat fit sg i\<bar> > spec_sfac dat fit sg npar * thresh
      then - sg ! i else sg ! i)"

text \<open>The residual vector: (data - model) / sigma at the included pixels, in pixel order.\<close>

definition spec_residuals :: "ndarray \<Rightarrow> ndarray \<Rightarrow> ndarray \<Rightarrow> real list" where
  "spec_residuals dat modl sg =
     map (\<lambda>i. (dat ! i - modl ! i) / sg ! i) (filter (\<lambda>i. 0 < sg ! i) [0..<length sg])"

subsection \<open>The Moffat derivatives in the words of the specification\<close>

text \<open>\<open>\<alpha> = 4 (2^(1/\<beta>) - 1) / FWHM\<^sup>2\<close> and \<open>r\<^sup>2 = (x - xcen)\<^sup>2 + (y - ycen)\<^sup>2\<close>.\<close>

definition spec_alpha :: "real \<Rightarrow> real \<Rightarrow> real" where
  "spec_alpha fwhm b = 4 * (2 powr (1 / b) - 1) / fwhm\<^sup>2"

definition spec_rsq :: "real \<Rightarrow> real \<Rightarrow> real \<Rightarrow> real \<Rightarrow> real" where
  "spec_rsq x y xcen ycen = (x - xcen)\<^sup>2 + (y - ycen)\<^sup>2"

text \<open>The height term \<open>(1 + \<alpha> r\<^sup>2)^(-\<beta>)\<close>.\<close>

definition spec_dheight :: "real \<Rightarrow> real \<Rightarrow> real \<Rightarrow> real" where
  "spec_dheight fwhm b rsq = (1 + spec_alpha fwhm b * rsq) powr (- b)"

text \<open>The centre terms: offset times height over \<open>(1 + \<alpha> r\<^sup>2)^(\<beta>+1)\<close>, scaled by \<open>2 \<alpha> \<beta>\<close>.\<close>

definition spec_dcen :: "real \<Rightarrow> real \<Rightarrow> real \<Rightarrow> real \<Rightarrow> real \<Rightarrow> real" where
  "spec_dcen height fwhm b off rsq =
     (2 * spec_alpha fwhm b * b) * (off * height / (1 + spec_alpha fwhm b * rsq) powr (b + 1))"

text \<open>The FWHM term \<open>(2 \<alpha> \<beta> / FWHM) height r\<^sup>2 / (1 + \<alpha> r\<^sup>2)^(\<beta>+1)\<close>.\<close>

definition spec_dfwhm :: "real \<Rightarrow> real \<Rightarrow> real \<Rightarrow> real \<Rightarrow> real" where
  "spec_dfwhm height fwhm b rsq =
     (2 * spec_alpha fwhm b * b / fwhm) * height * rsq
       / (1 + spec_alpha fwhm b * rsq) powr (b + 1)"

text \<open>
  The beta term \<open>- ln(1 + \<alpha> r\<^sup>2) height (1 + \<alpha> r\<^sup>2)^(-\<beta>)\<close> plus the correction
  \<open>(4 ln 2 2^(1/\<beta>) / \<beta> / FWHM\<^sup>2) height r\<^sup>2 / (1 + \<alpha> r\<^sup>2)^(\<beta>+1)\<close>.
\<close>

definition spec_dbeta :: "real \<Rightarrow> real \<Rightarrow> real \<Rightarrow> real \<Rightarrow> real" where
  "spec_dbeta height fwhm b rsq =
     - ln (1 + spec_alpha fwhm b * rsq) * height * (1 + spec_alpha fwhm b * rsq) powr (- b)
     + (4 * ln 2 * 2 powr (1 / b) / b / fwhm\<^sup>2) * height * rsq
         / (1 + spec_alpha fwhm b * rsq) powr (b + 1)"

section \<open>A worked example\<close>

text \<open>
  A window of eleven pixels in one row. All counts are zero or negative, so with readout
  noise 1 and gain 1 every sigma is 1. The stand-in for the solver returns its starting point
  with the unit matrix as covariance; with height 0 the model is the constant sky 0, and the
  normalised residuals are the counts themselves: \<open>-38\<close> at pixel 3, \<open>-1\<close> at pixel 7.
\<close>

definition ex_leastsq :: leastsq where
  "ex_leastsq f d p =
     \<lparr>lsq_x = p,
      lsq_cov = Some (map (\<lambda>i. map (\<lambda>j. if i = j then 1 else 0) [0..<length p]) [0..<length p]),
      lsq_mesg = ''converged'', lsq_ier = 1\<rparr>"

text \<open>A stand-in that fails: status 5, no covariance.\<close>

definition ex_failing :: leastsq where
  "ex_failing f d p =
     \<lparr>lsq_x = p, lsq_cov = None, lsq_mesg = ''maxfev reached'', lsq_ier = 5\<rparr>"

definition ex_wind :: Window where
  "ex_wind = \<lparr>nx = 11, ny = 1, xord = real, yord = real, wdata = 0\<rparr>"

definition ex_data :: ndarray where
  "ex_data = [0, 0, 0, - 38, 0, 0, 0, - 1, 0, 0, 0]"

definition ex_store :: store where
  "ex_store = \<lparr>cells = (\<lambda>_. [])(0 := ex_data), fresh = 1\<rparr>"

text \<open>
  The Moffat fit of the example: sky 0, height 0, centre (1, 1), FWHM 2, beta 2, threshold 2.
  \<open>ex_m0\<close> is the state before the first pass, \<open>ex_m1\<close> the state after it (pixel 3
  rejected).
\<close>

definition ex_m0 :: moffat_state where
  "ex_m0 = fitMoffat_init ex_wind 2 (\<lambda>_. 1) (\<lambda>_. 1) ex_store"

definition ex_m1 :: moffat_state where
  "ex_m1 = ex_m0\<lparr>mfit2 := (mfit2 ex_m0)\<lparr>m2_sigma := 1\<rparr>,
                 dmfit2 := (dmfit2 ex_m0)\<lparr>dm2_sigma := 1\<rparr>,
                 mem := (mem ex_m0)\<lparr>cells := (cells (mem ex_m0))
                          (1 := [1, 1, 1, - 1, 1, 1, 1, 1, 1, 1, 1])\<rparr>\<rparr>"

text \<open>
  The Gaussian fit of a second example on the same window: residuals \<open>-14\<close> at pixel 3 and
  \<open>-2\<close> at five other pixels; sky 0, height 0, centre (1, 1), FWHM 2, threshold 1.
\<close>

definition ex_gdata :: ndarray where
  "ex_gdata = [- 2, - 2, - 2, - 14, - 2, - 2, 0, 0, 0, 0, 0]"

definition ex_gstore :: store where
  "ex_gstore = \<lparr>cells = (\<lambda>_. [])(0 := ex_gdata), fresh = 1\<rparr>"

definition ex_g0 :: gauss_state where
  "ex_g0 = fitGaussian_init ex_wind 2 (\<lambda>_. 1) (\<lambda>_. 1) ex_gstore"

definition ex_g1 :: gauss_state where
  "ex_g1 = ex_g0\<lparr>gfit2 := (gfit2 ex_g0)\<lparr>g2_sigma := 1\<rparr>,
                 dgfit2 := (dgfit2 ex_g0)\<lparr>dg2_sigma := 1\<rparr>,
                 gmem := (gmem ex_g0)\<lparr>cells := (cells (gmem ex_g0))
                          (1 := [1, 1, 1, - 1, 1, 1, 1, 1, 1, 1, 1])\<rparr>\<rparr>"


text \<open>
  A third example, for the fits that hold the FWHM: on the same window, counts \<open>-2\<close> at six
  pixels for the Moffat fit and at seven pixels for the Gaussian fit, so that chi-square over
  the degrees of freedom is 4 with five and with four parameters. With a floor of 3 above the
  starting FWHM 2 the free fit of the stand-in solver falls back to the floor. \<open>ex_f0\<close> and
  \<open>ex_h0\<close> are the states before the only pass, \<open>ex_f1\<close> and \<open>ex_h1\<close> the states after it.
\<close>

definition ex_fdata :: ndarray where
  "ex_fdata = [- 2, - 2, - 2, - 2, - 2, - 2, 0, 0, 0, 0, 0]"

definition ex_fstore :: store where
  "ex_fstore = \<lparr>cells = (\<lambda>_. [])(0 := ex_fdata), fresh = 1\<rparr>"

definition ex_f0 :: moffat_state where
  "ex_f0 = fitMoffat_init ex_wind 2 (\<lambda>_. 1) (\<lambda>_. 1) ex_fstore"

definition ex_f1 :: moffat_state where
  "ex_f1 = ex_f0\<lparr>mfit2 := (mfit2 ex_f0)\<lparr>m2_fwhm := 3\<rparr>,
                 dmfit2 := (dmfit2 ex_f0)\<lparr>dm2_fwhm := 3\<rparr>\<rparr>"

definition ex_hdata :: ndarray where
  "ex_hdata = [- 2, - 2, - 2, - 2, - 2, - 2, - 2, 0, 0, 0, 0]"

definition ex_hstore :: store where
  "ex_hstore = \<lparr>cells = (\<lambda>_. [])(0 := ex_hdata), fresh = 1\<rparr>"

definition ex_h0 :: gauss_state where
  "ex_h0 = fitGaussian_init ex_wind 2 (\<lambda>_. 1) (\<lambda>_. 1) ex_hstore"

definition ex_h1 :: gauss_state where
  "ex_h1 = ex_h0\<lparr>gfit2 := (gfit2 ex_h0)\<lparr>g2_fwhm := 3\<rparr>,
                 dgfit2 := (dgfit2 ex_h0)\<lparr>dg2_fwhm := 3\<rparr>\<rparr>"
lemma zip_as_map: "zip a m = map (\<lambda>i. (a ! i, m ! i)) [0..<min (length a) (length m)]"
  by (rule nth_equalityI) simp_all

lemma np_mask_index:
  "np_mask a m = map ((!) a) (filter ((!) m) [0..<min (length a) (length m)])"
  unfolding np_mask_def by (subst zip_as_map) (simp add: filter_map comp_def)

lemma length_np_mask_le: "length (np_mask a m) \<le> length (filter (\<lambda>b. b) m)"
proof -
  have "length (filter snd (zip a m)) \<le> length (filter (\<lambda>b. b) m)"
  proof (induction m arbitrary: a)
    case Nil then show ?case by simp
  next
    case (Cons b m) then show ?case by (cases a) (auto simp: le_SucI)
  qed
  then show ?thesis by (simp add: np_mask_def)
qed

lemma count_ok_filter: "count_ok a = length (filter (\<lambda>v. 0 < v) a)"
proof -
  have "filter snd (zip a (map (\<lambda>v. 0 < v) a)) = map (\<lambda>v. (v, True)) (filter (\<lambda>v. 0 < v) a)"
    by (induction a) auto
  then show ?thesis by (simp add: count_ok_def np_mask_def np_gt0_def)
qed

lemma length_np_mask_gt0_le: "length (np_mask a (np_gt0 sg)) \<le> count_ok sg"
  using length_np_mask_le[of a "np_gt0 sg"]
  by (simp add: count_ok_filter np_gt0_def filter_map comp_def)

lemma length_np_mask_gt0: "length a = length sg \<Longrightarrow> length (np_mask a (np_gt0 sg)) = count_ok sg"
  by (simp add: np_mask_index count_ok_def np_gt0_def)

lemma np_imul_where_nth:
  "i < length a \<Longrightarrow> i < length m \<Longrightarrow> np_imul_where a m c ! i = (if m ! i then a ! i * c else a ! i)"
  by (simp add: np_imul_where_def)

lemma length_np_imul_where: "length (np_imul_where a m c) = min (length a) (length m)"
  by (simp add: np_imul_where_def)

lemma count_ok_imul_le: "count_ok (np_imul_where a (map2 (\<and>) (np_gt0 a) q) (- 1)) \<le> count_ok a"
proof -
  have "length (filter (\<lambda>v. 0 < v) (map2 (\<lambda>v b. if b then v * (- 1) else v) a (map2 (\<and>) (map (\<lambda>v. 0 < v) a) q)))
        \<le> length (filter (\<lambda>v. 0 < v) a)"
  proof (induction a arbitrary: q)
    case Nil then show ?case by simp
  next
    case (Cons v a)
    show ?case
    proof (cases q)
      case Nil then show ?thesis by simp
    next
      case (Cons b q')
      with Cons.IH[of q'] show ?thesis by (auto simp: le_SucI)
    qed
  qed
  then show ?thesis by (simp add: count_ok_filter np_imul_where_def np_gt0_def)
qed

lemma count_ok_card: "count_ok sg = card {i. i < length sg \<and> 0 < sg ! i}"
proof -
  have "count_ok sg = length (filter (\<lambda>i. 0 < sg ! i) [0..<length sg])"
  proof -
    have "filter ((!) (map ((<) 0) sg)) [0..<length sg] = filter (\<lambda>i. 0 < sg ! i) [0..<length sg]"
      by (rule filter_cong) simp_all
    then show ?thesis by (simp add: count_ok_def np_mask_index np_gt0_def)
  qed
  also have "\<dots> = card (set (filter (\<lambda>i. 0 < sg ! i) [0..<length sg]))"
    by (rule distinct_card[symmetric]) simp
  also have "set (filter (\<lambda>i. 0 < sg ! i) [0..<length sg]) = {i. i < length sg \<and> 0 < sg ! i}"
    by auto
  finally show ?thesis .
qed

lemma sum_list_mask_index:
  "sum_list (map f (filter P [0..<n])) = (\<Sum>i | i < n \<and> P i. f i)"
proof -
  have "distinct (filter P [0..<n])" by simp
  then have "sum_list (map f (filter P [0..<n])) = sum f (set (filter P [0..<n]))"
    by (rule sum_list_distinct_conv_sum_set)
  moreover have "set (filter P [0..<n]) = {i. i < n \<and> P i}" by auto
  ultimately show ?thesis by simp
qed

lemma Mfit1_model_store: "snd (Mfit1_model self p st) = st"
  by (cases "(self, p, st)" rule: Mfit1_model.cases) simp_all

lemma Mfit2_model_store: "snd (Mfit2_model self p st) = st"
  by (cases "(self, p, st)" rule: Mfit2_model.cases) simp_all

lemma Mfit1_call_store: "snd (Mfit1_call self p st) = st"
  using Mfit1_model_store[of self p st]
  by (auto simp: Mfit1_call_def split: prod.splits sum.splits)

lemma Mfit2_call_store: "snd (Mfit2_call self p st) = st"
  using Mfit2_model_store[of self p st]
  by (auto simp: Mfit2_call_def split: prod.splits sum.splits)

lemma Dmfit1_call_store: "snd (Dmfit1_call self p st) = st"
  by (cases "(self, p, st)" rule: Dmfit1_call.cases) (simp_all add: Let_def)

lemma Dmfit2_call_store: "snd (Dmfit2_call self p st) = st"
  by (cases "(self, p, st)" rule: Dmfit2_call.cases) (simp_all add: Let_def)

lemma fitMoffat_fixed_state:
  assumes "fitMoffat_fixed leastsq sky height xcen ycen beta fw s = Inr (sol, s1)"
  shows "s1 = s\<lparr>mfit2 := (mfit2 s)\<lparr>m2_fwhm := fw\<rparr>, dmfit2 := (dmfit2 s)\<lparr>dm2_fwhm := fw\<rparr>\<rparr>"
  using assms Mfit2_model_store[of "(mfit2 s)\<lparr>m2_fwhm := fw\<rparr>" _ "mem s"]
  unfolding fitMoffat_fixed_def Let_def
  by (auto split: sum.splits prod.splits list.splits if_splits)

lemma fitMoffat_solve_state:
  assumes "fitMoffat_solve leastsq sky height xcen ycen fwhm fwhm_min fwhm_fix beta s = Inr (sol, s1)"
  shows "s1 = s \<or> (\<exists>fw. s1 = s\<lparr>mfit2 := (mfit2 s)\<lparr>m2_fwhm := fw\<rparr>, dmfit2 := (dmfit2 s)\<lparr>dm2_fwhm := fw\<rparr>\<rparr>)"
proof (cases "fitMoffat_solve leastsq sky height xcen ycen fwhm fwhm_min fwhm_fix beta s
              = fitMoffat_fixed leastsq sky height xcen ycen beta fwhm s
            \<or> fitMoffat_solve leastsq sky height xcen ycen fwhm fwhm_min fwhm_fix beta s
              = fitMoffat_fixed leastsq sky height xcen ycen beta fwhm_min s")
  case True
  with assms fitMoffat_fixed_state show ?thesis by metis
next
  case False
  with assms Mfit1_model_store[of "mfit1 s" _ "mem s"] have "s1 = s"
    unfolding fitMoffat_solve_def Let_def
    by (auto split: sum.splits prod.splits list.splits if_splits)
  then show ?thesis by simp
qed

lemma fitMoffat_solve_keeps:
  assumes "fitMoffat_solve leastsq sky height xcen ycen fwhm fwhm_min fwhm_fix beta s = Inr (sol, s1)"
  shows "mem s1 = mem s" "mfit1 s1 = mfit1 s" "dmfit1 s1 = dmfit1 s"
    "m2_sigma (mfit2 s1) = m2_sigma (mfit2 s)" "m2_xy (mfit2 s1) = m2_xy (mfit2 s)"
    "m2_data (mfit2 s1) = m2_data (mfit2 s)"
    "dm2_sigma (dmfit2 s1) = dm2_sigma (dmfit2 s)" "dm2_xy (dmfit2 s1) = dm2_xy (dmfit2 s)"
  using fitMoffat_solve_state[OF assms] by auto

lemma reject_outliers_frame:
  assumes "reject_outliers sg dat fit npar thresh st = (chisq, nok1, sfac, st1)"
  shows "fresh st1 = fresh st" "a \<noteq> sg \<Longrightarrow> cells st1 a = cells st a"
    "nok1 \<le> count_ok (cells st sg)" "count_ok (cells st1 sg) \<le> count_ok (cells st sg)"
proof -
  from assms have st1: "st1 = st\<lparr>cells := (cells st)
      (sg := np_imul_where (cells st sg)
               (map2 (\<and>) (np_gt0 (cells st sg))
                  (map (\<lambda>r. \<bar>r\<bar> > sfac * thresh) (np_div (np_sub (cells st dat) fit) (cells st sg)))) (- 1))\<rparr>"
    and nok1: "nok1 = length (np_mask (np_div (np_sub (cells st dat) fit) (cells st sg)) (np_gt0 (cells st sg)))"
    by (auto simp: reject_outliers_def Let_def)
  show "fresh st1 = fresh st" by (simp add: st1)
  show "a \<noteq> sg \<Longrightarrow> cells st1 a = cells st a" by (simp add: st1)
  show "nok1 \<le> count_ok (cells st sg)" unfolding nok1 by (rule length_np_mask_gt0_le)
  show "count_ok (cells st1 sg) \<le> count_ok (cells st sg)"
    by (simp add: st1 count_ok_imul_le)
qed

lemma fitMoffat_iter_Continue:
  assumes "fitMoffat_iter leastsq wind sky height xcen ycen fwhm fwhm_min fwhm_fix beta thresh s = Continue s'"
  shows "mfit1 s' = mfit1 s"
    and "count_ok (cells (mem s') (m1_sigma (mfit1 s'))) < count_ok (cells (mem s) (m1_sigma (mfit1 s)))"
proof -
  from assms obtain fit soln pf pe s1 where
    sol: "fitMoffat_solve leastsq sky height xcen ycen fwhm fwhm_min fwhm_fix beta s = Inr ((fit, soln, pf, pe), s1)"
    by (auto simp: fitMoffat_iter_def split: sum.splits prod.splits)
  obtain chisq nok1 sfac st2 where
    rej: "reject_outliers (m1_sigma (mfit1 s1)) (wdata wind) fit (length soln) thresh (mem s1) = (chisq, nok1, sfac, st2)"
    by (metis prod_cases4)
  from assms sol rej have lt: "count_ok (cells st2 (m1_sigma (mfit1 s1))) < nok1"
    and s': "mfit1 s' = mfit1 s1" "mem s' = st2"
    by (auto simp: fitMoffat_iter_def Let_def split: prod.splits if_splits)
  note keep = fitMoffat_solve_keeps[OF sol]
  show "mfit1 s' = mfit1 s" using s' keep by simp
  from reject_outliers_frame(3)[OF rej] lt
  show "count_ok (cells (mem s') (m1_sigma (mfit1 s'))) < count_ok (cells (mem s) (m1_sigma (mfit1 s)))"
    using s' keep by simp
qed

lemma fitMoffat_loop_returns:
  "\<exists>r. fitMoffat_loop leastsq wind sky height xcen ycen fwhm fwhm_min fwhm_fix beta thresh s = Some r"
proof (induction "count_ok (cells (mem s) (m1_sigma (mfit1 s)))" arbitrary: s rule: less_induct)
  case less
  show ?case
  proof (cases "fitMoffat_iter leastsq wind sky height xcen ycen fwhm fwhm_min fwhm_fix beta thresh s")
    case (Raise e)
    then show ?thesis by (subst fitMoffat_loop.simps) simp
  next
    case (Continue s')
    from less[OF fitMoffat_iter_Continue(2)[OF Continue]] Continue
    show ?thesis by (subst fitMoffat_loop.simps) simp
  next
    case (Break r)
    then show ?thesis by (subst fitMoffat_loop.simps) simp
  qed
qed

lemma fitMoffat_loop_reach:
  assumes "(\<lambda>s s'. fitMoffat_iter leastsq wind sky height xcen ycen fwhm fwhm_min fwhm_fix beta thresh s = Continue s')\<^sup>*\<^sup>* s0 s"
  shows "fitMoffat_loop leastsq wind sky height xcen ycen fwhm fwhm_min fwhm_fix beta thresh s0
       = fitMoffat_loop leastsq wind sky height xcen ycen fwhm fwhm_min fwhm_fix beta thresh s"
  using assms
proof (induction rule: rtranclp_induct)
  case base show ?case by simp
next
  case (step y z)
  have "fitMoffat_loop leastsq wind sky height xcen ycen fwhm fwhm_min fwhm_fix beta thresh y
      = fitMoffat_loop leastsq wind sky height xcen ycen fwhm fwhm_min fwhm_fix beta thresh z"
    using step.hyps(2) by (subst fitMoffat_loop.simps) simp
  with step.IH show ?case by simp
qed

lemma fitMoffat_loop_last:
  assumes "fitMoffat_loop leastsq wind sky height xcen ycen fwhm fwhm_min fwhm_fix beta thresh s0 = Some res"
  shows "\<exists>s. (\<lambda>s s'. fitMoffat_iter leastsq wind sky height xcen ycen fwhm fwhm_min fwhm_fix beta thresh s = Continue s')\<^sup>*\<^sup>* s0 s
      \<and> (case res of Inl e \<Rightarrow> fitMoffat_iter leastsq wind sky height xcen ycen fwhm fwhm_min fwhm_fix beta thresh s = Raise e
                   | Inr r \<Rightarrow> fitMoffat_iter leastsq wind sky height xcen ycen fwhm fwhm_min fwhm_fix beta thresh s = Break r)"
  using assms
proof (induction "count_ok (cells (mem s0) (m1_sigma (mfit1 s0)))" arbitrary: s0 rule: less_induct)
  case less
  let ?it = "fitMoffat_iter leastsq wind sky height xcen ycen fwhm fwhm_min fwhm_fix beta thresh"
  show ?case
  proof (cases "?it s0")
    case (Raise e)
    with less.prems have "res = Inl e" by (subst (asm) fitMoffat_loop.simps) simp
    with Raise show ?thesis by (intro exI[of _ s0]) simp
  next
    case (Continue s')
    with less.prems have "fitMoffat_loop leastsq wind sky height xcen ycen fwhm fwhm_min fwhm_fix beta thresh s' = Some res"
      by (subst (asm) fitMoffat_loop.simps) simp
    from less.hyps[OF fitMoffat_iter_Continue(2)[OF Continue] this]
    obtain s where "(\<lambda>s s'. ?it s = Continue s')\<^sup>*\<^sup>* s' s"
      and fin: "(case res of Inl e \<Rightarrow> ?it s = Raise e | Inr r \<Rightarrow> ?it s = Break r)" by blast
    with Continue have "(\<lambda>s s'. ?it s = Continue s')\<^sup>*\<^sup>* s0 s"
      by (meson converse_rtranclp_into_rtranclp)
    with fin show ?thesis by blast
  next
    case (Break r)
    with less.prems have "res = Inr r" by (subst (asm) fitMoffat_loop.simps) simp
    with Break show ?thesis by (intro exI[of _ s0]) simp
  qed
qed

lemma leastsq_check_Inr:
  "leastsq_check leastsq f d p = Inr r \<longleftrightarrow> r = leastsq f d p \<and> \<not> bad_status (leastsq f d p)"
  by (auto simp: leastsq_check_def bad_status_def Let_def)

lemma leastsq_check_Inl:
  "leastsq_check leastsq f d p = Inl e \<longleftrightarrow>
     e = HipercamError (lsq_mesg (leastsq f d p)) \<and> bad_status (leastsq f d p)"
  by (auto simp: leastsq_check_def bad_status_def Let_def)

lemma length_moffat [simp]:
  "length (moffat (x, y) sky height xcen ycen fwhm beta) = min (length x) (length y)"
  by (simp add: moffat_def Let_def)

lemma length_gaussian [simp]:
  "length (gaussian (x, y) sky height xcen ycen fwhm) = min (length x) (length y)"
  by (simp add: gaussian_def Let_def)

lemma fitMoffat_fixed_Inr:
  assumes "fitMoffat_fixed leastsq sky height xcen ycen beta fw s = Inr ((fit, soln, pf, pe), s1)"
  shows "\<not> bad_status (moffat_fixed_solve leastsq sky height xcen ycen beta fw s)"
    and "soln = lsq_x (moffat_fixed_solve leastsq sky height xcen ycen beta fw s)"
    and "\<exists>skyf heightf xf yf betaf skyfe heightfe xfe yfe betafe.
           soln = [skyf, heightf, xf, yf, betaf] \<and> pf = (skyf, heightf, xf, yf, fw, betaf) \<and>
           sqrt_diag (lsq_cov (moffat_fixed_solve leastsq sky height xcen ycen beta fw s))
             = Inr [skyfe, heightfe, xfe, yfe, betafe] \<and>
           pe = (skyfe, heightfe, xfe, yfe, - 1, betafe) \<and>
           fit = moffat (cells (mem s) (fst (m2_xy (mfit2 s))), cells (mem s) (snd (m2_xy (mfit2 s))))
                   skyf heightf xf yf fw betaf"
proof -
  let ?r = "moffat_fixed_solve leastsq sky height xcen ycen beta fw s"
  from assms obtain r where chk: "leastsq_check leastsq
         (\<lambda>p. fst (Mfit2_call ((mfit2 s)\<lparr>m2_fwhm := fw\<rparr>) p (mem s)))
         (\<lambda>p. fst (Dmfit2_call ((dmfit2 s)\<lparr>dm2_fwhm := fw\<rparr>) p (mem s)))
         [sky, height, xcen, ycen, beta] = Inr r"
    by (auto simp: fitMoffat_fixed_def Let_def split: sum.splits)
  then have r: "r = ?r" and ok: "\<not> bad_status ?r"
    by (simp_all add: leastsq_check_Inr moffat_fixed_solve_def)
  show "\<not> bad_status ?r" by (rule ok)
  from assms chk obtain fit' st1 where
    md: "Mfit2_model ((mfit2 s)\<lparr>m2_fwhm := fw\<rparr>) (lsq_x r) (mem s) = (Inr fit', st1)"
    by (auto simp: fitMoffat_fixed_def Let_def split: sum.splits prod.splits)
  then obtain skyf heightf xf yf betaf where x: "lsq_x r = [skyf, heightf, xf, yf, betaf]"
    by (cases "((mfit2 s)\<lparr>m2_fwhm := fw\<rparr>, lsq_x r, mem s)" rule: Mfit2_model.cases) auto
  from md x have fit': "fit' = moffat (cells (mem s) (fst (m2_xy (mfit2 s))), cells (mem s) (snd (m2_xy (mfit2 s))))
                   skyf heightf xf yf fw betaf" by auto
  from assms chk md x obtain es where es: "sqrt_diag (lsq_cov r) = Inr es"
    by (auto simp: fitMoffat_fixed_def Let_def split: sum.splits)
  from assms chk md x es obtain skyfe heightfe xfe yfe betafe where
    es5: "es = [skyfe, heightfe, xfe, yfe, betafe]"
    by (auto simp: fitMoffat_fixed_def Let_def split: list.splits)
  from assms have "fit = fit'" "soln = lsq_x r" "pf = (skyf, heightf, xf, yf, fw, betaf)"
      "pe = (skyfe, heightfe, xfe, yfe, - 1, betafe)"
    unfolding fitMoffat_fixed_def Let_def by (simp_all add: chk x es es5 fit')
  with r x es es5 fit' show "soln = lsq_x ?r"
    and "\<exists>skyf heightf xf yf betaf skyfe heightfe xfe yfe betafe.
           soln = [skyf, heightf, xf, yf, betaf] \<and> pf = (skyf, heightf, xf, yf, fw, betaf) \<and>
           sqrt_diag (lsq_cov ?r) = Inr [skyfe, heightfe, xfe, yfe, betafe] \<and>
           pe = (skyfe, heightfe, xfe, yfe, - 1, betafe) \<and>
           fit = moffat (cells (mem s) (fst (m2_xy (mfit2 s))), cells (mem s) (snd (m2_xy (mfit2 s))))
                   skyf heightf xf yf fw betaf"
    by auto
qed

lemma fitMoffat_fixed_bad:
  assumes "bad_status (moffat_fixed_solve leastsq sky height xcen ycen beta fw s)"
  shows "fitMoffat_fixed leastsq sky height xcen ycen beta fw s
       = Inl (HipercamError (lsq_mesg (moffat_fixed_solve leastsq sky height xcen ycen beta fw s)))"
  using assms
  by (simp add: fitMoffat_fixed_def Let_def leastsq_check_def bad_status_def moffat_fixed_solve_def)

lemma fitMoffat_fixed_good:
  assumes "\<not> bad_status (moffat_fixed_solve leastsq sky height xcen ycen beta fw s)"
    and "lsq_x (moffat_fixed_solve leastsq sky height xcen ycen beta fw s) = [skyf, heightf, xf, yf, betaf]"
    and "sqrt_diag (lsq_cov (moffat_fixed_solve leastsq sky height xcen ycen beta fw s))
           = Inr [skyfe, heightfe, xfe, yfe, betafe]"
  shows "fitMoffat_fixed leastsq sky height xcen ycen beta fw s
       = Inr ((moffat (cells (mem s) (fst (m2_xy (mfit2 s))), cells (mem s) (snd (m2_xy (mfit2 s))))
                 skyf heightf xf yf fw betaf,
               [skyf, heightf, xf, yf, betaf], (skyf, heightf, xf, yf, fw, betaf),
               (skyfe, heightfe, xfe, yfe, - 1, betafe)),
              s\<lparr>mfit2 := (mfit2 s)\<lparr>m2_fwhm := fw\<rparr>, dmfit2 := (dmfit2 s)\<lparr>dm2_fwhm := fw\<rparr>\<rparr>)"
  using assms
  by (simp add: fitMoffat_fixed_def Let_def leastsq_check_def bad_status_def moffat_fixed_solve_def)

lemma fitMoffat_solve_fix:
  "fwhm_fix \<Longrightarrow> fitMoffat_solve leastsq sky height xcen ycen fwhm fwhm_min fwhm_fix beta s
     = fitMoffat_fixed leastsq sky height xcen ycen beta fwhm s"
  by (simp add: fitMoffat_solve_def)

lemma fitMoffat_solve_free_bad:
  assumes "\<not> fwhm_fix" "bad_status (moffat_free_solve leastsq sky height xcen ycen fwhm beta s)"
  shows "fitMoffat_solve leastsq sky height xcen ycen fwhm fwhm_min fwhm_fix beta s
       = Inl (HipercamError (lsq_mesg (moffat_free_solve leastsq sky height xcen ycen fwhm beta s)))"
  using assms
  by (simp add: fitMoffat_solve_def Let_def leastsq_check_def bad_status_def moffat_free_solve_def)

lemma fitMoffat_solve_fallback:
  assumes "\<not> fwhm_fix" "\<not> bad_status (moffat_free_solve leastsq sky height xcen ycen fwhm beta s)"
    and "lsq_x (moffat_free_solve leastsq sky height xcen ycen fwhm beta s) = [skyf, heightf, xf, yf, fwhmf, betaf]"
    and "fwhmf \<le> fwhm_min"
  shows "fitMoffat_solve leastsq sky height xcen ycen fwhm fwhm_min fwhm_fix beta s
       = fitMoffat_fixed leastsq sky height xcen ycen beta fwhm_min s"
  using assms
  by (simp add: fitMoffat_solve_def Let_def leastsq_check_def bad_status_def moffat_free_solve_def)

lemma fitMoffat_solve_free_good:
  assumes "\<not> fwhm_fix" "\<not> bad_status (moffat_free_solve leastsq sky height xcen ycen fwhm beta s)"
    and "lsq_x (moffat_free_solve leastsq sky height xcen ycen fwhm beta s) = [skyf, heightf, xf, yf, fwhmf, betaf]"
    and "fwhmf > fwhm_min"
    and "sqrt_diag (lsq_cov (moffat_free_solve leastsq sky height xcen ycen fwhm beta s))
           = Inr [skyfe, heightfe, xfe, yfe, fwhmfe, betafe]"
  shows "fitMoffat_solve leastsq sky height xcen ycen fwhm fwhm_min fwhm_fix beta s
       = Inr ((moffat (cells (mem s) (fst (m1_xy (mfit1 s))), cells (mem s) (snd (m1_xy (mfit1 s))))
                 skyf heightf xf yf fwhmf betaf,
               [skyf, heightf, xf, yf, fwhmf, betaf], (skyf, heightf, xf, yf, fwhmf, betaf),
               (skyfe, heightfe, xfe, yfe, fwhmfe, betafe)), s)"
  using assms
  by (simp add: fitMoffat_solve_def Let_def leastsq_check_def bad_status_def moffat_free_solve_def)

text \<open>Every successful solve is one of the three above.\<close>

lemma fitMoffat_solve_Inr:
  assumes "fitMoffat_solve leastsq sky height xcen ycen fwhm fwhm_min fwhm_fix beta s
             = Inr ((fit, soln, pf, pe), s1)"
  shows "(fwhm_fix \<and> fitMoffat_fixed leastsq sky height xcen ycen beta fwhm s = Inr ((fit, soln, pf, pe), s1))
       \<or> (\<not> fwhm_fix \<and> \<not> bad_status (moffat_free_solve leastsq sky height xcen ycen fwhm beta s) \<and>
           (\<exists>skyf heightf xf yf fwhmf betaf.
              lsq_x (moffat_free_solve leastsq sky height xcen ycen fwhm beta s)
                = [skyf, heightf, xf, yf, fwhmf, betaf] \<and> fwhmf \<le> fwhm_min) \<and>
           fitMoffat_fixed leastsq sky height xcen ycen beta fwhm_min s = Inr ((fit, soln, pf, pe), s1))
       \<or> (\<not> fwhm_fix \<and> \<not> bad_status (moffat_free_solve leastsq sky height xcen ycen fwhm beta s) \<and>
           (\<exists>skyf heightf xf yf fwhmf betaf skyfe heightfe xfe yfe fwhmfe betafe.
              lsq_x (moffat_free_solve leastsq sky height xcen ycen fwhm beta s)
                = [skyf, heightf, xf, yf, fwhmf, betaf] \<and> fwhmf > fwhm_min \<and>
              sqrt_diag (lsq_cov (moffat_free_solve leastsq sky height xcen ycen fwhm beta s))
                = Inr [skyfe, heightfe, xfe, yfe, fwhmfe, betafe] \<and>
              soln = [skyf, heightf, xf, yf, fwhmf, betaf] \<and>
              pf = (skyf, heightf, xf, yf, fwhmf, betaf) \<and>
              pe = (skyfe, heightfe, xfe, yfe, fwhmfe, betafe) \<and>
              fit = moffat (cells (mem s) (fst (m1_xy (mfit1 s))), cells (mem s) (snd (m1_xy (mfit1 s))))
                      skyf heightf xf yf fwhmf betaf \<and> s1 = s))"
proof (cases fwhm_fix)
  case True
  with assms show ?thesis by (simp add: fitMoffat_solve_fix)
next
  case False
  let ?r = "moffat_free_solve leastsq sky height xcen ycen fwhm beta s"
  have nb: "\<not> bad_status ?r"
    using assms False fitMoffat_solve_free_bad[of fwhm_fix leastsq sky height xcen ycen fwhm beta s fwhm_min]
    by auto
  from assms False nb obtain skyf heightf xf yf fwhmf betaf where
    x: "lsq_x ?r = [skyf, heightf, xf, yf, fwhmf, betaf]"
    by (auto simp: fitMoffat_solve_def Let_def leastsq_check_def bad_status_def moffat_free_solve_def
          split: list.splits)
  show ?thesis
  proof (cases "fwhmf > fwhm_min")
    case le: False
    with fitMoffat_solve_fallback[OF False nb x, of fwhm_min] assms False nb x show ?thesis by auto
  next
    case gt: True
    from assms False nb x gt obtain es where es: "sqrt_diag (lsq_cov ?r) = Inr es"
      by (auto simp: fitMoffat_solve_def Let_def leastsq_check_def bad_status_def moffat_free_solve_def
          split: sum.splits)
    from assms False nb x gt es obtain skyfe heightfe xfe yfe fwhmfe betafe where
      es6: "es = [skyfe, heightfe, xfe, yfe, fwhmfe, betafe]"
      by (auto simp: fitMoffat_solve_def Let_def leastsq_check_def bad_status_def moffat_free_solve_def
          split: list.splits)
    from fitMoffat_solve_free_good[OF False nb x gt es[unfolded es6]] assms False nb x gt es es6
    show ?thesis by auto
  qed
qed

lemma length_concat_replicate: "length (concat (replicate n xs)) = n * length xs"
  by (induction n) simp_all

lemma length_concat_map_replicate: "length (concat (map (replicate n) ys)) = length ys * n"
  by (induction ys) simp_all

lemma length_meshgrid:
  "length (fst (meshgrid xs ys)) = length ys * length xs"
  "length (snd (meshgrid xs ys)) = length ys * length xs"
  by (simp_all add: meshgrid_def length_concat_replicate length_concat_map_replicate)

lemma length_noise_sigma [simp]: "length (noise_sigma read gain dat) = length dat"
  by (simp add: noise_sigma_def)

lemma Mfit1_init_eq:
  "Mfit1_init wind read gain st =
     (\<lparr>m1_sigma = fresh st, m1_xy = (Suc (fresh st), Suc (Suc (fresh st))), m1_data = wdata wind\<rparr>,
      st\<lparr>cells := (cells st)
            (fresh st := noise_sigma read gain (cells st (wdata wind)),
             Suc (fresh st) := fst (meshgrid (map (xord wind) [0..<nx wind]) (map (yord wind) [0..<ny wind])),
             Suc (Suc (fresh st)) := snd (meshgrid (map (xord wind) [0..<nx wind]) (map (yord wind) [0..<ny wind]))),
          fresh := Suc (Suc (Suc (fresh st)))\<rparr>)"
  by (simp add: Mfit1_init_def new_array_def Let_def split: prod.splits)

lemma Mfit2_init_eq:
  "Mfit2_init wind read gain fwhm st =
     (\<lparr>m2_sigma = fresh st, m2_xy = (Suc (fresh st), Suc (Suc (fresh st))), m2_data = wdata wind,
       m2_fwhm = fwhm\<rparr>,
      st\<lparr>cells := (cells st)
            (fresh st := noise_sigma read gain (cells st (wdata wind)),
             Suc (fresh st) := fst (meshgrid (map (xord wind) [0..<nx wind]) (map (yord wind) [0..<ny wind])),
             Suc (Suc (fresh st)) := snd (meshgrid (map (xord wind) [0..<nx wind]) (map (yord wind) [0..<ny wind]))),
          fresh := Suc (Suc (Suc (fresh st)))\<rparr>)"
  by (simp add: Mfit2_init_def new_array_def Let_def split: prod.splits)

lemma fitMoffat_init_sigma:
  assumes "window_ok wind st"
  shows "m1_sigma (mfit1 (fitMoffat_init wind fwhm read gain st)) = fresh st"
    and "cells (mem (fitMoffat_init wind fwhm read gain st)) (fresh st)
           = noise_sigma read gain (cells st (wdata wind))"
    and "cells (mem (fitMoffat_init wind fwhm read gain st)) (wdata wind) = cells st (wdata wind)"
  using assms
  by (simp_all add: fitMoffat_init_def Mfit1_init_eq Mfit2_init_eq Let_def window_ok_def)

lemma fitMoffat_init_ok:
  assumes "window_ok wind st"
  shows "moffat_ok wind (fitMoffat_init wind fwhm read gain st)"
  using assms
  by (simp add: fitMoffat_init_def Mfit1_init_eq Mfit2_init_eq Let_def window_ok_def moffat_ok_def
        length_meshgrid)

lemma reject_outliers_spec:
  assumes rej: "reject_outliers sg dat fit npar thresh st = (chisq, nok1, sfac, st1)"
    and len: "length (cells st sg) = n" "length (cells st dat) = n" "length fit = n"
  shows "chisq = spec_chisq (cells st dat) fit (cells st sg)"
    and "nok1 = card (included (cells st sg))"
    and "sfac = spec_sfac (cells st dat) fit (cells st sg) npar"
    and "length (cells st1 sg) = n"
    and "\<forall>i<n. cells st1 sg ! i = spec_rejected (cells st dat) fit (cells st sg) npar thresh i"
proof -
  let ?sg = "cells st sg" and ?dat = "cells st dat"
  let ?resid = "np_div (np_sub ?dat fit) ?sg"
  have lr: "length ?resid = n" using len by (simp add: np_div_def np_sub_def)
  have resid: "?resid ! i = spec_resid ?dat fit ?sg i" if "i < n" for i
    using that len by (simp add: np_div_def np_sub_def spec_resid_def)
  have idx: "filter ((!) (np_gt0 ?sg)) [0..<n] = filter (\<lambda>i. 0 < ?sg ! i) [0..<n]"
    using len by (intro filter_cong) (simp_all add: np_gt0_def)
  have mask: "np_mask ?resid (np_gt0 ?sg) = map (spec_resid ?dat fit ?sg) (filter (\<lambda>i. 0 < ?sg ! i) [0..<n])"
    using len lr resid by (simp add: np_mask_index np_gt0_def idx[unfolded np_gt0_def])
  have inc: "included ?sg = {i. i < n \<and> 0 < ?sg ! i}" using len by (simp add: included_def)
  from rej have c: "chisq = sum_list (map (\<lambda>r. r\<^sup>2) (np_mask ?resid (np_gt0 ?sg)))"
    and k: "nok1 = length (np_mask ?resid (np_gt0 ?sg))"
    and f: "sfac = sqrt (chisq / real_of_int (int nok1 - int npar))"
    and s1: "cells st1 sg = np_imul_where ?sg (map2 (\<and>) (np_gt0 ?sg) (map (\<lambda>r. \<bar>r\<bar> > sfac * thresh) ?resid)) (- 1)"
    by (auto simp: reject_outliers_def Let_def)
  show chisq: "chisq = spec_chisq ?dat fit ?sg"
    unfolding c mask spec_chisq_def inc
    using sum_list_mask_index[of "\<lambda>i. (spec_resid ?dat fit ?sg i)\<^sup>2" "\<lambda>i. 0 < ?sg ! i" n]
    by (simp add: comp_def)
  show nok1: "nok1 = card (included ?sg)"
    unfolding k using length_np_mask_gt0[of ?resid ?sg] lr len by (simp add: count_ok_card included_def)
  show sfac: "sfac = spec_sfac ?dat fit ?sg npar"
    unfolding f spec_sfac_def chisq[symmetric] nok1[symmetric] by simp
  show "length (cells st1 sg) = n"
    unfolding s1 using len lr by (simp add: length_np_imul_where np_gt0_def)
  show "\<forall>i<n. cells st1 sg ! i = spec_rejected ?dat fit ?sg npar thresh i"
  proof (intro allI impI)
    fix i assume i: "i < n"
    have "cells st1 sg ! i = (if 0 < ?sg ! i \<and> \<bar>?resid ! i\<bar> > sfac * thresh then ?sg ! i * (- 1) else ?sg ! i)"
      unfolding s1 using i len lr by (simp add: np_imul_where_nth np_gt0_def)
    then show "cells st1 sg ! i = spec_rejected ?dat fit ?sg npar thresh i"
      using i len resid[OF i] sfac by (simp add: spec_rejected_def included_def)
  qed
qed

lemma finite_included [simp]: "finite (included sg)"
  by (simp add: included_def)

lemma included_rejected:
  "included (map (spec_rejected dat fit sg npar thresh) [0..<length sg])
     = {i \<in> included sg. \<not> \<bar>spec_resid dat fit sg i\<bar> > spec_sfac dat fit sg npar * thresh}"
  by (auto simp: included_def spec_rejected_def split: if_splits)

lemma rejected_unchanged_iff:
  "map (spec_rejected dat fit sg npar thresh) [0..<length sg] = sg
     \<longleftrightarrow> (\<forall>i\<in>included sg. \<not> \<bar>spec_resid dat fit sg i\<bar> > spec_sfac dat fit sg npar * thresh)"
proof
  assume eq: "map (spec_rejected dat fit sg npar thresh) [0..<length sg] = sg"
  show "\<forall>i\<in>included sg. \<not> \<bar>spec_resid dat fit sg i\<bar> > spec_sfac dat fit sg npar * thresh"
  proof
    fix i assume i: "i \<in> included sg"
    then have "i < length sg" "0 < sg ! i" by (simp_all add: included_def)
    moreover from this eq have "spec_rejected dat fit sg npar thresh i = sg ! i"
      by (metis nth_map_upt add_0 diff_zero)
    ultimately show "\<not> \<bar>spec_resid dat fit sg i\<bar> > spec_sfac dat fit sg npar * thresh"
      using i by (auto simp: spec_rejected_def split: if_splits)
  qed
next
  assume "\<forall>i\<in>included sg. \<not> \<bar>spec_resid dat fit sg i\<bar> > spec_sfac dat fit sg npar * thresh"
  then show "map (spec_rejected dat fit sg npar thresh) [0..<length sg] = sg"
    by (intro nth_equalityI) (auto simp: spec_rejected_def)
qed

lemma count_rejected:
  "count_ok (map (spec_rejected dat fit sg npar thresh) [0..<length sg]) < card (included sg)
     \<longleftrightarrow> map (spec_rejected dat fit sg npar thresh) [0..<length sg] \<noteq> sg"
proof -
  let ?sg' = "map (spec_rejected dat fit sg npar thresh) [0..<length sg]"
  let ?keep = "{i \<in> included sg. \<not> \<bar>spec_resid dat fit sg i\<bar> > spec_sfac dat fit sg npar * thresh}"
  have c: "count_ok ?sg' = card ?keep"
    using included_rejected[of dat fit sg npar thresh] by (simp add: count_ok_card included_def)
  have sub: "?keep \<subseteq> included sg" by auto
  show ?thesis
  proof (cases "?keep = included sg")
    case True
    then have "\<forall>i\<in>included sg. \<not> \<bar>spec_resid dat fit sg i\<bar> > spec_sfac dat fit sg npar * thresh"
      by blast
    with True c show ?thesis by (simp add: rejected_unchanged_iff)
  next
    case False
    with sub have "?keep \<subset> included sg" by blast
    then have "card ?keep < card (included sg)" by (intro psubset_card_mono) simp_all
    moreover from False have "?sg' \<noteq> sg" by (auto simp: rejected_unchanged_iff)
    ultimately show ?thesis using c by simp
  qed
qed

lemma fitMoffat_solve_fit_length:
  assumes sol: "fitMoffat_solve leastsq sky height xcen ycen fwhm fwhm_min fwhm_fix beta s
             = Inr ((fit, soln, pf, pe), s1)"
    and ok: "moffat_ok wind s"
  shows "length fit = ny wind * nx wind"
proof -
  from fitMoffat_solve_Inr[OF sol]
  have "(\<exists>fw. fitMoffat_fixed leastsq sky height xcen ycen beta fw s = Inr ((fit, soln, pf, pe), s1))
      \<or> (\<exists>a b c d e f. fit = moffat (cells (mem s) (fst (m1_xy (mfit1 s))), cells (mem s) (snd (m1_xy (mfit1 s))))
                             a b c d e f)"
    by blast
  then show ?thesis
  proof
    assume "\<exists>fw. fitMoffat_fixed leastsq sky height xcen ycen beta fw s = Inr ((fit, soln, pf, pe), s1)"
    then obtain fw where "fitMoffat_fixed leastsq sky height xcen ycen beta fw s = Inr ((fit, soln, pf, pe), s1)" ..
    from fitMoffat_fixed_Inr(3)[OF this] obtain a b c d f where
      "fit = moffat (cells (mem s) (fst (m2_xy (mfit2 s))), cells (mem s) (snd (m2_xy (mfit2 s)))) a b c d fw f"
      by blast
    then show ?thesis using ok by (simp add: moffat_ok_def)
  next
    assume "\<exists>a b c d e f. fit = moffat (cells (mem s) (fst (m1_xy (mfit1 s))), cells (mem s) (snd (m1_xy (mfit1 s))))
                             a b c d e f"
    then show ?thesis using ok by (auto simp: moffat_ok_def)
  qed
qed

lemma fitMoffat_iter_eq:
  fixes thresh :: real
  assumes sol: "fitMoffat_solve leastsq sky height xcen ycen fwhm fwhm_min fwhm_fix beta s
             = Inr ((fit, soln, pf, (skyfe, heightfe, xfe, yfe, fwhmfe, betafe)), s1)"
    and ok: "moffat_ok wind s"
  defines "sg \<equiv> cells (mem s) (m1_sigma (mfit1 s))"
    and "dat \<equiv> cells (mem s) (wdata wind)"
  defines "sfac \<equiv> spec_sfac dat fit sg (length soln)"
    and "sg' \<equiv> map (spec_rejected dat fit sg (length soln) thresh) [0..<length sg]"
  shows "fitMoffat_iter leastsq wind sky height xcen ycen fwhm fwhm_min fwhm_fix beta thresh s =
     (if sg' \<noteq> sg then
        Continue (s1\<lparr>mfit2 := (mfit2 s1)\<lparr>m2_sigma := m1_sigma (mfit1 s)\<rparr>,
                     dmfit1 := (dmfit1 s1)\<lparr>dm1_sigma := m1_sigma (mfit1 s)\<rparr>,
                     dmfit2 := (dmfit2 s1)\<lparr>dm2_sigma := m1_sigma (mfit1 s)\<rparr>,
                     mem := (mem s)\<lparr>cells := (cells (mem s))(m1_sigma (mfit1 s) := sg')\<rparr>\<rparr>)
      else
        Break ((pf,
                (skyfe * sfac, heightfe * sfac, xfe * sfac, yfe * sfac,
                 (if fwhmfe > 0 then fwhmfe * sfac else fwhmfe), betafe * sfac),
                (fit, fst (m1_xy (mfit1 s)), snd (m1_xy (mfit1 s)), m1_sigma (mfit1 s),
                 spec_chisq dat fit sg, count_ok sg,
                 int (length sg) - int (count_ok sg), length soln)),
               s1\<lparr>mem := (mem s)\<lparr>cells := (cells (mem s))(m1_sigma (mfit1 s) := sg)\<rparr>\<rparr>))"
proof -
  note keep = fitMoffat_solve_keeps[OF sol]
  let ?n = "ny wind * nx wind"
  let ?a = "m1_sigma (mfit1 s)"
  have len: "length sg = ?n" "length dat = ?n" "length fit = ?n"
    using ok fitMoffat_solve_fit_length[OF sol ok] by (simp_all add: moffat_ok_def sg_def dat_def)
  obtain chisq nok1 sf st2 where
    rej: "reject_outliers ?a (wdata wind) fit (length soln) thresh (mem s) = (chisq, nok1, sf, st2)"
    by (metis prod_cases4)
  note spec = reject_outliers_spec[OF rej len[unfolded sg_def dat_def], folded sg_def dat_def]
  have sg2: "cells st2 ?a = sg'"
    using spec(4,5) len by (intro nth_equalityI) (simp_all add: sg'_def)
  have st2: "st2 = (mem s)\<lparr>cells := (cells (mem s))(?a := sg')\<rparr>"
  proof -
    from rej have "st2 = (mem s)\<lparr>cells := (cells (mem s))(?a := cells st2 ?a)\<rparr>"
      by (auto simp: reject_outliers_def Let_def)
    then show ?thesis by (simp only: sg2)
  qed
  have cnt: "count_ok sg' < nok1 \<longleftrightarrow> sg' \<noteq> sg"
    unfolding spec(2) sg'_def by (rule count_rejected)
  obtain a b c d e f where pf: "pf = (a, b, c, d, e, f)" by (cases pf) auto
  have rej1: "reject_outliers (m1_sigma (mfit1 s1)) (wdata wind) fit (length soln) thresh (mem s1)
                = (chisq, nok1, sf, st2)"
    using rej keep by simp
  have unf: "fitMoffat_iter leastsq wind sky height xcen ycen fwhm fwhm_min fwhm_fix beta thresh s =
      (if count_ok (cells st2 (m1_sigma (mfit1 s1))) < nok1 then
                Continue (s1\<lparr>mfit2 := (mfit2 s1)\<lparr>m2_sigma := m1_sigma (mfit1 s1)\<rparr>,
                             dmfit1 := (dmfit1 s1)\<lparr>dm1_sigma := m1_sigma (mfit1 s1)\<rparr>,
                             dmfit2 := (dmfit2 s1)\<lparr>dm2_sigma := m1_sigma (mfit1 s1)\<rparr>,
                             mem := st2\<rparr>)
              else
                Break ((pf,
                        (skyfe * sf, heightfe * sf, xfe * sf, yfe * sf,
                         (if fwhmfe > 0 then fwhmfe * sf else fwhmfe), betafe * sf),
                        (fit, fst (m1_xy (mfit1 s1)), snd (m1_xy (mfit1 s1)),
                         m1_sigma (mfit1 s1), chisq, count_ok (cells st2 (m1_sigma (mfit1 s1))),
                         int (length (cells st2 (m1_sigma (mfit1 s1)))) - int (count_ok (cells st2 (m1_sigma (mfit1 s1)))),
                         length soln)),
                       s1\<lparr>mem := st2\<rparr>))"
    unfolding fitMoffat_iter_def sol pf by (simp add: rej1 Let_def)
  have m1: "mfit1 s1 = mfit1 s" by (rule keep(2))
  show ?thesis
  proof (cases "sg' = sg")
    case True
    then have nlt: "\<not> count_ok sg' < nok1" using cnt by simp
    show ?thesis
      unfolding unf m1 sg2 using nlt True
      by (simp add: spec(1,3) sfac_def st2)
  next
    case False
    then have lt: "count_ok sg' < nok1" using cnt by simp
    show ?thesis
      unfolding unf m1 sg2 using lt False
      by (simp add: st2)
  qed
qed

text \<open>The outcome of a pass, read backwards.\<close>

lemma fitMoffat_iter_Raise:
  "fitMoffat_iter leastsq wind sky height xcen ycen fwhm fwhm_min fwhm_fix beta thresh s = Raise e
     \<longleftrightarrow> fitMoffat_solve leastsq sky height xcen ycen fwhm fwhm_min fwhm_fix beta s = Inl e"
  by (auto simp: fitMoffat_iter_def Let_def split: sum.splits prod.splits if_splits)

lemma fitMoffat_iter_solved:
  assumes "\<And>e. fitMoffat_iter leastsq wind sky height xcen ycen fwhm fwhm_min fwhm_fix beta thresh s \<noteq> Raise e"
  shows "\<exists>fit soln pf skyfe heightfe xfe yfe fwhmfe betafe s1.
           fitMoffat_solve leastsq sky height xcen ycen fwhm fwhm_min fwhm_fix beta s
             = Inr ((fit, soln, pf, (skyfe, heightfe, xfe, yfe, fwhmfe, betafe)), s1)"
proof (cases "fitMoffat_solve leastsq sky height xcen ycen fwhm fwhm_min fwhm_fix beta s")
  case (Inl e)
  then have "fitMoffat_iter leastsq wind sky height xcen ycen fwhm fwhm_min fwhm_fix beta thresh s = Raise e"
    by (simp add: fitMoffat_iter_Raise)
  with assms[of e] show ?thesis by simp
next
  case (Inr v)
  obtain q s1 where "v = (q, s1)" by (cases v)
  moreover obtain fit soln pf pe where "q = (fit, soln, pf, pe)" by (cases q)
  moreover obtain a b c d e f where "pe = (a, b, c, d, e, f)" by (cases pe) auto
  ultimately show ?thesis using Inr by blast
qed

lemma fitMoffat_iter_ok:
  assumes it: "fitMoffat_iter leastsq wind sky height xcen ycen fwhm fwhm_min fwhm_fix beta thresh s = Continue s'"
    and ok: "moffat_ok wind s"
  shows "moffat_ok wind s'"
proof -
  from it have "\<And>e. fitMoffat_iter leastsq wind sky height xcen ycen fwhm fwhm_min fwhm_fix beta thresh s \<noteq> Raise e"
    by simp
  from fitMoffat_iter_solved[OF this]
  obtain fit soln pf skyfe heightfe xfe yfe fwhmfe betafe s1 where
    sol: "fitMoffat_solve leastsq sky height xcen ycen fwhm fwhm_min fwhm_fix beta s
             = Inr ((fit, soln, pf, (skyfe, heightfe, xfe, yfe, fwhmfe, betafe)), s1)"
    by blast
  note keep = fitMoffat_solve_keeps[OF sol]
  from it fitMoffat_iter_eq[OF sol ok, of thresh]
  have s': "s' = s1\<lparr>mfit2 := (mfit2 s1)\<lparr>m2_sigma := m1_sigma (mfit1 s)\<rparr>,
                     dmfit1 := (dmfit1 s1)\<lparr>dm1_sigma := m1_sigma (mfit1 s)\<rparr>,
                     dmfit2 := (dmfit2 s1)\<lparr>dm2_sigma := m1_sigma (mfit1 s)\<rparr>,
                     mem := (mem s)\<lparr>cells := (cells (mem s))(m1_sigma (mfit1 s) :=
                        map (spec_rejected (cells (mem s) (wdata wind)) fit (cells (mem s) (m1_sigma (mfit1 s)))
                               (length soln) thresh) [0..<length (cells (mem s) (m1_sigma (mfit1 s)))])\<rparr>\<rparr>"
    by (simp split: if_splits)
  show ?thesis using ok keep unfolding s' moffat_ok_def by simp
qed

lemma fitMoffat_reach_ok:
  assumes "(fitMoffat_next leastsq wind sky height xcen ycen fwhm fwhm_min fwhm_fix beta thresh)\<^sup>*\<^sup>* s0 s"
    and "moffat_ok wind s0"
  shows "moffat_ok wind s"
  using assms
  by (induction rule: rtranclp_induct) (auto simp: fitMoffat_next_def intro: fitMoffat_iter_ok)

text \<open>What one pass does to the sigma array of \<open>mfit1\<close>, and what it leaves alone.\<close>

lemma fitMoffat_iter_sigma:
  assumes it: "fitMoffat_iter leastsq wind sky height xcen ycen fwhm fwhm_min fwhm_fix beta thresh s = Continue s'
         \<or> fitMoffat_iter leastsq wind sky height xcen ycen fwhm fwhm_min fwhm_fix beta thresh s = Break (r, s')"
    and ok: "moffat_ok wind s"
  shows "\<exists>fit soln pf pe s1.
           fitMoffat_solve leastsq sky height xcen ycen fwhm fwhm_min fwhm_fix beta s
             = Inr ((fit, soln, pf, pe), s1) \<and>
           mfit1 s' = mfit1 s \<and> fresh (mem s') = fresh (mem s) \<and>
           cells (mem s') = (cells (mem s))(m1_sigma (mfit1 s) :=
               map (spec_rejected (cells (mem s) (wdata wind)) fit (cells (mem s) (m1_sigma (mfit1 s)))
                      (length soln) thresh) [0..<length (cells (mem s) (m1_sigma (mfit1 s)))])"
proof -
  from it have "\<And>e. fitMoffat_iter leastsq wind sky height xcen ycen fwhm fwhm_min fwhm_fix beta thresh s \<noteq> Raise e"
    by auto
  from fitMoffat_iter_solved[OF this]
  obtain fit soln pf skyfe heightfe xfe yfe fwhmfe betafe s1 where
    sol: "fitMoffat_solve leastsq sky height xcen ycen fwhm fwhm_min fwhm_fix beta s
             = Inr ((fit, soln, pf, (skyfe, heightfe, xfe, yfe, fwhmfe, betafe)), s1)"
    by blast
  note keep = fitMoffat_solve_keeps[OF sol]
  let ?sg = "cells (mem s) (m1_sigma (mfit1 s))"
  let ?sg' = "map (spec_rejected (cells (mem s) (wdata wind)) fit ?sg (length soln) thresh) [0..<length ?sg]"
  note eq = fitMoffat_iter_eq[OF sol ok, of thresh]
  have "mfit1 s' = mfit1 s \<and> fresh (mem s') = fresh (mem s) \<and>
        cells (mem s') = (cells (mem s))(m1_sigma (mfit1 s) := ?sg')"
  proof (cases "?sg' = ?sg")
    case True
    with it eq have "s' = s1\<lparr>mem := (mem s)\<lparr>cells := (cells (mem s))(m1_sigma (mfit1 s) := ?sg)\<rparr>\<rparr>"
      by auto
    with True keep show ?thesis by simp
  next
    case False
    with it eq have "s' = s1\<lparr>mfit2 := (mfit2 s1)\<lparr>m2_sigma := m1_sigma (mfit1 s)\<rparr>,
                     dmfit1 := (dmfit1 s1)\<lparr>dm1_sigma := m1_sigma (mfit1 s)\<rparr>,
                     dmfit2 := (dmfit2 s1)\<lparr>dm2_sigma := m1_sigma (mfit1 s)\<rparr>,
                     mem := (mem s)\<lparr>cells := (cells (mem s))(m1_sigma (mfit1 s) := ?sg')\<rparr>\<rparr>"
      by auto
    with keep show ?thesis by simp
  qed
  with sol show ?thesis by blast
qed

lemma spec_rejected_abs:
  "\<bar>spec_rejected dat fit sg npar thresh i\<bar> = \<bar>sg ! i\<bar>"
  "sg ! i \<le> 0 \<Longrightarrow> spec_rejected dat fit sg npar thresh i = sg ! i"
  "spec_rejected dat fit sg npar thresh i \<noteq> sg ! i
     \<Longrightarrow> 0 < sg ! i \<and> spec_rejected dat fit sg npar thresh i = - sg ! i"
  by (auto simp: spec_rejected_def included_def)

text \<open>One pass: magnitudes stay, and only included entries change sign.\<close>

lemma fitMoffat_iter_monotone:
  assumes it: "fitMoffat_iter leastsq wind sky height xcen ycen fwhm fwhm_min fwhm_fix beta thresh s = Continue s'
         \<or> fitMoffat_iter leastsq wind sky height xcen ycen fwhm fwhm_min fwhm_fix beta thresh s = Break (r, s')"
    and ok: "moffat_ok wind s"
    and i: "i < ny wind * nx wind"
  shows "mfit1 s' = mfit1 s"
    and "cells (mem s') (wdata wind) = cells (mem s) (wdata wind)"
    and "length (cells (mem s') (m1_sigma (mfit1 s))) = ny wind * nx wind"
    and "\<bar>cells (mem s') (m1_sigma (mfit1 s)) ! i\<bar> = \<bar>cells (mem s) (m1_sigma (mfit1 s)) ! i\<bar>"
    and "cells (mem s) (m1_sigma (mfit1 s)) ! i \<le> 0
           \<Longrightarrow> cells (mem s') (m1_sigma (mfit1 s)) ! i = cells (mem s) (m1_sigma (mfit1 s)) ! i"
    and "cells (mem s') (m1_sigma (mfit1 s)) ! i \<noteq> cells (mem s) (m1_sigma (mfit1 s)) ! i
           \<Longrightarrow> 0 < cells (mem s) (m1_sigma (mfit1 s)) ! i \<and>
               cells (mem s') (m1_sigma (mfit1 s)) ! i = - cells (mem s) (m1_sigma (mfit1 s)) ! i"
proof -
  let ?a = "m1_sigma (mfit1 s)"
  from fitMoffat_iter_sigma[OF it ok] obtain fit soln pf pe s1 where
    "fitMoffat_solve leastsq sky height xcen ycen fwhm fwhm_min fwhm_fix beta s
             = Inr ((fit, soln, pf, pe), s1)"
    and m: "mfit1 s' = mfit1 s"
    and "fresh (mem s') = fresh (mem s)"
    and c: "cells (mem s') = (cells (mem s))(?a :=
               map (spec_rejected (cells (mem s) (wdata wind)) fit (cells (mem s) ?a)
                      (length soln) thresh) [0..<length (cells (mem s) ?a)])"
    by auto
  from ok have len: "length (cells (mem s) ?a) = ny wind * nx wind" and ne: "?a \<noteq> wdata wind"
    by (simp_all add: moffat_ok_def)
  have nth: "cells (mem s') ?a ! i
      = spec_rejected (cells (mem s) (wdata wind)) fit (cells (mem s) ?a) (length soln) thresh i"
    using i len by (simp add: c)
  show "mfit1 s' = mfit1 s" by (rule m)
  show "cells (mem s') (wdata wind) = cells (mem s) (wdata wind)" using ne by (simp add: c)
  show "length (cells (mem s') ?a) = ny wind * nx wind" using len by (simp add: c)
  show "\<bar>cells (mem s') ?a ! i\<bar> = \<bar>cells (mem s) ?a ! i\<bar>"
    unfolding nth by (rule spec_rejected_abs(1))
  show "cells (mem s) ?a ! i \<le> 0 \<Longrightarrow> cells (mem s') ?a ! i = cells (mem s) ?a ! i"
    unfolding nth by (rule spec_rejected_abs(2))
  show "cells (mem s') ?a ! i \<noteq> cells (mem s) ?a ! i
           \<Longrightarrow> 0 < cells (mem s) ?a ! i \<and> cells (mem s') ?a ! i = - cells (mem s) ?a ! i"
    unfolding nth by (rule spec_rejected_abs(3))
qed

text \<open>Any number of passes.\<close>

lemma fitMoffat_reach_monotone:
  assumes "(fitMoffat_next leastsq wind sky height xcen ycen fwhm fwhm_min fwhm_fix beta thresh)\<^sup>*\<^sup>* s0 s"
    and "moffat_ok wind s0"
    and "i < ny wind * nx wind"
  shows "mfit1 s = mfit1 s0 \<and>
         cells (mem s) (wdata wind) = cells (mem s0) (wdata wind) \<and>
         \<bar>cells (mem s) (m1_sigma (mfit1 s0)) ! i\<bar> = \<bar>cells (mem s0) (m1_sigma (mfit1 s0)) ! i\<bar> \<and>
         (cells (mem s0) (m1_sigma (mfit1 s0)) ! i \<le> 0
            \<longrightarrow> cells (mem s) (m1_sigma (mfit1 s0)) ! i = cells (mem s0) (m1_sigma (mfit1 s0)) ! i)"
  using assms
proof (induction rule: rtranclp_induct)
  case base
  show ?case by simp
next
  case (step s s')
  from step have IH: "mfit1 s = mfit1 s0"
    "cells (mem s) (wdata wind) = cells (mem s0) (wdata wind)"
    "\<bar>cells (mem s) (m1_sigma (mfit1 s0)) ! i\<bar> = \<bar>cells (mem s0) (m1_sigma (mfit1 s0)) ! i\<bar>"
    "cells (mem s0) (m1_sigma (mfit1 s0)) ! i \<le> 0
            \<longrightarrow> cells (mem s) (m1_sigma (mfit1 s0)) ! i = cells (mem s0) (m1_sigma (mfit1 s0)) ! i"
    by simp_all
  from step.hyps(1) step.prems(1) have ok: "moffat_ok wind s" by (rule fitMoffat_reach_ok)
  from step.hyps(2) have it: "fitMoffat_iter leastsq wind sky height xcen ycen fwhm fwhm_min fwhm_fix beta thresh s = Continue s'
         \<or> fitMoffat_iter leastsq wind sky height xcen ycen fwhm fwhm_min fwhm_fix beta thresh s = Break (undefined, s')"
    by (simp add: fitMoffat_next_def)
  note mono = fitMoffat_iter_monotone[OF it ok step.prems(2), unfolded IH(1)]
  from mono(1,2,4,5) IH show ?case by auto
qed

text \<open>The example, evaluated.\<close>

lemma ex_window_ok: "window_ok ex_wind ex_store"
  by (simp add: window_ok_def ex_wind_def ex_store_def ex_data_def)

lemma ex_m0_eq: "ex_m0 = \<lparr>mfit1 = \<lparr>m1_sigma = 1, m1_xy = (2, 3), m1_data = 0\<rparr>,
     dmfit1 = \<lparr>dm1_sigma = 1, dm1_xy = (2, 3)\<rparr>,
     mfit2 = \<lparr>m2_sigma = 4, m2_xy = (5, 6), m2_data = 0, m2_fwhm = 2\<rparr>,
     dmfit2 = \<lparr>dm2_sigma = 4, dm2_xy = (5, 6), dm2_fwhm = 2\<rparr>,
     mem = \<lparr>cells = (\<lambda>_. [])(0 := ex_data, 1 := replicate 11 1, 2 := map real [0..<11], 3 := replicate 11 0,
                  4 := replicate 11 1, 5 := map real [0..<11], 6 := replicate 11 0), fresh = 7\<rparr>\<rparr>"
  unfolding ex_m0_def fitMoffat_init_def Mfit1_init_eq Mfit2_init_eq Dmfit1_init_def Dmfit2_init_def Let_def
  apply (simp add: ex_store_def ex_wind_def meshgrid_def)
  apply (simp add: ex_data_def noise_sigma_def upt_rec numeral_eq_Suc)
  done

lemma ex_leastsq_simps:
  "lsq_x (ex_leastsq f d p) = p" "\<not> bad_status (ex_leastsq f d p)"
  "sqrt_diag (lsq_cov (ex_leastsq f d p)) = Inr (replicate (length p) 1)"
proof -
  show "lsq_x (ex_leastsq f d p) = p" "\<not> bad_status (ex_leastsq f d p)"
    by (simp_all add: ex_leastsq_def bad_status_def)
  have "np_diag (map (\<lambda>i. map (\<lambda>j. if i = j then 1 else 0) [0..<n]) [0..<n]) = replicate n (1::real)" for n
    unfolding np_diag_def by (rule nth_equalityI) simp_all
  then show "sqrt_diag (lsq_cov (ex_leastsq f d p)) = Inr (replicate (length p) 1)"
    by (simp add: ex_leastsq_def sqrt_diag_def)
qed

lemma ex_m0_solve:
  "fitMoffat_solve ex_leastsq 0 0 1 1 2 1 False 2 ex_m0
     = Inr ((replicate 11 0, [0, 0, 1, 1, 2, 2], (0, 0, 1, 1, 2, 2), (1, 1, 1, 1, 1, 1)), ex_m0)"
proof -
  have "moffat (cells (mem ex_m0) (fst (m1_xy (mfit1 ex_m0))), cells (mem ex_m0) (snd (m1_xy (mfit1 ex_m0))))
           0 0 1 1 2 2 = replicate 11 0"
    by (simp add: ex_m0_eq moffat_def Let_def upt_rec numeral_eq_Suc)
  with fitMoffat_solve_free_good[of False ex_leastsq 0 0 1 1 2 2 ex_m0 0 0 1 1 2 2 1 1 1 1 1 1 1]
  show ?thesis by (simp add: moffat_free_solve_def ex_leastsq_simps numeral_eq_Suc)
qed

lemma ex_m0_iter:
  "fitMoffat_iter ex_leastsq ex_wind 0 0 1 1 2 1 False 2 2 ex_m0 = Continue ex_m1"
  unfolding fitMoffat_iter_def ex_m0_solve
  apply (simp add: reject_outliers_def Let_def)
  apply (simp add: ex_m0_eq ex_wind_def ex_data_def np_gt0_def np_div_def np_sub_def np_mask_def np_imul_where_def count_ok_def numeral_eq_Suc)
  apply (simp add: ex_m1_def ex_m0_eq ex_data_def numeral_eq_Suc)
  done


lemma ex_m1_solve:
  "fitMoffat_solve ex_leastsq 0 0 1 1 2 1 False 2 ex_m1
     = Inr ((replicate 11 0, [0, 0, 1, 1, 2, 2], (0, 0, 1, 1, 2, 2), (1, 1, 1, 1, 1, 1)), ex_m1)"
proof -
  have "moffat (cells (mem ex_m1) (fst (m1_xy (mfit1 ex_m1))), cells (mem ex_m1) (snd (m1_xy (mfit1 ex_m1))))
           0 0 1 1 2 2 = replicate 11 0"
    by (simp add: ex_m1_def ex_m0_eq moffat_def Let_def upt_rec numeral_eq_Suc)
  with fitMoffat_solve_free_good[of False ex_leastsq 0 0 1 1 2 2 ex_m1 0 0 1 1 2 2 1 1 1 1 1 1 1]
  show ?thesis by (simp add: moffat_free_solve_def ex_leastsq_simps numeral_eq_Suc)
qed

lemma ex_m1_iter:
  "fitMoffat_iter ex_leastsq ex_wind 0 0 1 1 2 1 False 2 2 ex_m1
     = Break (((0, 0, 1, 1, 2, 2), (1/2, 1/2, 1/2, 1/2, 1/2, 1/2),
               (replicate 11 0, 2, 3, 1, 1, 10, 1, 6)), ex_m1)"
  unfolding fitMoffat_iter_def ex_m1_solve
  apply (simp add: reject_outliers_def Let_def)
  apply (simp add: ex_m1_def ex_m0_eq ex_wind_def ex_data_def np_gt0_def np_div_def np_sub_def np_mask_def np_imul_where_def count_ok_def numeral_eq_Suc real_sqrt_divide)
  done

lemma ex_moffat_fit:
  "fitMoffat ex_leastsq ex_wind 0 0 1 1 2 1 False 2 (\<lambda>_. 1) (\<lambda>_. 1) 2 ex_store
     = Some (Inr (((0, 0, 1, 1, 2, 2), (1/2, 1/2, 1/2, 1/2, 1/2, 1/2),
               (replicate 11 0, 2, 3, 1, 1, 10, 1, 6)), ex_m1))"
  unfolding fitMoffat_def ex_m0_def[symmetric]
  by (subst fitMoffat_loop.simps, simp add: ex_m0_iter, subst fitMoffat_loop.simps, simp add: ex_m1_iter)

lemma ex_m0_cells:
  "cells (mem ex_m0) 0 = ex_data" "cells (mem ex_m0) 1 = replicate 11 1"
  "m1_sigma (mfit1 ex_m0) = 1"
  by (simp_all add: ex_m0_eq)

lemma Gfit1_model_store: "snd (Gfit1_model self p st) = st"
  by (cases "(self, p, st)" rule: Gfit1_model.cases) simp_all

lemma Gfit2_model_store: "snd (Gfit2_model self p st) = st"
  by (cases "(self, p, st)" rule: Gfit2_model.cases) simp_all

lemma Gfit1_call_store: "snd (Gfit1_call self p st) = st"
  using Gfit1_model_store[of self p st]
  by (auto simp: Gfit1_call_def split: prod.splits sum.splits)

lemma Gfit2_call_store: "snd (Gfit2_call self p st) = st"
  using Gfit2_model_store[of self p st]
  by (auto simp: Gfit2_call_def split: prod.splits sum.splits)

lemma Dgfit1_call_store: "snd (Dgfit1_call self p st) = st"
  by (cases "(self, p, st)" rule: Dgfit1_call.cases) (simp_all add: Let_def)

lemma Dgfit2_call_store: "snd (Dgfit2_call self p st) = st"
  by (cases "(self, p, st)" rule: Dgfit2_call.cases) (simp_all add: Let_def)

lemma fitGaussian_fixed_state:
  assumes "fitGaussian_fixed leastsq sky height xcen ycen fw s = Inr (sol, s1)"
  shows "s1 = s\<lparr>gfit2 := (gfit2 s)\<lparr>g2_fwhm := fw\<rparr>, dgfit2 := (dgfit2 s)\<lparr>dg2_fwhm := fw\<rparr>\<rparr>"
  using assms Gfit2_model_store[of "(gfit2 s)\<lparr>g2_fwhm := fw\<rparr>" _ "gmem s"]
  unfolding fitGaussian_fixed_def Let_def
  by (auto split: sum.splits prod.splits list.splits if_splits)

lemma fitGaussian_solve_state:
  assumes "fitGaussian_solve leastsq sky height xcen ycen fwhm fwhm_min fwhm_fix s = Inr (sol, s1)"
  shows "s1 = s \<or> (\<exists>fw. s1 = s\<lparr>gfit2 := (gfit2 s)\<lparr>g2_fwhm := fw\<rparr>, dgfit2 := (dgfit2 s)\<lparr>dg2_fwhm := fw\<rparr>\<rparr>)"
proof (cases "fitGaussian_solve leastsq sky height xcen ycen fwhm fwhm_min fwhm_fix s
              = fitGaussian_fixed leastsq sky height xcen ycen fwhm s
            \<or> fitGaussian_solve leastsq sky height xcen ycen fwhm fwhm_min fwhm_fix s
              = fitGaussian_fixed leastsq sky height xcen ycen fwhm_min s")
  case True
  with assms fitGaussian_fixed_state show ?thesis by metis
next
  case False
  with assms Gfit1_model_store[of "gfit1 s" _ "gmem s"] have "s1 = s"
    unfolding fitGaussian_solve_def Let_def
    by (auto split: sum.splits prod.splits list.splits if_splits)
  then show ?thesis by simp
qed

lemma fitGaussian_solve_keeps:
  assumes "fitGaussian_solve leastsq sky height xcen ycen fwhm fwhm_min fwhm_fix s = Inr (sol, s1)"
  shows "gmem s1 = gmem s" "gfit1 s1 = gfit1 s" "dgfit1 s1 = dgfit1 s"
    "g2_sigma (gfit2 s1) = g2_sigma (gfit2 s)" "g2_xy (gfit2 s1) = g2_xy (gfit2 s)"
    "g2_data (gfit2 s1) = g2_data (gfit2 s)"
    "dg2_sigma (dgfit2 s1) = dg2_sigma (dgfit2 s)" "dg2_xy (dgfit2 s1) = dg2_xy (dgfit2 s)"
  using fitGaussian_solve_state[OF assms] by auto

lemma fitGaussian_iter_Continue:
  assumes "fitGaussian_iter leastsq wind sky height xcen ycen fwhm fwhm_min fwhm_fix thresh s = Continue s'"
  shows "gfit1 s' = gfit1 s"
    and "count_ok (cells (gmem s') (g1_sigma (gfit1 s'))) < count_ok (cells (gmem s) (g1_sigma (gfit1 s)))"
proof -
  from assms obtain fit soln pf pe s1 where
    sol: "fitGaussian_solve leastsq sky height xcen ycen fwhm fwhm_min fwhm_fix s = Inr ((fit, soln, pf, pe), s1)"
    by (auto simp: fitGaussian_iter_def split: sum.splits prod.splits)
  obtain chisq nok1 sfac st2 where
    rej: "reject_outliers (g1_sigma (gfit1 s1)) (wdata wind) fit (length soln) thresh (gmem s1) = (chisq, nok1, sfac, st2)"
    by (metis prod_cases4)
  from assms sol rej have lt: "count_ok (cells st2 (g1_sigma (gfit1 s1))) < nok1"
    and s': "gfit1 s' = gfit1 s1" "gmem s' = st2"
    by (auto simp: fitGaussian_iter_def Let_def split: prod.splits if_splits)
  note keep = fitGaussian_solve_keeps[OF sol]
  show "gfit1 s' = gfit1 s" using s' keep by simp
  from reject_outliers_frame(3)[OF rej] lt
  show "count_ok (cells (gmem s') (g1_sigma (gfit1 s'))) < count_ok (cells (gmem s) (g1_sigma (gfit1 s)))"
    using s' keep by simp
qed

lemma fitGaussian_loop_returns:
  "\<exists>r. fitGaussian_loop leastsq wind sky height xcen ycen fwhm fwhm_min fwhm_fix thresh s = Some r"
proof (induction "count_ok (cells (gmem s) (g1_sigma (gfit1 s)))" arbitrary: s rule: less_induct)
  case less
  show ?case
  proof (cases "fitGaussian_iter leastsq wind sky height xcen ycen fwhm fwhm_min fwhm_fix thresh s")
    case (Raise e)
    then show ?thesis by (subst fitGaussian_loop.simps) simp
  next
    case (Continue s')
    from less[OF fitGaussian_iter_Continue(2)[OF Continue]] Continue
    show ?thesis by (subst fitGaussian_loop.simps) simp
  next
    case (Break r)
    then show ?thesis by (subst fitGaussian_loop.simps) simp
  qed
qed

lemma fitGaussian_loop_reach:
  assumes "(\<lambda>s s'. fitGaussian_iter leastsq wind sky height xcen ycen fwhm fwhm_min fwhm_fix thresh s = Continue s')\<^sup>*\<^sup>* s0 s"
  shows "fitGaussian_loop leastsq wind sky height xcen ycen fwhm fwhm_min fwhm_fix thresh s0
       = fitGaussian_loop leastsq wind sky height xcen ycen fwhm fwhm_min fwhm_fix thresh s"
  using assms
proof (induction rule: rtranclp_induct)
  case base show ?case by simp
next
  case (step y z)
  have "fitGaussian_loop leastsq wind sky height xcen ycen fwhm fwhm_min fwhm_fix thresh y
      = fitGaussian_loop leastsq wind sky height xcen ycen fwhm fwhm_min fwhm_fix thresh z"
    using step.hyps(2) by (subst fitGaussian_loop.simps) simp
  with step.IH show ?case by simp
qed

lemma fitGaussian_loop_last:
  assumes "fitGaussian_loop leastsq wind sky height xcen ycen fwhm fwhm_min fwhm_fix thresh s0 = Some res"
  shows "\<exists>s. (\<lambda>s s'. fitGaussian_iter leastsq wind sky height xcen ycen fwhm fwhm_min fwhm_fix thresh s = Continue s')\<^sup>*\<^sup>* s0 s
      \<and> (case res of Inl e \<Rightarrow> fitGaussian_iter leastsq wind sky height xcen ycen fwhm fwhm_min fwhm_fix thresh s = Raise e
                   | Inr r \<Rightarrow> fitGaussian_iter leastsq wind sky height xcen ycen fwhm fwhm_min fwhm_fix thresh s = Break r)"
  using assms
proof (induction "count_ok (cells (gmem s0) (g1_sigma (gfit1 s0)))" arbitrary: s0 rule: less_induct)
  case less
  let ?it = "fitGaussian_iter leastsq wind sky height xcen ycen fwhm fwhm_min fwhm_fix thresh"
  show ?case
  proof (cases "?it s0")
    case (Raise e)
    with less.prems have "res = Inl e" by (subst (asm) fitGaussian_loop.simps) simp
    with Raise show ?thesis by (intro exI[of _ s0]) simp
  next
    case (Continue s')
    with less.prems have "fitGaussian_loop leastsq wind sky height xcen ycen fwhm fwhm_min fwhm_fix thresh s' = Some res"
      by (subst (asm) fitGaussian_loop.simps) simp
    from less.hyps[OF fitGaussian_iter_Continue(2)[OF Continue] this]
    obtain s where "(\<lambda>s s'. ?it s = Continue s')\<^sup>*\<^sup>* s' s"
      and fin: "(case res of Inl e \<Rightarrow> ?it s = Raise e | Inr r \<Rightarrow> ?it s = Break r)" by blast
    with Continue have "(\<lambda>s s'. ?it s = Continue s')\<^sup>*\<^sup>* s0 s"
      by (meson converse_rtranclp_into_rtranclp)
    with fin show ?thesis by blast
  next
    case (Break r)
    with less.prems have "res = Inr r" by (subst (asm) fitGaussian_loop.simps) simp
    with Break show ?thesis by (intro exI[of _ s0]) simp
  qed
qed

lemma fitGaussian_fixed_Inr:
  assumes "fitGaussian_fixed leastsq sky height xcen ycen fw s = Inr ((fit, soln, pf, pe), s1)"
  shows "\<not> bad_status (gauss_fixed_solve leastsq sky height xcen ycen fw s)"
    and "soln = lsq_x (gauss_fixed_solve leastsq sky height xcen ycen fw s)"
    and "\<exists>skyf heightf xf yf skyfe heightfe xfe yfe.
           soln = [skyf, heightf, xf, yf] \<and> pf = (skyf, heightf, xf, yf, fw) \<and>
           sqrt_diag (lsq_cov (gauss_fixed_solve leastsq sky height xcen ycen fw s))
             = Inr [skyfe, heightfe, xfe, yfe] \<and>
           pe = (skyfe, heightfe, xfe, yfe, - 1) \<and>
           fit = gaussian (cells (gmem s) (fst (g2_xy (gfit2 s))), cells (gmem s) (snd (g2_xy (gfit2 s))))
                   skyf heightf xf yf fw"
proof -
  let ?r = "gauss_fixed_solve leastsq sky height xcen ycen fw s"
  from assms obtain r where chk: "leastsq_check leastsq
         (\<lambda>p. fst (Gfit2_call ((gfit2 s)\<lparr>g2_fwhm := fw\<rparr>) p (gmem s)))
         (\<lambda>p. fst (Dgfit2_call ((dgfit2 s)\<lparr>dg2_fwhm := fw\<rparr>) p (gmem s)))
         [sky, height, xcen, ycen] = Inr r"
    by (auto simp: fitGaussian_fixed_def Let_def split: sum.splits)
  then have r: "r = ?r" and ok: "\<not> bad_status ?r"
    by (simp_all add: leastsq_check_Inr gauss_fixed_solve_def)
  show "\<not> bad_status ?r" by (rule ok)
  from assms chk obtain fit' st1 where
    md: "Gfit2_model ((gfit2 s)\<lparr>g2_fwhm := fw\<rparr>) (lsq_x r) (gmem s) = (Inr fit', st1)"
    by (auto simp: fitGaussian_fixed_def Let_def split: sum.splits prod.splits)
  then obtain skyf heightf xf yf where x: "lsq_x r = [skyf, heightf, xf, yf]"
    by (cases "((gfit2 s)\<lparr>g2_fwhm := fw\<rparr>, lsq_x r, gmem s)" rule: Gfit2_model.cases) auto
  from md x have fit': "fit' = gaussian (cells (gmem s) (fst (g2_xy (gfit2 s))), cells (gmem s) (snd (g2_xy (gfit2 s))))
                   skyf heightf xf yf fw" by auto
  from assms chk md x obtain es where es: "sqrt_diag (lsq_cov r) = Inr es"
    by (auto simp: fitGaussian_fixed_def Let_def split: sum.splits)
  from assms chk md x es obtain skyfe heightfe xfe yfe where
    es5: "es = [skyfe, heightfe, xfe, yfe]"
    by (auto simp: fitGaussian_fixed_def Let_def split: list.splits)
  from assms have "fit = fit'" "soln = lsq_x r" "pf = (skyf, heightf, xf, yf, fw)"
      "pe = (skyfe, heightfe, xfe, yfe, - 1)"
    unfolding fitGaussian_fixed_def Let_def by (simp_all add: chk x es es5 fit')
  with r x es es5 fit' show "soln = lsq_x ?r"
    and "\<exists>skyf heightf xf yf skyfe heightfe xfe yfe.
           soln = [skyf, heightf, xf, yf] \<and> pf = (skyf, heightf, xf, yf, fw) \<and>
           sqrt_diag (lsq_cov ?r) = Inr [skyfe, heightfe, xfe, yfe] \<and>
           pe = (skyfe, heightfe, xfe, yfe, - 1) \<and>
           fit = gaussian (cells (gmem s) (fst (g2_xy (gfit2 s))), cells (gmem s) (snd (g2_xy (gfit2 s))))
                   skyf heightf xf yf fw"
    by auto
qed

lemma fitGaussian_fixed_bad:
  assumes "bad_status (gauss_fixed_solve leastsq sky height xcen ycen fw s)"
  shows "fitGaussian_fixed leastsq sky height xcen ycen fw s
       = Inl (HipercamError (lsq_mesg (gauss_fixed_solve leastsq sky height xcen ycen fw s)))"
  using assms
  by (simp add: fitGaussian_fixed_def Let_def leastsq_check_def bad_status_def gauss_fixed_solve_def)

lemma fitGaussian_fixed_good:
  assumes "\<not> bad_status (gauss_fixed_solve leastsq sky height xcen ycen fw s)"
    and "lsq_x (gauss_fixed_solve leastsq sky height xcen ycen fw s) = [skyf, heightf, xf, yf]"
    and "sqrt_diag (lsq_cov (gauss_fixed_solve leastsq sky height xcen ycen fw s))
           = Inr [skyfe, heightfe, xfe, yfe]"
  shows "fitGaussian_fixed leastsq sky height xcen ycen fw s
       = Inr ((gaussian (cells (gmem s) (fst (g2_xy (gfit2 s))), cells (gmem s) (snd (g2_xy (gfit2 s))))
                 skyf heightf xf yf fw,
               [skyf, heightf, xf, yf], (skyf, heightf, xf, yf, fw),
               (skyfe, heightfe, xfe, yfe, - 1)),
              s\<lparr>gfit2 := (gfit2 s)\<lparr>g2_fwhm := fw\<rparr>, dgfit2 := (dgfit2 s)\<lparr>dg2_fwhm := fw\<rparr>\<rparr>)"
  using assms
  by (simp add: fitGaussian_fixed_def Let_def leastsq_check_def bad_status_def gauss_fixed_solve_def)

lemma fitGaussian_solve_fix:
  "fwhm_fix \<Longrightarrow> fitGaussian_solve leastsq sky height xcen ycen fwhm fwhm_min fwhm_fix s
     = fitGaussian_fixed leastsq sky height xcen ycen fwhm s"
  by (simp add: fitGaussian_solve_def)

lemma fitGaussian_solve_free_bad:
  assumes "\<not> fwhm_fix" "bad_status (gauss_free_solve leastsq sky height xcen ycen fwhm s)"
  shows "fitGaussian_solve leastsq sky height xcen ycen fwhm fwhm_min fwhm_fix s
       = Inl (HipercamError (lsq_mesg (gauss_free_solve leastsq sky height xcen ycen fwhm s)))"
  using assms
  by (simp add: fitGaussian_solve_def Let_def leastsq_check_def bad_status_def gauss_free_solve_def)

lemma fitGaussian_solve_fallback:
  assumes "\<not> fwhm_fix" "\<not> bad_status (gauss_free_solve leastsq sky height xcen ycen fwhm s)"
    and "lsq_x (gauss_free_solve leastsq sky height xcen ycen fwhm s) = [skyf, heightf, xf, yf, fwhmf]"
    and "fwhmf \<le> fwhm_min"
  shows "fitGaussian_solve leastsq sky height xcen ycen fwhm fwhm_min fwhm_fix s
       = fitGaussian_fixed leastsq sky height xcen ycen fwhm_min s"
  using assms
  by (simp add: fitGaussian_solve_def Let_def leastsq_check_def bad_status_def gauss_free_solve_def)

lemma fitGaussian_solve_free_good:
  assumes "\<not> fwhm_fix" "\<not> bad_status (gauss_free_solve leastsq sky height xcen ycen fwhm s)"
    and "lsq_x (gauss_free_solve leastsq sky height xcen ycen fwhm s) = [skyf, heightf, xf, yf, fwhmf]"
    and "fwhmf > fwhm_min"
    and "sqrt_diag (lsq_cov (gauss_free_solve leastsq sky height xcen ycen fwhm s))
           = Inr [skyfe, heightfe, xfe, yfe, fwhmfe]"
  shows "fitGaussian_solve leastsq sky height xcen ycen fwhm fwhm_min fwhm_fix s
       = Inr ((gaussian (cells (gmem s) (fst (g1_xy (gfit1 s))), cells (gmem s) (snd (g1_xy (gfit1 s))))
                 skyf heightf xf yf fwhmf,
               [skyf, heightf, xf, yf, fwhmf], (skyf, heightf, xf, yf, fwhmf),
               (skyfe, heightfe, xfe, yfe, fwhmfe)), s)"
  using assms
  by (simp add: fitGaussian_solve_def Let_def leastsq_check_def bad_status_def gauss_free_solve_def)

text \<open>Every successful solve is one of the three above.\<close>

lemma fitGaussian_solve_Inr:
  assumes "fitGaussian_solve leastsq sky height xcen ycen fwhm fwhm_min fwhm_fix s
             = Inr ((fit, soln, pf, pe), s1)"
  shows "(fwhm_fix \<and> fitGaussian_fixed leastsq sky height xcen ycen fwhm s = Inr ((fit, soln, pf, pe), s1))
       \<or> (\<not> fwhm_fix \<and> \<not> bad_status (gauss_free_solve leastsq sky height xcen ycen fwhm s) \<and>
           (\<exists>skyf heightf xf yf fwhmf.
              lsq_x (gauss_free_solve leastsq sky height xcen ycen fwhm s)
                = [skyf, heightf, xf, yf, fwhmf] \<and> fwhmf \<le> fwhm_min) \<and>
           fitGaussian_fixed leastsq sky height xcen ycen fwhm_min s = Inr ((fit, soln, pf, pe), s1))
       \<or> (\<not> fwhm_fix \<and> \<not> bad_status (gauss_free_solve leastsq sky height xcen ycen fwhm s) \<and>
           (\<exists>skyf heightf xf yf fwhmf skyfe heightfe xfe yfe fwhmfe.
              lsq_x (gauss_free_solve leastsq sky height xcen ycen fwhm s)
                = [skyf, heightf, xf, yf, fwhmf] \<and> fwhmf > fwhm_min \<and>
              sqrt_diag (lsq_cov (gauss_free_solve leastsq sky height xcen ycen fwhm s))
                = Inr [skyfe, heightfe, xfe, yfe, fwhmfe] \<and>
              soln = [skyf, heightf, xf, yf, fwhmf] \<and>
              pf = (skyf, heightf, xf, yf, fwhmf) \<and>
              pe = (skyfe, heightfe, xfe, yfe, fwhmfe) \<and>
              fit = gaussian (cells (gmem s) (fst (g1_xy (gfit1 s))), cells (gmem s) (snd (g1_xy (gfit1 s))))
                      skyf heightf xf yf fwhmf \<and> s1 = s))"
proof (cases fwhm_fix)
  case True
  with assms show ?thesis by (simp add: fitGaussian_solve_fix)
next
  case False
  let ?r = "gauss_free_solve leastsq sky height xcen ycen fwhm s"
  have nb: "\<not> bad_status ?r"
    using assms False fitGaussian_solve_free_bad[of fwhm_fix leastsq sky height xcen ycen fwhm s fwhm_min]
    by auto
  from assms False nb obtain skyf heightf xf yf fwhmf where
    x: "lsq_x ?r = [skyf, heightf, xf, yf, fwhmf]"
    by (auto simp: fitGaussian_solve_def Let_def leastsq_check_def bad_status_def gauss_free_solve_def
          split: list.splits)
  show ?thesis
  proof (cases "fwhmf > fwhm_min")
    case le: False
    with fitGaussian_solve_fallback[OF False nb x, of fwhm_min] assms False nb x show ?thesis by auto
  next
    case gt: True
    from assms False nb x gt obtain es where es: "sqrt_diag (lsq_cov ?r) = Inr es"
      by (auto simp: fitGaussian_solve_def Let_def leastsq_check_def bad_status_def gauss_free_solve_def
          split: sum.splits)
    from assms False nb x gt es obtain skyfe heightfe xfe yfe fwhmfe where
      es6: "es = [skyfe, heightfe, xfe, yfe, fwhmfe]"
      by (auto simp: fitGaussian_solve_def Let_def leastsq_check_def bad_status_def gauss_free_solve_def
          split: list.splits)
    from fitGaussian_solve_free_good[OF False nb x gt es[unfolded es6]] assms False nb x gt es es6
    show ?thesis by auto
  qed
qed

lemma Gfit1_init_eq:
  "Gfit1_init wind read gain st =
     (\<lparr>g1_sigma = fresh st, g1_xy = (Suc (fresh st), Suc (Suc (fresh st))), g1_data = wdata wind\<rparr>,
      st\<lparr>cells := (cells st)
            (fresh st := noise_sigma read gain (cells st (wdata wind)),
             Suc (fresh st) := fst (meshgrid (map (xord wind) [0..<nx wind]) (map (yord wind) [0..<ny wind])),
             Suc (Suc (fresh st)) := snd (meshgrid (map (xord wind) [0..<nx wind]) (map (yord wind) [0..<ny wind]))),
          fresh := Suc (Suc (Suc (fresh st)))\<rparr>)"
  by (simp add: Gfit1_init_def new_array_def Let_def split: prod.splits)

lemma Gfit2_init_eq:
  "Gfit2_init wind read gain fwhm st =
     (\<lparr>g2_sigma = fresh st, g2_xy = (Suc (fresh st), Suc (Suc (fresh st))), g2_data = wdata wind,
       g2_fwhm = fwhm\<rparr>,
      st\<lparr>cells := (cells st)
            (fresh st := noise_sigma read gain (cells st (wdata wind)),
             Suc (fresh st) := fst (meshgrid (map (xord wind) [0..<nx wind]) (map (yord wind) [0..<ny wind])),
             Suc (Suc (fresh st)) := snd (meshgrid (map (xord wind) [0..<nx wind]) (map (yord wind) [0..<ny wind]))),
          fresh := Suc (Suc (Suc (fresh st)))\<rparr>)"
  by (simp add: Gfit2_init_def new_array_def Let_def split: prod.splits)

lemma fitGaussian_init_sigma:
  assumes "window_ok wind st"
  shows "g1_sigma (gfit1 (fitGaussian_init wind fwhm read gain st)) = fresh st"
    and "cells (gmem (fitGaussian_init wind fwhm read gain st)) (fresh st)
           = noise_sigma read gain (cells st (wdata wind))"
    and "cells (gmem (fitGaussian_init wind fwhm read gain st)) (wdata wind) = cells st (wdata wind)"
  using assms
  by (simp_all add: fitGaussian_init_def Gfit1_init_eq Gfit2_init_eq Let_def window_ok_def)

lemma fitGaussian_init_ok:
  assumes "window_ok wind st"
  shows "gauss_ok wind (fitGaussian_init wind fwhm read gain st)"
  using assms
  by (simp add: fitGaussian_init_def Gfit1_init_eq Gfit2_init_eq Let_def window_ok_def gauss_ok_def
        length_meshgrid)

lemma fitGaussian_solve_fit_length:
  assumes sol: "fitGaussian_solve leastsq sky height xcen ycen fwhm fwhm_min fwhm_fix s
             = Inr ((fit, soln, pf, pe), s1)"
    and ok: "gauss_ok wind s"
  shows "length fit = ny wind * nx wind"
proof -
  from fitGaussian_solve_Inr[OF sol]
  have "(\<exists>fw. fitGaussian_fixed leastsq sky height xcen ycen fw s = Inr ((fit, soln, pf, pe), s1))
      \<or> (\<exists>a b c d e. fit = gaussian (cells (gmem s) (fst (g1_xy (gfit1 s))), cells (gmem s) (snd (g1_xy (gfit1 s))))
                             a b c d e)"
    by blast
  then show ?thesis
  proof
    assume "\<exists>fw. fitGaussian_fixed leastsq sky height xcen ycen fw s = Inr ((fit, soln, pf, pe), s1)"
    then obtain fw where "fitGaussian_fixed leastsq sky height xcen ycen fw s = Inr ((fit, soln, pf, pe), s1)" ..
    from fitGaussian_fixed_Inr(3)[OF this] obtain a b c d where
      "fit = gaussian (cells (gmem s) (fst (g2_xy (gfit2 s))), cells (gmem s) (snd (g2_xy (gfit2 s)))) a b c d fw"
      by blast
    then show ?thesis using ok by (simp add: gauss_ok_def)
  next
    assume "\<exists>a b c d e. fit = gaussian (cells (gmem s) (fst (g1_xy (gfit1 s))), cells (gmem s) (snd (g1_xy (gfit1 s))))
                             a b c d e"
    then show ?thesis using ok by (auto simp: gauss_ok_def)
  qed
qed

lemma fitGaussian_iter_eq:
  fixes thresh :: real
  assumes sol: "fitGaussian_solve leastsq sky height xcen ycen fwhm fwhm_min fwhm_fix s
             = Inr ((fit, soln, pf, (skyfe, heightfe, xfe, yfe, fwhmfe)), s1)"
    and ok: "gauss_ok wind s"
  defines "sg \<equiv> cells (gmem s) (g1_sigma (gfit1 s))"
    and "dat \<equiv> cells (gmem s) (wdata wind)"
  defines "sfac \<equiv> spec_sfac dat fit sg (length soln)"
    and "sg' \<equiv> map (spec_rejected dat fit sg (length soln) thresh) [0..<length sg]"
  shows "fitGaussian_iter leastsq wind sky height xcen ycen fwhm fwhm_min fwhm_fix thresh s =
     (if sg' \<noteq> sg then
        Continue (s1\<lparr>gfit2 := (gfit2 s1)\<lparr>g2_sigma := g1_sigma (gfit1 s)\<rparr>,
                     dgfit1 := (dgfit1 s1)\<lparr>dg1_sigma := g1_sigma (gfit1 s)\<rparr>,
                     dgfit2 := (dgfit2 s1)\<lparr>dg2_sigma := g1_sigma (gfit1 s)\<rparr>,
                     gmem := (gmem s)\<lparr>cells := (cells (gmem s))(g1_sigma (gfit1 s) := sg')\<rparr>\<rparr>)
      else
        Break ((pf,
                (skyfe * sfac, heightfe * sfac, xfe * sfac, yfe * sfac,
                 (if fwhmfe > 0 then fwhmfe * sfac else fwhmfe)),
                (fit, fst (g1_xy (gfit1 s)), snd (g1_xy (gfit1 s)), g1_sigma (gfit1 s),
                 spec_chisq dat fit sg, count_ok sg,
                 int (length sg) - int (count_ok sg), length soln)),
               s1\<lparr>gmem := (gmem s)\<lparr>cells := (cells (gmem s))(g1_sigma (gfit1 s) := sg)\<rparr>\<rparr>))"
proof -
  note keep = fitGaussian_solve_keeps[OF sol]
  let ?n = "ny wind * nx wind"
  let ?a = "g1_sigma (gfit1 s)"
  have len: "length sg = ?n" "length dat = ?n" "length fit = ?n"
    using ok fitGaussian_solve_fit_length[OF sol ok] by (simp_all add: gauss_ok_def sg_def dat_def)
  obtain chisq nok1 sf st2 where
    rej: "reject_outliers ?a (wdata wind) fit (length soln) thresh (gmem s) = (chisq, nok1, sf, st2)"
    by (metis prod_cases4)
  note spec = reject_outliers_spec[OF rej len[unfolded sg_def dat_def], folded sg_def dat_def]
  have sg2: "cells st2 ?a = sg'"
    using spec(4,5) len by (intro nth_equalityI) (simp_all add: sg'_def)
  have st2: "st2 = (gmem s)\<lparr>cells := (cells (gmem s))(?a := sg')\<rparr>"
  proof -
    from rej have "st2 = (gmem s)\<lparr>cells := (cells (gmem s))(?a := cells st2 ?a)\<rparr>"
      by (auto simp: reject_outliers_def Let_def)
    then show ?thesis by (simp only: sg2)
  qed
  have cnt: "count_ok sg' < nok1 \<longleftrightarrow> sg' \<noteq> sg"
    unfolding spec(2) sg'_def by (rule count_rejected)
  obtain a b c d e where pf: "pf = (a, b, c, d, e)" by (cases pf) auto
  have rej1: "reject_outliers (g1_sigma (gfit1 s1)) (wdata wind) fit (length soln) thresh (gmem s1)
                = (chisq, nok1, sf, st2)"
    using rej keep by simp
  have unf: "fitGaussian_iter leastsq wind sky height xcen ycen fwhm fwhm_min fwhm_fix thresh s =
      (if count_ok (cells st2 (g1_sigma (gfit1 s1))) < nok1 then
                Continue (s1\<lparr>gfit2 := (gfit2 s1)\<lparr>g2_sigma := g1_sigma (gfit1 s1)\<rparr>,
                             dgfit1 := (dgfit1 s1)\<lparr>dg1_sigma := g1_sigma (gfit1 s1)\<rparr>,
                             dgfit2 := (dgfit2 s1)\<lparr>dg2_sigma := g1_sigma (gfit1 s1)\<rparr>,
                             gmem := st2\<rparr>)
              else
                Break ((pf,
                        (skyfe * sf, heightfe * sf, xfe * sf, yfe * sf,
                         (if fwhmfe > 0 then fwhmfe * sf else fwhmfe)),
                        (fit, fst (g1_xy (gfit1 s1)), snd (g1_xy (gfit1 s1)),
                         g1_sigma (gfit1 s1), chisq, count_ok (cells st2 (g1_sigma (gfit1 s1))),
                         int (length (cells st2 (g1_sigma (gfit1 s1)))) - int (count_ok (cells st2 (g1_sigma (gfit1 s1)))),
                         length soln)),
                       s1\<lparr>gmem := st2\<rparr>))"
    unfolding fitGaussian_iter_def sol pf by (simp add: rej1 Let_def)
  have m1: "gfit1 s1 = gfit1 s" by (rule keep(2))
  show ?thesis
  proof (cases "sg' = sg")
    case True
    then have nlt: "\<not> count_ok sg' < nok1" using cnt by simp
    show ?thesis
      unfolding unf m1 sg2 using nlt True
      by (simp add: spec(1,3) sfac_def st2)
  next
    case False
    then have lt: "count_ok sg' < nok1" using cnt by simp
    show ?thesis
      unfolding unf m1 sg2 using lt False
      by (simp add: st2)
  qed
qed

text \<open>The outcome of a pass, read backwards.\<close>

lemma fitGaussian_iter_Raise:
  "fitGaussian_iter leastsq wind sky height xcen ycen fwhm fwhm_min fwhm_fix thresh s = Raise e
     \<longleftrightarrow> fitGaussian_solve leastsq sky height xcen ycen fwhm fwhm_min fwhm_fix s = Inl e"
  by (auto simp: fitGaussian_iter_def Let_def split: sum.splits prod.splits if_splits)

lemma fitGaussian_iter_solved:
  assumes "\<And>e. fitGaussian_iter leastsq wind sky height xcen ycen fwhm fwhm_min fwhm_fix thresh s \<noteq> Raise e"
  shows "\<exists>fit soln pf skyfe heightfe xfe yfe fwhmfe s1.
           fitGaussian_solve leastsq sky height xcen ycen fwhm fwhm_min fwhm_fix s
             = Inr ((fit, soln, pf, (skyfe, heightfe, xfe, yfe, fwhmfe)), s1)"
proof (cases "fitGaussian_solve leastsq sky height xcen ycen fwhm fwhm_min fwhm_fix s")
  case (Inl e)
  then have "fitGaussian_iter leastsq wind sky height xcen ycen fwhm fwhm_min fwhm_fix thresh s = Raise e"
    by (simp add: fitGaussian_iter_Raise)
  with assms[of e] show ?thesis by simp
next
  case (Inr v)
  obtain q s1 where "v = (q, s1)" by (cases v)
  moreover obtain fit soln pf pe where "q = (fit, soln, pf, pe)" by (cases q)
  moreover obtain a b c d e where "pe = (a, b, c, d, e)" by (cases pe) auto
  ultimately show ?thesis using Inr by blast
qed

lemma fitGaussian_iter_ok:
  assumes it: "fitGaussian_iter leastsq wind sky height xcen ycen fwhm fwhm_min fwhm_fix thresh s = Continue s'"
    and ok: "gauss_ok wind s"
  shows "gauss_ok wind s'"
proof -
  from it have "\<And>e. fitGaussian_iter leastsq wind sky height xcen ycen fwhm fwhm_min fwhm_fix thresh s \<noteq> Raise e"
    by simp
  from fitGaussian_iter_solved[OF this]
  obtain fit soln pf skyfe heightfe xfe yfe fwhmfe s1 where
    sol: "fitGaussian_solve leastsq sky height xcen ycen fwhm fwhm_min fwhm_fix s
             = Inr ((fit, soln, pf, (skyfe, heightfe, xfe, yfe, fwhmfe)), s1)"
    by blast
  note keep = fitGaussian_solve_keeps[OF sol]
  from it fitGaussian_iter_eq[OF sol ok, of thresh]
  have s': "s' = s1\<lparr>gfit2 := (gfit2 s1)\<lparr>g2_sigma := g1_sigma (gfit1 s)\<rparr>,
                     dgfit1 := (dgfit1 s1)\<lparr>dg1_sigma := g1_sigma (gfit1 s)\<rparr>,
                     dgfit2 := (dgfit2 s1)\<lparr>dg2_sigma := g1_sigma (gfit1 s)\<rparr>,
                     gmem := (gmem s)\<lparr>cells := (cells (gmem s))(g1_sigma (gfit1 s) :=
                        map (spec_rejected (cells (gmem s) (wdata wind)) fit (cells (gmem s) (g1_sigma (gfit1 s)))
                               (length soln) thresh) [0..<length (cells (gmem s) (g1_sigma (gfit1 s)))])\<rparr>\<rparr>"
    by (simp split: if_splits)
  show ?thesis using ok keep unfolding s' gauss_ok_def by simp
qed

lemma fitGaussian_reach_ok:
  assumes "(fitGaussian_next leastsq wind sky height xcen ycen fwhm fwhm_min fwhm_fix thresh)\<^sup>*\<^sup>* s0 s"
    and "gauss_ok wind s0"
  shows "gauss_ok wind s"
  using assms
  by (induction rule: rtranclp_induct) (auto simp: fitGaussian_next_def intro: fitGaussian_iter_ok)

text \<open>What one pass does to the sigma array of \<open>gfit1\<close>, and what it leaves alone.\<close>

lemma fitGaussian_iter_sigma:
  assumes it: "fitGaussian_iter leastsq wind sky height xcen ycen fwhm fwhm_min fwhm_fix thresh s = Continue s'
         \<or> fitGaussian_iter leastsq wind sky height xcen ycen fwhm fwhm_min fwhm_fix thresh s = Break (r, s')"
    and ok: "gauss_ok wind s"
  shows "\<exists>fit soln pf pe s1.
           fitGaussian_solve leastsq sky height xcen ycen fwhm fwhm_min fwhm_fix s
             = Inr ((fit, soln, pf, pe), s1) \<and>
           gfit1 s' = gfit1 s \<and> fresh (gmem s') = fresh (gmem s) \<and>
           cells (gmem s') = (cells (gmem s))(g1_sigma (gfit1 s) :=
               map (spec_rejected (cells (gmem s) (wdata wind)) fit (cells (gmem s) (g1_sigma (gfit1 s)))
                      (length soln) thresh) [0..<length (cells (gmem s) (g1_sigma (gfit1 s)))])"
proof -
  from it have "\<And>e. fitGaussian_iter leastsq wind sky height xcen ycen fwhm fwhm_min fwhm_fix thresh s \<noteq> Raise e"
    by auto
  from fitGaussian_iter_solved[OF this]
  obtain fit soln pf skyfe heightfe xfe yfe fwhmfe s1 where
    sol: "fitGaussian_solve leastsq sky height xcen ycen fwhm fwhm_min fwhm_fix s
             = Inr ((fit, soln, pf, (skyfe, heightfe, xfe, yfe, fwhmfe)), s1)"
    by blast
  note keep = fitGaussian_solve_keeps[OF sol]
  let ?sg = "cells (gmem s) (g1_sigma (gfit1 s))"
  let ?sg' = "map (spec_rejected (cells (gmem s) (wdata wind)) fit ?sg (length soln) thresh) [0..<length ?sg]"
  note eq = fitGaussian_iter_eq[OF sol ok, of thresh]
  have "gfit1 s' = gfit1 s \<and> fresh (gmem s') = fresh (gmem s) \<and>
        cells (gmem s') = (cells (gmem s))(g1_sigma (gfit1 s) := ?sg')"
  proof (cases "?sg' = ?sg")
    case True
    with it eq have "s' = s1\<lparr>gmem := (gmem s)\<lparr>cells := (cells (gmem s))(g1_sigma (gfit1 s) := ?sg)\<rparr>\<rparr>"
      by auto
    with True keep show ?thesis by simp
  next
    case False
    with it eq have "s' = s1\<lparr>gfit2 := (gfit2 s1)\<lparr>g2_sigma := g1_sigma (gfit1 s)\<rparr>,
                     dgfit1 := (dgfit1 s1)\<lparr>dg1_sigma := g1_sigma (gfit1 s)\<rparr>,
                     dgfit2 := (dgfit2 s1)\<lparr>dg2_sigma := g1_sigma (gfit1 s)\<rparr>,
                     gmem := (gmem s)\<lparr>cells := (cells (gmem s))(g1_sigma (gfit1 s) := ?sg')\<rparr>\<rparr>"
      by auto
    with keep show ?thesis by simp
  qed
  with sol show ?thesis by blast
qed

text \<open>One pass: magnitudes stay, and only included entries change sign.\<close>

lemma fitGaussian_iter_monotone:
  assumes it: "fitGaussian_iter leastsq wind sky height xcen ycen fwhm fwhm_min fwhm_fix thresh s = Continue s'
         \<or> fitGaussian_iter leastsq wind sky height xcen ycen fwhm fwhm_min fwhm_fix thresh s = Break (r, s')"
    and ok: "gauss_ok wind s"
    and i: "i < ny wind * nx wind"
  shows "gfit1 s' = gfit1 s"
    and "cells (gmem s') (wdata wind) = cells (gmem s) (wdata wind)"
    and "length (cells (gmem s') (g1_sigma (gfit1 s))) = ny wind * nx wind"
    and "\<bar>cells (gmem s') (g1_sigma (gfit1 s)) ! i\<bar> = \<bar>cells (gmem s) (g1_sigma (gfit1 s)) ! i\<bar>"
    and "cells (gmem s) (g1_sigma (gfit1 s)) ! i \<le> 0
           \<Longrightarrow> cells (gmem s') (g1_sigma (gfit1 s)) ! i = cells (gmem s) (g1_sigma (gfit1 s)) ! i"
    and "cells (gmem s') (g1_sigma (gfit1 s)) ! i \<noteq> cells (gmem s) (g1_sigma (gfit1 s)) ! i
           \<Longrightarrow> 0 < cells (gmem s) (g1_sigma (gfit1 s)) ! i \<and>
               cells (gmem s') (g1_sigma (gfit1 s)) ! i = - cells (gmem s) (g1_sigma (gfit1 s)) ! i"
proof -
  let ?a = "g1_sigma (gfit1 s)"
  from fitGaussian_iter_sigma[OF it ok] obtain fit soln pf pe s1 where
    "fitGaussian_solve leastsq sky height xcen ycen fwhm fwhm_min fwhm_fix s
             = Inr ((fit, soln, pf, pe), s1)"
    and m: "gfit1 s' = gfit1 s"
    and "fresh (gmem s') = fresh (gmem s)"
    and c: "cells (gmem s') = (cells (gmem s))(?a :=
               map (spec_rejected (cells (gmem s) (wdata wind)) fit (cells (gmem s) ?a)
                      (length soln) thresh) [0..<length (cells (gmem s) ?a)])"
    by auto
  from ok have len: "length (cells (gmem s) ?a) = ny wind * nx wind" and ne: "?a \<noteq> wdata wind"
    by (simp_all add: gauss_ok_def)
  have nth: "cells (gmem s') ?a ! i
      = spec_rejected (cells (gmem s) (wdata wind)) fit (cells (gmem s) ?a) (length soln) thresh i"
    using i len by (simp add: c)
  show "gfit1 s' = gfit1 s" by (rule m)
  show "cells (gmem s') (wdata wind) = cells (gmem s) (wdata wind)" using ne by (simp add: c)
  show "length (cells (gmem s') ?a) = ny wind * nx wind" using len by (simp add: c)
  show "\<bar>cells (gmem s') ?a ! i\<bar> = \<bar>cells (gmem s) ?a ! i\<bar>"
    unfolding nth by (rule spec_rejected_abs(1))
  show "cells (gmem s) ?a ! i \<le> 0 \<Longrightarrow> cells (gmem s') ?a ! i = cells (gmem s) ?a ! i"
    unfolding nth by (rule spec_rejected_abs(2))
  show "cells (gmem s') ?a ! i \<noteq> cells (gmem s) ?a ! i
           \<Longrightarrow> 0 < cells (gmem s) ?a ! i \<and> cells (gmem s') ?a ! i = - cells (gmem s) ?a ! i"
    unfolding nth by (rule spec_rejected_abs(3))
qed

text \<open>Any number of passes.\<close>

lemma fitGaussian_reach_monotone:
  assumes "(fitGaussian_next leastsq wind sky height xcen ycen fwhm fwhm_min fwhm_fix thresh)\<^sup>*\<^sup>* s0 s"
    and "gauss_ok wind s0"
    and "i < ny wind * nx wind"
  shows "gfit1 s = gfit1 s0 \<and>
         cells (gmem s) (wdata wind) = cells (gmem s0) (wdata wind) \<and>
         \<bar>cells (gmem s) (g1_sigma (gfit1 s0)) ! i\<bar> = \<bar>cells (gmem s0) (g1_sigma (gfit1 s0)) ! i\<bar> \<and>
         (cells (gmem s0) (g1_sigma (gfit1 s0)) ! i \<le> 0
            \<longrightarrow> cells (gmem s) (g1_sigma (gfit1 s0)) ! i = cells (gmem s0) (g1_sigma (gfit1 s0)) ! i)"
  using assms
proof (induction rule: rtranclp_induct)
  case base
  show ?case by simp
next
  case (step s s')
  from step have IH: "gfit1 s = gfit1 s0"
    "cells (gmem s) (wdata wind) = cells (gmem s0) (wdata wind)"
    "\<bar>cells (gmem s) (g1_sigma (gfit1 s0)) ! i\<bar> = \<bar>cells (gmem s0) (g1_sigma (gfit1 s0)) ! i\<bar>"
    "cells (gmem s0) (g1_sigma (gfit1 s0)) ! i \<le> 0
            \<longrightarrow> cells (gmem s) (g1_sigma (gfit1 s0)) ! i = cells (gmem s0) (g1_sigma (gfit1 s0)) ! i"
    by simp_all
  from step.hyps(1) step.prems(1) have ok: "gauss_ok wind s" by (rule fitGaussian_reach_ok)
  from step.hyps(2) have it: "fitGaussian_iter leastsq wind sky height xcen ycen fwhm fwhm_min fwhm_fix thresh s = Continue s'
         \<or> fitGaussian_iter leastsq wind sky height xcen ycen fwhm fwhm_min fwhm_fix thresh s = Break (undefined, s')"
    by (simp add: fitGaussian_next_def)
  note mono = fitGaussian_iter_monotone[OF it ok step.prems(2), unfolded IH(1)]
  from mono(1,2,4,5) IH show ?case by auto
qed

lemma ex_gwindow_ok: "window_ok ex_wind ex_gstore"
  by (simp add: window_ok_def ex_wind_def ex_gstore_def ex_gdata_def)

lemma ex_g0_eq: "ex_g0 = \<lparr>gfit1 = \<lparr>g1_sigma = 1, g1_xy = (2, 3), g1_data = 0\<rparr>,
     dgfit1 = \<lparr>dg1_sigma = 1, dg1_xy = (2, 3)\<rparr>,
     gfit2 = \<lparr>g2_sigma = 4, g2_xy = (5, 6), g2_data = 0, g2_fwhm = 2\<rparr>,
     dgfit2 = \<lparr>dg2_sigma = 4, dg2_xy = (5, 6), dg2_fwhm = 2\<rparr>,
     gmem = \<lparr>cells = (\<lambda>_. [])(0 := ex_gdata, 1 := replicate 11 1, 2 := map real [0..<11], 3 := replicate 11 0,
                  4 := replicate 11 1, 5 := map real [0..<11], 6 := replicate 11 0), fresh = 7\<rparr>\<rparr>"
  unfolding ex_g0_def fitGaussian_init_def Gfit1_init_eq Gfit2_init_eq Dgfit1_init_def Dgfit2_init_def Let_def
  apply (simp add: ex_gstore_def ex_wind_def meshgrid_def)
  apply (simp add: ex_gdata_def noise_sigma_def upt_rec numeral_eq_Suc)
  done

lemma ex_g0_solve:
  "fitGaussian_solve ex_leastsq 0 0 1 1 2 1 False ex_g0
     = Inr ((replicate 11 0, [0, 0, 1, 1, 2], (0, 0, 1, 1, 2), (1, 1, 1, 1, 1)), ex_g0)"
proof -
  have "gaussian (cells (gmem ex_g0) (fst (g1_xy (gfit1 ex_g0))), cells (gmem ex_g0) (snd (g1_xy (gfit1 ex_g0))))
           0 0 1 1 2 = replicate 11 0"
    by (simp add: ex_g0_eq gaussian_def Let_def upt_rec numeral_eq_Suc)
  with fitGaussian_solve_free_good[of False ex_leastsq 0 0 1 1 2 ex_g0 0 0 1 1 2 1 1 1 1 1 1]
  show ?thesis by (simp add: gauss_free_solve_def ex_leastsq_simps numeral_eq_Suc)
qed

lemma ex_g0_iter:
  "fitGaussian_iter ex_leastsq ex_wind 0 0 1 1 2 1 False 1 ex_g0 = Continue ex_g1"
  unfolding fitGaussian_iter_def ex_g0_solve
  apply (simp add: reject_outliers_def Let_def)
  apply (simp add: ex_g0_eq ex_wind_def ex_gdata_def np_gt0_def np_div_def np_sub_def np_mask_def np_imul_where_def count_ok_def numeral_eq_Suc)
  apply (simp add: ex_g1_def ex_g0_eq ex_gdata_def numeral_eq_Suc)
  done

lemma ex_g1_solve:
  "fitGaussian_solve ex_leastsq 0 0 1 1 2 1 False ex_g1
     = Inr ((replicate 11 0, [0, 0, 1, 1, 2], (0, 0, 1, 1, 2), (1, 1, 1, 1, 1)), ex_g1)"
proof -
  have "gaussian (cells (gmem ex_g1) (fst (g1_xy (gfit1 ex_g1))), cells (gmem ex_g1) (snd (g1_xy (gfit1 ex_g1))))
           0 0 1 1 2 = replicate 11 0"
    by (simp add: ex_g1_def ex_g0_eq gaussian_def Let_def upt_rec numeral_eq_Suc)
  with fitGaussian_solve_free_good[of False ex_leastsq 0 0 1 1 2 ex_g1 0 0 1 1 2 1 1 1 1 1 1]
  show ?thesis by (simp add: gauss_free_solve_def ex_leastsq_simps numeral_eq_Suc)
qed

lemma ex_g1_iter:
  "fitGaussian_iter ex_leastsq ex_wind 0 0 1 1 2 1 False 1 ex_g1
     = Break (((0, 0, 1, 1, 2), (2, 2, 2, 2, 2),
               (replicate 11 0, 2, 3, 1, 20, 10, 1, 5)), ex_g1)"
  unfolding fitGaussian_iter_def ex_g1_solve
  apply (simp add: reject_outliers_def Let_def)
  apply (simp add: ex_g1_def ex_g0_eq ex_wind_def ex_gdata_def np_gt0_def np_div_def np_sub_def np_mask_def np_imul_where_def count_ok_def numeral_eq_Suc real_sqrt_divide)
  done

lemma ex_gauss_fit:
  "fitGaussian ex_leastsq ex_wind 0 0 1 1 2 1 False (\<lambda>_. 1) (\<lambda>_. 1) 1 ex_gstore
     = Some (Inr (((0, 0, 1, 1, 2), (2, 2, 2, 2, 2),
               (replicate 11 0, 2, 3, 1, 20, 10, 1, 5)), ex_g1))"
  unfolding fitGaussian_def ex_g0_def[symmetric]
  by (subst fitGaussian_loop.simps, simp add: ex_g0_iter, subst fitGaussian_loop.simps, simp add: ex_g1_iter)

lemma ex_g0_cells:
  "cells (gmem ex_g0) 0 = ex_gdata" "cells (gmem ex_g0) 1 = replicate 11 1"
  "g1_sigma (gfit1 ex_g0) = 1"
  by (simp_all add: ex_g0_eq)

text \<open>The third example, evaluated: the free fit falls back to the floor and the pass breaks.\<close>

lemma ex_fwindow_ok: "window_ok ex_wind ex_fstore"
  by (simp add: window_ok_def ex_wind_def ex_fstore_def ex_fdata_def)

lemma ex_f0_eq: "ex_f0 = \<lparr>mfit1 = \<lparr>m1_sigma = 1, m1_xy = (2, 3), m1_data = 0\<rparr>,
     dmfit1 = \<lparr>dm1_sigma = 1, dm1_xy = (2, 3)\<rparr>,
     mfit2 = \<lparr>m2_sigma = 4, m2_xy = (5, 6), m2_data = 0, m2_fwhm = 2\<rparr>,
     dmfit2 = \<lparr>dm2_sigma = 4, dm2_xy = (5, 6), dm2_fwhm = 2\<rparr>,
     mem = \<lparr>cells = (\<lambda>_. [])(0 := ex_fdata, 1 := replicate 11 1, 2 := map real [0..<11], 3 := replicate 11 0,
                  4 := replicate 11 1, 5 := map real [0..<11], 6 := replicate 11 0), fresh = 7\<rparr>\<rparr>"
  unfolding ex_f0_def fitMoffat_init_def Mfit1_init_eq Mfit2_init_eq Dmfit1_init_def Dmfit2_init_def Let_def
  apply (simp add: ex_fstore_def ex_wind_def meshgrid_def)
  apply (simp add: ex_fdata_def noise_sigma_def upt_rec numeral_eq_Suc)
  done

lemma ex_f0_cells:
  "cells (mem ex_f0) 0 = ex_fdata" "cells (mem ex_f0) 1 = replicate 11 1"
  "m1_sigma (mfit1 ex_f0) = 1"
  by (simp_all add: ex_f0_eq)

lemma ex_f0_free:
  "\<not> bad_status (moffat_free_solve ex_leastsq 0 0 1 1 2 2 ex_f0)"
  "lsq_x (moffat_free_solve ex_leastsq 0 0 1 1 2 2 ex_f0) = [0, 0, 1, 1, 2, 2]"
  by (simp_all add: moffat_free_solve_def ex_leastsq_simps)

lemma ex_f0_fixed:
  "fitMoffat_fixed ex_leastsq 0 0 1 1 2 3 ex_f0
     = Inr ((replicate 11 0, [0, 0, 1, 1, 2], (0, 0, 1, 1, 3, 2), (1, 1, 1, 1, - 1, 1)), ex_f1)"
proof -
  have "moffat (cells (mem ex_f0) (fst (m2_xy (mfit2 ex_f0))), cells (mem ex_f0) (snd (m2_xy (mfit2 ex_f0))))
           0 0 1 1 3 2 = replicate 11 0"
    by (simp add: ex_f0_eq moffat_def Let_def upt_rec numeral_eq_Suc)
  with fitMoffat_fixed_good[of ex_leastsq 0 0 1 1 2 3 ex_f0 0 0 1 1 2 1 1 1 1 1]
  show ?thesis by (simp add: moffat_fixed_solve_def ex_leastsq_simps numeral_eq_Suc ex_f1_def)
qed

lemma ex_f0_solve:
  "fitMoffat_solve ex_leastsq 0 0 1 1 2 3 False 2 ex_f0
     = Inr ((replicate 11 0, [0, 0, 1, 1, 2], (0, 0, 1, 1, 3, 2), (1, 1, 1, 1, - 1, 1)), ex_f1)"
  using fitMoffat_solve_fallback[of False ex_leastsq 0 0 1 1 2 2 ex_f0 0 0 1 1 2 2 3] ex_f0_free ex_f0_fixed
  by simp

lemma ex_f0_iter:
  "fitMoffat_iter ex_leastsq ex_wind 0 0 1 1 2 3 False 2 2 ex_f0
     = Break (((0, 0, 1, 1, 3, 2), (2, 2, 2, 2, - 1, 2),
               (replicate 11 0, 2, 3, 1, 24, 11, 0, 5)), ex_f1)"
  unfolding fitMoffat_iter_def ex_f0_solve
  apply (simp add: reject_outliers_def Let_def)
  apply (simp add: ex_f1_def ex_f0_eq ex_wind_def ex_fdata_def np_gt0_def np_div_def np_sub_def np_mask_def np_imul_where_def count_ok_def numeral_eq_Suc real_sqrt_divide)
  apply (simp add: fun_eq_iff)
  done

lemma ex_fmoffat_fit:
  "fitMoffat ex_leastsq ex_wind 0 0 1 1 2 3 False 2 (\<lambda>_. 1) (\<lambda>_. 1) 2 ex_fstore
     = Some (Inr (((0, 0, 1, 1, 3, 2), (2, 2, 2, 2, - 1, 2),
               (replicate 11 0, 2, 3, 1, 24, 11, 0, 5)), ex_f1))"
  unfolding fitMoffat_def ex_f0_def[symmetric]
  by (subst fitMoffat_loop.simps, simp add: ex_f0_iter)

lemma ex_hwindow_ok: "window_ok ex_wind ex_hstore"
  by (simp add: window_ok_def ex_wind_def ex_hstore_def ex_hdata_def)

lemma ex_h0_eq: "ex_h0 = \<lparr>gfit1 = \<lparr>g1_sigma = 1, g1_xy = (2, 3), g1_data = 0\<rparr>,
     dgfit1 = \<lparr>dg1_sigma = 1, dg1_xy = (2, 3)\<rparr>,
     gfit2 = \<lparr>g2_sigma = 4, g2_xy = (5, 6), g2_data = 0, g2_fwhm = 2\<rparr>,
     dgfit2 = \<lparr>dg2_sigma = 4, dg2_xy = (5, 6), dg2_fwhm = 2\<rparr>,
     gmem = \<lparr>cells = (\<lambda>_. [])(0 := ex_hdata, 1 := replicate 11 1, 2 := map real [0..<11], 3 := replicate 11 0,
                  4 := replicate 11 1, 5 := map real [0..<11], 6 := replicate 11 0), fresh = 7\<rparr>\<rparr>"
  unfolding ex_h0_def fitGaussian_init_def Gfit1_init_eq Gfit2_init_eq Dgfit1_init_def Dgfit2_init_def Let_def
  apply (simp add: ex_hstore_def ex_wind_def meshgrid_def)
  apply (simp add: ex_hdata_def noise_sigma_def upt_rec numeral_eq_Suc)
  done

lemma ex_h0_cells:
  "cells (gmem ex_h0) 0 = ex_hdata" "cells (gmem ex_h0) 1 = replicate 11 1"
  "g1_sigma (gfit1 ex_h0) = 1"
  by (simp_all add: ex_h0_eq)

lemma ex_h0_free:
  "\<not> bad_status (gauss_free_solve ex_leastsq 0 0 1 1 2 ex_h0)"
  "lsq_x (gauss_free_solve ex_leastsq 0 0 1 1 2 ex_h0) = [0, 0, 1, 1, 2]"
  by (simp_all add: gauss_free_solve_def ex_leastsq_simps)

lemma ex_h0_fixed:
  "fitGaussian_fixed ex_leastsq 0 0 1 1 3 ex_h0
     = Inr ((replicate 11 0, [0, 0, 1, 1], (0, 0, 1, 1, 3), (1, 1, 1, 1, - 1)), ex_h1)"
proof -
  have "gaussian (cells (gmem ex_h0) (fst (g2_xy (gfit2 ex_h0))), cells (gmem ex_h0) (snd (g2_xy (gfit2 ex_h0))))
           0 0 1 1 3 = replicate 11 0"
    by (simp add: ex_h0_eq gaussian_def Let_def upt_rec numeral_eq_Suc)
  with fitGaussian_fixed_good[of ex_leastsq 0 0 1 1 3 ex_h0 0 0 1 1 1 1 1 1]
  show ?thesis by (simp add: gauss_fixed_solve_def ex_leastsq_simps numeral_eq_Suc ex_h1_def)
qed

lemma ex_h0_solve:
  "fitGaussian_solve ex_leastsq 0 0 1 1 2 3 False ex_h0
     = Inr ((replicate 11 0, [0, 0, 1, 1], (0, 0, 1, 1, 3), (1, 1, 1, 1, - 1)), ex_h1)"
  using fitGaussian_solve_fallback[of False ex_leastsq 0 0 1 1 2 ex_h0 0 0 1 1 2 3] ex_h0_free ex_h0_fixed
  by simp

lemma ex_h0_iter:
  "fitGaussian_iter ex_leastsq ex_wind 0 0 1 1 2 3 False 2 ex_h0
     = Break (((0, 0, 1, 1, 3), (2, 2, 2, 2, - 1),
               (replicate 11 0, 2, 3, 1, 28, 11, 0, 4)), ex_h1)"
  unfolding fitGaussian_iter_def ex_h0_solve
  apply (simp add: reject_outliers_def Let_def)
  apply (simp add: ex_h1_def ex_h0_eq ex_wind_def ex_hdata_def np_gt0_def np_div_def np_sub_def np_mask_def np_imul_where_def count_ok_def numeral_eq_Suc real_sqrt_divide)
  apply (simp add: fun_eq_iff)
  done

lemma ex_hgauss_fit:
  "fitGaussian ex_leastsq ex_wind 0 0 1 1 2 3 False (\<lambda>_. 1) (\<lambda>_. 1) 2 ex_hstore
     = Some (Inr (((0, 0, 1, 1, 3), (2, 2, 2, 2, - 1),
               (replicate 11 0, 2, 3, 1, 28, 11, 0, 4)), ex_h1))"
  unfolding fitGaussian_def ex_h0_def[symmetric]
  by (subst fitGaussian_loop.simps, simp add: ex_h0_iter)

section \<open>The Moffat derivatives\<close>

lemma dmoffat_nth:
  fixes x y :: ndarray and xcen ycen beta fwhm height sky :: real
  assumes "i < length x" "length y = length x"
  defines "b \<equiv> max 0.01 beta"
  defines "a \<equiv> 4 * (2 powr (1 / b) - 1) / fwhm\<^sup>2"
  defines "r \<equiv> (x ! i - xcen)\<^sup>2 + (y ! i - ycen)\<^sup>2"
  defines "D \<equiv> dmoffat (x, y) sky height xcen ycen fwhm beta False"
  shows "D ! 0 ! i = 1"
    and "D ! 1 ! i = 1 / (1 + a * r) powr b"
    and "D ! 2 ! i = (2 * a * b) * (x ! i - xcen) * (height / (1 + a * r) powr (b + 1))"
    and "D ! 3 ! i = (2 * a * b) * (y ! i - ycen) * (height / (1 + a * r) powr (b + 1))"
    and "D ! 4 ! i = (2 * a * b / fwhm) * (height / (1 + a * r) powr (b + 1) * r)"
    and "D ! 5 ! i = - ln (1 + a * r) * height * (1 / (1 + a * r) powr b)
                     + (4 * ln 2 * 2 powr (1 / b) / b / fwhm\<^sup>2) * (height / (1 + a * r) powr (b + 1) * r)"
  using assms(1,2) unfolding D_def dmoffat_def Let_def a_def r_def b_def
  by simp_all

lemma dmoffat_skip:
  "dmoffat xy sky height xcen ycen fwhm beta True
     = (let D = dmoffat xy sky height xcen ycen fwhm beta False in [D ! 0, D ! 1, D ! 2, D ! 3, D ! 5])"
  "length (dmoffat xy sky height xcen ycen fwhm beta False) = 6"
  by (simp_all add: dmoffat_def Let_def split: prod.splits)

text \<open>
  Claim C5. At every grid point \<open>i\<close>, with \<open>\<beta>\<close> the exponent clamped to at least 0.01 and
  \<open>\<alpha> = 4 (2^(1/\<beta>) - 1) / FWHM\<^sup>2\<close>, the arrays computed by \<^const>\<open>dmoffat\<close> are the formulas
  of the specification: the sky term is 1, the height term is \<open>(1 + \<alpha> r\<^sup>2)^(-\<beta>)\<close>, the centre
  terms are scaled by \<open>2 \<alpha> \<beta>\<close>, the FWHM term is \<open>(2 \<alpha> \<beta> / FWHM) height r\<^sup>2 / (1 + \<alpha> r\<^sup>2)^(\<beta>+1)\<close>
  and the beta term is the logarithmic term plus the correction. In skip mode the list is the
  same without the FWHM term, five arrays instead of six.
\<close>

theorem dmoffat_spec_formulas:
  fixes x y :: ndarray and xcen ycen beta fwhm height sky :: real and i :: nat
  assumes "i < length x" "length y = length x"
  defines "b \<equiv> max 0.01 beta"
  defines "rsq \<equiv> spec_rsq (x ! i) (y ! i) xcen ycen"
  defines "D \<equiv> dmoffat (x, y) sky height xcen ycen fwhm beta False"
  shows "0.01 \<le> b \<and> length D = 6 \<and>
         dmoffat (x, y) sky height xcen ycen fwhm beta True = [D ! 0, D ! 1, D ! 2, D ! 3, D ! 5] \<and>
         D ! 0 ! i = 1 \<and>
         D ! 1 ! i = spec_dheight fwhm b rsq \<and>
         D ! 2 ! i = spec_dcen height fwhm b (x ! i - xcen) rsq \<and>
         D ! 3 ! i = spec_dcen height fwhm b (y ! i - ycen) rsq \<and>
         D ! 4 ! i = spec_dfwhm height fwhm b rsq \<and>
         D ! 5 ! i = spec_dbeta height fwhm b rsq"
proof -
  note nth = dmoffat_nth[OF assms(1,2), of sky height xcen ycen fwhm beta, folded b_def D_def]
  have 1: "0.01 \<le> b" by (simp add: b_def)
  have 2: "length D = 6" by (simp add: D_def dmoffat_skip)
  have 3: "dmoffat (x, y) sky height xcen ycen fwhm beta True = [D ! 0, D ! 1, D ! 2, D ! 3, D ! 5]"
    by (simp add: D_def dmoffat_skip(1) Let_def)
  have 4: "D ! 0 ! i = 1" by (rule nth(1))
  have 5: "D ! 1 ! i = spec_dheight fwhm b rsq"
    unfolding nth(2) spec_dheight_def spec_alpha_def rsq_def spec_rsq_def
    by (simp only: powr_minus_divide)
  have 6: "D ! 2 ! i = spec_dcen height fwhm b (x ! i - xcen) rsq"
    unfolding nth(3) spec_dcen_def spec_alpha_def rsq_def spec_rsq_def
    by (simp only: mult.assoc times_divide_eq_right)
  have 7: "D ! 3 ! i = spec_dcen height fwhm b (y ! i - ycen) rsq"
    unfolding nth(4) spec_dcen_def spec_alpha_def rsq_def spec_rsq_def
    by (simp only: mult.assoc times_divide_eq_right)
  have 8: "D ! 4 ! i = spec_dfwhm height fwhm b rsq"
    unfolding nth(5) spec_dfwhm_def spec_alpha_def rsq_def spec_rsq_def
    by (simp only: mult.assoc times_divide_eq_right times_divide_eq_left)
  have 9: "D ! 5 ! i = spec_dbeta height fwhm b rsq"
    unfolding nth(6) spec_dbeta_def spec_alpha_def rsq_def spec_rsq_def
    by (simp only: powr_minus_divide mult.assoc times_divide_eq_right times_divide_eq_left mult_1_right)
  from 1 2 3 4 5 6 7 8 9 show ?thesis by blast
qed

theorem dmoffat_spec_formulas_witness:
  "(0::nat) < length [1::real, 3] \<and> length [2::real, 5] = length [1::real, 3] \<and>
   dmoffat ([1, 3], [2, 5]) 10 500 2 3 4 (5/2) False ! 4 ! 0
     = spec_dfwhm 500 4 (5/2) (spec_rsq 1 2 2 3) \<and>
   length (dmoffat ([1, 3], [2, 5]) 10 500 2 3 4 (5/2) True) = 5"
  using dmoffat_spec_formulas[where i = 0 and x = "[1, 3]" and y = "[2, 5]" and sky = 10
      and height = 500 and xcen = 2 and ycen = 3 and fwhm = 4 and beta = "5/2"]
  by simp

section \<open>The residual vector\<close>

lemma residual_vector:
  assumes "length dat = length sg" "length modl = length sg"
  shows "np_mask (np_div (np_sub dat modl) sg) (np_gt0 sg) = spec_residuals dat modl sg"
    and "length (spec_residuals dat modl sg) = card (included sg)"
proof -
  let ?a = "np_div (np_sub dat modl) sg"
  have la: "length ?a = length sg" using assms by (simp add: np_div_def np_sub_def)
  have idx: "filter ((!) (np_gt0 sg)) [0..<length sg] = filter (\<lambda>i. 0 < sg ! i) [0..<length sg]"
    by (rule filter_cong) (simp_all add: np_gt0_def)
  have "np_mask ?a (np_gt0 sg) = map ((!) ?a) (filter (\<lambda>i. 0 < sg ! i) [0..<length sg])"
    using la by (simp add: np_mask_index np_gt0_def idx[unfolded np_gt0_def])
  also have "\<dots> = map (\<lambda>i. (dat ! i - modl ! i) / sg ! i) (filter (\<lambda>i. 0 < sg ! i) [0..<length sg])"
    using assms by (intro map_cong) (simp_all add: np_div_def np_sub_def)
  finally show "np_mask ?a (np_gt0 sg) = spec_residuals dat modl sg"
    by (simp add: spec_residuals_def)
  have "length (spec_residuals dat modl sg) = length (filter (\<lambda>i. 0 < sg ! i) [0..<length sg])"
    by (simp add: spec_residuals_def)
  also have "\<dots> = card (set (filter (\<lambda>i. 0 < sg ! i) [0..<length sg]))"
    by (rule distinct_card[symmetric]) simp
  also have "set (filter (\<lambda>i. 0 < sg ! i) [0..<length sg]) = included sg"
    by (auto simp: included_def)
  finally show "length (spec_residuals dat modl sg) = card (included sg)" .
qed

lemma Mfit1_call_spec:
  assumes "Mfit1_model self p st = (Inr modl, st')"
    and "length (cells st (m1_data self)) = length (cells st (m1_sigma self))"
    and "length modl = length (cells st (m1_sigma self))"
  shows "Mfit1_call self p st
          = (Inr (spec_residuals (cells st (m1_data self)) modl (cells st (m1_sigma self))), st)"
proof -
  from assms(1) Mfit1_model_store[of self p st] have "st' = st" by simp
  with assms show ?thesis by (simp add: Mfit1_call_def Let_def residual_vector)
qed

lemma Mfit2_call_spec:
  assumes "Mfit2_model self p st = (Inr modl, st')"
    and "length (cells st (m2_data self)) = length (cells st (m2_sigma self))"
    and "length modl = length (cells st (m2_sigma self))"
  shows "Mfit2_call self p st
          = (Inr (spec_residuals (cells st (m2_data self)) modl (cells st (m2_sigma self))), st)"
proof -
  from assms(1) Mfit2_model_store[of self p st] have "st' = st" by simp
  with assms show ?thesis by (simp add: Mfit2_call_def Let_def residual_vector)
qed

lemma Gfit1_call_spec:
  assumes "Gfit1_model self p st = (Inr modl, st')"
    and "length (cells st (g1_data self)) = length (cells st (g1_sigma self))"
    and "length modl = length (cells st (g1_sigma self))"
  shows "Gfit1_call self p st
          = (Inr (spec_residuals (cells st (g1_data self)) modl (cells st (g1_sigma self))), st)"
proof -
  from assms(1) Gfit1_model_store[of self p st] have "st' = st" by simp
  with assms show ?thesis by (simp add: Gfit1_call_def Let_def residual_vector)
qed

lemma Gfit2_call_spec:
  assumes "Gfit2_model self p st = (Inr modl, st')"
    and "length (cells st (g2_data self)) = length (cells st (g2_sigma self))"
    and "length modl = length (cells st (g2_sigma self))"
  shows "Gfit2_call self p st
          = (Inr (spec_residuals (cells st (g2_data self)) modl (cells st (g2_sigma self))), st)"
proof -
  from assms(1) Gfit2_model_store[of self p st] have "st' = st" by simp
  with assms show ?thesis by (simp add: Gfit2_call_def Let_def residual_vector)
qed

text \<open>
  Claim C4. For each of the four residual objects, whenever the model evaluates on the
  parameter vector, the residual callable returns (data - model) / sigma at exactly the pixels
  whose sigma entry is strictly positive, in pixel order. Rejected pixels are left out, not
  zero-filled: the length of the vector is the number of included pixels. The arrays are taken
  to have one shape, as they are constructed.
\<close>

theorem residual_restricted_to_included:
  "(Mfit1_model m1 p st = (Inr modl, st') \<and>
    length (cells st (m1_data m1)) = length (cells st (m1_sigma m1)) \<and>
    length modl = length (cells st (m1_sigma m1))
    \<longrightarrow> Mfit1_call m1 p st
          = (Inr (spec_residuals (cells st (m1_data m1)) modl (cells st (m1_sigma m1))), st) \<and>
        length (spec_residuals (cells st (m1_data m1)) modl (cells st (m1_sigma m1)))
          = card (included (cells st (m1_sigma m1)))) \<and>
   (Mfit2_model m2 p st = (Inr modl, st') \<and>
    length (cells st (m2_data m2)) = length (cells st (m2_sigma m2)) \<and>
    length modl = length (cells st (m2_sigma m2))
    \<longrightarrow> Mfit2_call m2 p st
          = (Inr (spec_residuals (cells st (m2_data m2)) modl (cells st (m2_sigma m2))), st) \<and>
        length (spec_residuals (cells st (m2_data m2)) modl (cells st (m2_sigma m2)))
          = card (included (cells st (m2_sigma m2)))) \<and>
   (Gfit1_model g1 p st = (Inr modl, st') \<and>
    length (cells st (g1_data g1)) = length (cells st (g1_sigma g1)) \<and>
    length modl = length (cells st (g1_sigma g1))
    \<longrightarrow> Gfit1_call g1 p st
          = (Inr (spec_residuals (cells st (g1_data g1)) modl (cells st (g1_sigma g1))), st) \<and>
        length (spec_residuals (cells st (g1_data g1)) modl (cells st (g1_sigma g1)))
          = card (included (cells st (g1_sigma g1)))) \<and>
   (Gfit2_model g2 p st = (Inr modl, st') \<and>
    length (cells st (g2_data g2)) = length (cells st (g2_sigma g2)) \<and>
    length modl = length (cells st (g2_sigma g2))
    \<longrightarrow> Gfit2_call g2 p st
          = (Inr (spec_residuals (cells st (g2_data g2)) modl (cells st (g2_sigma g2))), st) \<and>
        length (spec_residuals (cells st (g2_data g2)) modl (cells st (g2_sigma g2)))
          = card (included (cells st (g2_sigma g2))))"
  by (intro conjI impI; (elim conjE)?)
    (simp_all add: Mfit1_call_spec Mfit2_call_spec Gfit1_call_spec Gfit2_call_spec residual_vector)

theorem residual_restricted_to_included_witness:
  "Mfit1_model (mfit1 ex_m1) [0, 0, 1, 1, 2, 2] (mem ex_m1) = (Inr (replicate 11 0), mem ex_m1) \<and>
   length (cells (mem ex_m1) (m1_data (mfit1 ex_m1))) = length (cells (mem ex_m1) (m1_sigma (mfit1 ex_m1))) \<and>
   length (replicate 11 (0::real)) = length (cells (mem ex_m1) (m1_sigma (mfit1 ex_m1))) \<and>
   Mfit1_call (mfit1 ex_m1) [0, 0, 1, 1, 2, 2] (mem ex_m1)
     = (Inr [0, 0, 0, 0, 0, 0, - 1, 0, 0, 0], mem ex_m1) \<and>
   card (included (cells (mem ex_m1) (m1_sigma (mfit1 ex_m1)))) = 10"
proof -
  have m: "Mfit1_model (mfit1 ex_m1) [0, 0, 1, 1, 2, 2] (mem ex_m1) = (Inr (replicate 11 0), mem ex_m1)"
    by (simp add: ex_m1_def ex_m0_eq moffat_def Let_def upt_rec numeral_eq_Suc)
  have c: "cells (mem ex_m1) (m1_data (mfit1 ex_m1)) = ex_data"
    "cells (mem ex_m1) (m1_sigma (mfit1 ex_m1)) = [1, 1, 1, - 1, 1, 1, 1, 1, 1, 1, 1]"
    by (simp_all add: ex_m1_def ex_m0_eq)
  have l: "length (cells (mem ex_m1) (m1_data (mfit1 ex_m1))) = length (cells (mem ex_m1) (m1_sigma (mfit1 ex_m1)))"
    "length (replicate 11 (0::real)) = length (cells (mem ex_m1) (m1_sigma (mfit1 ex_m1)))"
    by (simp_all add: c ex_data_def)
  have v: "spec_residuals ex_data (replicate 11 0) [1, 1, 1, - 1, 1, 1, 1, 1, 1, 1, 1]
             = [0, 0, 0, 0, 0, 0, - 1, 0, 0, 0]"
    by (simp add: spec_residuals_def ex_data_def upt_rec numeral_eq_Suc)
  from residual_restricted_to_included[where ?m1.0 = "mfit1 ex_m1" and p = "[0, 0, 1, 1, 2, 2]"
      and st = "mem ex_m1" and st' = "mem ex_m1" and modl = "replicate 11 0", THEN conjunct1] m l
  have "Mfit1_call (mfit1 ex_m1) [0, 0, 1, 1, 2, 2] (mem ex_m1)
     = (Inr (spec_residuals (cells (mem ex_m1) (m1_data (mfit1 ex_m1))) (replicate 11 0)
               (cells (mem ex_m1) (m1_sigma (mfit1 ex_m1)))), mem ex_m1) \<and>
        length (spec_residuals (cells (mem ex_m1) (m1_data (mfit1 ex_m1))) (replicate 11 0)
               (cells (mem ex_m1) (m1_sigma (mfit1 ex_m1))))
          = card (included (cells (mem ex_m1) (m1_sigma (mfit1 ex_m1))))"
    by blast
  then have "Mfit1_call (mfit1 ex_m1) [0, 0, 1, 1, 2, 2] (mem ex_m1) = (Inr [0, 0, 0, 0, 0, 0, - 1, 0, 0, 0], mem ex_m1)"
    and "card (included (cells (mem ex_m1) (m1_sigma (mfit1 ex_m1)))) = 10"
    unfolding c v by simp_all
  with m l show ?thesis by blast
qed

section \<open>The noise model\<close>

lemma noise_sigma_nth:
  "i < length dat \<Longrightarrow> noise_sigma read gain dat ! i = sqrt ((read i)\<^sup>2 + max 0 (dat ! i) / gain i)"
  by (simp add: noise_sigma_def)

lemma noise_sigma_nonneg:
  assumes "i < length dat" "0 < gain i"
  shows "0 \<le> noise_sigma read gain dat ! i"
proof -
  have "0 \<le> (read i)\<^sup>2 + max 0 (dat ! i) / gain i" using assms(2) by simp
  then show ?thesis using assms(1) by (simp add: noise_sigma_nth)
qed

text \<open>
  Claim C6. The sigma array that each of the four constructors creates has the shape of the
  data and holds \<open>sqrt(read\<^sup>2 + max(0, data) / gain)\<close> at every pixel, computed from the readout
  noise, the gain and the raw data; where the gain is positive the entry is non-negative.
  (For a gain that is not positive the source takes the square root of a possibly negative
  number or divides by zero; such inputs are outside the real-number model.)
\<close>

theorem noise_model_sigma:
  assumes "Mfit1_init wind read gain st = (om1, s1)"
    and "Mfit2_init wind read gain fwhm st = (om2, s2)"
    and "Gfit1_init wind read gain st = (og1, s3)"
    and "Gfit2_init wind read gain fwhm st = (og2, s4)"
    and "i < length (cells st (wdata wind))"
  shows "length (cells s1 (m1_sigma om1)) = length (cells st (wdata wind)) \<and>
         cells s1 (m1_sigma om1) ! i = sqrt ((read i)\<^sup>2 + max 0 (cells st (wdata wind) ! i) / gain i) \<and>
         (0 < gain i \<longrightarrow> 0 \<le> cells s1 (m1_sigma om1) ! i) \<and>
         length (cells s2 (m2_sigma om2)) = length (cells st (wdata wind)) \<and>
         cells s2 (m2_sigma om2) ! i = sqrt ((read i)\<^sup>2 + max 0 (cells st (wdata wind) ! i) / gain i) \<and>
         (0 < gain i \<longrightarrow> 0 \<le> cells s2 (m2_sigma om2) ! i) \<and>
         length (cells s3 (g1_sigma og1)) = length (cells st (wdata wind)) \<and>
         cells s3 (g1_sigma og1) ! i = sqrt ((read i)\<^sup>2 + max 0 (cells st (wdata wind) ! i) / gain i) \<and>
         (0 < gain i \<longrightarrow> 0 \<le> cells s3 (g1_sigma og1) ! i) \<and>
         length (cells s4 (g2_sigma og2)) = length (cells st (wdata wind)) \<and>
         cells s4 (g2_sigma og2) ! i = sqrt ((read i)\<^sup>2 + max 0 (cells st (wdata wind) ! i) / gain i) \<and>
         (0 < gain i \<longrightarrow> 0 \<le> cells s4 (g2_sigma og2) ! i)"
proof -
  let ?ns = "noise_sigma read gain (cells st (wdata wind))"
  from assms(1) have 1: "cells s1 (m1_sigma om1) = ?ns" by (auto simp: Mfit1_init_eq)
  from assms(2) have 2: "cells s2 (m2_sigma om2) = ?ns" by (auto simp: Mfit2_init_eq)
  from assms(3) have 3: "cells s3 (g1_sigma og1) = ?ns" by (auto simp: Gfit1_init_eq)
  from assms(4) have 4: "cells s4 (g2_sigma og2) = ?ns" by (auto simp: Gfit2_init_eq)
  show ?thesis
    unfolding 1 2 3 4 using assms(5)
    by (simp add: noise_sigma_nth[symmetric] noise_sigma_nonneg)
qed

theorem noise_model_sigma_witness:
  "Mfit1_init ex_wind (\<lambda>_. 1) (\<lambda>_. 1) ex_store = (mfit1 ex_m0, snd (Mfit1_init ex_wind (\<lambda>_. 1) (\<lambda>_. 1) ex_store)) \<and>
   (3::nat) < length (cells ex_store (wdata ex_wind)) \<and> (0::real) < 1 \<and>
   cells (snd (Mfit1_init ex_wind (\<lambda>_. 1) (\<lambda>_. 1) ex_store)) (m1_sigma (mfit1 ex_m0)) ! 3
     = sqrt (1\<^sup>2 + max 0 (- 38) / 1) \<and>
   0 \<le> cells (snd (Mfit1_init ex_wind (\<lambda>_. 1) (\<lambda>_. 1) ex_store)) (m1_sigma (mfit1 ex_m0)) ! 3"
proof -
  have a: "Mfit1_init ex_wind (\<lambda>_. 1) (\<lambda>_. 1) ex_store = (mfit1 ex_m0, snd (Mfit1_init ex_wind (\<lambda>_. 1) (\<lambda>_. 1) ex_store))"
    by (simp add: ex_m0_eq Mfit1_init_eq ex_store_def ex_wind_def)
  have b: "(3::nat) < length (cells ex_store (wdata ex_wind))" "cells ex_store (wdata ex_wind) ! 3 = - 38"
    by (simp_all add: ex_store_def ex_wind_def ex_data_def)
  from noise_model_sigma[OF a surjective_pairing surjective_pairing surjective_pairing b(1)]
  show ?thesis using a b by simp
qed

section \<open>Failure of the solver\<close>

lemma fitMoffat_fixed_Hip:
  assumes "fitMoffat_fixed leastsq sky height xcen ycen beta fw s = Inl (HipercamError m)"
  shows "bad_status (moffat_fixed_solve leastsq sky height xcen ycen beta fw s) \<and>
         m = lsq_mesg (moffat_fixed_solve leastsq sky height xcen ycen beta fw s)"
proof (rule ccontr)
  assume "\<not> ?thesis"
  with fitMoffat_fixed_bad[of leastsq sky height xcen ycen beta fw s] assms
  have nb: "\<not> bad_status (moffat_fixed_solve leastsq sky height xcen ycen beta fw s)" by auto
  have "fitMoffat_fixed leastsq sky height xcen ycen beta fw s = Inl ValueError
      \<or> (\<exists>v. fitMoffat_fixed leastsq sky height xcen ycen beta fw s = Inr v)"
    using nb Mfit2_model_store[of "(mfit2 s)\<lparr>m2_fwhm := fw\<rparr>" _ "mem s"]
    unfolding fitMoffat_fixed_def Let_def leastsq_check_def bad_status_def moffat_fixed_solve_def sqrt_diag_def
    by (auto split: sum.splits prod.splits list.splits option.splits
          elim!: Mfit2_model.elims)
  with assms show False by auto
qed

lemma fitMoffat_solve_Hip:
  assumes "fitMoffat_solve leastsq sky height xcen ycen fwhm fwhm_min fwhm_fix beta s = Inl (HipercamError m)"
  shows "\<exists>r. (fwhm_fix \<and> r = moffat_fixed_solve leastsq sky height xcen ycen beta fwhm s
              \<or> \<not> fwhm_fix \<and> r = moffat_free_solve leastsq sky height xcen ycen fwhm beta s
              \<or> \<not> fwhm_fix \<and> \<not> bad_status (moffat_free_solve leastsq sky height xcen ycen fwhm beta s)
                  \<and> r = moffat_fixed_solve leastsq sky height xcen ycen beta fwhm_min s)
             \<and> bad_status r \<and> m = lsq_mesg r"
proof (cases fwhm_fix)
  case True
  with assms fitMoffat_fixed_Hip[of leastsq sky height xcen ycen beta fwhm s m]
  show ?thesis by (auto simp: fitMoffat_solve_fix)
next
  case False
  let ?r = "moffat_free_solve leastsq sky height xcen ycen fwhm beta s"
  show ?thesis
  proof (cases "bad_status ?r")
    case True
    with assms False fitMoffat_solve_free_bad[of fwhm_fix leastsq sky height xcen ycen fwhm beta s fwhm_min]
    show ?thesis by auto
  next
    case nb: False
    have "fitMoffat_solve leastsq sky height xcen ycen fwhm fwhm_min fwhm_fix beta s = Inl ValueError
        \<or> (\<exists>v. fitMoffat_solve leastsq sky height xcen ycen fwhm fwhm_min fwhm_fix beta s = Inr v)
        \<or> fitMoffat_solve leastsq sky height xcen ycen fwhm fwhm_min fwhm_fix beta s
             = fitMoffat_fixed leastsq sky height xcen ycen beta fwhm_min s"
      using nb False Mfit1_model_store[of "mfit1 s" _ "mem s"]
      unfolding fitMoffat_solve_def Let_def leastsq_check_def bad_status_def moffat_free_solve_def sqrt_diag_def
      by (auto split: sum.splits prod.splits list.splits option.splits elim!: Mfit1_model.elims)
    with assms have "fitMoffat_fixed leastsq sky height xcen ycen beta fwhm_min s = Inl (HipercamError m)"
      by auto
    from fitMoffat_fixed_Hip[OF this] nb False show ?thesis by blast
  qed
qed

lemma fitMoffat_loop_Raise:
  assumes "(fitMoffat_next leastsq wind sky height xcen ycen fwhm fwhm_min fwhm_fix beta thresh)\<^sup>*\<^sup>* s0 s"
    and "fitMoffat_iter leastsq wind sky height xcen ycen fwhm fwhm_min fwhm_fix beta thresh s = Raise e"
  shows "fitMoffat_loop leastsq wind sky height xcen ycen fwhm fwhm_min fwhm_fix beta thresh s0 = Some (Inl e)"
proof -
  have "fitMoffat_loop leastsq wind sky height xcen ycen fwhm fwhm_min fwhm_fix beta thresh s0
      = fitMoffat_loop leastsq wind sky height xcen ycen fwhm fwhm_min fwhm_fix beta thresh s"
    using assms(1) unfolding fitMoffat_next_def by (rule fitMoffat_loop_reach)
  also have "\<dots> = Some (Inl e)" using assms(2) by (subst fitMoffat_loop.simps) simp
  finally show ?thesis .
qed

lemma fitMoffat_loop_Break:
  assumes "(fitMoffat_next leastsq wind sky height xcen ycen fwhm fwhm_min fwhm_fix beta thresh)\<^sup>*\<^sup>* s0 s"
    and "fitMoffat_iter leastsq wind sky height xcen ycen fwhm fwhm_min fwhm_fix beta thresh s = Break r"
  shows "fitMoffat_loop leastsq wind sky height xcen ycen fwhm fwhm_min fwhm_fix beta thresh s0 = Some (Inr r)"
proof -
  have "fitMoffat_loop leastsq wind sky height xcen ycen fwhm fwhm_min fwhm_fix beta thresh s0
      = fitMoffat_loop leastsq wind sky height xcen ycen fwhm fwhm_min fwhm_fix beta thresh s"
    using assms(1) unfolding fitMoffat_next_def by (rule fitMoffat_loop_reach)
  also have "\<dots> = Some (Inr r)" using assms(2) by (subst fitMoffat_loop.simps) simp
  finally show ?thesis .
qed

text \<open>The three ways in which a pass raises the error of the solver.\<close>

lemma fitMoffat_iter_bad:
  "fwhm_fix \<and> bad_status (moffat_fixed_solve leastsq sky height xcen ycen beta fwhm s)
     \<longrightarrow> fitMoffat_iter leastsq wind sky height xcen ycen fwhm fwhm_min fwhm_fix beta thresh s
           = Raise (HipercamError (lsq_mesg (moffat_fixed_solve leastsq sky height xcen ycen beta fwhm s)))"
  "\<not> fwhm_fix \<and> bad_status (moffat_free_solve leastsq sky height xcen ycen fwhm beta s)
     \<longrightarrow> fitMoffat_iter leastsq wind sky height xcen ycen fwhm fwhm_min fwhm_fix beta thresh s
           = Raise (HipercamError (lsq_mesg (moffat_free_solve leastsq sky height xcen ycen fwhm beta s)))"
  "\<not> fwhm_fix \<and> \<not> bad_status (moffat_free_solve leastsq sky height xcen ycen fwhm beta s) \<and>
   lsq_x (moffat_free_solve leastsq sky height xcen ycen fwhm beta s) = [skyf, heightf, xf, yf, fwhmf, betaf] \<and>
   fwhmf \<le> fwhm_min \<and> bad_status (moffat_fixed_solve leastsq sky height xcen ycen beta fwhm_min s)
     \<longrightarrow> fitMoffat_iter leastsq wind sky height xcen ycen fwhm fwhm_min fwhm_fix beta thresh s
           = Raise (HipercamError (lsq_mesg (moffat_fixed_solve leastsq sky height xcen ycen beta fwhm_min s)))"
  by (auto simp: fitMoffat_iter_Raise fitMoffat_solve_fix fitMoffat_fixed_bad fitMoffat_solve_free_bad
        fitMoffat_solve_fallback)

lemma fitGaussian_fixed_Hip:
  assumes "fitGaussian_fixed leastsq sky height xcen ycen fw s = Inl (HipercamError m)"
  shows "bad_status (gauss_fixed_solve leastsq sky height xcen ycen fw s) \<and>
         m = lsq_mesg (gauss_fixed_solve leastsq sky height xcen ycen fw s)"
proof (rule ccontr)
  assume "\<not> ?thesis"
  with fitGaussian_fixed_bad[of leastsq sky height xcen ycen fw s] assms
  have nb: "\<not> bad_status (gauss_fixed_solve leastsq sky height xcen ycen fw s)" by auto
  have "fitGaussian_fixed leastsq sky height xcen ycen fw s = Inl ValueError
      \<or> (\<exists>v. fitGaussian_fixed leastsq sky height xcen ycen fw s = Inr v)"
    using nb Gfit2_model_store[of "(gfit2 s)\<lparr>g2_fwhm := fw\<rparr>" _ "gmem s"]
    unfolding fitGaussian_fixed_def Let_def leastsq_check_def bad_status_def gauss_fixed_solve_def sqrt_diag_def
    by (auto split: sum.splits prod.splits list.splits option.splits
          elim!: Gfit2_model.elims)
  with assms show False by auto
qed

lemma fitGaussian_solve_Hip:
  assumes "fitGaussian_solve leastsq sky height xcen ycen fwhm fwhm_min fwhm_fix s = Inl (HipercamError m)"
  shows "\<exists>r. (fwhm_fix \<and> r = gauss_fixed_solve leastsq sky height xcen ycen fwhm s
              \<or> \<not> fwhm_fix \<and> r = gauss_free_solve leastsq sky height xcen ycen fwhm s
              \<or> \<not> fwhm_fix \<and> \<not> bad_status (gauss_free_solve leastsq sky height xcen ycen fwhm s)
                  \<and> r = gauss_fixed_solve leastsq sky height xcen ycen fwhm_min s)
             \<and> bad_status r \<and> m = lsq_mesg r"
proof (cases fwhm_fix)
  case True
  with assms fitGaussian_fixed_Hip[of leastsq sky height xcen ycen fwhm s m]
  show ?thesis by (auto simp: fitGaussian_solve_fix)
next
  case False
  let ?r = "gauss_free_solve leastsq sky height xcen ycen fwhm s"
  show ?thesis
  proof (cases "bad_status ?r")
    case True
    with assms False fitGaussian_solve_free_bad[of fwhm_fix leastsq sky height xcen ycen fwhm s fwhm_min]
    show ?thesis by auto
  next
    case nb: False
    have "fitGaussian_solve leastsq sky height xcen ycen fwhm fwhm_min fwhm_fix s = Inl ValueError
        \<or> (\<exists>v. fitGaussian_solve leastsq sky height xcen ycen fwhm fwhm_min fwhm_fix s = Inr v)
        \<or> fitGaussian_solve leastsq sky height xcen ycen fwhm fwhm_min fwhm_fix s
             = fitGaussian_fixed leastsq sky height xcen ycen fwhm_min s"
      using nb False Gfit1_model_store[of "gfit1 s" _ "gmem s"]
      unfolding fitGaussian_solve_def Let_def leastsq_check_def bad_status_def gauss_free_solve_def sqrt_diag_def
      by (auto split: sum.splits prod.splits list.splits option.splits elim!: Gfit1_model.elims)
    with assms have "fitGaussian_fixed leastsq sky height xcen ycen fwhm_min s = Inl (HipercamError m)"
      by auto
    from fitGaussian_fixed_Hip[OF this] nb False show ?thesis by blast
  qed
qed

lemma fitGaussian_loop_Raise:
  assumes "(fitGaussian_next leastsq wind sky height xcen ycen fwhm fwhm_min fwhm_fix thresh)\<^sup>*\<^sup>* s0 s"
    and "fitGaussian_iter leastsq wind sky height xcen ycen fwhm fwhm_min fwhm_fix thresh s = Raise e"
  shows "fitGaussian_loop leastsq wind sky height xcen ycen fwhm fwhm_min fwhm_fix thresh s0 = Some (Inl e)"
proof -
  have "fitGaussian_loop leastsq wind sky height xcen ycen fwhm fwhm_min fwhm_fix thresh s0
      = fitGaussian_loop leastsq wind sky height xcen ycen fwhm fwhm_min fwhm_fix thresh s"
    using assms(1) unfolding fitGaussian_next_def by (rule fitGaussian_loop_reach)
  also have "\<dots> = Some (Inl e)" using assms(2) by (subst fitGaussian_loop.simps) simp
  finally show ?thesis .
qed

lemma fitGaussian_loop_Break:
  assumes "(fitGaussian_next leastsq wind sky height xcen ycen fwhm fwhm_min fwhm_fix thresh)\<^sup>*\<^sup>* s0 s"
    and "fitGaussian_iter leastsq wind sky height xcen ycen fwhm fwhm_min fwhm_fix thresh s = Break r"
  shows "fitGaussian_loop leastsq wind sky height xcen ycen fwhm fwhm_min fwhm_fix thresh s0 = Some (Inr r)"
proof -
  have "fitGaussian_loop leastsq wind sky height xcen ycen fwhm fwhm_min fwhm_fix thresh s0
      = fitGaussian_loop leastsq wind sky height xcen ycen fwhm fwhm_min fwhm_fix thresh s"
    using assms(1) unfolding fitGaussian_next_def by (rule fitGaussian_loop_reach)
  also have "\<dots> = Some (Inr r)" using assms(2) by (subst fitGaussian_loop.simps) simp
  finally show ?thesis .
qed

lemma fitGaussian_iter_bad:
  "fwhm_fix \<and> bad_status (gauss_fixed_solve leastsq sky height xcen ycen fwhm s)
     \<longrightarrow> fitGaussian_iter leastsq wind sky height xcen ycen fwhm fwhm_min fwhm_fix thresh s
           = Raise (HipercamError (lsq_mesg (gauss_fixed_solve leastsq sky height xcen ycen fwhm s)))"
  "\<not> fwhm_fix \<and> bad_status (gauss_free_solve leastsq sky height xcen ycen fwhm s)
     \<longrightarrow> fitGaussian_iter leastsq wind sky height xcen ycen fwhm fwhm_min fwhm_fix thresh s
           = Raise (HipercamError (lsq_mesg (gauss_free_solve leastsq sky height xcen ycen fwhm s)))"
  "\<not> fwhm_fix \<and> \<not> bad_status (gauss_free_solve leastsq sky height xcen ycen fwhm s) \<and>
   lsq_x (gauss_free_solve leastsq sky height xcen ycen fwhm s) = [skyf, heightf, xf, yf, fwhmf] \<and>
   fwhmf \<le> fwhm_min \<and> bad_status (gauss_fixed_solve leastsq sky height xcen ycen fwhm_min s)
     \<longrightarrow> fitGaussian_iter leastsq wind sky height xcen ycen fwhm fwhm_min fwhm_fix thresh s
           = Raise (HipercamError (lsq_mesg (gauss_fixed_solve leastsq sky height xcen ycen fwhm_min s)))"
  by (auto simp: fitGaussian_iter_Raise fitGaussian_solve_fix fitGaussian_fixed_bad fitGaussian_solve_free_bad
        fitGaussian_solve_fallback)

text \<open>
  Claim C7. The call of the solver with its check raises exactly when the status code lies
  outside 1 to 4, and then it raises \<^verbatim>\<open>HipercamError\<close> with the message of the solver. This
  holds for each solve of a pass: the fixed-FWHM solve of a call with \<^verbatim>\<open>fwhm_fix\<close>, the
  free-FWHM solve, and the fixed-FWHM solve that follows a free solve below the floor; so it
  holds in every pass of the rejection loop. Whenever a pass raises, the fit call as a whole
  ends with that error and returns no result; and a pass raises \<^verbatim>\<open>HipercamError\<close> only when
  one of its solves had such a status code.
\<close>

theorem solver_failure_aborts:
  "((\<exists>e. leastsq_check leastsq f d p = Inl e)
      \<longleftrightarrow> lsq_ier (leastsq f d p) < 1 \<or> lsq_ier (leastsq f d p) > 4) \<and>
   (bad_status r \<longleftrightarrow> lsq_ier r < 1 \<or> lsq_ier r > 4) \<and>
   (leastsq_check leastsq f d p = Inl e \<longrightarrow> e = HipercamError (lsq_mesg (leastsq f d p))) \<and>
   (fwhm_fix \<and> bad_status (moffat_fixed_solve leastsq sky height xcen ycen beta fwhm s)
     \<longrightarrow> fitMoffat_iter leastsq wind sky height xcen ycen fwhm fwhm_min fwhm_fix beta thresh s
           = Raise (HipercamError (lsq_mesg (moffat_fixed_solve leastsq sky height xcen ycen beta fwhm s)))) \<and>
   (\<not> fwhm_fix \<and> bad_status (moffat_free_solve leastsq sky height xcen ycen fwhm beta s)
     \<longrightarrow> fitMoffat_iter leastsq wind sky height xcen ycen fwhm fwhm_min fwhm_fix beta thresh s
           = Raise (HipercamError (lsq_mesg (moffat_free_solve leastsq sky height xcen ycen fwhm beta s)))) \<and>
   (\<not> fwhm_fix \<and> \<not> bad_status (moffat_free_solve leastsq sky height xcen ycen fwhm beta s) \<and>
    lsq_x (moffat_free_solve leastsq sky height xcen ycen fwhm beta s) = [skyf, heightf, xf, yf, fwhmf, betaf] \<and>
    fwhmf \<le> fwhm_min \<and> bad_status (moffat_fixed_solve leastsq sky height xcen ycen beta fwhm_min s)
     \<longrightarrow> fitMoffat_iter leastsq wind sky height xcen ycen fwhm fwhm_min fwhm_fix beta thresh s
           = Raise (HipercamError (lsq_mesg (moffat_fixed_solve leastsq sky height xcen ycen beta fwhm_min s)))) \<and>
   (fitMoffat_iter leastsq wind sky height xcen ycen fwhm fwhm_min fwhm_fix beta thresh s
      = Raise (HipercamError m)
     \<longrightarrow> (\<exists>r. (fwhm_fix \<and> r = moffat_fixed_solve leastsq sky height xcen ycen beta fwhm s
              \<or> \<not> fwhm_fix \<and> r = moffat_free_solve leastsq sky height xcen ycen fwhm beta s
              \<or> \<not> fwhm_fix \<and> \<not> bad_status (moffat_free_solve leastsq sky height xcen ycen fwhm beta s)
                  \<and> r = moffat_fixed_solve leastsq sky height xcen ycen beta fwhm_min s)
             \<and> bad_status r \<and> m = lsq_mesg r)) \<and>
   ((fitMoffat_next leastsq wind sky height xcen ycen fwhm fwhm_min fwhm_fix beta thresh)\<^sup>*\<^sup>* s0 s \<and>
    fitMoffat_iter leastsq wind sky height xcen ycen fwhm fwhm_min fwhm_fix beta thresh s = Raise e
     \<longrightarrow> fitMoffat_loop leastsq wind sky height xcen ycen fwhm fwhm_min fwhm_fix beta thresh s0
           = Some (Inl e)) \<and>
   (fwhm_fix \<and> bad_status (gauss_fixed_solve leastsq sky height xcen ycen fwhm gs)
     \<longrightarrow> fitGaussian_iter leastsq wind sky height xcen ycen fwhm fwhm_min fwhm_fix thresh gs
           = Raise (HipercamError (lsq_mesg (gauss_fixed_solve leastsq sky height xcen ycen fwhm gs)))) \<and>
   (\<not> fwhm_fix \<and> bad_status (gauss_free_solve leastsq sky height xcen ycen fwhm gs)
     \<longrightarrow> fitGaussian_iter leastsq wind sky height xcen ycen fwhm fwhm_min fwhm_fix thresh gs
           = Raise (HipercamError (lsq_mesg (gauss_free_solve leastsq sky height xcen ycen fwhm gs)))) \<and>
   (\<not> fwhm_fix \<and> \<not> bad_status (gauss_free_solve leastsq sky height xcen ycen fwhm gs) \<and>
    lsq_x (gauss_free_solve leastsq sky height xcen ycen fwhm gs) = [gskyf, gheightf, gxf, gyf, gfwhmf] \<and>
    gfwhmf \<le> fwhm_min \<and> bad_status (gauss_fixed_solve leastsq sky height xcen ycen fwhm_min gs)
     \<longrightarrow> fitGaussian_iter leastsq wind sky height xcen ycen fwhm fwhm_min fwhm_fix thresh gs
           = Raise (HipercamError (lsq_mesg (gauss_fixed_solve leastsq sky height xcen ycen fwhm_min gs)))) \<and>
   (fitGaussian_iter leastsq wind sky height xcen ycen fwhm fwhm_min fwhm_fix thresh gs
      = Raise (HipercamError gm)
     \<longrightarrow> (\<exists>r. (fwhm_fix \<and> r = gauss_fixed_solve leastsq sky height xcen ycen fwhm gs
              \<or> \<not> fwhm_fix \<and> r = gauss_free_solve leastsq sky height xcen ycen fwhm gs
              \<or> \<not> fwhm_fix \<and> \<not> bad_status (gauss_free_solve leastsq sky height xcen ycen fwhm gs)
                  \<and> r = gauss_fixed_solve leastsq sky height xcen ycen fwhm_min gs)
             \<and> bad_status r \<and> gm = lsq_mesg r)) \<and>
   ((fitGaussian_next leastsq wind sky height xcen ycen fwhm fwhm_min fwhm_fix thresh)\<^sup>*\<^sup>* gs0 gs \<and>
    fitGaussian_iter leastsq wind sky height xcen ycen fwhm fwhm_min fwhm_fix thresh gs = Raise ge
     \<longrightarrow> fitGaussian_loop leastsq wind sky height xcen ycen fwhm fwhm_min fwhm_fix thresh gs0
           = Some (Inl ge))"
proof -
  have 1: "(\<exists>e. leastsq_check leastsq f d p = Inl e)
      \<longleftrightarrow> lsq_ier (leastsq f d p) < 1 \<or> lsq_ier (leastsq f d p) > 4"
    by (auto simp: leastsq_check_def Let_def)
  have 2: "bad_status r \<longleftrightarrow> lsq_ier r < 1 \<or> lsq_ier r > 4" by (simp add: bad_status_def)
  have 3: "leastsq_check leastsq f d p = Inl e \<longrightarrow> e = HipercamError (lsq_mesg (leastsq f d p))"
    by (simp add: leastsq_check_Inl)
  have 4: "fitMoffat_iter leastsq wind sky height xcen ycen fwhm fwhm_min fwhm_fix beta thresh s
      = Raise (HipercamError m)
     \<longrightarrow> (\<exists>r. (fwhm_fix \<and> r = moffat_fixed_solve leastsq sky height xcen ycen beta fwhm s
              \<or> \<not> fwhm_fix \<and> r = moffat_free_solve leastsq sky height xcen ycen fwhm beta s
              \<or> \<not> fwhm_fix \<and> \<not> bad_status (moffat_free_solve leastsq sky height xcen ycen fwhm beta s)
                  \<and> r = moffat_fixed_solve leastsq sky height xcen ycen beta fwhm_min s)
             \<and> bad_status r \<and> m = lsq_mesg r)"
    unfolding fitMoffat_iter_Raise by (rule impI) (rule fitMoffat_solve_Hip)
  have 5: "fitGaussian_iter leastsq wind sky height xcen ycen fwhm fwhm_min fwhm_fix thresh gs
      = Raise (HipercamError gm)
     \<longrightarrow> (\<exists>r. (fwhm_fix \<and> r = gauss_fixed_solve leastsq sky height xcen ycen fwhm gs
              \<or> \<not> fwhm_fix \<and> r = gauss_free_solve leastsq sky height xcen ycen fwhm gs
              \<or> \<not> fwhm_fix \<and> \<not> bad_status (gauss_free_solve leastsq sky height xcen ycen fwhm gs)
                  \<and> r = gauss_fixed_solve leastsq sky height xcen ycen fwhm_min gs)
             \<and> bad_status r \<and> gm = lsq_mesg r)"
    unfolding fitGaussian_iter_Raise by (rule impI) (rule fitGaussian_solve_Hip)
  have 6: "(fitMoffat_next leastsq wind sky height xcen ycen fwhm fwhm_min fwhm_fix beta thresh)\<^sup>*\<^sup>* s0 s \<and>
    fitMoffat_iter leastsq wind sky height xcen ycen fwhm fwhm_min fwhm_fix beta thresh s = Raise e
     \<longrightarrow> fitMoffat_loop leastsq wind sky height xcen ycen fwhm fwhm_min fwhm_fix beta thresh s0
           = Some (Inl e)"
    using fitMoffat_loop_Raise by blast
  have 7: "(fitGaussian_next leastsq wind sky height xcen ycen fwhm fwhm_min fwhm_fix thresh)\<^sup>*\<^sup>* gs0 gs \<and>
    fitGaussian_iter leastsq wind sky height xcen ycen fwhm fwhm_min fwhm_fix thresh gs = Raise ge
     \<longrightarrow> fitGaussian_loop leastsq wind sky height xcen ycen fwhm fwhm_min fwhm_fix thresh gs0
           = Some (Inl ge)"
    using fitGaussian_loop_Raise by blast
  show ?thesis
    by (intro conjI 1 2 3 4 5 6 7 fitMoffat_iter_bad fitGaussian_iter_bad)
qed

theorem solver_failure_aborts_witness:
  "\<not> False \<and> bad_status (moffat_free_solve ex_failing 0 0 1 1 2 2 ex_m0) \<and>
   (fitMoffat_next ex_failing ex_wind 0 0 1 1 2 1 False 2 2)\<^sup>*\<^sup>* ex_m0 ex_m0 \<and>
   fitMoffat_iter ex_failing ex_wind 0 0 1 1 2 1 False 2 2 ex_m0 = Raise (HipercamError ''maxfev reached'') \<and>
   fitMoffat_loop ex_failing ex_wind 0 0 1 1 2 1 False 2 2 ex_m0 = Some (Inl (HipercamError ''maxfev reached'')) \<and>
   bad_status (gauss_fixed_solve ex_failing 0 0 1 1 2 ex_g0) \<and>
   fitGaussian_iter ex_failing ex_wind 0 0 1 1 2 1 True 1 ex_g0 = Raise (HipercamError ''maxfev reached'') \<and>
   fitGaussian_loop ex_failing ex_wind 0 0 1 1 2 1 True 1 ex_g0 = Some (Inl (HipercamError ''maxfev reached'')) \<and>
   (\<exists>e. leastsq_check ex_failing (\<lambda>_. Inl ValueError) (\<lambda>_. Inl ValueError) [0, 0, 1, 1] = Inl e) \<and>
   \<not> (\<exists>e. leastsq_check ex_leastsq (\<lambda>_. Inl ValueError) (\<lambda>_. Inl ValueError) [0, 0, 1, 1] = Inl e)"
proof -
  have b: "bad_status (moffat_free_solve ex_failing 0 0 1 1 2 2 ex_m0)"
    "bad_status (gauss_fixed_solve ex_failing 0 0 1 1 2 ex_g0)"
    "lsq_mesg (moffat_free_solve ex_failing 0 0 1 1 2 2 ex_m0) = ''maxfev reached''"
    "lsq_mesg (gauss_fixed_solve ex_failing 0 0 1 1 2 ex_g0) = ''maxfev reached''"
    "lsq_ier (ex_failing (\<lambda>_. Inl ValueError) (\<lambda>_. Inl ValueError) [0, 0, 1, 1]) = 5" "lsq_ier (ex_leastsq (\<lambda>_. Inl ValueError) (\<lambda>_. Inl ValueError) [0, 0, 1, 1]) = 1"
    by (simp_all add: bad_status_def moffat_free_solve_def gauss_fixed_solve_def ex_failing_def ex_leastsq_def)
  note t1 = solver_failure_aborts[where leastsq = ex_failing and wind = ex_wind and sky = 0 and height = 0
      and xcen = 1 and ycen = 1 and fwhm = 2 and fwhm_min = 1 and fwhm_fix = False and beta = 2
      and thresh = 2 and s = ex_m0 and ?s0.0 = ex_m0 and f = "\<lambda>_. Inl ValueError" and d = "\<lambda>_. Inl ValueError" and p = "[0, 0, 1, 1]"
      and e = "HipercamError ''maxfev reached''"]
  note t2 = solver_failure_aborts[where leastsq = ex_failing and wind = ex_wind and sky = 0 and height = 0
      and xcen = 1 and ycen = 1 and fwhm = 2 and fwhm_min = 1 and fwhm_fix = True
      and thresh = 1 and gs = ex_g0 and ?gs0.0 = ex_g0 and ge = "HipercamError ''maxfev reached''"]
  note t3 = solver_failure_aborts[where leastsq = ex_leastsq and f = "\<lambda>_. Inl ValueError" and d = "\<lambda>_. Inl ValueError" and p = "[0, 0, 1, 1]"]
  from t1[THEN conjunct2, THEN conjunct2, THEN conjunct2, THEN conjunct2, THEN conjunct1] b
  have m: "fitMoffat_iter ex_failing ex_wind 0 0 1 1 2 1 False 2 2 ex_m0 = Raise (HipercamError ''maxfev reached'')"
    by simp
  with t1[THEN conjunct2, THEN conjunct2, THEN conjunct2, THEN conjunct2, THEN conjunct2, THEN conjunct2, THEN conjunct2, THEN conjunct1]
  have ml: "fitMoffat_loop ex_failing ex_wind 0 0 1 1 2 1 False 2 2 ex_m0 = Some (Inl (HipercamError ''maxfev reached''))"
    by simp
  from t2[THEN conjunct2, THEN conjunct2, THEN conjunct2, THEN conjunct2, THEN conjunct2, THEN conjunct2, THEN conjunct2, THEN conjunct2, THEN conjunct1] b
  have g: "fitGaussian_iter ex_failing ex_wind 0 0 1 1 2 1 True 1 ex_g0 = Raise (HipercamError ''maxfev reached'')"
    by simp
  with t2[THEN conjunct2, THEN conjunct2, THEN conjunct2, THEN conjunct2, THEN conjunct2, THEN conjunct2, THEN conjunct2, THEN conjunct2, THEN conjunct2, THEN conjunct2, THEN conjunct2, THEN conjunct2]
  have gl: "fitGaussian_loop ex_failing ex_wind 0 0 1 1 2 1 True 1 ex_g0 = Some (Inl (HipercamError ''maxfev reached''))"
    by simp
  from t1[THEN conjunct1] b have c1: "\<exists>e. leastsq_check ex_failing (\<lambda>_. Inl ValueError) (\<lambda>_. Inl ValueError) [0, 0, 1, 1] = Inl e" by simp
  from t3[THEN conjunct1] b have c2: "\<not> (\<exists>e. leastsq_check ex_leastsq (\<lambda>_. Inl ValueError) (\<lambda>_. Inl ValueError) [0, 0, 1, 1] = Inl e)" by simp
  from b m ml g gl c1 c2 show ?thesis by simp
qed

section \<open>Termination of the rejection loop\<close>

lemma count_ok_le_length: "count_ok sg \<le> length sg"
  by (simp add: count_ok_filter)

lemma fitMoffat_passes_bound:
  assumes "((fitMoffat_next leastsq wind sky height xcen ycen fwhm fwhm_min fwhm_fix beta thresh) ^^ k) s0 s"
  shows "mfit1 s = mfit1 s0 \<and>
         count_ok (cells (mem s) (m1_sigma (mfit1 s0))) + k \<le> count_ok (cells (mem s0) (m1_sigma (mfit1 s0)))"
  using assms
proof (induction k arbitrary: s)
  case 0
  then show ?case by simp
next
  case (Suc k)
  from Suc.prems obtain y where y: "((fitMoffat_next leastsq wind sky height xcen ycen fwhm fwhm_min fwhm_fix beta thresh) ^^ k) s0 y"
    and nx: "fitMoffat_next leastsq wind sky height xcen ycen fwhm fwhm_min fwhm_fix beta thresh y s"
    by auto
  from nx have st: "fitMoffat_iter leastsq wind sky height xcen ycen fwhm fwhm_min fwhm_fix beta thresh y = Continue s"
    by (simp add: fitMoffat_next_def)
  from Suc.IH[OF y] fitMoffat_iter_Continue[OF st] show ?case by simp
qed

lemma fitMoffat_init_reach_ok:
  assumes "window_ok wind st"
    and "(fitMoffat_next leastsq wind sky height xcen ycen fwhm fwhm_min fwhm_fix beta thresh)\<^sup>*\<^sup>*
           (fitMoffat_init wind fwhm read gain st) s"
  shows "moffat_ok wind s"
  using fitMoffat_reach_ok[OF assms(2) fitMoffat_init_ok[OF assms(1)]] .

text \<open>A pass breaks exactly when no included pixel exceeds the bound.\<close>

lemma fitMoffat_iter_Break_iff:
  assumes sol: "fitMoffat_solve leastsq sky height xcen ycen fwhm fwhm_min fwhm_fix beta s
             = Inr ((fit, soln, pf, pe), s1)"
    and ok: "moffat_ok wind s"
  shows "(\<exists>r. fitMoffat_iter leastsq wind sky height xcen ycen fwhm fwhm_min fwhm_fix beta thresh s = Break r)
     \<longleftrightarrow> (\<forall>i\<in>included (cells (mem s) (m1_sigma (mfit1 s))).
            \<not> \<bar>spec_resid (cells (mem s) (wdata wind)) fit (cells (mem s) (m1_sigma (mfit1 s))) i\<bar>
               > spec_sfac (cells (mem s) (wdata wind)) fit (cells (mem s) (m1_sigma (mfit1 s))) (length soln) * thresh)"
proof -
  obtain a b c d e f where pe: "pe = (a, b, c, d, e, f)" by (cases pe) auto
  note eq = fitMoffat_iter_eq[OF sol[unfolded pe] ok, of thresh]
  show ?thesis
    unfolding rejected_unchanged_iff[symmetric] eq by (cases pf) auto
qed

lemma fitGaussian_passes_bound:
  assumes "((fitGaussian_next leastsq wind sky height xcen ycen fwhm fwhm_min fwhm_fix thresh) ^^ k) s0 s"
  shows "gfit1 s = gfit1 s0 \<and>
         count_ok (cells (gmem s) (g1_sigma (gfit1 s0))) + k \<le> count_ok (cells (gmem s0) (g1_sigma (gfit1 s0)))"
  using assms
proof (induction k arbitrary: s)
  case 0
  then show ?case by simp
next
  case (Suc k)
  from Suc.prems obtain y where y: "((fitGaussian_next leastsq wind sky height xcen ycen fwhm fwhm_min fwhm_fix thresh) ^^ k) s0 y"
    and nx: "fitGaussian_next leastsq wind sky height xcen ycen fwhm fwhm_min fwhm_fix thresh y s"
    by auto
  from nx have st: "fitGaussian_iter leastsq wind sky height xcen ycen fwhm fwhm_min fwhm_fix thresh y = Continue s"
    by (simp add: fitGaussian_next_def)
  from Suc.IH[OF y] fitGaussian_iter_Continue[OF st] show ?case by simp
qed

lemma fitGaussian_init_reach_ok:
  assumes "window_ok wind st"
    and "(fitGaussian_next leastsq wind sky height xcen ycen fwhm fwhm_min fwhm_fix thresh)\<^sup>*\<^sup>*
           (fitGaussian_init wind fwhm read gain st) s"
  shows "gauss_ok wind s"
  using fitGaussian_reach_ok[OF assms(2) fitGaussian_init_ok[OF assms(1)]] .

lemma fitGaussian_iter_Break_iff:
  assumes sol: "fitGaussian_solve leastsq sky height xcen ycen fwhm fwhm_min fwhm_fix s
             = Inr ((fit, soln, pf, pe), s1)"
    and ok: "gauss_ok wind s"
  shows "(\<exists>r. fitGaussian_iter leastsq wind sky height xcen ycen fwhm fwhm_min fwhm_fix thresh s = Break r)
     \<longleftrightarrow> (\<forall>i\<in>included (cells (gmem s) (g1_sigma (gfit1 s))).
            \<not> \<bar>spec_resid (cells (gmem s) (wdata wind)) fit (cells (gmem s) (g1_sigma (gfit1 s))) i\<bar>
               > spec_sfac (cells (gmem s) (wdata wind)) fit (cells (gmem s) (g1_sigma (gfit1 s))) (length soln) * thresh)"
proof -
  obtain a b c d e where pe: "pe = (a, b, c, d, e)" by (cases pe) auto
  note eq = fitGaussian_iter_eq[OF sol[unfolded pe] ok, of thresh]
  show ?thesis
    unfolding rejected_unchanged_iff[symmetric] eq by (cases pf) auto
qed


text \<open>A pass breaks exactly when it leaves the sigma array as it was.\<close>

lemma fitMoffat_iter_Break_unchanged:
  assumes it: "fitMoffat_iter leastsq wind sky height xcen ycen fwhm fwhm_min fwhm_fix beta thresh s = Continue s'
         \<or> fitMoffat_iter leastsq wind sky height xcen ycen fwhm fwhm_min fwhm_fix beta thresh s = Break (r, s')"
    and ok: "moffat_ok wind s"
  shows "fitMoffat_iter leastsq wind sky height xcen ycen fwhm fwhm_min fwhm_fix beta thresh s = Break (r, s')
     \<longleftrightarrow> cells (mem s') (m1_sigma (mfit1 s)) = cells (mem s) (m1_sigma (mfit1 s))"
proof -
  let ?a = "m1_sigma (mfit1 s)"
  let ?sg = "cells (mem s) ?a"
  from fitMoffat_iter_sigma[OF it ok] obtain fit soln pf pe s1 where
    sol: "fitMoffat_solve leastsq sky height xcen ycen fwhm fwhm_min fwhm_fix beta s
             = Inr ((fit, soln, pf, pe), s1)"
    and c: "cells (mem s') = (cells (mem s))(?a :=
               map (spec_rejected (cells (mem s) (wdata wind)) fit ?sg (length soln) thresh) [0..<length ?sg])"
    by auto
  let ?sg' = "map (spec_rejected (cells (mem s) (wdata wind)) fit ?sg (length soln) thresh) [0..<length ?sg]"
  obtain e1 e2 e3 e4 e5 e6 where pe: "pe = (e1, e2, e3, e4, e5, e6)" by (cases pe) auto
  note eq = fitMoffat_iter_eq[OF sol[unfolded pe] ok, of thresh]
  have new: "cells (mem s') ?a = ?sg'" by (simp add: c)
  show ?thesis
  proof (cases "?sg' = ?sg")
    case True
    with eq it have "fitMoffat_iter leastsq wind sky height xcen ycen fwhm fwhm_min fwhm_fix beta thresh s = Break (r, s')"
      by auto
    with True new show ?thesis by simp
  next
    case False
    with eq have "fitMoffat_iter leastsq wind sky height xcen ycen fwhm fwhm_min fwhm_fix beta thresh s \<noteq> Break (r, s')"
      by simp
    with False new show ?thesis by simp
  qed
qed

lemma fitGaussian_iter_Break_unchanged:
  assumes it: "fitGaussian_iter leastsq wind sky height xcen ycen fwhm fwhm_min fwhm_fix thresh s = Continue s'
         \<or> fitGaussian_iter leastsq wind sky height xcen ycen fwhm fwhm_min fwhm_fix thresh s = Break (r, s')"
    and ok: "gauss_ok wind s"
  shows "fitGaussian_iter leastsq wind sky height xcen ycen fwhm fwhm_min fwhm_fix thresh s = Break (r, s')
     \<longleftrightarrow> cells (gmem s') (g1_sigma (gfit1 s)) = cells (gmem s) (g1_sigma (gfit1 s))"
proof -
  let ?a = "g1_sigma (gfit1 s)"
  let ?sg = "cells (gmem s) ?a"
  from fitGaussian_iter_sigma[OF it ok] obtain fit soln pf pe s1 where
    sol: "fitGaussian_solve leastsq sky height xcen ycen fwhm fwhm_min fwhm_fix s
             = Inr ((fit, soln, pf, pe), s1)"
    and c: "cells (gmem s') = (cells (gmem s))(?a :=
               map (spec_rejected (cells (gmem s) (wdata wind)) fit ?sg (length soln) thresh) [0..<length ?sg])"
    by auto
  let ?sg' = "map (spec_rejected (cells (gmem s) (wdata wind)) fit ?sg (length soln) thresh) [0..<length ?sg]"
  obtain e1 e2 e3 e4 e5 where pe: "pe = (e1, e2, e3, e4, e5)" by (cases pe) auto
  note eq = fitGaussian_iter_eq[OF sol[unfolded pe] ok, of thresh]
  have new: "cells (gmem s') ?a = ?sg'" by (simp add: c)
  show ?thesis
  proof (cases "?sg' = ?sg")
    case True
    with eq it have "fitGaussian_iter leastsq wind sky height xcen ycen fwhm fwhm_min fwhm_fix thresh s = Break (r, s')"
      by auto
    with True new show ?thesis by simp
  next
    case False
    with eq have "fitGaussian_iter leastsq wind sky height xcen ycen fwhm fwhm_min fwhm_fix thresh s \<noteq> Break (r, s')"
      by simp
    with False new show ?thesis by simp
  qed
qed


text \<open>
  Claim C8. Whatever the solver returns, the loop of \<^verbatim>\<open>fitMoffat\<close> and of \<^verbatim>\<open>fitGaussian\<close>
  ends: the partial function that models \<^verbatim>\<open>while True:\<close> has a value (a result or an
  error) on every input. The reason is the one the claim gives: a pass that does not end the
  loop leaves strictly fewer included pixels; their number is at most the size of the sigma
  array, so \<open>k\<close> passes in a row need \<open>k\<close> to be at most the number of pixels included at the
  start. A pass whose solve succeeded, with more included pixels than parameters (the domain
  on which the scale factor is a real number, as in claim C2), breaks exactly when no included
  pixel exceeds the bound; and any pass that gets to the rejection step breaks exactly when
  it leaves the sigma array as it was, that is when it rejects no new pixel.
\<close>

theorem rejection_loop_terminates:
  "(\<exists>r. fitMoffat leastsq wind sky height xcen ycen fwhm fwhm_min fwhm_fix beta read gain thresh st = Some r) \<and>
   (\<exists>r. fitMoffat_loop leastsq wind sky height xcen ycen fwhm fwhm_min fwhm_fix beta thresh s = Some r) \<and>
   (fitMoffat_iter leastsq wind sky height xcen ycen fwhm fwhm_min fwhm_fix beta thresh s = Continue s'
      \<longrightarrow> mfit1 s' = mfit1 s \<and> count_ok (cells (mem s') (m1_sigma (mfit1 s'))) < count_ok (cells (mem s) (m1_sigma (mfit1 s)))) \<and>
   count_ok (cells (mem s) (m1_sigma (mfit1 s))) \<le> length (cells (mem s) (m1_sigma (mfit1 s))) \<and>
   (((fitMoffat_next leastsq wind sky height xcen ycen fwhm fwhm_min fwhm_fix beta thresh) ^^ k) s0 s
      \<longrightarrow> k \<le> count_ok (cells (mem s0) (m1_sigma (mfit1 s0)))) \<and>
   (window_ok wind st \<and>
    (fitMoffat_next leastsq wind sky height xcen ycen fwhm fwhm_min fwhm_fix beta thresh)\<^sup>*\<^sup>* (fitMoffat_init wind fwhm read gain st) s \<and>
    fitMoffat_solve leastsq sky height xcen ycen fwhm fwhm_min fwhm_fix beta s = Inr ((fit, soln, pf, pe), s1) \<and>
    length soln < card (included (cells (mem s) (m1_sigma (mfit1 s))))
      \<longrightarrow> ((\<exists>r. fitMoffat_iter leastsq wind sky height xcen ycen fwhm fwhm_min fwhm_fix beta thresh s = Break r)
           \<longleftrightarrow> (\<forall>i\<in>included (cells (mem s) (m1_sigma (mfit1 s))).
                  \<not> \<bar>spec_resid (cells (mem s) (wdata wind)) fit (cells (mem s) (m1_sigma (mfit1 s))) i\<bar>
                     > spec_sfac (cells (mem s) (wdata wind)) fit (cells (mem s) (m1_sigma (mfit1 s))) (length soln) * thresh))) \<and>
   (\<exists>r. fitGaussian leastsq wind sky height xcen ycen fwhm fwhm_min fwhm_fix read gain thresh st = Some r) \<and>
   (\<exists>r. fitGaussian_loop leastsq wind sky height xcen ycen fwhm fwhm_min fwhm_fix thresh gs = Some r) \<and>
   (fitGaussian_iter leastsq wind sky height xcen ycen fwhm fwhm_min fwhm_fix thresh gs = Continue gs'
      \<longrightarrow> gfit1 gs' = gfit1 gs \<and> count_ok (cells (gmem gs') (g1_sigma (gfit1 gs'))) < count_ok (cells (gmem gs) (g1_sigma (gfit1 gs)))) \<and>
   count_ok (cells (gmem gs) (g1_sigma (gfit1 gs))) \<le> length (cells (gmem gs) (g1_sigma (gfit1 gs))) \<and>
   (((fitGaussian_next leastsq wind sky height xcen ycen fwhm fwhm_min fwhm_fix thresh) ^^ gk) gs0 gs
      \<longrightarrow> gk \<le> count_ok (cells (gmem gs0) (g1_sigma (gfit1 gs0)))) \<and>
   (window_ok wind st \<and>
    (fitGaussian_next leastsq wind sky height xcen ycen fwhm fwhm_min fwhm_fix thresh)\<^sup>*\<^sup>* (fitGaussian_init wind fwhm read gain st) gs \<and>
    fitGaussian_solve leastsq sky height xcen ycen fwhm fwhm_min fwhm_fix gs = Inr ((gfit, gsoln, gpf, gpe), gs1) \<and>
    length gsoln < card (included (cells (gmem gs) (g1_sigma (gfit1 gs))))
      \<longrightarrow> ((\<exists>r. fitGaussian_iter leastsq wind sky height xcen ycen fwhm fwhm_min fwhm_fix thresh gs = Break r)
           \<longleftrightarrow> (\<forall>i\<in>included (cells (gmem gs) (g1_sigma (gfit1 gs))).
                  \<not> \<bar>spec_resid (cells (gmem gs) (wdata wind)) gfit (cells (gmem gs) (g1_sigma (gfit1 gs))) i\<bar>
                     > spec_sfac (cells (gmem gs) (wdata wind)) gfit (cells (gmem gs) (g1_sigma (gfit1 gs))) (length gsoln) * thresh))) \<and>
   (window_ok wind st \<and>
    (fitMoffat_next leastsq wind sky height xcen ycen fwhm fwhm_min fwhm_fix beta thresh)\<^sup>*\<^sup>* (fitMoffat_init wind fwhm read gain st) s \<and>
    (fitMoffat_iter leastsq wind sky height xcen ycen fwhm fwhm_min fwhm_fix beta thresh s = Continue s' \<or>
     fitMoffat_iter leastsq wind sky height xcen ycen fwhm fwhm_min fwhm_fix beta thresh s = Break (r, s'))
      \<longrightarrow> (fitMoffat_iter leastsq wind sky height xcen ycen fwhm fwhm_min fwhm_fix beta thresh s = Break (r, s')
           \<longleftrightarrow> cells (mem s') (m1_sigma (mfit1 s)) = cells (mem s) (m1_sigma (mfit1 s)))) \<and>
   (window_ok wind st \<and>
    (fitGaussian_next leastsq wind sky height xcen ycen fwhm fwhm_min fwhm_fix thresh)\<^sup>*\<^sup>* (fitGaussian_init wind fwhm read gain st) gs \<and>
    (fitGaussian_iter leastsq wind sky height xcen ycen fwhm fwhm_min fwhm_fix thresh gs = Continue gs' \<or>
     fitGaussian_iter leastsq wind sky height xcen ycen fwhm fwhm_min fwhm_fix thresh gs = Break (gr, gs'))
      \<longrightarrow> (fitGaussian_iter leastsq wind sky height xcen ycen fwhm fwhm_min fwhm_fix thresh gs = Break (gr, gs')
           \<longleftrightarrow> cells (gmem gs') (g1_sigma (gfit1 gs)) = cells (gmem gs) (g1_sigma (gfit1 gs))))"
proof -
  have m1: "(\<exists>r. fitMoffat leastsq wind sky height xcen ycen fwhm fwhm_min fwhm_fix beta read gain thresh st = Some r)"
    unfolding fitMoffat_def by (rule fitMoffat_loop_returns)
  have m2: "(\<exists>r. fitMoffat_loop leastsq wind sky height xcen ycen fwhm fwhm_min fwhm_fix beta thresh s = Some r)"
    by (rule fitMoffat_loop_returns)
  have m3: "(fitMoffat_iter leastsq wind sky height xcen ycen fwhm fwhm_min fwhm_fix beta thresh s = Continue s'
      \<longrightarrow> mfit1 s' = mfit1 s \<and> count_ok (cells (mem s') (m1_sigma (mfit1 s'))) < count_ok (cells (mem s) (m1_sigma (mfit1 s))))"
    using fitMoffat_iter_Continue[of leastsq wind sky height xcen ycen fwhm fwhm_min fwhm_fix beta thresh s s'] by auto
  have m4: "count_ok (cells (mem s) (m1_sigma (mfit1 s))) \<le> length (cells (mem s) (m1_sigma (mfit1 s)))"
    by (rule count_ok_le_length)
  have m5: "(((fitMoffat_next leastsq wind sky height xcen ycen fwhm fwhm_min fwhm_fix beta thresh) ^^ k) s0 s
      \<longrightarrow> k \<le> count_ok (cells (mem s0) (m1_sigma (mfit1 s0))))"
    using fitMoffat_passes_bound by fastforce
  have m6: "(window_ok wind st \<and>
    (fitMoffat_next leastsq wind sky height xcen ycen fwhm fwhm_min fwhm_fix beta thresh)\<^sup>*\<^sup>* (fitMoffat_init wind fwhm read gain st) s \<and>
    fitMoffat_solve leastsq sky height xcen ycen fwhm fwhm_min fwhm_fix beta s = Inr ((fit, soln, pf, pe), s1) \<and>
    length soln < card (included (cells (mem s) (m1_sigma (mfit1 s))))
      \<longrightarrow> ((\<exists>r. fitMoffat_iter leastsq wind sky height xcen ycen fwhm fwhm_min fwhm_fix beta thresh s = Break r)
           \<longleftrightarrow> (\<forall>i\<in>included (cells (mem s) (m1_sigma (mfit1 s))).
                  \<not> \<bar>spec_resid (cells (mem s) (wdata wind)) fit (cells (mem s) (m1_sigma (mfit1 s))) i\<bar>
                     > spec_sfac (cells (mem s) (wdata wind)) fit (cells (mem s) (m1_sigma (mfit1 s))) (length soln) * thresh)))"
    by (intro impI, elim conjE, rule fitMoffat_iter_Break_iff, assumption, erule (1) fitMoffat_init_reach_ok)
  have g1: "(\<exists>r. fitGaussian leastsq wind sky height xcen ycen fwhm fwhm_min fwhm_fix read gain thresh st = Some r)"
    unfolding fitGaussian_def by (rule fitGaussian_loop_returns)
  have g2: "(\<exists>r. fitGaussian_loop leastsq wind sky height xcen ycen fwhm fwhm_min fwhm_fix thresh gs = Some r)"
    by (rule fitGaussian_loop_returns)
  have g3: "(fitGaussian_iter leastsq wind sky height xcen ycen fwhm fwhm_min fwhm_fix thresh gs = Continue gs'
      \<longrightarrow> gfit1 gs' = gfit1 gs \<and> count_ok (cells (gmem gs') (g1_sigma (gfit1 gs'))) < count_ok (cells (gmem gs) (g1_sigma (gfit1 gs))))"
    using fitGaussian_iter_Continue[of leastsq wind sky height xcen ycen fwhm fwhm_min fwhm_fix thresh gs gs'] by auto
  have g4: "count_ok (cells (gmem gs) (g1_sigma (gfit1 gs))) \<le> length (cells (gmem gs) (g1_sigma (gfit1 gs)))"
    by (rule count_ok_le_length)
  have g5: "(((fitGaussian_next leastsq wind sky height xcen ycen fwhm fwhm_min fwhm_fix thresh) ^^ gk) gs0 gs
      \<longrightarrow> gk \<le> count_ok (cells (gmem gs0) (g1_sigma (gfit1 gs0))))"
    using fitGaussian_passes_bound by fastforce
  have g6: "(window_ok wind st \<and>
    (fitGaussian_next leastsq wind sky height xcen ycen fwhm fwhm_min fwhm_fix thresh)\<^sup>*\<^sup>* (fitGaussian_init wind fwhm read gain st) gs \<and>
    fitGaussian_solve leastsq sky height xcen ycen fwhm fwhm_min fwhm_fix gs = Inr ((gfit, gsoln, gpf, gpe), gs1) \<and>
    length gsoln < card (included (cells (gmem gs) (g1_sigma (gfit1 gs))))
      \<longrightarrow> ((\<exists>r. fitGaussian_iter leastsq wind sky height xcen ycen fwhm fwhm_min fwhm_fix thresh gs = Break r)
           \<longleftrightarrow> (\<forall>i\<in>included (cells (gmem gs) (g1_sigma (gfit1 gs))).
                  \<not> \<bar>spec_resid (cells (gmem gs) (wdata wind)) gfit (cells (gmem gs) (g1_sigma (gfit1 gs))) i\<bar>
                     > spec_sfac (cells (gmem gs) (wdata wind)) gfit (cells (gmem gs) (g1_sigma (gfit1 gs))) (length gsoln) * thresh)))"
    by (intro impI, elim conjE, rule fitGaussian_iter_Break_iff, assumption, erule (1) fitGaussian_init_reach_ok)
  have m7: "(window_ok wind st \<and>
    (fitMoffat_next leastsq wind sky height xcen ycen fwhm fwhm_min fwhm_fix beta thresh)\<^sup>*\<^sup>* (fitMoffat_init wind fwhm read gain st) s \<and>
    (fitMoffat_iter leastsq wind sky height xcen ycen fwhm fwhm_min fwhm_fix beta thresh s = Continue s' \<or>
     fitMoffat_iter leastsq wind sky height xcen ycen fwhm fwhm_min fwhm_fix beta thresh s = Break (r, s'))
      \<longrightarrow> (fitMoffat_iter leastsq wind sky height xcen ycen fwhm fwhm_min fwhm_fix beta thresh s = Break (r, s')
           \<longleftrightarrow> cells (mem s') (m1_sigma (mfit1 s)) = cells (mem s) (m1_sigma (mfit1 s))))"
    by (intro impI, elim conjE, rule fitMoffat_iter_Break_unchanged, assumption, erule (1) fitMoffat_init_reach_ok)
  have g7: "(window_ok wind st \<and>
    (fitGaussian_next leastsq wind sky height xcen ycen fwhm fwhm_min fwhm_fix thresh)\<^sup>*\<^sup>* (fitGaussian_init wind fwhm read gain st) gs \<and>
    (fitGaussian_iter leastsq wind sky height xcen ycen fwhm fwhm_min fwhm_fix thresh gs = Continue gs' \<or>
     fitGaussian_iter leastsq wind sky height xcen ycen fwhm fwhm_min fwhm_fix thresh gs = Break (gr, gs'))
      \<longrightarrow> (fitGaussian_iter leastsq wind sky height xcen ycen fwhm fwhm_min fwhm_fix thresh gs = Break (gr, gs')
           \<longleftrightarrow> cells (gmem gs') (g1_sigma (gfit1 gs)) = cells (gmem gs) (g1_sigma (gfit1 gs))))"
    by (intro impI, elim conjE, rule fitGaussian_iter_Break_unchanged, assumption, erule (1) fitGaussian_init_reach_ok)
  show ?thesis
    by (intro conjI m1 m2 m3 m4 m5 m6 g1 g2 g3 g4 g5 g6 m7 g7)
qed

theorem rejection_loop_terminates_witness:
  "fitMoffat_iter ex_leastsq ex_wind 0 0 1 1 2 1 False 2 2 ex_m0 = Continue ex_m1 \<and>
   count_ok (cells (mem ex_m1) (m1_sigma (mfit1 ex_m1))) < count_ok (cells (mem ex_m0) (m1_sigma (mfit1 ex_m0))) \<and>
   ((fitMoffat_next ex_leastsq ex_wind 0 0 1 1 2 1 False 2 2) ^^ 1) ex_m0 ex_m1 \<and>
   (1::nat) \<le> count_ok (cells (mem ex_m0) (m1_sigma (mfit1 ex_m0))) \<and>
   window_ok ex_wind ex_store \<and>
   (fitMoffat_next ex_leastsq ex_wind 0 0 1 1 2 1 False 2 2)\<^sup>*\<^sup>*
      (fitMoffat_init ex_wind 2 (\<lambda>_. 1) (\<lambda>_. 1) ex_store) ex_m1 \<and>
   fitMoffat_solve ex_leastsq 0 0 1 1 2 1 False 2 ex_m1
     = Inr ((replicate 11 0, [0, 0, 1, 1, 2, 2], (0, 0, 1, 1, 2, 2), (1, 1, 1, 1, 1, 1)), ex_m1) \<and>
   length ([0, 0, 1, 1, 2, 2] :: real list) < card (included (cells (mem ex_m1) (m1_sigma (mfit1 ex_m1)))) \<and>
   (\<exists>r. fitMoffat_iter ex_leastsq ex_wind 0 0 1 1 2 1 False 2 2 ex_m1 = Break r) \<and>
   7 \<in> included (cells (mem ex_m1) (m1_sigma (mfit1 ex_m1))) \<and>
   \<not> \<bar>spec_resid (cells (mem ex_m1) (wdata ex_wind)) (replicate 11 0) (cells (mem ex_m1) (m1_sigma (mfit1 ex_m1))) 7\<bar>
        > spec_sfac (cells (mem ex_m1) (wdata ex_wind)) (replicate 11 0) (cells (mem ex_m1) (m1_sigma (mfit1 ex_m1)))
            (length [0::real, 0, 1, 1, 2, 2]) * 2 \<and>
   (\<exists>r. fitMoffat ex_leastsq ex_wind 0 0 1 1 2 1 False 2 (\<lambda>_. 1) (\<lambda>_. 1) 2 ex_store = Some r) \<and>
   fitGaussian_iter ex_leastsq ex_wind 0 0 1 1 2 1 False 1 ex_g0 = Continue ex_g1 \<and>
   count_ok (cells (gmem ex_g1) (g1_sigma (gfit1 ex_g1))) < count_ok (cells (gmem ex_g0) (g1_sigma (gfit1 ex_g0))) \<and>
   (\<exists>r. fitGaussian ex_leastsq ex_wind 0 0 1 1 2 1 False (\<lambda>_. 1) (\<lambda>_. 1) 1 ex_gstore = Some r) \<and>
   cells (mem ex_m1) (m1_sigma (mfit1 ex_m0)) \<noteq> cells (mem ex_m0) (m1_sigma (mfit1 ex_m0)) \<and>
   cells (gmem ex_g1) (g1_sigma (gfit1 ex_g0)) \<noteq> cells (gmem ex_g0) (g1_sigma (gfit1 ex_g0))"
proof -
  note t = rejection_loop_terminates[where leastsq = ex_leastsq and wind = ex_wind and sky = 0
      and height = 0 and xcen = 1 and ycen = 1 and fwhm = 2 and fwhm_min = 1 and fwhm_fix = False
      and beta = 2 and thresh = 2 and read = "\<lambda>_. 1" and gain = "\<lambda>_. 1" and st = ex_store]
  note u = rejection_loop_terminates[where leastsq = ex_leastsq and wind = ex_wind and sky = 0
      and height = 0 and xcen = 1 and ycen = 1 and fwhm = 2 and fwhm_min = 1 and fwhm_fix = False
      and thresh = 1 and read = "\<lambda>_. 1" and gain = "\<lambda>_. 1" and st = ex_gstore]
  have nx: "fitMoffat_next ex_leastsq ex_wind 0 0 1 1 2 1 False 2 2 ex_m0 ex_m1"
    by (simp add: fitMoffat_next_def ex_m0_iter)
  then have p1: "((fitMoffat_next ex_leastsq ex_wind 0 0 1 1 2 1 False 2 2) ^^ 1) ex_m0 ex_m1" by auto
  from nx have rc: "(fitMoffat_next ex_leastsq ex_wind 0 0 1 1 2 1 False 2 2)\<^sup>*\<^sup>*
      (fitMoffat_init ex_wind 2 (\<lambda>_. 1) (\<lambda>_. 1) ex_store) ex_m1"
    unfolding ex_m0_def[symmetric] by (rule r_into_rtranclp)
  from t[where s = ex_m0 and s' = ex_m1, THEN conjunct2, THEN conjunct2, THEN conjunct1] ex_m0_iter
  have c: "count_ok (cells (mem ex_m1) (m1_sigma (mfit1 ex_m1))) < count_ok (cells (mem ex_m0) (m1_sigma (mfit1 ex_m0)))"
    by blast
  from t[where k = 1 and ?s0.0 = ex_m0 and s = ex_m1, THEN conjunct2, THEN conjunct2, THEN conjunct2, THEN conjunct2, THEN conjunct1] p1
  have k: "(1::nat) \<le> count_ok (cells (mem ex_m0) (m1_sigma (mfit1 ex_m0)))" by blast
  have br: "\<exists>r. fitMoffat_iter ex_leastsq ex_wind 0 0 1 1 2 1 False 2 2 ex_m1 = Break r"
    by (rule exI) (rule ex_m1_iter)
  have a1: "m1_sigma (mfit1 ex_m1) = 1"
    by (simp add: ex_m1_def ex_m0_cells)
  have a2: "cells (mem ex_m1) 1 = [1, 1, 1, - 1, 1, 1, 1, 1, 1, 1, 1]"
    by (simp add: ex_m1_def ex_m0_cells)
  have k1: "length ([0, 0, 1, 1, 2, 2] :: real list) < card (included (cells (mem ex_m1) (m1_sigma (mfit1 ex_m1))))"
    unfolding included_def count_ok_card[symmetric] a1 a2
    by (simp add: count_ok_def np_mask_def np_gt0_def)
  from t[where s = ex_m1 and ?s1.0 = ex_m1 and fit = "replicate 11 0" and soln = "[0, 0, 1, 1, 2, 2]"
      and pf = "(0, 0, 1, 1, 2, 2)" and pe = "(1, 1, 1, 1, 1, 1)", THEN conjunct2, THEN conjunct2, THEN conjunct2, THEN conjunct2, THEN conjunct2, THEN conjunct1]
    ex_window_ok rc ex_m1_solve k1 br
  have nr: "\<forall>i\<in>included (cells (mem ex_m1) (m1_sigma (mfit1 ex_m1))).
       \<not> \<bar>spec_resid (cells (mem ex_m1) (wdata ex_wind)) (replicate 11 0) (cells (mem ex_m1) (m1_sigma (mfit1 ex_m1))) i\<bar>
          > spec_sfac (cells (mem ex_m1) (wdata ex_wind)) (replicate 11 0) (cells (mem ex_m1) (m1_sigma (mfit1 ex_m1)))
              (length [0::real, 0, 1, 1, 2, 2]) * 2"
    by blast
  have i7: "7 \<in> included (cells (mem ex_m1) (m1_sigma (mfit1 ex_m1)))"
    by (simp add: included_def ex_m1_def ex_m0_eq)
  with nr have n7: "\<not> \<bar>spec_resid (cells (mem ex_m1) (wdata ex_wind)) (replicate 11 0) (cells (mem ex_m1) (m1_sigma (mfit1 ex_m1))) 7\<bar>
        > spec_sfac (cells (mem ex_m1) (wdata ex_wind)) (replicate 11 0) (cells (mem ex_m1) (m1_sigma (mfit1 ex_m1)))
            (length [0::real, 0, 1, 1, 2, 2]) * 2"
    by blast
  note f = t[THEN conjunct1]
  from u[where gs = ex_g0 and gs' = ex_g1, THEN conjunct2, THEN conjunct2, THEN conjunct2, THEN conjunct2, THEN conjunct2, THEN conjunct2, THEN conjunct2, THEN conjunct2, THEN conjunct1] ex_g0_iter
  have gc: "count_ok (cells (gmem ex_g1) (g1_sigma (gfit1 ex_g1))) < count_ok (cells (gmem ex_g0) (g1_sigma (gfit1 ex_g0)))"
    by blast
  note gf = u[THEN conjunct2, THEN conjunct2, THEN conjunct2, THEN conjunct2, THEN conjunct2, THEN conjunct2, THEN conjunct1]
  have r0: "(fitMoffat_next ex_leastsq ex_wind 0 0 1 1 2 1 False 2 2)\<^sup>*\<^sup>*
      (fitMoffat_init ex_wind 2 (\<lambda>_. 1) (\<lambda>_. 1) ex_store) ex_m0"
    unfolding ex_m0_def by (rule rtranclp.rtrancl_refl)
  from t[where s = ex_m0 and s' = ex_m1 and r = undefined, THEN conjunct2, THEN conjunct2, THEN conjunct2, THEN conjunct2, THEN conjunct2, THEN conjunct2, THEN conjunct2, THEN conjunct2, THEN conjunct2, THEN conjunct2, THEN conjunct2, THEN conjunct2, THEN conjunct1]
    ex_window_ok r0 ex_m0_iter
  have mu: "cells (mem ex_m1) (m1_sigma (mfit1 ex_m0)) \<noteq> cells (mem ex_m0) (m1_sigma (mfit1 ex_m0))"
    by simp
  have gr0: "(fitGaussian_next ex_leastsq ex_wind 0 0 1 1 2 1 False 1)\<^sup>*\<^sup>*
      (fitGaussian_init ex_wind 2 (\<lambda>_. 1) (\<lambda>_. 1) ex_gstore) ex_g0"
    unfolding ex_g0_def by (rule rtranclp.rtrancl_refl)
  from u[where gs = ex_g0 and gs' = ex_g1 and gr = undefined, THEN conjunct2, THEN conjunct2, THEN conjunct2, THEN conjunct2, THEN conjunct2, THEN conjunct2, THEN conjunct2, THEN conjunct2, THEN conjunct2, THEN conjunct2, THEN conjunct2, THEN conjunct2, THEN conjunct2]
    ex_gwindow_ok gr0 ex_g0_iter
  have gu: "cells (gmem ex_g1) (g1_sigma (gfit1 ex_g0)) \<noteq> cells (gmem ex_g0) (g1_sigma (gfit1 ex_g0))"
    by simp
  from ex_m0_iter c p1 k ex_window_ok rc ex_m1_solve k1 br i7 n7 f ex_g0_iter gc gf mu gu show ?thesis
    by (intro conjI)
qed

section \<open>Frame property of the evaluators\<close>

text \<open>
  Claim C9. Calling the residual, the Jacobian or the model of any function object, with
  any parameter vector, returns the store it was given: the sigma, data and coordinate arrays
  are unchanged. The solves of a pass leave the store of the driver as it was, and the
  rejection step changes no array but the sigma array it is given.
\<close>

theorem evaluators_leave_store:
  "snd (Mfit1_call m1 p st) = st \<and> snd (Mfit1_model m1 p st) = st \<and>
   snd (Dmfit1_call dm1 p st) = st \<and>
   snd (Mfit2_call m2 p st) = st \<and> snd (Mfit2_model m2 p st) = st \<and>
   snd (Dmfit2_call dm2 p st) = st \<and>
   snd (Gfit1_call g1 p st) = st \<and> snd (Gfit1_model g1 p st) = st \<and>
   snd (Dgfit1_call dg1 p st) = st \<and>
   snd (Gfit2_call g2 p st) = st \<and> snd (Gfit2_model g2 p st) = st \<and>
   snd (Dgfit2_call dg2 p st) = st \<and>
   (fitMoffat_solve leastsq sky height xcen ycen fwhm fwhm_min fwhm_fix beta s = Inr (sol, s1)
      \<longrightarrow> mem s1 = mem s) \<and>
   (fitGaussian_solve leastsq sky height xcen ycen fwhm fwhm_min fwhm_fix gs = Inr (gsol, gs1)
      \<longrightarrow> gmem gs1 = gmem gs) \<and>
   (a \<noteq> sg \<longrightarrow>
      cells (snd (snd (snd (reject_outliers sg dat fit npar thresh st)))) a = cells st a)"
proof -
  have m: "fitMoffat_solve leastsq sky height xcen ycen fwhm fwhm_min fwhm_fix beta s = Inr (sol, s1)
      \<longrightarrow> mem s1 = mem s"
    using fitMoffat_solve_keeps(1) by blast
  have g: "fitGaussian_solve leastsq sky height xcen ycen fwhm fwhm_min fwhm_fix gs = Inr (gsol, gs1)
      \<longrightarrow> gmem gs1 = gmem gs"
    using fitGaussian_solve_keeps(1) by blast
  have r: "a \<noteq> sg \<longrightarrow>
      cells (snd (snd (snd (reject_outliers sg dat fit npar thresh st)))) a = cells st a"
    by (simp add: reject_outliers_def Let_def)
  show ?thesis
    by (intro conjI Mfit1_call_store Mfit1_model_store Dmfit1_call_store Mfit2_call_store
        Mfit2_model_store Dmfit2_call_store Gfit1_call_store Gfit1_model_store Dgfit1_call_store
        Gfit2_call_store Gfit2_model_store Dgfit2_call_store m g r)
qed

theorem evaluators_leave_store_witness:
  "fitMoffat_solve ex_leastsq 0 0 1 1 2 1 False 2 ex_m0
     = Inr ((replicate 11 0, [0, 0, 1, 1, 2, 2], (0, 0, 1, 1, 2, 2), (1, 1, 1, 1, 1, 1)), ex_m0) \<and>
   fitGaussian_solve ex_leastsq 0 0 1 1 2 1 False ex_g0
     = Inr ((replicate 11 0, [0, 0, 1, 1, 2], (0, 0, 1, 1, 2), (1, 1, 1, 1, 1)), ex_g0) \<and>
   (0::nat) \<noteq> 1 \<and>
   snd (Mfit1_call (mfit1 ex_m0) [0, 0, 1, 1, 2, 2] (mem ex_m0)) = mem ex_m0 \<and>
   snd (Dgfit2_call (dgfit2 ex_g0) [0, 0, 1, 1] (mem ex_m0)) = mem ex_m0 \<and>
   cells (snd (snd (snd (reject_outliers 1 0 (replicate 11 0) 6 2 (mem ex_m0))))) 0 = ex_data"
  using evaluators_leave_store[where ?m1.0 = "mfit1 ex_m0" and p = "[0, 0, 1, 1, 2, 2]" and st = "mem ex_m0"
      and leastsq = ex_leastsq and sky = 0 and height = 0 and xcen = 1 and ycen = 1 and fwhm = 2
      and fwhm_min = 1 and fwhm_fix = False and beta = 2 and s = ex_m0 and ?s1.0 = ex_m0
      and gs = ex_g0 and ?gs1.0 = ex_g0 and a = 0 and sg = 1 and dat = 0 and fit = "replicate 11 0"
      and npar = 6 and thresh = 2]
    evaluators_leave_store[where ?dg2.0 = "dgfit2 ex_g0" and p = "[0, 0, 1, 1]" and st = "mem ex_m0"]
  by (simp add: ex_m0_solve ex_g0_solve ex_m0_cells)

section \<open>The invariant of the sigma array\<close>

lemma fitMoffat_sigma_invariant:
  assumes w: "window_ok wind st"
    and i: "i < length (cells st (wdata wind))"
    and r0: "(fitMoffat_next leastsq wind sky height xcen ycen fwhm fwhm_min fwhm_fix beta thresh)\<^sup>*\<^sup>* (fitMoffat_init wind fwhm read gain st) s"
    and r1: "(fitMoffat_next leastsq wind sky height xcen ycen fwhm fwhm_min fwhm_fix beta thresh)\<^sup>*\<^sup>* s s'"
    and it: "fitMoffat_iter leastsq wind sky height xcen ycen fwhm fwhm_min fwhm_fix beta thresh s' = Continue t \<or> fitMoffat_iter leastsq wind sky height xcen ycen fwhm fwhm_min fwhm_fix beta thresh s' = Break (r, t)"
  shows "\<bar>cells (mem s) (m1_sigma (mfit1 s)) ! i\<bar> = \<bar>sqrt ((read i)\<^sup>2 + max 0 (cells st (wdata wind) ! i) / gain i)\<bar> \<and>
         (0 < gain i \<longrightarrow> \<bar>cells (mem s) (m1_sigma (mfit1 s)) ! i\<bar> = sqrt ((read i)\<^sup>2 + max 0 (cells st (wdata wind) ! i) / gain i)) \<and>
         m1_sigma (mfit1 s') = m1_sigma (mfit1 s) \<and>
         m1_sigma (mfit1 t) = m1_sigma (mfit1 s) \<and>
         \<bar>cells (mem s') (m1_sigma (mfit1 s')) ! i\<bar> = \<bar>cells (mem s) (m1_sigma (mfit1 s)) ! i\<bar> \<and>
         \<bar>cells (mem t) (m1_sigma (mfit1 t)) ! i\<bar> = \<bar>cells (mem s) (m1_sigma (mfit1 s)) ! i\<bar> \<and>
         (cells (mem s) (m1_sigma (mfit1 s)) ! i \<le> 0 \<longrightarrow> cells (mem s') (m1_sigma (mfit1 s')) ! i = cells (mem s) (m1_sigma (mfit1 s)) ! i \<and> cells (mem t) (m1_sigma (mfit1 t)) ! i = cells (mem s) (m1_sigma (mfit1 s)) ! i) \<and>
         (cells (mem t) (m1_sigma (mfit1 t)) ! i \<noteq> cells (mem s') (m1_sigma (mfit1 s')) ! i \<longrightarrow> 0 < cells (mem s') (m1_sigma (mfit1 s')) ! i \<and> cells (mem t) (m1_sigma (mfit1 t)) ! i = - cells (mem s') (m1_sigma (mfit1 s')) ! i)"
proof -
  let ?s0 = "(fitMoffat_init wind fwhm read gain st)"
  from w i have i': "i < ny wind * nx wind" by (simp add: window_ok_def)
  note ok0 = fitMoffat_init_ok[OF w, of fwhm read gain]
  note sg0 = fitMoffat_init_sigma[OF w, of fwhm read gain]
  from r0 ok0 have ok: "moffat_ok wind s" by (rule fitMoffat_reach_ok)
  from r1 ok have ok': "moffat_ok wind s'" by (rule fitMoffat_reach_ok)
  from fitMoffat_reach_monotone[OF r0 ok0 i']
  have a0: "mfit1 s = mfit1 ?s0"
    and a1: "\<bar>cells (mem s) (m1_sigma (mfit1 ?s0)) ! i\<bar> = \<bar>cells (mem ?s0) (m1_sigma (mfit1 ?s0)) ! i\<bar>"
    by simp_all
  have n: "cells (mem ?s0) (m1_sigma (mfit1 ?s0)) ! i = sqrt ((read i)\<^sup>2 + max 0 (cells st (wdata wind) ! i) / gain i)"
    unfolding sg0 using i by (rule noise_sigma_nth)
  have c1: "\<bar>cells (mem s) (m1_sigma (mfit1 s)) ! i\<bar> = \<bar>sqrt ((read i)\<^sup>2 + max 0 (cells st (wdata wind) ! i) / gain i)\<bar>"
    using a1 unfolding a0 n .
  have c2: "0 < gain i \<longrightarrow> \<bar>cells (mem s) (m1_sigma (mfit1 s)) ! i\<bar> = sqrt ((read i)\<^sup>2 + max 0 (cells st (wdata wind) ! i) / gain i)"
  proof
    assume "0 < gain i"
    then have "0 \<le> (read i)\<^sup>2 + max 0 (cells st (wdata wind) ! i) / gain i" by simp
    then have "0 \<le> sqrt ((read i)\<^sup>2 + max 0 (cells st (wdata wind) ! i) / gain i)" by simp
    with c1 show "\<bar>cells (mem s) (m1_sigma (mfit1 s)) ! i\<bar> = sqrt ((read i)\<^sup>2 + max 0 (cells st (wdata wind) ! i) / gain i)" by simp
  qed
  from fitMoffat_reach_monotone[OF r1 ok i']
  have b0: "mfit1 s' = mfit1 s"
    and b1: "\<bar>cells (mem s') (m1_sigma (mfit1 s)) ! i\<bar> = \<bar>cells (mem s) (m1_sigma (mfit1 s)) ! i\<bar>"
    and b2: "cells (mem s) (m1_sigma (mfit1 s)) ! i \<le> 0 \<longrightarrow> cells (mem s') (m1_sigma (mfit1 s)) ! i = cells (mem s) (m1_sigma (mfit1 s)) ! i"
    by simp_all
  note m = fitMoffat_iter_monotone[OF it ok' i', unfolded b0]
  have d0: "mfit1 t = mfit1 s" using m(1) b0 by simp
  from m(4) b1 have d1: "\<bar>cells (mem t) (m1_sigma (mfit1 s)) ! i\<bar> = \<bar>cells (mem s) (m1_sigma (mfit1 s)) ! i\<bar>" by simp
  have d2: "cells (mem s) (m1_sigma (mfit1 s)) ! i \<le> 0 \<longrightarrow>
      cells (mem s') (m1_sigma (mfit1 s)) ! i = cells (mem s) (m1_sigma (mfit1 s)) ! i \<and> cells (mem t) (m1_sigma (mfit1 s)) ! i = cells (mem s) (m1_sigma (mfit1 s)) ! i"
    using b2 m(5) by auto
  have d3: "cells (mem t) (m1_sigma (mfit1 s)) ! i \<noteq> cells (mem s') (m1_sigma (mfit1 s)) ! i \<longrightarrow>
      0 < cells (mem s') (m1_sigma (mfit1 s)) ! i \<and>
      cells (mem t) (m1_sigma (mfit1 s)) ! i = - cells (mem s') (m1_sigma (mfit1 s)) ! i"
    using m(6) by blast
  show ?thesis
    unfolding d0 b0 using c1 c2 b1 d1 d2 d3 by (intro conjI) simp_all
qed

lemma fitGaussian_sigma_invariant:
  assumes w: "window_ok wind st"
    and i: "i < length (cells st (wdata wind))"
    and r0: "(fitGaussian_next leastsq wind sky height xcen ycen fwhm fwhm_min fwhm_fix thresh)\<^sup>*\<^sup>* (fitGaussian_init wind fwhm read gain st) s"
    and r1: "(fitGaussian_next leastsq wind sky height xcen ycen fwhm fwhm_min fwhm_fix thresh)\<^sup>*\<^sup>* s s'"
    and it: "fitGaussian_iter leastsq wind sky height xcen ycen fwhm fwhm_min fwhm_fix thresh s' = Continue t \<or> fitGaussian_iter leastsq wind sky height xcen ycen fwhm fwhm_min fwhm_fix thresh s' = Break (r, t)"
  shows "\<bar>cells (gmem s) (g1_sigma (gfit1 s)) ! i\<bar> = \<bar>sqrt ((read i)\<^sup>2 + max 0 (cells st (wdata wind) ! i) / gain i)\<bar> \<and>
         (0 < gain i \<longrightarrow> \<bar>cells (gmem s) (g1_sigma (gfit1 s)) ! i\<bar> = sqrt ((read i)\<^sup>2 + max 0 (cells st (wdata wind) ! i) / gain i)) \<and>
         g1_sigma (gfit1 s') = g1_sigma (gfit1 s) \<and>
         g1_sigma (gfit1 t) = g1_sigma (gfit1 s) \<and>
         \<bar>cells (gmem s') (g1_sigma (gfit1 s')) ! i\<bar> = \<bar>cells (gmem s) (g1_sigma (gfit1 s)) ! i\<bar> \<and>
         \<bar>cells (gmem t) (g1_sigma (gfit1 t)) ! i\<bar> = \<bar>cells (gmem s) (g1_sigma (gfit1 s)) ! i\<bar> \<and>
         (cells (gmem s) (g1_sigma (gfit1 s)) ! i \<le> 0 \<longrightarrow> cells (gmem s') (g1_sigma (gfit1 s')) ! i = cells (gmem s) (g1_sigma (gfit1 s)) ! i \<and> cells (gmem t) (g1_sigma (gfit1 t)) ! i = cells (gmem s) (g1_sigma (gfit1 s)) ! i) \<and>
         (cells (gmem t) (g1_sigma (gfit1 t)) ! i \<noteq> cells (gmem s') (g1_sigma (gfit1 s')) ! i \<longrightarrow> 0 < cells (gmem s') (g1_sigma (gfit1 s')) ! i \<and> cells (gmem t) (g1_sigma (gfit1 t)) ! i = - cells (gmem s') (g1_sigma (gfit1 s')) ! i)"
proof -
  let ?s0 = "(fitGaussian_init wind fwhm read gain st)"
  from w i have i': "i < ny wind * nx wind" by (simp add: window_ok_def)
  note ok0 = fitGaussian_init_ok[OF w, of fwhm read gain]
  note sg0 = fitGaussian_init_sigma[OF w, of fwhm read gain]
  from r0 ok0 have ok: "gauss_ok wind s" by (rule fitGaussian_reach_ok)
  from r1 ok have ok': "gauss_ok wind s'" by (rule fitGaussian_reach_ok)
  from fitGaussian_reach_monotone[OF r0 ok0 i']
  have a0: "gfit1 s = gfit1 ?s0"
    and a1: "\<bar>cells (gmem s) (g1_sigma (gfit1 ?s0)) ! i\<bar> = \<bar>cells (gmem ?s0) (g1_sigma (gfit1 ?s0)) ! i\<bar>"
    by simp_all
  have n: "cells (gmem ?s0) (g1_sigma (gfit1 ?s0)) ! i = sqrt ((read i)\<^sup>2 + max 0 (cells st (wdata wind) ! i) / gain i)"
    unfolding sg0 using i by (rule noise_sigma_nth)
  have c1: "\<bar>cells (gmem s) (g1_sigma (gfit1 s)) ! i\<bar> = \<bar>sqrt ((read i)\<^sup>2 + max 0 (cells st (wdata wind) ! i) / gain i)\<bar>"
    using a1 unfolding a0 n .
  have c2: "0 < gain i \<longrightarrow> \<bar>cells (gmem s) (g1_sigma (gfit1 s)) ! i\<bar> = sqrt ((read i)\<^sup>2 + max 0 (cells st (wdata wind) ! i) / gain i)"
  proof
    assume "0 < gain i"
    then have "0 \<le> (read i)\<^sup>2 + max 0 (cells st (wdata wind) ! i) / gain i" by simp
    then have "0 \<le> sqrt ((read i)\<^sup>2 + max 0 (cells st (wdata wind) ! i) / gain i)" by simp
    with c1 show "\<bar>cells (gmem s) (g1_sigma (gfit1 s)) ! i\<bar> = sqrt ((read i)\<^sup>2 + max 0 (cells st (wdata wind) ! i) / gain i)" by simp
  qed
  from fitGaussian_reach_monotone[OF r1 ok i']
  have b0: "gfit1 s' = gfit1 s"
    and b1: "\<bar>cells (gmem s') (g1_sigma (gfit1 s)) ! i\<bar> = \<bar>cells (gmem s) (g1_sigma (gfit1 s)) ! i\<bar>"
    and b2: "cells (gmem s) (g1_sigma (gfit1 s)) ! i \<le> 0 \<longrightarrow> cells (gmem s') (g1_sigma (gfit1 s)) ! i = cells (gmem s) (g1_sigma (gfit1 s)) ! i"
    by simp_all
  note m = fitGaussian_iter_monotone[OF it ok' i', unfolded b0]
  have d0: "gfit1 t = gfit1 s" using m(1) b0 by simp
  from m(4) b1 have d1: "\<bar>cells (gmem t) (g1_sigma (gfit1 s)) ! i\<bar> = \<bar>cells (gmem s) (g1_sigma (gfit1 s)) ! i\<bar>" by simp
  have d2: "cells (gmem s) (g1_sigma (gfit1 s)) ! i \<le> 0 \<longrightarrow>
      cells (gmem s') (g1_sigma (gfit1 s)) ! i = cells (gmem s) (g1_sigma (gfit1 s)) ! i \<and> cells (gmem t) (g1_sigma (gfit1 s)) ! i = cells (gmem s) (g1_sigma (gfit1 s)) ! i"
    using b2 m(5) by auto
  have d3: "cells (gmem t) (g1_sigma (gfit1 s)) ! i \<noteq> cells (gmem s') (g1_sigma (gfit1 s)) ! i \<longrightarrow>
      0 < cells (gmem s') (g1_sigma (gfit1 s)) ! i \<and>
      cells (gmem t) (g1_sigma (gfit1 s)) ! i = - cells (gmem s') (g1_sigma (gfit1 s)) ! i"
    using m(6) by blast
  show ?thesis
    unfolding d0 b0 using c1 c2 b1 d1 d2 d3 by (intro conjI) simp_all
qed


text \<open>
  Claim C10. Throughout a call of \<^verbatim>\<open>fitMoffat\<close> or \<^verbatim>\<open>fitGaussian\<close> on a well-shaped window,
  in every state \<open>s\<close> that the loop reaches from the freshly constructed one, the absolute
  value of each entry of the sigma array is the absolute value of the noise value
  \<open>sqrt(read\<^sup>2 + max(0, data) / gain)\<close> of construction (and equal to it where the gain is
  positive, the domain on which that value is a non-negative real). The sigma array stays the
  same object. In any later state \<open>s'\<close>, and in the state \<open>t\<close> that the pass from \<open>s'\<close>
  leaves (continuing or final), the absolute values are the same; an entry that is not
  positive in \<open>s\<close> has the same value in \<open>s'\<close> and in \<open>t\<close>, so a rejected pixel is never
  included again; and an entry that a pass changes was positive before and is its negation
  after.
\<close>

theorem sigma_map_invariant:
  "(window_ok wind st \<and>
    i < length (cells st (wdata wind)) \<and>
    (fitMoffat_next leastsq wind sky height xcen ycen fwhm fwhm_min fwhm_fix beta thresh)\<^sup>*\<^sup>* (fitMoffat_init wind fwhm read gain st) s \<and>
    (fitMoffat_next leastsq wind sky height xcen ycen fwhm fwhm_min fwhm_fix beta thresh)\<^sup>*\<^sup>* s s' \<and>
    (fitMoffat_iter leastsq wind sky height xcen ycen fwhm fwhm_min fwhm_fix beta thresh s' = Continue t \<or> fitMoffat_iter leastsq wind sky height xcen ycen fwhm fwhm_min fwhm_fix beta thresh s' = Break (r, t))
      \<longrightarrow> \<bar>cells (mem s) (m1_sigma (mfit1 s)) ! i\<bar> = \<bar>sqrt ((read i)\<^sup>2 + max 0 (cells st (wdata wind) ! i) / gain i)\<bar> \<and>
          (0 < gain i \<longrightarrow> \<bar>cells (mem s) (m1_sigma (mfit1 s)) ! i\<bar> = sqrt ((read i)\<^sup>2 + max 0 (cells st (wdata wind) ! i) / gain i)) \<and>
          m1_sigma (mfit1 s') = m1_sigma (mfit1 s) \<and>
          m1_sigma (mfit1 t) = m1_sigma (mfit1 s) \<and>
          \<bar>cells (mem s') (m1_sigma (mfit1 s')) ! i\<bar> = \<bar>cells (mem s) (m1_sigma (mfit1 s)) ! i\<bar> \<and>
          \<bar>cells (mem t) (m1_sigma (mfit1 t)) ! i\<bar> = \<bar>cells (mem s) (m1_sigma (mfit1 s)) ! i\<bar> \<and>
          (cells (mem s) (m1_sigma (mfit1 s)) ! i \<le> 0 \<longrightarrow> cells (mem s') (m1_sigma (mfit1 s')) ! i = cells (mem s) (m1_sigma (mfit1 s)) ! i \<and> cells (mem t) (m1_sigma (mfit1 t)) ! i = cells (mem s) (m1_sigma (mfit1 s)) ! i) \<and>
          (cells (mem t) (m1_sigma (mfit1 t)) ! i \<noteq> cells (mem s') (m1_sigma (mfit1 s')) ! i \<longrightarrow> 0 < cells (mem s') (m1_sigma (mfit1 s')) ! i \<and> cells (mem t) (m1_sigma (mfit1 t)) ! i = - cells (mem s') (m1_sigma (mfit1 s')) ! i)) \<and>
   (window_ok wind st \<and>
    i < length (cells st (wdata wind)) \<and>
    (fitGaussian_next leastsq wind sky height xcen ycen fwhm fwhm_min fwhm_fix thresh)\<^sup>*\<^sup>* (fitGaussian_init wind fwhm read gain st) gs \<and>
    (fitGaussian_next leastsq wind sky height xcen ycen fwhm fwhm_min fwhm_fix thresh)\<^sup>*\<^sup>* gs gs' \<and>
    (fitGaussian_iter leastsq wind sky height xcen ycen fwhm fwhm_min fwhm_fix thresh gs' = Continue gt \<or> fitGaussian_iter leastsq wind sky height xcen ycen fwhm fwhm_min fwhm_fix thresh gs' = Break (gr, gt))
      \<longrightarrow> \<bar>cells (gmem gs) (g1_sigma (gfit1 gs)) ! i\<bar> = \<bar>sqrt ((read i)\<^sup>2 + max 0 (cells st (wdata wind) ! i) / gain i)\<bar> \<and>
          (0 < gain i \<longrightarrow> \<bar>cells (gmem gs) (g1_sigma (gfit1 gs)) ! i\<bar> = sqrt ((read i)\<^sup>2 + max 0 (cells st (wdata wind) ! i) / gain i)) \<and>
          g1_sigma (gfit1 gs') = g1_sigma (gfit1 gs) \<and>
          g1_sigma (gfit1 gt) = g1_sigma (gfit1 gs) \<and>
          \<bar>cells (gmem gs') (g1_sigma (gfit1 gs')) ! i\<bar> = \<bar>cells (gmem gs) (g1_sigma (gfit1 gs)) ! i\<bar> \<and>
          \<bar>cells (gmem gt) (g1_sigma (gfit1 gt)) ! i\<bar> = \<bar>cells (gmem gs) (g1_sigma (gfit1 gs)) ! i\<bar> \<and>
          (cells (gmem gs) (g1_sigma (gfit1 gs)) ! i \<le> 0 \<longrightarrow> cells (gmem gs') (g1_sigma (gfit1 gs')) ! i = cells (gmem gs) (g1_sigma (gfit1 gs)) ! i \<and> cells (gmem gt) (g1_sigma (gfit1 gt)) ! i = cells (gmem gs) (g1_sigma (gfit1 gs)) ! i) \<and>
          (cells (gmem gt) (g1_sigma (gfit1 gt)) ! i \<noteq> cells (gmem gs') (g1_sigma (gfit1 gs')) ! i \<longrightarrow> 0 < cells (gmem gs') (g1_sigma (gfit1 gs')) ! i \<and> cells (gmem gt) (g1_sigma (gfit1 gt)) ! i = - cells (gmem gs') (g1_sigma (gfit1 gs')) ! i))"
proof -
  have m: "(window_ok wind st \<and>
    i < length (cells st (wdata wind)) \<and>
    (fitMoffat_next leastsq wind sky height xcen ycen fwhm fwhm_min fwhm_fix beta thresh)\<^sup>*\<^sup>* (fitMoffat_init wind fwhm read gain st) s \<and>
    (fitMoffat_next leastsq wind sky height xcen ycen fwhm fwhm_min fwhm_fix beta thresh)\<^sup>*\<^sup>* s s' \<and>
    (fitMoffat_iter leastsq wind sky height xcen ycen fwhm fwhm_min fwhm_fix beta thresh s' = Continue t \<or> fitMoffat_iter leastsq wind sky height xcen ycen fwhm fwhm_min fwhm_fix beta thresh s' = Break (r, t))
      \<longrightarrow> \<bar>cells (mem s) (m1_sigma (mfit1 s)) ! i\<bar> = \<bar>sqrt ((read i)\<^sup>2 + max 0 (cells st (wdata wind) ! i) / gain i)\<bar> \<and>
          (0 < gain i \<longrightarrow> \<bar>cells (mem s) (m1_sigma (mfit1 s)) ! i\<bar> = sqrt ((read i)\<^sup>2 + max 0 (cells st (wdata wind) ! i) / gain i)) \<and>
          m1_sigma (mfit1 s') = m1_sigma (mfit1 s) \<and>
          m1_sigma (mfit1 t) = m1_sigma (mfit1 s) \<and>
          \<bar>cells (mem s') (m1_sigma (mfit1 s')) ! i\<bar> = \<bar>cells (mem s) (m1_sigma (mfit1 s)) ! i\<bar> \<and>
          \<bar>cells (mem t) (m1_sigma (mfit1 t)) ! i\<bar> = \<bar>cells (mem s) (m1_sigma (mfit1 s)) ! i\<bar> \<and>
          (cells (mem s) (m1_sigma (mfit1 s)) ! i \<le> 0 \<longrightarrow> cells (mem s') (m1_sigma (mfit1 s')) ! i = cells (mem s) (m1_sigma (mfit1 s)) ! i \<and> cells (mem t) (m1_sigma (mfit1 t)) ! i = cells (mem s) (m1_sigma (mfit1 s)) ! i) \<and>
          (cells (mem t) (m1_sigma (mfit1 t)) ! i \<noteq> cells (mem s') (m1_sigma (mfit1 s')) ! i \<longrightarrow> 0 < cells (mem s') (m1_sigma (mfit1 s')) ! i \<and> cells (mem t) (m1_sigma (mfit1 t)) ! i = - cells (mem s') (m1_sigma (mfit1 s')) ! i))"
    by (intro impI, elim conjE, rule fitMoffat_sigma_invariant; assumption)
  have g: "(window_ok wind st \<and>
    i < length (cells st (wdata wind)) \<and>
    (fitGaussian_next leastsq wind sky height xcen ycen fwhm fwhm_min fwhm_fix thresh)\<^sup>*\<^sup>* (fitGaussian_init wind fwhm read gain st) gs \<and>
    (fitGaussian_next leastsq wind sky height xcen ycen fwhm fwhm_min fwhm_fix thresh)\<^sup>*\<^sup>* gs gs' \<and>
    (fitGaussian_iter leastsq wind sky height xcen ycen fwhm fwhm_min fwhm_fix thresh gs' = Continue gt \<or> fitGaussian_iter leastsq wind sky height xcen ycen fwhm fwhm_min fwhm_fix thresh gs' = Break (gr, gt))
      \<longrightarrow> \<bar>cells (gmem gs) (g1_sigma (gfit1 gs)) ! i\<bar> = \<bar>sqrt ((read i)\<^sup>2 + max 0 (cells st (wdata wind) ! i) / gain i)\<bar> \<and>
          (0 < gain i \<longrightarrow> \<bar>cells (gmem gs) (g1_sigma (gfit1 gs)) ! i\<bar> = sqrt ((read i)\<^sup>2 + max 0 (cells st (wdata wind) ! i) / gain i)) \<and>
          g1_sigma (gfit1 gs') = g1_sigma (gfit1 gs) \<and>
          g1_sigma (gfit1 gt) = g1_sigma (gfit1 gs) \<and>
          \<bar>cells (gmem gs') (g1_sigma (gfit1 gs')) ! i\<bar> = \<bar>cells (gmem gs) (g1_sigma (gfit1 gs)) ! i\<bar> \<and>
          \<bar>cells (gmem gt) (g1_sigma (gfit1 gt)) ! i\<bar> = \<bar>cells (gmem gs) (g1_sigma (gfit1 gs)) ! i\<bar> \<and>
          (cells (gmem gs) (g1_sigma (gfit1 gs)) ! i \<le> 0 \<longrightarrow> cells (gmem gs') (g1_sigma (gfit1 gs')) ! i = cells (gmem gs) (g1_sigma (gfit1 gs)) ! i \<and> cells (gmem gt) (g1_sigma (gfit1 gt)) ! i = cells (gmem gs) (g1_sigma (gfit1 gs)) ! i) \<and>
          (cells (gmem gt) (g1_sigma (gfit1 gt)) ! i \<noteq> cells (gmem gs') (g1_sigma (gfit1 gs')) ! i \<longrightarrow> 0 < cells (gmem gs') (g1_sigma (gfit1 gs')) ! i \<and> cells (gmem gt) (g1_sigma (gfit1 gt)) ! i = - cells (gmem gs') (g1_sigma (gfit1 gs')) ! i))"
    by (intro impI, elim conjE, rule fitGaussian_sigma_invariant; assumption)
  from m g show ?thesis by (rule conjI)
qed

theorem sigma_map_invariant_witness:
  "(window_ok ex_wind ex_store \<and>
   (3::nat) < length (cells ex_store (wdata ex_wind)) \<and>
   (fitMoffat_next ex_leastsq ex_wind 0 0 1 1 2 1 False 2 2)\<^sup>*\<^sup>* (fitMoffat_init ex_wind 2 (\<lambda>_. 1) (\<lambda>_. 1) ex_store) ex_m0 \<and>
   (fitMoffat_next ex_leastsq ex_wind 0 0 1 1 2 1 False 2 2)\<^sup>*\<^sup>* ex_m0 ex_m0 \<and>
   fitMoffat_iter ex_leastsq ex_wind 0 0 1 1 2 1 False 2 2 ex_m0 = Continue ex_m1 \<and>
   \<bar>cells (mem ex_m0) (m1_sigma (mfit1 ex_m0)) ! 3\<bar> = sqrt (1\<^sup>2 + max 0 (cells ex_store (wdata ex_wind) ! 3) / 1) \<and>
   cells (mem ex_m0) (m1_sigma (mfit1 ex_m0)) ! 3 = 1 \<and>
   cells (mem ex_m1) (m1_sigma (mfit1 ex_m1)) ! 3 = - 1 \<and>
   \<bar>cells (mem ex_m1) (m1_sigma (mfit1 ex_m1)) ! 3\<bar> = \<bar>cells (mem ex_m0) (m1_sigma (mfit1 ex_m0)) ! 3\<bar> \<and>
   0 < cells (mem ex_m0) (m1_sigma (mfit1 ex_m0)) ! 3 \<and>
   cells (mem ex_m1) (m1_sigma (mfit1 ex_m1)) ! 3 = - cells (mem ex_m0) (m1_sigma (mfit1 ex_m0)) ! 3) \<and>
   (window_ok ex_wind ex_gstore \<and>
   (3::nat) < length (cells ex_gstore (wdata ex_wind)) \<and>
   (fitGaussian_next ex_leastsq ex_wind 0 0 1 1 2 1 False 1)\<^sup>*\<^sup>* (fitGaussian_init ex_wind 2 (\<lambda>_. 1) (\<lambda>_. 1) ex_gstore) ex_g0 \<and>
   (fitGaussian_next ex_leastsq ex_wind 0 0 1 1 2 1 False 1)\<^sup>*\<^sup>* ex_g0 ex_g0 \<and>
   fitGaussian_iter ex_leastsq ex_wind 0 0 1 1 2 1 False 1 ex_g0 = Continue ex_g1 \<and>
   \<bar>cells (gmem ex_g0) (g1_sigma (gfit1 ex_g0)) ! 3\<bar> = sqrt (1\<^sup>2 + max 0 (cells ex_gstore (wdata ex_wind) ! 3) / 1) \<and>
   cells (gmem ex_g0) (g1_sigma (gfit1 ex_g0)) ! 3 = 1 \<and>
   cells (gmem ex_g1) (g1_sigma (gfit1 ex_g1)) ! 3 = - 1 \<and>
   \<bar>cells (gmem ex_g1) (g1_sigma (gfit1 ex_g1)) ! 3\<bar> = \<bar>cells (gmem ex_g0) (g1_sigma (gfit1 ex_g0)) ! 3\<bar> \<and>
   0 < cells (gmem ex_g0) (g1_sigma (gfit1 ex_g0)) ! 3 \<and>
   cells (gmem ex_g1) (g1_sigma (gfit1 ex_g1)) ! 3 = - cells (gmem ex_g0) (g1_sigma (gfit1 ex_g0)) ! 3)"
proof -
  have m: "window_ok ex_wind ex_store \<and>
   (3::nat) < length (cells ex_store (wdata ex_wind)) \<and>
   (fitMoffat_next ex_leastsq ex_wind 0 0 1 1 2 1 False 2 2)\<^sup>*\<^sup>* (fitMoffat_init ex_wind 2 (\<lambda>_. 1) (\<lambda>_. 1) ex_store) ex_m0 \<and>
   (fitMoffat_next ex_leastsq ex_wind 0 0 1 1 2 1 False 2 2)\<^sup>*\<^sup>* ex_m0 ex_m0 \<and>
   fitMoffat_iter ex_leastsq ex_wind 0 0 1 1 2 1 False 2 2 ex_m0 = Continue ex_m1 \<and>
   \<bar>cells (mem ex_m0) (m1_sigma (mfit1 ex_m0)) ! 3\<bar> = sqrt (1\<^sup>2 + max 0 (cells ex_store (wdata ex_wind) ! 3) / 1) \<and>
   cells (mem ex_m0) (m1_sigma (mfit1 ex_m0)) ! 3 = 1 \<and>
   cells (mem ex_m1) (m1_sigma (mfit1 ex_m1)) ! 3 = - 1 \<and>
   \<bar>cells (mem ex_m1) (m1_sigma (mfit1 ex_m1)) ! 3\<bar> = \<bar>cells (mem ex_m0) (m1_sigma (mfit1 ex_m0)) ! 3\<bar> \<and>
   0 < cells (mem ex_m0) (m1_sigma (mfit1 ex_m0)) ! 3 \<and>
   cells (mem ex_m1) (m1_sigma (mfit1 ex_m1)) ! 3 = - cells (mem ex_m0) (m1_sigma (mfit1 ex_m0)) ! 3"
  proof -
    have w: "window_ok ex_wind ex_store" by (rule ex_window_ok)
    have i: "(3::nat) < length (cells ex_store (wdata ex_wind))"
      by (simp add: ex_store_def ex_wind_def ex_data_def)
    have r0: "(fitMoffat_next ex_leastsq ex_wind 0 0 1 1 2 1 False 2 2)\<^sup>*\<^sup>* (fitMoffat_init ex_wind 2 (\<lambda>_. 1) (\<lambda>_. 1) ex_store) ex_m0"
      unfolding ex_m0_def by (rule rtranclp.rtrancl_refl)
    have r1: "(fitMoffat_next ex_leastsq ex_wind 0 0 1 1 2 1 False 2 2)\<^sup>*\<^sup>* ex_m0 ex_m0" by (rule rtranclp.rtrancl_refl)
    note it = ex_m0_iter
    have v0: "cells (mem ex_m0) (m1_sigma (mfit1 ex_m0)) ! 3 = 1" unfolding ex_m0_cells by simp
    have v1: "cells (mem ex_m1) (m1_sigma (mfit1 ex_m1)) ! 3 = - 1" by (simp add: ex_m1_def ex_m0_cells)
    from v0 v1 have ne: "cells (mem ex_m1) (m1_sigma (mfit1 ex_m1)) ! 3 \<noteq> cells (mem ex_m0) (m1_sigma (mfit1 ex_m0)) ! 3"
      by simp
    have h: "window_ok ex_wind ex_store \<and>
      (3::nat) < length (cells ex_store (wdata ex_wind)) \<and>
      (fitMoffat_next ex_leastsq ex_wind 0 0 1 1 2 1 False 2 2)\<^sup>*\<^sup>* (fitMoffat_init ex_wind 2 (\<lambda>_. 1) (\<lambda>_. 1) ex_store) ex_m0 \<and>
      (fitMoffat_next ex_leastsq ex_wind 0 0 1 1 2 1 False 2 2)\<^sup>*\<^sup>* ex_m0 ex_m0 \<and>
      (fitMoffat_iter ex_leastsq ex_wind 0 0 1 1 2 1 False 2 2 ex_m0 = Continue ex_m1 \<or>
       fitMoffat_iter ex_leastsq ex_wind 0 0 1 1 2 1 False 2 2 ex_m0 = Break (undefined, ex_m1))"
      using w i r0 r1 it by (intro conjI disjI1)
    note t = sigma_map_invariant[where leastsq = ex_leastsq and wind = ex_wind and sky = 0
        and height = 0 and xcen = 1 and ycen = 1 and fwhm = 2 and fwhm_min = 1 and fwhm_fix = False
        and beta = 2 and thresh = 2 and read = "\<lambda>_. 1" and gain = "\<lambda>_. 1" and st = ex_store
        and i = 3 and s = ex_m0 and s' = ex_m0 and t = ex_m1 and r = undefined, THEN conjunct1, rule_format, OF h]
    from t[THEN conjunct2, THEN conjunct1]
    have c2: "\<bar>cells (mem ex_m0) (m1_sigma (mfit1 ex_m0)) ! 3\<bar> = sqrt (1\<^sup>2 + max 0 (cells ex_store (wdata ex_wind) ! 3) / 1)"
      by simp
    note c6 = t[THEN conjunct2, THEN conjunct2, THEN conjunct2, THEN conjunct2, THEN conjunct2, THEN conjunct1]
    from t[THEN conjunct2, THEN conjunct2, THEN conjunct2, THEN conjunct2, THEN conjunct2, THEN conjunct2, THEN conjunct2] ne
    have c8: "0 < cells (mem ex_m0) (m1_sigma (mfit1 ex_m0)) ! 3 \<and>
        cells (mem ex_m1) (m1_sigma (mfit1 ex_m1)) ! 3 = - cells (mem ex_m0) (m1_sigma (mfit1 ex_m0)) ! 3"
      by blast
    from w i r0 r1 it c2 v0 v1 c6 c8 show ?thesis by (intro conjI) blast+
  qed
  have g: "window_ok ex_wind ex_gstore \<and>
   (3::nat) < length (cells ex_gstore (wdata ex_wind)) \<and>
   (fitGaussian_next ex_leastsq ex_wind 0 0 1 1 2 1 False 1)\<^sup>*\<^sup>* (fitGaussian_init ex_wind 2 (\<lambda>_. 1) (\<lambda>_. 1) ex_gstore) ex_g0 \<and>
   (fitGaussian_next ex_leastsq ex_wind 0 0 1 1 2 1 False 1)\<^sup>*\<^sup>* ex_g0 ex_g0 \<and>
   fitGaussian_iter ex_leastsq ex_wind 0 0 1 1 2 1 False 1 ex_g0 = Continue ex_g1 \<and>
   \<bar>cells (gmem ex_g0) (g1_sigma (gfit1 ex_g0)) ! 3\<bar> = sqrt (1\<^sup>2 + max 0 (cells ex_gstore (wdata ex_wind) ! 3) / 1) \<and>
   cells (gmem ex_g0) (g1_sigma (gfit1 ex_g0)) ! 3 = 1 \<and>
   cells (gmem ex_g1) (g1_sigma (gfit1 ex_g1)) ! 3 = - 1 \<and>
   \<bar>cells (gmem ex_g1) (g1_sigma (gfit1 ex_g1)) ! 3\<bar> = \<bar>cells (gmem ex_g0) (g1_sigma (gfit1 ex_g0)) ! 3\<bar> \<and>
   0 < cells (gmem ex_g0) (g1_sigma (gfit1 ex_g0)) ! 3 \<and>
   cells (gmem ex_g1) (g1_sigma (gfit1 ex_g1)) ! 3 = - cells (gmem ex_g0) (g1_sigma (gfit1 ex_g0)) ! 3"
  proof -
    have w: "window_ok ex_wind ex_gstore" by (rule ex_gwindow_ok)
    have i: "(3::nat) < length (cells ex_gstore (wdata ex_wind))"
      by (simp add: ex_gstore_def ex_wind_def ex_gdata_def)
    have r0: "(fitGaussian_next ex_leastsq ex_wind 0 0 1 1 2 1 False 1)\<^sup>*\<^sup>* (fitGaussian_init ex_wind 2 (\<lambda>_. 1) (\<lambda>_. 1) ex_gstore) ex_g0"
      unfolding ex_g0_def by (rule rtranclp.rtrancl_refl)
    have r1: "(fitGaussian_next ex_leastsq ex_wind 0 0 1 1 2 1 False 1)\<^sup>*\<^sup>* ex_g0 ex_g0" by (rule rtranclp.rtrancl_refl)
    note it = ex_g0_iter
    have v0: "cells (gmem ex_g0) (g1_sigma (gfit1 ex_g0)) ! 3 = 1" unfolding ex_g0_cells by simp
    have v1: "cells (gmem ex_g1) (g1_sigma (gfit1 ex_g1)) ! 3 = - 1" by (simp add: ex_g1_def ex_g0_cells)
    from v0 v1 have ne: "cells (gmem ex_g1) (g1_sigma (gfit1 ex_g1)) ! 3 \<noteq> cells (gmem ex_g0) (g1_sigma (gfit1 ex_g0)) ! 3"
      by simp
    have h: "window_ok ex_wind ex_gstore \<and>
      (3::nat) < length (cells ex_gstore (wdata ex_wind)) \<and>
      (fitGaussian_next ex_leastsq ex_wind 0 0 1 1 2 1 False 1)\<^sup>*\<^sup>* (fitGaussian_init ex_wind 2 (\<lambda>_. 1) (\<lambda>_. 1) ex_gstore) ex_g0 \<and>
      (fitGaussian_next ex_leastsq ex_wind 0 0 1 1 2 1 False 1)\<^sup>*\<^sup>* ex_g0 ex_g0 \<and>
      (fitGaussian_iter ex_leastsq ex_wind 0 0 1 1 2 1 False 1 ex_g0 = Continue ex_g1 \<or>
       fitGaussian_iter ex_leastsq ex_wind 0 0 1 1 2 1 False 1 ex_g0 = Break (undefined, ex_g1))"
      using w i r0 r1 it by (intro conjI disjI1)
    note t = sigma_map_invariant[where leastsq = ex_leastsq and wind = ex_wind and sky = 0
        and height = 0 and xcen = 1 and ycen = 1 and fwhm = 2 and fwhm_min = 1 and fwhm_fix = False
        and thresh = 1 and read = "\<lambda>_. 1" and gain = "\<lambda>_. 1" and st = ex_gstore
        and i = 3 and gs = ex_g0 and gs' = ex_g0 and gt = ex_g1 and gr = undefined, THEN conjunct2, rule_format, OF h]
    from t[THEN conjunct2, THEN conjunct1]
    have c2: "\<bar>cells (gmem ex_g0) (g1_sigma (gfit1 ex_g0)) ! 3\<bar> = sqrt (1\<^sup>2 + max 0 (cells ex_gstore (wdata ex_wind) ! 3) / 1)"
      by simp
    note c6 = t[THEN conjunct2, THEN conjunct2, THEN conjunct2, THEN conjunct2, THEN conjunct2, THEN conjunct1]
    from t[THEN conjunct2, THEN conjunct2, THEN conjunct2, THEN conjunct2, THEN conjunct2, THEN conjunct2, THEN conjunct2] ne
    have c8: "0 < cells (gmem ex_g0) (g1_sigma (gfit1 ex_g0)) ! 3 \<and>
        cells (gmem ex_g1) (g1_sigma (gfit1 ex_g1)) ! 3 = - cells (gmem ex_g0) (g1_sigma (gfit1 ex_g0)) ! 3"
      by blast
    from w i r0 r1 it c2 v0 v1 c6 c8 show ?thesis by (intro conjI) blast+
  qed
  from m g show ?thesis by (rule conjI)
qed
section \<open>The rejection rule\<close>

lemma fitMoffat_rejection_rule:
  assumes w: "window_ok wind st"
    and i: "i < length (cells st (wdata wind))"
    and r0: "(fitMoffat_next leastsq wind sky height xcen ycen fwhm fwhm_min fwhm_fix beta thresh)\<^sup>*\<^sup>* (fitMoffat_init wind fwhm read gain st) s"
    and sol: "fitMoffat_solve leastsq sky height xcen ycen fwhm fwhm_min fwhm_fix beta s = Inr ((fit, soln, pf, pe), s1)"
    and dom: "length soln < card (included (cells (mem s) (m1_sigma (mfit1 s))))"
    and it: "fitMoffat_iter leastsq wind sky height xcen ycen fwhm fwhm_min fwhm_fix beta thresh s = Continue s' \<or> fitMoffat_iter leastsq wind sky height xcen ycen fwhm fwhm_min fwhm_fix beta thresh s = Break (r, s')"
  shows "cells (mem s) (wdata wind) = cells st (wdata wind) \<and>
         reject_outliers (m1_sigma (mfit1 s)) (wdata wind) fit (length soln) thresh (mem s)
            = (spec_chisq (cells (mem s) (wdata wind)) fit (cells (mem s) (m1_sigma (mfit1 s))), card (included (cells (mem s) (m1_sigma (mfit1 s)))), spec_sfac (cells (mem s) (wdata wind)) fit (cells (mem s) (m1_sigma (mfit1 s))) (length soln), mem s') \<and>
         spec_sfac (cells (mem s) (wdata wind)) fit (cells (mem s) (m1_sigma (mfit1 s))) (length soln) = sqrt ((\<Sum>j | j < length (cells (mem s) (m1_sigma (mfit1 s))) \<and> 0 < cells (mem s) (m1_sigma (mfit1 s)) ! j. ((cells (mem s) (wdata wind) ! j - fit ! j) / cells (mem s) (m1_sigma (mfit1 s)) ! j)\<^sup>2)
               / (real (card {j. j < length (cells (mem s) (m1_sigma (mfit1 s))) \<and> 0 < cells (mem s) (m1_sigma (mfit1 s)) ! j}) - real (length soln))) \<and>
         spec_resid (cells (mem s) (wdata wind)) fit (cells (mem s) (m1_sigma (mfit1 s))) i = (cells (mem s) (wdata wind) ! i - fit ! i) / cells (mem s) (m1_sigma (mfit1 s)) ! i \<and>
         (i \<in> included (cells (mem s) (m1_sigma (mfit1 s))) \<longleftrightarrow> 0 < cells (mem s) (m1_sigma (mfit1 s)) ! i) \<and>
         cells (mem s') (m1_sigma (mfit1 s)) ! i = (if 0 < cells (mem s) (m1_sigma (mfit1 s)) ! i \<and> \<bar>spec_resid (cells (mem s) (wdata wind)) fit (cells (mem s) (m1_sigma (mfit1 s))) i\<bar> > spec_sfac (cells (mem s) (wdata wind)) fit (cells (mem s) (m1_sigma (mfit1 s))) (length soln) * thresh then - cells (mem s) (m1_sigma (mfit1 s)) ! i else cells (mem s) (m1_sigma (mfit1 s)) ! i) \<and>
         (cells (mem s') (m1_sigma (mfit1 s)) ! i \<noteq> cells (mem s) (m1_sigma (mfit1 s)) ! i \<longleftrightarrow> 0 < cells (mem s) (m1_sigma (mfit1 s)) ! i \<and> \<bar>spec_resid (cells (mem s) (wdata wind)) fit (cells (mem s) (m1_sigma (mfit1 s))) i\<bar> > spec_sfac (cells (mem s) (wdata wind)) fit (cells (mem s) (m1_sigma (mfit1 s))) (length soln) * thresh) \<and>
         (cells (mem s') (m1_sigma (mfit1 s)) ! i \<noteq> cells (mem s) (m1_sigma (mfit1 s)) ! i \<longrightarrow> cells (mem s') (m1_sigma (mfit1 s)) ! i = - cells (mem s) (m1_sigma (mfit1 s)) ! i) \<and>
         (\<bar>spec_resid (cells (mem s) (wdata wind)) fit (cells (mem s) (m1_sigma (mfit1 s))) i\<bar> = spec_sfac (cells (mem s) (wdata wind)) fit (cells (mem s) (m1_sigma (mfit1 s))) (length soln) * thresh \<longrightarrow> cells (mem s') (m1_sigma (mfit1 s)) ! i = cells (mem s) (m1_sigma (mfit1 s)) ! i)"
proof -
  let ?a = "m1_sigma (mfit1 s)"
  let ?sg = "cells (mem s) ?a"
  let ?dat = "cells (mem s) (wdata wind)"
  from w r0 have ok: "moffat_ok wind s" by (rule fitMoffat_init_reach_ok)
  from w i have i0: "i < ny wind * nx wind" by (simp add: window_ok_def)
  from fitMoffat_reach_monotone[OF r0 fitMoffat_init_ok[OF w] i0]
  have c0: "cells (mem s) (wdata wind) = cells st (wdata wind)"
    unfolding fitMoffat_init_sigma(3)[OF w] by simp
  note keep = fitMoffat_solve_keeps[OF sol]
  have len: "length ?sg = ny wind * nx wind" "length ?dat = ny wind * nx wind"
      "length fit = ny wind * nx wind"
    using ok fitMoffat_solve_fit_length[OF sol ok] by (simp_all add: moffat_ok_def)
  from w i have i': "i < length ?sg" by (simp add: window_ok_def len)
  obtain chisq nok1 sf st2 where
    rej: "reject_outliers ?a (wdata wind) fit (length soln) thresh (mem s) = (chisq, nok1, sf, st2)"
    by (cases "reject_outliers ?a (wdata wind) fit (length soln) thresh (mem s)") auto
  note spec = reject_outliers_spec[OF rej len]
  obtain p1 p2 p3 p4 p5 p6 where pf: "pf = (p1, p2, p3, p4, p5, p6)" by (cases pf) auto
  obtain e1 e2 e3 e4 e5 e6 where pe: "pe = (e1, e2, e3, e4, e5, e6)" by (cases pe) auto
  from it have m: "mem s' = st2"
    by (auto simp: fitMoffat_iter_def sol pf pe keep rej Let_def split: if_splits)
  have nth: "cells (mem s') ?a ! i = spec_rejected ?dat fit ?sg (length soln) thresh i"
    unfolding m using spec(5) i' len by simp
  have c1: "reject_outliers ?a (wdata wind) fit (length soln) thresh (mem s)
      = (spec_chisq ?dat fit ?sg, card (included ?sg), spec_sfac ?dat fit ?sg (length soln), mem s')"
    unfolding rej m using spec(1,2,3) by simp
  have c2: "spec_sfac ?dat fit ?sg (length soln)
      = sqrt ((\<Sum>j | j < length ?sg \<and> 0 < ?sg ! j. ((?dat ! j - fit ! j) / ?sg ! j)\<^sup>2)
               / (real (card {j. j < length ?sg \<and> 0 < ?sg ! j}) - real (length soln)))"
    by (simp add: spec_sfac_def spec_chisq_def spec_resid_def included_def)
  have c3: "spec_resid ?dat fit ?sg i = (?dat ! i - fit ! i) / ?sg ! i"
    by (simp add: spec_resid_def)
  have c4: "i \<in> included ?sg \<longleftrightarrow> 0 < ?sg ! i" using i' by (simp add: included_def)
  have c5: "cells (mem s') ?a ! i = (if 0 < ?sg ! i \<and> \<bar>spec_resid ?dat fit ?sg i\<bar> > spec_sfac ?dat fit ?sg (length soln) * thresh
       then - ?sg ! i else ?sg ! i)"
    unfolding nth spec_rejected_def c4 ..
  have c6: "cells (mem s') ?a ! i \<noteq> ?sg ! i \<longleftrightarrow>
      0 < ?sg ! i \<and> \<bar>spec_resid ?dat fit ?sg i\<bar> > spec_sfac ?dat fit ?sg (length soln) * thresh"
    unfolding c5 by auto
  have c7: "cells (mem s') ?a ! i \<noteq> ?sg ! i \<longrightarrow> cells (mem s') ?a ! i = - ?sg ! i"
    unfolding c5 by auto
  have c8: "\<bar>spec_resid ?dat fit ?sg i\<bar> = spec_sfac ?dat fit ?sg (length soln) * thresh
      \<longrightarrow> cells (mem s') ?a ! i = ?sg ! i"
    unfolding c5 by auto
  from c0 c1 c2 c3 c4 c5 c6 c7 c8 show ?thesis by (intro conjI)
qed

lemma fitGaussian_rejection_rule:
  assumes w: "window_ok wind st"
    and i: "i < length (cells st (wdata wind))"
    and r0: "(fitGaussian_next leastsq wind sky height xcen ycen fwhm fwhm_min fwhm_fix thresh)\<^sup>*\<^sup>* (fitGaussian_init wind fwhm read gain st) s"
    and sol: "fitGaussian_solve leastsq sky height xcen ycen fwhm fwhm_min fwhm_fix s = Inr ((fit, soln, pf, pe), s1)"
    and dom: "length soln < card (included (cells (gmem s) (g1_sigma (gfit1 s))))"
    and it: "fitGaussian_iter leastsq wind sky height xcen ycen fwhm fwhm_min fwhm_fix thresh s = Continue s' \<or> fitGaussian_iter leastsq wind sky height xcen ycen fwhm fwhm_min fwhm_fix thresh s = Break (r, s')"
  shows "cells (gmem s) (wdata wind) = cells st (wdata wind) \<and>
         reject_outliers (g1_sigma (gfit1 s)) (wdata wind) fit (length soln) thresh (gmem s)
            = (spec_chisq (cells (gmem s) (wdata wind)) fit (cells (gmem s) (g1_sigma (gfit1 s))), card (included (cells (gmem s) (g1_sigma (gfit1 s)))), spec_sfac (cells (gmem s) (wdata wind)) fit (cells (gmem s) (g1_sigma (gfit1 s))) (length soln), gmem s') \<and>
         spec_sfac (cells (gmem s) (wdata wind)) fit (cells (gmem s) (g1_sigma (gfit1 s))) (length soln) = sqrt ((\<Sum>j | j < length (cells (gmem s) (g1_sigma (gfit1 s))) \<and> 0 < cells (gmem s) (g1_sigma (gfit1 s)) ! j. ((cells (gmem s) (wdata wind) ! j - fit ! j) / cells (gmem s) (g1_sigma (gfit1 s)) ! j)\<^sup>2)
               / (real (card {j. j < length (cells (gmem s) (g1_sigma (gfit1 s))) \<and> 0 < cells (gmem s) (g1_sigma (gfit1 s)) ! j}) - real (length soln))) \<and>
         spec_resid (cells (gmem s) (wdata wind)) fit (cells (gmem s) (g1_sigma (gfit1 s))) i = (cells (gmem s) (wdata wind) ! i - fit ! i) / cells (gmem s) (g1_sigma (gfit1 s)) ! i \<and>
         (i \<in> included (cells (gmem s) (g1_sigma (gfit1 s))) \<longleftrightarrow> 0 < cells (gmem s) (g1_sigma (gfit1 s)) ! i) \<and>
         cells (gmem s') (g1_sigma (gfit1 s)) ! i = (if 0 < cells (gmem s) (g1_sigma (gfit1 s)) ! i \<and> \<bar>spec_resid (cells (gmem s) (wdata wind)) fit (cells (gmem s) (g1_sigma (gfit1 s))) i\<bar> > spec_sfac (cells (gmem s) (wdata wind)) fit (cells (gmem s) (g1_sigma (gfit1 s))) (length soln) * thresh then - cells (gmem s) (g1_sigma (gfit1 s)) ! i else cells (gmem s) (g1_sigma (gfit1 s)) ! i) \<and>
         (cells (gmem s') (g1_sigma (gfit1 s)) ! i \<noteq> cells (gmem s) (g1_sigma (gfit1 s)) ! i \<longleftrightarrow> 0 < cells (gmem s) (g1_sigma (gfit1 s)) ! i \<and> \<bar>spec_resid (cells (gmem s) (wdata wind)) fit (cells (gmem s) (g1_sigma (gfit1 s))) i\<bar> > spec_sfac (cells (gmem s) (wdata wind)) fit (cells (gmem s) (g1_sigma (gfit1 s))) (length soln) * thresh) \<and>
         (cells (gmem s') (g1_sigma (gfit1 s)) ! i \<noteq> cells (gmem s) (g1_sigma (gfit1 s)) ! i \<longrightarrow> cells (gmem s') (g1_sigma (gfit1 s)) ! i = - cells (gmem s) (g1_sigma (gfit1 s)) ! i) \<and>
         (\<bar>spec_resid (cells (gmem s) (wdata wind)) fit (cells (gmem s) (g1_sigma (gfit1 s))) i\<bar> = spec_sfac (cells (gmem s) (wdata wind)) fit (cells (gmem s) (g1_sigma (gfit1 s))) (length soln) * thresh \<longrightarrow> cells (gmem s') (g1_sigma (gfit1 s)) ! i = cells (gmem s) (g1_sigma (gfit1 s)) ! i)"
proof -
  let ?a = "g1_sigma (gfit1 s)"
  let ?sg = "cells (gmem s) ?a"
  let ?dat = "cells (gmem s) (wdata wind)"
  from w r0 have ok: "gauss_ok wind s" by (rule fitGaussian_init_reach_ok)
  from w i have i0: "i < ny wind * nx wind" by (simp add: window_ok_def)
  from fitGaussian_reach_monotone[OF r0 fitGaussian_init_ok[OF w] i0]
  have c0: "cells (gmem s) (wdata wind) = cells st (wdata wind)"
    unfolding fitGaussian_init_sigma(3)[OF w] by simp
  note keep = fitGaussian_solve_keeps[OF sol]
  have len: "length ?sg = ny wind * nx wind" "length ?dat = ny wind * nx wind"
      "length fit = ny wind * nx wind"
    using ok fitGaussian_solve_fit_length[OF sol ok] by (simp_all add: gauss_ok_def)
  from w i have i': "i < length ?sg" by (simp add: window_ok_def len)
  obtain chisq nok1 sf st2 where
    rej: "reject_outliers ?a (wdata wind) fit (length soln) thresh (gmem s) = (chisq, nok1, sf, st2)"
    by (cases "reject_outliers ?a (wdata wind) fit (length soln) thresh (gmem s)") auto
  note spec = reject_outliers_spec[OF rej len]
  obtain p1 p2 p3 p4 p5 where pf: "pf = (p1, p2, p3, p4, p5)" by (cases pf) auto
  obtain e1 e2 e3 e4 e5 where pe: "pe = (e1, e2, e3, e4, e5)" by (cases pe) auto
  from it have m: "gmem s' = st2"
    by (auto simp: fitGaussian_iter_def sol pf pe keep rej Let_def split: if_splits)
  have nth: "cells (gmem s') ?a ! i = spec_rejected ?dat fit ?sg (length soln) thresh i"
    unfolding m using spec(5) i' len by simp
  have c1: "reject_outliers ?a (wdata wind) fit (length soln) thresh (gmem s)
      = (spec_chisq ?dat fit ?sg, card (included ?sg), spec_sfac ?dat fit ?sg (length soln), gmem s')"
    unfolding rej m using spec(1,2,3) by simp
  have c2: "spec_sfac ?dat fit ?sg (length soln)
      = sqrt ((\<Sum>j | j < length ?sg \<and> 0 < ?sg ! j. ((?dat ! j - fit ! j) / ?sg ! j)\<^sup>2)
               / (real (card {j. j < length ?sg \<and> 0 < ?sg ! j}) - real (length soln)))"
    by (simp add: spec_sfac_def spec_chisq_def spec_resid_def included_def)
  have c3: "spec_resid ?dat fit ?sg i = (?dat ! i - fit ! i) / ?sg ! i"
    by (simp add: spec_resid_def)
  have c4: "i \<in> included ?sg \<longleftrightarrow> 0 < ?sg ! i" using i' by (simp add: included_def)
  have c5: "cells (gmem s') ?a ! i = (if 0 < ?sg ! i \<and> \<bar>spec_resid ?dat fit ?sg i\<bar> > spec_sfac ?dat fit ?sg (length soln) * thresh
       then - ?sg ! i else ?sg ! i)"
    unfolding nth spec_rejected_def c4 ..
  have c6: "cells (gmem s') ?a ! i \<noteq> ?sg ! i \<longleftrightarrow>
      0 < ?sg ! i \<and> \<bar>spec_resid ?dat fit ?sg i\<bar> > spec_sfac ?dat fit ?sg (length soln) * thresh"
    unfolding c5 by auto
  have c7: "cells (gmem s') ?a ! i \<noteq> ?sg ! i \<longrightarrow> cells (gmem s') ?a ! i = - ?sg ! i"
    unfolding c5 by auto
  have c8: "\<bar>spec_resid ?dat fit ?sg i\<bar> = spec_sfac ?dat fit ?sg (length soln) * thresh
      \<longrightarrow> cells (gmem s') ?a ! i = ?sg ! i"
    unfolding c5 by auto
  from c0 c1 c2 c3 c4 c5 c6 c7 c8 show ?thesis by (intro conjI)
qed


text \<open>
  Claim C2. In every pass of the loop of \<^verbatim>\<open>fitMoffat\<close> and of \<^verbatim>\<open>fitGaussian\<close> that gets to the
  rejection step (its solve gave the fit \<open>fit\<close> and the solution vector \<open>soln\<close>), started
  in a state \<open>s\<close> that a call on a well-shaped window reaches, with more included pixels
  than parameters (the domain on which the scale factor is a real number; elsewhere the
  source divides by zero or takes the root of a negative number): the chi-square, the count and
  the scale factor that the step computes are the sum of the squared normalised residuals
  over all pixels with sigma > 0, the number of those pixels, and
  \<open>sqrt(chisq / (n_included - n_params))\<close>; the sigma entry of pixel \<open>i\<close> after the step is
  the negated entry when the pixel is included and the absolute value of its normalised
  residual is strictly greater than scale factor times threshold, and the old entry
  otherwise. So the entry changes exactly for those pixels, and a pixel whose residual equals
  the bound is kept.
\<close>

theorem rejection_rule:
  "(window_ok wind st \<and>
    i < length (cells st (wdata wind)) \<and>
    (fitMoffat_next leastsq wind sky height xcen ycen fwhm fwhm_min fwhm_fix beta thresh)\<^sup>*\<^sup>* (fitMoffat_init wind fwhm read gain st) s \<and>
    fitMoffat_solve leastsq sky height xcen ycen fwhm fwhm_min fwhm_fix beta s = Inr ((fit, soln, pf, pe), s1) \<and>
    length soln < card (included (cells (mem s) (m1_sigma (mfit1 s)))) \<and>
    (fitMoffat_iter leastsq wind sky height xcen ycen fwhm fwhm_min fwhm_fix beta thresh s = Continue s' \<or> fitMoffat_iter leastsq wind sky height xcen ycen fwhm fwhm_min fwhm_fix beta thresh s = Break (r, s'))
      \<longrightarrow> cells (mem s) (wdata wind) = cells st (wdata wind) \<and>
          reject_outliers (m1_sigma (mfit1 s)) (wdata wind) fit (length soln) thresh (mem s)
            = (spec_chisq (cells (mem s) (wdata wind)) fit (cells (mem s) (m1_sigma (mfit1 s))), card (included (cells (mem s) (m1_sigma (mfit1 s)))), spec_sfac (cells (mem s) (wdata wind)) fit (cells (mem s) (m1_sigma (mfit1 s))) (length soln), mem s') \<and>
          spec_sfac (cells (mem s) (wdata wind)) fit (cells (mem s) (m1_sigma (mfit1 s))) (length soln) = sqrt ((\<Sum>j | j < length (cells (mem s) (m1_sigma (mfit1 s))) \<and> 0 < cells (mem s) (m1_sigma (mfit1 s)) ! j. ((cells (mem s) (wdata wind) ! j - fit ! j) / cells (mem s) (m1_sigma (mfit1 s)) ! j)\<^sup>2)
               / (real (card {j. j < length (cells (mem s) (m1_sigma (mfit1 s))) \<and> 0 < cells (mem s) (m1_sigma (mfit1 s)) ! j}) - real (length soln))) \<and>
          spec_resid (cells (mem s) (wdata wind)) fit (cells (mem s) (m1_sigma (mfit1 s))) i = (cells (mem s) (wdata wind) ! i - fit ! i) / cells (mem s) (m1_sigma (mfit1 s)) ! i \<and>
          (i \<in> included (cells (mem s) (m1_sigma (mfit1 s))) \<longleftrightarrow> 0 < cells (mem s) (m1_sigma (mfit1 s)) ! i) \<and>
          cells (mem s') (m1_sigma (mfit1 s)) ! i = (if 0 < cells (mem s) (m1_sigma (mfit1 s)) ! i \<and> \<bar>spec_resid (cells (mem s) (wdata wind)) fit (cells (mem s) (m1_sigma (mfit1 s))) i\<bar> > spec_sfac (cells (mem s) (wdata wind)) fit (cells (mem s) (m1_sigma (mfit1 s))) (length soln) * thresh then - cells (mem s) (m1_sigma (mfit1 s)) ! i else cells (mem s) (m1_sigma (mfit1 s)) ! i) \<and>
          (cells (mem s') (m1_sigma (mfit1 s)) ! i \<noteq> cells (mem s) (m1_sigma (mfit1 s)) ! i \<longleftrightarrow> 0 < cells (mem s) (m1_sigma (mfit1 s)) ! i \<and> \<bar>spec_resid (cells (mem s) (wdata wind)) fit (cells (mem s) (m1_sigma (mfit1 s))) i\<bar> > spec_sfac (cells (mem s) (wdata wind)) fit (cells (mem s) (m1_sigma (mfit1 s))) (length soln) * thresh) \<and>
          (cells (mem s') (m1_sigma (mfit1 s)) ! i \<noteq> cells (mem s) (m1_sigma (mfit1 s)) ! i \<longrightarrow> cells (mem s') (m1_sigma (mfit1 s)) ! i = - cells (mem s) (m1_sigma (mfit1 s)) ! i) \<and>
          (\<bar>spec_resid (cells (mem s) (wdata wind)) fit (cells (mem s) (m1_sigma (mfit1 s))) i\<bar> = spec_sfac (cells (mem s) (wdata wind)) fit (cells (mem s) (m1_sigma (mfit1 s))) (length soln) * thresh \<longrightarrow> cells (mem s') (m1_sigma (mfit1 s)) ! i = cells (mem s) (m1_sigma (mfit1 s)) ! i)) \<and>
   (window_ok wind st \<and>
    i < length (cells st (wdata wind)) \<and>
    (fitGaussian_next leastsq wind sky height xcen ycen fwhm fwhm_min fwhm_fix thresh)\<^sup>*\<^sup>* (fitGaussian_init wind fwhm read gain st) gs \<and>
    fitGaussian_solve leastsq sky height xcen ycen fwhm fwhm_min fwhm_fix gs = Inr ((gfit, gsoln, gpf, gpe), gs1) \<and>
    length gsoln < card (included (cells (gmem gs) (g1_sigma (gfit1 gs)))) \<and>
    (fitGaussian_iter leastsq wind sky height xcen ycen fwhm fwhm_min fwhm_fix thresh gs = Continue gs' \<or> fitGaussian_iter leastsq wind sky height xcen ycen fwhm fwhm_min fwhm_fix thresh gs = Break (gr, gs'))
      \<longrightarrow> cells (gmem gs) (wdata wind) = cells st (wdata wind) \<and>
          reject_outliers (g1_sigma (gfit1 gs)) (wdata wind) gfit (length gsoln) thresh (gmem gs)
            = (spec_chisq (cells (gmem gs) (wdata wind)) gfit (cells (gmem gs) (g1_sigma (gfit1 gs))), card (included (cells (gmem gs) (g1_sigma (gfit1 gs)))), spec_sfac (cells (gmem gs) (wdata wind)) gfit (cells (gmem gs) (g1_sigma (gfit1 gs))) (length gsoln), gmem gs') \<and>
          spec_sfac (cells (gmem gs) (wdata wind)) gfit (cells (gmem gs) (g1_sigma (gfit1 gs))) (length gsoln) = sqrt ((\<Sum>j | j < length (cells (gmem gs) (g1_sigma (gfit1 gs))) \<and> 0 < cells (gmem gs) (g1_sigma (gfit1 gs)) ! j. ((cells (gmem gs) (wdata wind) ! j - gfit ! j) / cells (gmem gs) (g1_sigma (gfit1 gs)) ! j)\<^sup>2)
               / (real (card {j. j < length (cells (gmem gs) (g1_sigma (gfit1 gs))) \<and> 0 < cells (gmem gs) (g1_sigma (gfit1 gs)) ! j}) - real (length gsoln))) \<and>
          spec_resid (cells (gmem gs) (wdata wind)) gfit (cells (gmem gs) (g1_sigma (gfit1 gs))) i = (cells (gmem gs) (wdata wind) ! i - gfit ! i) / cells (gmem gs) (g1_sigma (gfit1 gs)) ! i \<and>
          (i \<in> included (cells (gmem gs) (g1_sigma (gfit1 gs))) \<longleftrightarrow> 0 < cells (gmem gs) (g1_sigma (gfit1 gs)) ! i) \<and>
          cells (gmem gs') (g1_sigma (gfit1 gs)) ! i = (if 0 < cells (gmem gs) (g1_sigma (gfit1 gs)) ! i \<and> \<bar>spec_resid (cells (gmem gs) (wdata wind)) gfit (cells (gmem gs) (g1_sigma (gfit1 gs))) i\<bar> > spec_sfac (cells (gmem gs) (wdata wind)) gfit (cells (gmem gs) (g1_sigma (gfit1 gs))) (length gsoln) * thresh then - cells (gmem gs) (g1_sigma (gfit1 gs)) ! i else cells (gmem gs) (g1_sigma (gfit1 gs)) ! i) \<and>
          (cells (gmem gs') (g1_sigma (gfit1 gs)) ! i \<noteq> cells (gmem gs) (g1_sigma (gfit1 gs)) ! i \<longleftrightarrow> 0 < cells (gmem gs) (g1_sigma (gfit1 gs)) ! i \<and> \<bar>spec_resid (cells (gmem gs) (wdata wind)) gfit (cells (gmem gs) (g1_sigma (gfit1 gs))) i\<bar> > spec_sfac (cells (gmem gs) (wdata wind)) gfit (cells (gmem gs) (g1_sigma (gfit1 gs))) (length gsoln) * thresh) \<and>
          (cells (gmem gs') (g1_sigma (gfit1 gs)) ! i \<noteq> cells (gmem gs) (g1_sigma (gfit1 gs)) ! i \<longrightarrow> cells (gmem gs') (g1_sigma (gfit1 gs)) ! i = - cells (gmem gs) (g1_sigma (gfit1 gs)) ! i) \<and>
          (\<bar>spec_resid (cells (gmem gs) (wdata wind)) gfit (cells (gmem gs) (g1_sigma (gfit1 gs))) i\<bar> = spec_sfac (cells (gmem gs) (wdata wind)) gfit (cells (gmem gs) (g1_sigma (gfit1 gs))) (length gsoln) * thresh \<longrightarrow> cells (gmem gs') (g1_sigma (gfit1 gs)) ! i = cells (gmem gs) (g1_sigma (gfit1 gs)) ! i))"
proof -
  have m: "(window_ok wind st \<and>
    i < length (cells st (wdata wind)) \<and>
    (fitMoffat_next leastsq wind sky height xcen ycen fwhm fwhm_min fwhm_fix beta thresh)\<^sup>*\<^sup>* (fitMoffat_init wind fwhm read gain st) s \<and>
    fitMoffat_solve leastsq sky height xcen ycen fwhm fwhm_min fwhm_fix beta s = Inr ((fit, soln, pf, pe), s1) \<and>
    length soln < card (included (cells (mem s) (m1_sigma (mfit1 s)))) \<and>
    (fitMoffat_iter leastsq wind sky height xcen ycen fwhm fwhm_min fwhm_fix beta thresh s = Continue s' \<or> fitMoffat_iter leastsq wind sky height xcen ycen fwhm fwhm_min fwhm_fix beta thresh s = Break (r, s'))
      \<longrightarrow> cells (mem s) (wdata wind) = cells st (wdata wind) \<and>
          reject_outliers (m1_sigma (mfit1 s)) (wdata wind) fit (length soln) thresh (mem s)
            = (spec_chisq (cells (mem s) (wdata wind)) fit (cells (mem s) (m1_sigma (mfit1 s))), card (included (cells (mem s) (m1_sigma (mfit1 s)))), spec_sfac (cells (mem s) (wdata wind)) fit (cells (mem s) (m1_sigma (mfit1 s))) (length soln), mem s') \<and>
          spec_sfac (cells (mem s) (wdata wind)) fit (cells (mem s) (m1_sigma (mfit1 s))) (length soln) = sqrt ((\<Sum>j | j < length (cells (mem s) (m1_sigma (mfit1 s))) \<and> 0 < cells (mem s) (m1_sigma (mfit1 s)) ! j. ((cells (mem s) (wdata wind) ! j - fit ! j) / cells (mem s) (m1_sigma (mfit1 s)) ! j)\<^sup>2)
               / (real (card {j. j < length (cells (mem s) (m1_sigma (mfit1 s))) \<and> 0 < cells (mem s) (m1_sigma (mfit1 s)) ! j}) - real (length soln))) \<and>
          spec_resid (cells (mem s) (wdata wind)) fit (cells (mem s) (m1_sigma (mfit1 s))) i = (cells (mem s) (wdata wind) ! i - fit ! i) / cells (mem s) (m1_sigma (mfit1 s)) ! i \<and>
          (i \<in> included (cells (mem s) (m1_sigma (mfit1 s))) \<longleftrightarrow> 0 < cells (mem s) (m1_sigma (mfit1 s)) ! i) \<and>
          cells (mem s') (m1_sigma (mfit1 s)) ! i = (if 0 < cells (mem s) (m1_sigma (mfit1 s)) ! i \<and> \<bar>spec_resid (cells (mem s) (wdata wind)) fit (cells (mem s) (m1_sigma (mfit1 s))) i\<bar> > spec_sfac (cells (mem s) (wdata wind)) fit (cells (mem s) (m1_sigma (mfit1 s))) (length soln) * thresh then - cells (mem s) (m1_sigma (mfit1 s)) ! i else cells (mem s) (m1_sigma (mfit1 s)) ! i) \<and>
          (cells (mem s') (m1_sigma (mfit1 s)) ! i \<noteq> cells (mem s) (m1_sigma (mfit1 s)) ! i \<longleftrightarrow> 0 < cells (mem s) (m1_sigma (mfit1 s)) ! i \<and> \<bar>spec_resid (cells (mem s) (wdata wind)) fit (cells (mem s) (m1_sigma (mfit1 s))) i\<bar> > spec_sfac (cells (mem s) (wdata wind)) fit (cells (mem s) (m1_sigma (mfit1 s))) (length soln) * thresh) \<and>
          (cells (mem s') (m1_sigma (mfit1 s)) ! i \<noteq> cells (mem s) (m1_sigma (mfit1 s)) ! i \<longrightarrow> cells (mem s') (m1_sigma (mfit1 s)) ! i = - cells (mem s) (m1_sigma (mfit1 s)) ! i) \<and>
          (\<bar>spec_resid (cells (mem s) (wdata wind)) fit (cells (mem s) (m1_sigma (mfit1 s))) i\<bar> = spec_sfac (cells (mem s) (wdata wind)) fit (cells (mem s) (m1_sigma (mfit1 s))) (length soln) * thresh \<longrightarrow> cells (mem s') (m1_sigma (mfit1 s)) ! i = cells (mem s) (m1_sigma (mfit1 s)) ! i))"
    by (intro impI, elim conjE, rule fitMoffat_rejection_rule; assumption)
  have g: "(window_ok wind st \<and>
    i < length (cells st (wdata wind)) \<and>
    (fitGaussian_next leastsq wind sky height xcen ycen fwhm fwhm_min fwhm_fix thresh)\<^sup>*\<^sup>* (fitGaussian_init wind fwhm read gain st) gs \<and>
    fitGaussian_solve leastsq sky height xcen ycen fwhm fwhm_min fwhm_fix gs = Inr ((gfit, gsoln, gpf, gpe), gs1) \<and>
    length gsoln < card (included (cells (gmem gs) (g1_sigma (gfit1 gs)))) \<and>
    (fitGaussian_iter leastsq wind sky height xcen ycen fwhm fwhm_min fwhm_fix thresh gs = Continue gs' \<or> fitGaussian_iter leastsq wind sky height xcen ycen fwhm fwhm_min fwhm_fix thresh gs = Break (gr, gs'))
      \<longrightarrow> cells (gmem gs) (wdata wind) = cells st (wdata wind) \<and>
          reject_outliers (g1_sigma (gfit1 gs)) (wdata wind) gfit (length gsoln) thresh (gmem gs)
            = (spec_chisq (cells (gmem gs) (wdata wind)) gfit (cells (gmem gs) (g1_sigma (gfit1 gs))), card (included (cells (gmem gs) (g1_sigma (gfit1 gs)))), spec_sfac (cells (gmem gs) (wdata wind)) gfit (cells (gmem gs) (g1_sigma (gfit1 gs))) (length gsoln), gmem gs') \<and>
          spec_sfac (cells (gmem gs) (wdata wind)) gfit (cells (gmem gs) (g1_sigma (gfit1 gs))) (length gsoln) = sqrt ((\<Sum>j | j < length (cells (gmem gs) (g1_sigma (gfit1 gs))) \<and> 0 < cells (gmem gs) (g1_sigma (gfit1 gs)) ! j. ((cells (gmem gs) (wdata wind) ! j - gfit ! j) / cells (gmem gs) (g1_sigma (gfit1 gs)) ! j)\<^sup>2)
               / (real (card {j. j < length (cells (gmem gs) (g1_sigma (gfit1 gs))) \<and> 0 < cells (gmem gs) (g1_sigma (gfit1 gs)) ! j}) - real (length gsoln))) \<and>
          spec_resid (cells (gmem gs) (wdata wind)) gfit (cells (gmem gs) (g1_sigma (gfit1 gs))) i = (cells (gmem gs) (wdata wind) ! i - gfit ! i) / cells (gmem gs) (g1_sigma (gfit1 gs)) ! i \<and>
          (i \<in> included (cells (gmem gs) (g1_sigma (gfit1 gs))) \<longleftrightarrow> 0 < cells (gmem gs) (g1_sigma (gfit1 gs)) ! i) \<and>
          cells (gmem gs') (g1_sigma (gfit1 gs)) ! i = (if 0 < cells (gmem gs) (g1_sigma (gfit1 gs)) ! i \<and> \<bar>spec_resid (cells (gmem gs) (wdata wind)) gfit (cells (gmem gs) (g1_sigma (gfit1 gs))) i\<bar> > spec_sfac (cells (gmem gs) (wdata wind)) gfit (cells (gmem gs) (g1_sigma (gfit1 gs))) (length gsoln) * thresh then - cells (gmem gs) (g1_sigma (gfit1 gs)) ! i else cells (gmem gs) (g1_sigma (gfit1 gs)) ! i) \<and>
          (cells (gmem gs') (g1_sigma (gfit1 gs)) ! i \<noteq> cells (gmem gs) (g1_sigma (gfit1 gs)) ! i \<longleftrightarrow> 0 < cells (gmem gs) (g1_sigma (gfit1 gs)) ! i \<and> \<bar>spec_resid (cells (gmem gs) (wdata wind)) gfit (cells (gmem gs) (g1_sigma (gfit1 gs))) i\<bar> > spec_sfac (cells (gmem gs) (wdata wind)) gfit (cells (gmem gs) (g1_sigma (gfit1 gs))) (length gsoln) * thresh) \<and>
          (cells (gmem gs') (g1_sigma (gfit1 gs)) ! i \<noteq> cells (gmem gs) (g1_sigma (gfit1 gs)) ! i \<longrightarrow> cells (gmem gs') (g1_sigma (gfit1 gs)) ! i = - cells (gmem gs) (g1_sigma (gfit1 gs)) ! i) \<and>
          (\<bar>spec_resid (cells (gmem gs) (wdata wind)) gfit (cells (gmem gs) (g1_sigma (gfit1 gs))) i\<bar> = spec_sfac (cells (gmem gs) (wdata wind)) gfit (cells (gmem gs) (g1_sigma (gfit1 gs))) (length gsoln) * thresh \<longrightarrow> cells (gmem gs') (g1_sigma (gfit1 gs)) ! i = cells (gmem gs) (g1_sigma (gfit1 gs)) ! i))"
    by (intro impI, elim conjE, rule fitGaussian_rejection_rule; assumption)
  from m g show ?thesis by (rule conjI)
qed

theorem rejection_rule_witness:
  "(window_ok ex_wind ex_store \<and>
   (3::nat) < length (cells ex_store (wdata ex_wind)) \<and>
   (fitMoffat_next ex_leastsq ex_wind 0 0 1 1 2 1 False 2 2)\<^sup>*\<^sup>* (fitMoffat_init ex_wind 2 (\<lambda>_. 1) (\<lambda>_. 1) ex_store) ex_m0 \<and>
   fitMoffat_solve ex_leastsq 0 0 1 1 2 1 False 2 ex_m0 = Inr ((replicate 11 0, [0, 0, 1, 1, 2, 2], (0, 0, 1, 1, 2, 2), (1, 1, 1, 1, 1, 1)), ex_m0) \<and>
   length ([0, 0, 1, 1, 2, 2] :: real list) < card (included (cells (mem ex_m0) (m1_sigma (mfit1 ex_m0)))) \<and>
   fitMoffat_iter ex_leastsq ex_wind 0 0 1 1 2 1 False 2 2 ex_m0 = Continue ex_m1 \<and>
   cells (mem ex_m1) (m1_sigma (mfit1 ex_m0)) ! 3 \<noteq> cells (mem ex_m0) (m1_sigma (mfit1 ex_m0)) ! 3 \<and>
   0 < cells (mem ex_m0) (m1_sigma (mfit1 ex_m0)) ! 3 \<and>
   \<bar>spec_resid (cells (mem ex_m0) (wdata ex_wind)) (replicate 11 0) (cells (mem ex_m0) (m1_sigma (mfit1 ex_m0))) 3\<bar> > spec_sfac (cells (mem ex_m0) (wdata ex_wind)) (replicate 11 0) (cells (mem ex_m0) (m1_sigma (mfit1 ex_m0))) (length ([0, 0, 1, 1, 2, 2] :: real list)) * 2 \<and>
   (7::nat) < length (cells ex_store (wdata ex_wind)) \<and>
   (fitMoffat_next ex_leastsq ex_wind 0 0 1 1 2 1 False 2 2)\<^sup>*\<^sup>* (fitMoffat_init ex_wind 2 (\<lambda>_. 1) (\<lambda>_. 1) ex_store) ex_m1 \<and>
   fitMoffat_solve ex_leastsq 0 0 1 1 2 1 False 2 ex_m1 = Inr ((replicate 11 0, [0, 0, 1, 1, 2, 2], (0, 0, 1, 1, 2, 2), (1, 1, 1, 1, 1, 1)), ex_m1) \<and>
   length ([0, 0, 1, 1, 2, 2] :: real list) < card (included (cells (mem ex_m1) (m1_sigma (mfit1 ex_m1)))) \<and>
   fitMoffat_iter ex_leastsq ex_wind 0 0 1 1 2 1 False 2 2 ex_m1 = Break (((0, 0, 1, 1, 2, 2), (1/2, 1/2, 1/2, 1/2, 1/2, 1/2), (replicate 11 0, 2, 3, 1, 1, 10, 1, 6)), ex_m1) \<and>
   spec_sfac (cells (mem ex_m1) (wdata ex_wind)) (replicate 11 0) (cells (mem ex_m1) (m1_sigma (mfit1 ex_m1))) (length ([0, 0, 1, 1, 2, 2] :: real list)) = 1 / 2 \<and>
   \<bar>spec_resid (cells (mem ex_m1) (wdata ex_wind)) (replicate 11 0) (cells (mem ex_m1) (m1_sigma (mfit1 ex_m1))) 7\<bar> = spec_sfac (cells (mem ex_m1) (wdata ex_wind)) (replicate 11 0) (cells (mem ex_m1) (m1_sigma (mfit1 ex_m1))) (length ([0, 0, 1, 1, 2, 2] :: real list)) * 2 \<and>
   cells (mem ex_m1) (m1_sigma (mfit1 ex_m1)) ! 7 = 1) \<and>
   (window_ok ex_wind ex_gstore \<and>
   (3::nat) < length (cells ex_gstore (wdata ex_wind)) \<and>
   (fitGaussian_next ex_leastsq ex_wind 0 0 1 1 2 1 False 1)\<^sup>*\<^sup>* (fitGaussian_init ex_wind 2 (\<lambda>_. 1) (\<lambda>_. 1) ex_gstore) ex_g0 \<and>
   fitGaussian_solve ex_leastsq 0 0 1 1 2 1 False ex_g0 = Inr ((replicate 11 0, [0, 0, 1, 1, 2], (0, 0, 1, 1, 2), (1, 1, 1, 1, 1)), ex_g0) \<and>
   length ([0, 0, 1, 1, 2] :: real list) < card (included (cells (gmem ex_g0) (g1_sigma (gfit1 ex_g0)))) \<and>
   fitGaussian_iter ex_leastsq ex_wind 0 0 1 1 2 1 False 1 ex_g0 = Continue ex_g1 \<and>
   cells (gmem ex_g1) (g1_sigma (gfit1 ex_g0)) ! 3 \<noteq> cells (gmem ex_g0) (g1_sigma (gfit1 ex_g0)) ! 3 \<and>
   0 < cells (gmem ex_g0) (g1_sigma (gfit1 ex_g0)) ! 3 \<and>
   \<bar>spec_resid (cells (gmem ex_g0) (wdata ex_wind)) (replicate 11 0) (cells (gmem ex_g0) (g1_sigma (gfit1 ex_g0))) 3\<bar> > spec_sfac (cells (gmem ex_g0) (wdata ex_wind)) (replicate 11 0) (cells (gmem ex_g0) (g1_sigma (gfit1 ex_g0))) (length ([0, 0, 1, 1, 2] :: real list)) * 1 \<and>
   (4::nat) < length (cells ex_gstore (wdata ex_wind)) \<and>
   (fitGaussian_next ex_leastsq ex_wind 0 0 1 1 2 1 False 1)\<^sup>*\<^sup>* (fitGaussian_init ex_wind 2 (\<lambda>_. 1) (\<lambda>_. 1) ex_gstore) ex_g1 \<and>
   fitGaussian_solve ex_leastsq 0 0 1 1 2 1 False ex_g1 = Inr ((replicate 11 0, [0, 0, 1, 1, 2], (0, 0, 1, 1, 2), (1, 1, 1, 1, 1)), ex_g1) \<and>
   length ([0, 0, 1, 1, 2] :: real list) < card (included (cells (gmem ex_g1) (g1_sigma (gfit1 ex_g1)))) \<and>
   fitGaussian_iter ex_leastsq ex_wind 0 0 1 1 2 1 False 1 ex_g1 = Break (((0, 0, 1, 1, 2), (2, 2, 2, 2, 2), (replicate 11 0, 2, 3, 1, 20, 10, 1, 5)), ex_g1) \<and>
   spec_sfac (cells (gmem ex_g1) (wdata ex_wind)) (replicate 11 0) (cells (gmem ex_g1) (g1_sigma (gfit1 ex_g1))) (length ([0, 0, 1, 1, 2] :: real list)) = 2 \<and>
   \<bar>spec_resid (cells (gmem ex_g1) (wdata ex_wind)) (replicate 11 0) (cells (gmem ex_g1) (g1_sigma (gfit1 ex_g1))) 4\<bar> = spec_sfac (cells (gmem ex_g1) (wdata ex_wind)) (replicate 11 0) (cells (gmem ex_g1) (g1_sigma (gfit1 ex_g1))) (length ([0, 0, 1, 1, 2] :: real list)) * 1 \<and>
   cells (gmem ex_g1) (g1_sigma (gfit1 ex_g1)) ! 4 = 1)"
proof -
  have m: "window_ok ex_wind ex_store \<and>
   (3::nat) < length (cells ex_store (wdata ex_wind)) \<and>
   (fitMoffat_next ex_leastsq ex_wind 0 0 1 1 2 1 False 2 2)\<^sup>*\<^sup>* (fitMoffat_init ex_wind 2 (\<lambda>_. 1) (\<lambda>_. 1) ex_store) ex_m0 \<and>
   fitMoffat_solve ex_leastsq 0 0 1 1 2 1 False 2 ex_m0 = Inr ((replicate 11 0, [0, 0, 1, 1, 2, 2], (0, 0, 1, 1, 2, 2), (1, 1, 1, 1, 1, 1)), ex_m0) \<and>
   length ([0, 0, 1, 1, 2, 2] :: real list) < card (included (cells (mem ex_m0) (m1_sigma (mfit1 ex_m0)))) \<and>
   fitMoffat_iter ex_leastsq ex_wind 0 0 1 1 2 1 False 2 2 ex_m0 = Continue ex_m1 \<and>
   cells (mem ex_m1) (m1_sigma (mfit1 ex_m0)) ! 3 \<noteq> cells (mem ex_m0) (m1_sigma (mfit1 ex_m0)) ! 3 \<and>
   0 < cells (mem ex_m0) (m1_sigma (mfit1 ex_m0)) ! 3 \<and>
   \<bar>spec_resid (cells (mem ex_m0) (wdata ex_wind)) (replicate 11 0) (cells (mem ex_m0) (m1_sigma (mfit1 ex_m0))) 3\<bar> > spec_sfac (cells (mem ex_m0) (wdata ex_wind)) (replicate 11 0) (cells (mem ex_m0) (m1_sigma (mfit1 ex_m0))) (length ([0, 0, 1, 1, 2, 2] :: real list)) * 2 \<and>
   (7::nat) < length (cells ex_store (wdata ex_wind)) \<and>
   (fitMoffat_next ex_leastsq ex_wind 0 0 1 1 2 1 False 2 2)\<^sup>*\<^sup>* (fitMoffat_init ex_wind 2 (\<lambda>_. 1) (\<lambda>_. 1) ex_store) ex_m1 \<and>
   fitMoffat_solve ex_leastsq 0 0 1 1 2 1 False 2 ex_m1 = Inr ((replicate 11 0, [0, 0, 1, 1, 2, 2], (0, 0, 1, 1, 2, 2), (1, 1, 1, 1, 1, 1)), ex_m1) \<and>
   length ([0, 0, 1, 1, 2, 2] :: real list) < card (included (cells (mem ex_m1) (m1_sigma (mfit1 ex_m1)))) \<and>
   fitMoffat_iter ex_leastsq ex_wind 0 0 1 1 2 1 False 2 2 ex_m1 = Break (((0, 0, 1, 1, 2, 2), (1/2, 1/2, 1/2, 1/2, 1/2, 1/2), (replicate 11 0, 2, 3, 1, 1, 10, 1, 6)), ex_m1) \<and>
   spec_sfac (cells (mem ex_m1) (wdata ex_wind)) (replicate 11 0) (cells (mem ex_m1) (m1_sigma (mfit1 ex_m1))) (length ([0, 0, 1, 1, 2, 2] :: real list)) = 1 / 2 \<and>
   \<bar>spec_resid (cells (mem ex_m1) (wdata ex_wind)) (replicate 11 0) (cells (mem ex_m1) (m1_sigma (mfit1 ex_m1))) 7\<bar> = spec_sfac (cells (mem ex_m1) (wdata ex_wind)) (replicate 11 0) (cells (mem ex_m1) (m1_sigma (mfit1 ex_m1))) (length ([0, 0, 1, 1, 2, 2] :: real list)) * 2 \<and>
   cells (mem ex_m1) (m1_sigma (mfit1 ex_m1)) ! 7 = 1"
  proof -
    have w: "window_ok ex_wind ex_store" by (rule ex_window_ok)
    have i3: "(3::nat) < length (cells ex_store (wdata ex_wind))"
      by (simp add: ex_store_def ex_wind_def ex_data_def)
    have i7: "(7::nat) < length (cells ex_store (wdata ex_wind))"
      by (simp add: ex_store_def ex_wind_def ex_data_def)
    have r0: "(fitMoffat_next ex_leastsq ex_wind 0 0 1 1 2 1 False 2 2)\<^sup>*\<^sup>* (fitMoffat_init ex_wind 2 (\<lambda>_. 1) (\<lambda>_. 1) ex_store) ex_m0"
      unfolding ex_m0_def by (rule rtranclp.rtrancl_refl)
    have "fitMoffat_next ex_leastsq ex_wind 0 0 1 1 2 1 False 2 2 ex_m0 ex_m1"
      by (simp add: fitMoffat_next_def ex_m0_iter)
    then have r1: "(fitMoffat_next ex_leastsq ex_wind 0 0 1 1 2 1 False 2 2)\<^sup>*\<^sup>* (fitMoffat_init ex_wind 2 (\<lambda>_. 1) (\<lambda>_. 1) ex_store) ex_m1"
      unfolding ex_m0_def[symmetric] by (rule r_into_rtranclp)
    have a1: "m1_sigma (mfit1 ex_m1) = 1" "wdata ex_wind = 0"
      by (simp_all add: ex_m1_def ex_m0_cells ex_wind_def)
    have a2: "cells (mem ex_m1) 1 = [1, 1, 1, - 1, 1, 1, 1, 1, 1, 1, 1]" "cells (mem ex_m1) 0 = ex_data"
      by (simp_all add: ex_m1_def ex_m0_cells)
    have v0: "cells (mem ex_m0) (m1_sigma (mfit1 ex_m0)) ! 3 = 1" unfolding ex_m0_cells by simp
    have v1: "cells (mem ex_m1) (m1_sigma (mfit1 ex_m0)) ! 3 = - 1" unfolding ex_m0_cells a2 by simp
    from v0 v1 have ne: "cells (mem ex_m1) (m1_sigma (mfit1 ex_m0)) ! 3 \<noteq> cells (mem ex_m0) (m1_sigma (mfit1 ex_m0)) ! 3" by simp
    have k0: "length ([0, 0, 1, 1, 2, 2] :: real list) < card (included (cells (mem ex_m0) (m1_sigma (mfit1 ex_m0))))"
      unfolding included_def count_ok_card[symmetric] ex_m0_cells
      by (simp add: count_ok_def np_mask_def np_gt0_def)
    have k1: "length ([0, 0, 1, 1, 2, 2] :: real list) < card (included (cells (mem ex_m1) (m1_sigma (mfit1 ex_m1))))"
      unfolding included_def count_ok_card[symmetric] a1 a2
      by (simp add: count_ok_def np_mask_def np_gt0_def)
    have h0: "window_ok ex_wind ex_store \<and>
      (3::nat) < length (cells ex_store (wdata ex_wind)) \<and>
      (fitMoffat_next ex_leastsq ex_wind 0 0 1 1 2 1 False 2 2)\<^sup>*\<^sup>* (fitMoffat_init ex_wind 2 (\<lambda>_. 1) (\<lambda>_. 1) ex_store) ex_m0 \<and>
      fitMoffat_solve ex_leastsq 0 0 1 1 2 1 False 2 ex_m0 = Inr ((replicate 11 0, [0, 0, 1, 1, 2, 2], (0, 0, 1, 1, 2, 2), (1, 1, 1, 1, 1, 1)), ex_m0) \<and>
      length ([0, 0, 1, 1, 2, 2] :: real list) < card (included (cells (mem ex_m0) (m1_sigma (mfit1 ex_m0)))) \<and>
      (fitMoffat_iter ex_leastsq ex_wind 0 0 1 1 2 1 False 2 2 ex_m0 = Continue ex_m1 \<or>
       fitMoffat_iter ex_leastsq ex_wind 0 0 1 1 2 1 False 2 2 ex_m0 = Break (undefined, ex_m1))"
      using w i3 r0 ex_m0_solve k0 ex_m0_iter by (intro conjI disjI1)
    note t0 = rejection_rule[where leastsq = ex_leastsq and wind = ex_wind and sky = 0
        and height = 0 and xcen = 1 and ycen = 1 and fwhm = 2 and fwhm_min = 1 and fwhm_fix = False
        and beta = 2 and thresh = 2 and read = "\<lambda>_. 1" and gain = "\<lambda>_. 1" and st = ex_store
        and i = 3 and s = ex_m0 and s' = ex_m1 and r = undefined and fit = "replicate 11 0"
        and soln = "[0, 0, 1, 1, 2, 2]" and pf = "(0, 0, 1, 1, 2, 2)" and pe = "(1, 1, 1, 1, 1, 1)" and ?s1.0 = ex_m0,
        THEN conjunct1, rule_format, OF h0]
    from t0[THEN conjunct2, THEN conjunct2, THEN conjunct2, THEN conjunct2, THEN conjunct2, THEN conjunct2, THEN conjunct1] ne
    have b: "0 < cells (mem ex_m0) (m1_sigma (mfit1 ex_m0)) ! 3 \<and>
        \<bar>spec_resid (cells (mem ex_m0) (wdata ex_wind)) (replicate 11 0) (cells (mem ex_m0) (m1_sigma (mfit1 ex_m0))) 3\<bar> > spec_sfac (cells (mem ex_m0) (wdata ex_wind)) (replicate 11 0) (cells (mem ex_m0) (m1_sigma (mfit1 ex_m0))) (length ([0, 0, 1, 1, 2, 2] :: real list)) * 2"
      by blast
    have h1: "window_ok ex_wind ex_store \<and>
      (7::nat) < length (cells ex_store (wdata ex_wind)) \<and>
      (fitMoffat_next ex_leastsq ex_wind 0 0 1 1 2 1 False 2 2)\<^sup>*\<^sup>* (fitMoffat_init ex_wind 2 (\<lambda>_. 1) (\<lambda>_. 1) ex_store) ex_m1 \<and>
      fitMoffat_solve ex_leastsq 0 0 1 1 2 1 False 2 ex_m1 = Inr ((replicate 11 0, [0, 0, 1, 1, 2, 2], (0, 0, 1, 1, 2, 2), (1, 1, 1, 1, 1, 1)), ex_m1) \<and>
      length ([0, 0, 1, 1, 2, 2] :: real list) < card (included (cells (mem ex_m1) (m1_sigma (mfit1 ex_m1)))) \<and>
      (fitMoffat_iter ex_leastsq ex_wind 0 0 1 1 2 1 False 2 2 ex_m1 = Continue ex_m1 \<or>
       fitMoffat_iter ex_leastsq ex_wind 0 0 1 1 2 1 False 2 2 ex_m1 = Break (((0, 0, 1, 1, 2, 2), (1/2, 1/2, 1/2, 1/2, 1/2, 1/2), (replicate 11 0, 2, 3, 1, 1, 10, 1, 6)), ex_m1))"
      using w i7 r1 ex_m1_solve k1 ex_m1_iter by (intro conjI disjI2)
    note t1 = rejection_rule[where leastsq = ex_leastsq and wind = ex_wind and sky = 0
        and height = 0 and xcen = 1 and ycen = 1 and fwhm = 2 and fwhm_min = 1 and fwhm_fix = False
        and beta = 2 and thresh = 2 and read = "\<lambda>_. 1" and gain = "\<lambda>_. 1" and st = ex_store
        and i = 7 and s = ex_m1 and s' = ex_m1 and fit = "replicate 11 0"
        and r = "((0, 0, 1, 1, 2, 2), (1/2, 1/2, 1/2, 1/2, 1/2, 1/2), (replicate 11 0, 2, 3, 1, 1, 10, 1, 6))"
        and soln = "[0, 0, 1, 1, 2, 2]" and pf = "(0, 0, 1, 1, 2, 2)" and pe = "(1, 1, 1, 1, 1, 1)" and ?s1.0 = ex_m1,
        THEN conjunct1, rule_format, OF h1]
    have ev: "fst (snd (snd (reject_outliers (m1_sigma (mfit1 ex_m1)) (wdata ex_wind) (replicate 11 0)
        (length ([0, 0, 1, 1, 2, 2] :: real list)) 2 (mem ex_m1)))) = 1 / 2"
      unfolding a1 reject_outliers_def Let_def a2 ex_data_def
      by (simp add: np_gt0_def np_div_def np_sub_def np_mask_def numeral_eq_Suc real_sqrt_divide)
    from ev have sf: "spec_sfac (cells (mem ex_m1) (wdata ex_wind)) (replicate 11 0) (cells (mem ex_m1) (m1_sigma (mfit1 ex_m1))) (length ([0, 0, 1, 1, 2, 2] :: real list)) = 1 / 2"
      unfolding t1[THEN conjunct2, THEN conjunct1] by simp
    have rs: "\<bar>spec_resid (cells (mem ex_m1) (wdata ex_wind)) (replicate 11 0) (cells (mem ex_m1) (m1_sigma (mfit1 ex_m1))) 7\<bar> = 1"
      unfolding a1 a2 by (simp add: spec_resid_def ex_data_def)
    have tie: "\<bar>spec_resid (cells (mem ex_m1) (wdata ex_wind)) (replicate 11 0) (cells (mem ex_m1) (m1_sigma (mfit1 ex_m1))) 7\<bar> = spec_sfac (cells (mem ex_m1) (wdata ex_wind)) (replicate 11 0) (cells (mem ex_m1) (m1_sigma (mfit1 ex_m1))) (length ([0, 0, 1, 1, 2, 2] :: real list)) * 2"
      unfolding rs sf by simp
    have v7: "cells (mem ex_m1) (m1_sigma (mfit1 ex_m1)) ! 7 = 1" unfolding a1 a2 by simp
    from w i3 r0 ex_m0_solve k0 ex_m0_iter ne b i7 r1 ex_m1_solve k1 ex_m1_iter sf tie v7
    show ?thesis by (intro conjI) blast+
  qed
  have g: "window_ok ex_wind ex_gstore \<and>
   (3::nat) < length (cells ex_gstore (wdata ex_wind)) \<and>
   (fitGaussian_next ex_leastsq ex_wind 0 0 1 1 2 1 False 1)\<^sup>*\<^sup>* (fitGaussian_init ex_wind 2 (\<lambda>_. 1) (\<lambda>_. 1) ex_gstore) ex_g0 \<and>
   fitGaussian_solve ex_leastsq 0 0 1 1 2 1 False ex_g0 = Inr ((replicate 11 0, [0, 0, 1, 1, 2], (0, 0, 1, 1, 2), (1, 1, 1, 1, 1)), ex_g0) \<and>
   length ([0, 0, 1, 1, 2] :: real list) < card (included (cells (gmem ex_g0) (g1_sigma (gfit1 ex_g0)))) \<and>
   fitGaussian_iter ex_leastsq ex_wind 0 0 1 1 2 1 False 1 ex_g0 = Continue ex_g1 \<and>
   cells (gmem ex_g1) (g1_sigma (gfit1 ex_g0)) ! 3 \<noteq> cells (gmem ex_g0) (g1_sigma (gfit1 ex_g0)) ! 3 \<and>
   0 < cells (gmem ex_g0) (g1_sigma (gfit1 ex_g0)) ! 3 \<and>
   \<bar>spec_resid (cells (gmem ex_g0) (wdata ex_wind)) (replicate 11 0) (cells (gmem ex_g0) (g1_sigma (gfit1 ex_g0))) 3\<bar> > spec_sfac (cells (gmem ex_g0) (wdata ex_wind)) (replicate 11 0) (cells (gmem ex_g0) (g1_sigma (gfit1 ex_g0))) (length ([0, 0, 1, 1, 2] :: real list)) * 1 \<and>
   (4::nat) < length (cells ex_gstore (wdata ex_wind)) \<and>
   (fitGaussian_next ex_leastsq ex_wind 0 0 1 1 2 1 False 1)\<^sup>*\<^sup>* (fitGaussian_init ex_wind 2 (\<lambda>_. 1) (\<lambda>_. 1) ex_gstore) ex_g1 \<and>
   fitGaussian_solve ex_leastsq 0 0 1 1 2 1 False ex_g1 = Inr ((replicate 11 0, [0, 0, 1, 1, 2], (0, 0, 1, 1, 2), (1, 1, 1, 1, 1)), ex_g1) \<and>
   length ([0, 0, 1, 1, 2] :: real list) < card (included (cells (gmem ex_g1) (g1_sigma (gfit1 ex_g1)))) \<and>
   fitGaussian_iter ex_leastsq ex_wind 0 0 1 1 2 1 False 1 ex_g1 = Break (((0, 0, 1, 1, 2), (2, 2, 2, 2, 2), (replicate 11 0, 2, 3, 1, 20, 10, 1, 5)), ex_g1) \<and>
   spec_sfac (cells (gmem ex_g1) (wdata ex_wind)) (replicate 11 0) (cells (gmem ex_g1) (g1_sigma (gfit1 ex_g1))) (length ([0, 0, 1, 1, 2] :: real list)) = 2 \<and>
   \<bar>spec_resid (cells (gmem ex_g1) (wdata ex_wind)) (replicate 11 0) (cells (gmem ex_g1) (g1_sigma (gfit1 ex_g1))) 4\<bar> = spec_sfac (cells (gmem ex_g1) (wdata ex_wind)) (replicate 11 0) (cells (gmem ex_g1) (g1_sigma (gfit1 ex_g1))) (length ([0, 0, 1, 1, 2] :: real list)) * 1 \<and>
   cells (gmem ex_g1) (g1_sigma (gfit1 ex_g1)) ! 4 = 1"
  proof -
    have w: "window_ok ex_wind ex_gstore" by (rule ex_gwindow_ok)
    have i3: "(3::nat) < length (cells ex_gstore (wdata ex_wind))"
      by (simp add: ex_gstore_def ex_wind_def ex_gdata_def)
    have i7: "(4::nat) < length (cells ex_gstore (wdata ex_wind))"
      by (simp add: ex_gstore_def ex_wind_def ex_gdata_def)
    have r0: "(fitGaussian_next ex_leastsq ex_wind 0 0 1 1 2 1 False 1)\<^sup>*\<^sup>* (fitGaussian_init ex_wind 2 (\<lambda>_. 1) (\<lambda>_. 1) ex_gstore) ex_g0"
      unfolding ex_g0_def by (rule rtranclp.rtrancl_refl)
    have "fitGaussian_next ex_leastsq ex_wind 0 0 1 1 2 1 False 1 ex_g0 ex_g1"
      by (simp add: fitGaussian_next_def ex_g0_iter)
    then have r1: "(fitGaussian_next ex_leastsq ex_wind 0 0 1 1 2 1 False 1)\<^sup>*\<^sup>* (fitGaussian_init ex_wind 2 (\<lambda>_. 1) (\<lambda>_. 1) ex_gstore) ex_g1"
      unfolding ex_g0_def[symmetric] by (rule r_into_rtranclp)
    have a1: "g1_sigma (gfit1 ex_g1) = 1" "wdata ex_wind = 0"
      by (simp_all add: ex_g1_def ex_g0_cells ex_wind_def)
    have a2: "cells (gmem ex_g1) 1 = [1, 1, 1, - 1, 1, 1, 1, 1, 1, 1, 1]" "cells (gmem ex_g1) 0 = ex_gdata"
      by (simp_all add: ex_g1_def ex_g0_cells)
    have v0: "cells (gmem ex_g0) (g1_sigma (gfit1 ex_g0)) ! 3 = 1" unfolding ex_g0_cells by simp
    have v1: "cells (gmem ex_g1) (g1_sigma (gfit1 ex_g0)) ! 3 = - 1" unfolding ex_g0_cells a2 by simp
    from v0 v1 have ne: "cells (gmem ex_g1) (g1_sigma (gfit1 ex_g0)) ! 3 \<noteq> cells (gmem ex_g0) (g1_sigma (gfit1 ex_g0)) ! 3" by simp
    have k0: "length ([0, 0, 1, 1, 2] :: real list) < card (included (cells (gmem ex_g0) (g1_sigma (gfit1 ex_g0))))"
      unfolding included_def count_ok_card[symmetric] ex_g0_cells
      by (simp add: count_ok_def np_mask_def np_gt0_def)
    have k1: "length ([0, 0, 1, 1, 2] :: real list) < card (included (cells (gmem ex_g1) (g1_sigma (gfit1 ex_g1))))"
      unfolding included_def count_ok_card[symmetric] a1 a2
      by (simp add: count_ok_def np_mask_def np_gt0_def)
    have h0: "window_ok ex_wind ex_gstore \<and>
      (3::nat) < length (cells ex_gstore (wdata ex_wind)) \<and>
      (fitGaussian_next ex_leastsq ex_wind 0 0 1 1 2 1 False 1)\<^sup>*\<^sup>* (fitGaussian_init ex_wind 2 (\<lambda>_. 1) (\<lambda>_. 1) ex_gstore) ex_g0 \<and>
      fitGaussian_solve ex_leastsq 0 0 1 1 2 1 False ex_g0 = Inr ((replicate 11 0, [0, 0, 1, 1, 2], (0, 0, 1, 1, 2), (1, 1, 1, 1, 1)), ex_g0) \<and>
      length ([0, 0, 1, 1, 2] :: real list) < card (included (cells (gmem ex_g0) (g1_sigma (gfit1 ex_g0)))) \<and>
      (fitGaussian_iter ex_leastsq ex_wind 0 0 1 1 2 1 False 1 ex_g0 = Continue ex_g1 \<or>
       fitGaussian_iter ex_leastsq ex_wind 0 0 1 1 2 1 False 1 ex_g0 = Break (undefined, ex_g1))"
      using w i3 r0 ex_g0_solve k0 ex_g0_iter by (intro conjI disjI1)
    note t0 = rejection_rule[where leastsq = ex_leastsq and wind = ex_wind and sky = 0
        and height = 0 and xcen = 1 and ycen = 1 and fwhm = 2 and fwhm_min = 1 and fwhm_fix = False
        and thresh = 1 and read = "\<lambda>_. 1" and gain = "\<lambda>_. 1" and st = ex_gstore
        and i = 3 and gs = ex_g0 and gs' = ex_g1 and gr = undefined and gfit = "replicate 11 0"
        and gsoln = "[0, 0, 1, 1, 2]" and gpf = "(0, 0, 1, 1, 2)" and gpe = "(1, 1, 1, 1, 1)" and ?gs1.0 = ex_g0,
        THEN conjunct2, rule_format, OF h0]
    from t0[THEN conjunct2, THEN conjunct2, THEN conjunct2, THEN conjunct2, THEN conjunct2, THEN conjunct2, THEN conjunct1] ne
    have b: "0 < cells (gmem ex_g0) (g1_sigma (gfit1 ex_g0)) ! 3 \<and>
        \<bar>spec_resid (cells (gmem ex_g0) (wdata ex_wind)) (replicate 11 0) (cells (gmem ex_g0) (g1_sigma (gfit1 ex_g0))) 3\<bar> > spec_sfac (cells (gmem ex_g0) (wdata ex_wind)) (replicate 11 0) (cells (gmem ex_g0) (g1_sigma (gfit1 ex_g0))) (length ([0, 0, 1, 1, 2] :: real list)) * 1"
      by blast
    have h1: "window_ok ex_wind ex_gstore \<and>
      (4::nat) < length (cells ex_gstore (wdata ex_wind)) \<and>
      (fitGaussian_next ex_leastsq ex_wind 0 0 1 1 2 1 False 1)\<^sup>*\<^sup>* (fitGaussian_init ex_wind 2 (\<lambda>_. 1) (\<lambda>_. 1) ex_gstore) ex_g1 \<and>
      fitGaussian_solve ex_leastsq 0 0 1 1 2 1 False ex_g1 = Inr ((replicate 11 0, [0, 0, 1, 1, 2], (0, 0, 1, 1, 2), (1, 1, 1, 1, 1)), ex_g1) \<and>
      length ([0, 0, 1, 1, 2] :: real list) < card (included (cells (gmem ex_g1) (g1_sigma (gfit1 ex_g1)))) \<and>
      (fitGaussian_iter ex_leastsq ex_wind 0 0 1 1 2 1 False 1 ex_g1 = Continue ex_g1 \<or>
       fitGaussian_iter ex_leastsq ex_wind 0 0 1 1 2 1 False 1 ex_g1 = Break (((0, 0, 1, 1, 2), (2, 2, 2, 2, 2), (replicate 11 0, 2, 3, 1, 20, 10, 1, 5)), ex_g1))"
      using w i7 r1 ex_g1_solve k1 ex_g1_iter by (intro conjI disjI2)
    note t1 = rejection_rule[where leastsq = ex_leastsq and wind = ex_wind and sky = 0
        and height = 0 and xcen = 1 and ycen = 1 and fwhm = 2 and fwhm_min = 1 and fwhm_fix = False
        and thresh = 1 and read = "\<lambda>_. 1" and gain = "\<lambda>_. 1" and st = ex_gstore
        and i = 4 and gs = ex_g1 and gs' = ex_g1 and gfit = "replicate 11 0"
        and gr = "((0, 0, 1, 1, 2), (2, 2, 2, 2, 2), (replicate 11 0, 2, 3, 1, 20, 10, 1, 5))"
        and gsoln = "[0, 0, 1, 1, 2]" and gpf = "(0, 0, 1, 1, 2)" and gpe = "(1, 1, 1, 1, 1)" and ?gs1.0 = ex_g1,
        THEN conjunct2, rule_format, OF h1]
    have ev: "fst (snd (snd (reject_outliers (g1_sigma (gfit1 ex_g1)) (wdata ex_wind) (replicate 11 0)
        (length ([0, 0, 1, 1, 2] :: real list)) 1 (gmem ex_g1)))) = 2"
      unfolding a1 reject_outliers_def Let_def a2 ex_gdata_def
      by (simp add: np_gt0_def np_div_def np_sub_def np_mask_def numeral_eq_Suc real_sqrt_divide)
    from ev have sf: "spec_sfac (cells (gmem ex_g1) (wdata ex_wind)) (replicate 11 0) (cells (gmem ex_g1) (g1_sigma (gfit1 ex_g1))) (length ([0, 0, 1, 1, 2] :: real list)) = 2"
      unfolding t1[THEN conjunct2, THEN conjunct1] by simp
    have rs: "\<bar>spec_resid (cells (gmem ex_g1) (wdata ex_wind)) (replicate 11 0) (cells (gmem ex_g1) (g1_sigma (gfit1 ex_g1))) 4\<bar> = 2"
      unfolding a1 a2 by (simp add: spec_resid_def ex_gdata_def)
    have tie: "\<bar>spec_resid (cells (gmem ex_g1) (wdata ex_wind)) (replicate 11 0) (cells (gmem ex_g1) (g1_sigma (gfit1 ex_g1))) 4\<bar> = spec_sfac (cells (gmem ex_g1) (wdata ex_wind)) (replicate 11 0) (cells (gmem ex_g1) (g1_sigma (gfit1 ex_g1))) (length ([0, 0, 1, 1, 2] :: real list)) * 1"
      unfolding rs sf by simp
    have v7: "cells (gmem ex_g1) (g1_sigma (gfit1 ex_g1)) ! 4 = 1" unfolding a1 a2 by simp
    from w i3 r0 ex_g0_solve k0 ex_g0_iter ne b i7 r1 ex_g1_solve k1 ex_g1_iter sf tie v7
    show ?thesis by (intro conjI) blast+
  qed
  from m g show ?thesis by (rule conjI)
qed
section \<open>The errors of the result\<close>

lemma fitMoffat_error_rescaling:
  assumes w: "window_ok wind st"
    and r0: "(fitMoffat_next leastsq wind sky height xcen ycen fwhm fwhm_min fwhm_fix beta thresh)\<^sup>*\<^sup>* (fitMoffat_init wind fwhm read gain st) s"
    and sol: "fitMoffat_solve leastsq sky height xcen ycen fwhm fwhm_min fwhm_fix beta s = Inr ((fit, soln, pf, (skyfe, heightfe, xfe, yfe, fwhmfe, betafe)), s1)"
    and dom: "length soln < card (included (cells (mem s) (m1_sigma (mfit1 s))))"
    and it: "fitMoffat_iter leastsq wind sky height xcen ycen fwhm fwhm_min fwhm_fix beta thresh s = Break ((pars, (esky, eheight, excen, eycen, efwhm, ebeta), ext), s')"
  shows "pars = pf \<and>
         esky = skyfe * spec_sfac (cells (mem s) (wdata wind)) fit (cells (mem s) (m1_sigma (mfit1 s))) (length soln) \<and>
         eheight = heightfe * spec_sfac (cells (mem s) (wdata wind)) fit (cells (mem s) (m1_sigma (mfit1 s))) (length soln) \<and>
         excen = xfe * spec_sfac (cells (mem s) (wdata wind)) fit (cells (mem s) (m1_sigma (mfit1 s))) (length soln) \<and>
         eycen = yfe * spec_sfac (cells (mem s) (wdata wind)) fit (cells (mem s) (m1_sigma (mfit1 s))) (length soln) \<and>
         ebeta = betafe * spec_sfac (cells (mem s) (wdata wind)) fit (cells (mem s) (m1_sigma (mfit1 s))) (length soln) \<and>
         efwhm = (if fwhmfe > 0 then fwhmfe * spec_sfac (cells (mem s) (wdata wind)) fit (cells (mem s) (m1_sigma (mfit1 s))) (length soln) else fwhmfe) \<and>
         (fwhmfe = - 1 \<longrightarrow> efwhm = - 1) \<and>
         (0 \<le> fwhmfe \<longrightarrow> efwhm = fwhmfe * spec_sfac (cells (mem s) (wdata wind)) fit (cells (mem s) (m1_sigma (mfit1 s))) (length soln)) \<and>
         cells (mem s') (m1_sigma (mfit1 s)) = cells (mem s) (m1_sigma (mfit1 s)) \<and>
         fst (snd (snd (reject_outliers (m1_sigma (mfit1 s)) (wdata wind) fit (length soln) thresh (mem s)))) = spec_sfac (cells (mem s) (wdata wind)) fit (cells (mem s) (m1_sigma (mfit1 s))) (length soln) \<and>
         ((fwhm_fix \<and> fwhmfe = - 1 \<and>
            sqrt_diag (lsq_cov (moffat_fixed_solve leastsq sky height xcen ycen beta fwhm s)) = Inr [skyfe, heightfe, xfe, yfe, betafe]) \<or>
           (\<not> fwhm_fix \<and> fwhmfe = - 1 \<and>
            sqrt_diag (lsq_cov (moffat_fixed_solve leastsq sky height xcen ycen beta fwhm_min s)) = Inr [skyfe, heightfe, xfe, yfe, betafe]) \<or>
           (\<not> fwhm_fix \<and>
            sqrt_diag (lsq_cov (moffat_free_solve leastsq sky height xcen ycen fwhm beta s)) = Inr [skyfe, heightfe, xfe, yfe, fwhmfe, betafe]))"
proof -
  let ?a = "m1_sigma (mfit1 s)"
  let ?sg = "cells (mem s) ?a"
  let ?dat = "cells (mem s) (wdata wind)"
  let ?sf = "spec_sfac ?dat fit ?sg (length soln)"
  from w r0 have ok: "moffat_ok wind s" by (rule fitMoffat_init_reach_ok)
  note keep = fitMoffat_solve_keeps[OF sol]
  note eq = fitMoffat_iter_eq[OF sol ok, of thresh]
  from it eq have same: "map (spec_rejected ?dat fit ?sg (length soln) thresh) [0..<length ?sg] = ?sg"
    by (auto split: if_splits)
  from it eq[unfolded same] have br: "Break ((pars, (esky, eheight, excen, eycen, efwhm, ebeta), ext), s') =
      Break ((pf, (skyfe * ?sf, heightfe * ?sf, xfe * ?sf, yfe * ?sf,
                 (if fwhmfe > 0 then fwhmfe * ?sf else fwhmfe), betafe * ?sf),
                (fit, fst (m1_xy (mfit1 s)), snd (m1_xy (mfit1 s)), ?a,
                 spec_chisq ?dat fit ?sg, count_ok ?sg,
                 int (length ?sg) - int (count_ok ?sg), length soln)),
               s1\<lparr>mem := (mem s)\<lparr>cells := (cells (mem s))(?a := ?sg)\<rparr>\<rparr>)"
    by simp
  then have c1: "pars = pf" and c2: "esky = skyfe * ?sf" and c3: "eheight = heightfe * ?sf"
    and c4: "excen = xfe * ?sf" and c5: "eycen = yfe * ?sf" and c6: "ebeta = betafe * ?sf"
    and c7: "efwhm = (if fwhmfe > 0 then fwhmfe * ?sf else fwhmfe)"
    and s': "s' = s1\<lparr>mem := (mem s)\<lparr>cells := (cells (mem s))(?a := ?sg)\<rparr>\<rparr>"
    by simp_all
  have c8: "fwhmfe = - 1 \<longrightarrow> efwhm = - 1" unfolding c7 by simp
  have c9: "0 \<le> fwhmfe \<longrightarrow> efwhm = fwhmfe * ?sf" unfolding c7 by auto
  have c10: "cells (mem s') ?a = ?sg" unfolding s' by simp
  have len: "length ?sg = ny wind * nx wind" "length ?dat = ny wind * nx wind"
      "length fit = ny wind * nx wind"
    using ok fitMoffat_solve_fit_length[OF sol ok] by (simp_all add: moffat_ok_def)
  obtain chisq nok1 sf st2 where
    rej: "reject_outliers ?a (wdata wind) fit (length soln) thresh (mem s) = (chisq, nok1, sf, st2)"
    by (cases "reject_outliers ?a (wdata wind) fit (length soln) thresh (mem s)") auto
  have c11: "fst (snd (snd (reject_outliers ?a (wdata wind) fit (length soln) thresh (mem s)))) = ?sf"
    unfolding rej using reject_outliers_spec(3)[OF rej len] by simp
  have c12: "(fwhm_fix \<and> fwhmfe = - 1 \<and>
            sqrt_diag (lsq_cov (moffat_fixed_solve leastsq sky height xcen ycen beta fwhm s)) = Inr [skyfe, heightfe, xfe, yfe, betafe]) \<or>
           (\<not> fwhm_fix \<and> fwhmfe = - 1 \<and>
            sqrt_diag (lsq_cov (moffat_fixed_solve leastsq sky height xcen ycen beta fwhm_min s)) = Inr [skyfe, heightfe, xfe, yfe, betafe]) \<or>
           (\<not> fwhm_fix \<and>
            sqrt_diag (lsq_cov (moffat_free_solve leastsq sky height xcen ycen fwhm beta s)) = Inr [skyfe, heightfe, xfe, yfe, fwhmfe, betafe])"
  proof -
    have fixed: "fwhmfe = - 1 \<and>
        sqrt_diag (lsq_cov (moffat_fixed_solve leastsq sky height xcen ycen beta fw s)) = Inr [skyfe, heightfe, xfe, yfe, betafe]"
      if "fitMoffat_fixed leastsq sky height xcen ycen beta fw s = Inr ((fit, soln, pf, (skyfe, heightfe, xfe, yfe, fwhmfe, betafe)), s1)" for fw
    proof -
      from fitMoffat_fixed_Inr(3)[OF that] obtain a b c d f where
        "sqrt_diag (lsq_cov (moffat_fixed_solve leastsq sky height xcen ycen beta fw s)) = Inr [a, b, c, d, f]"
        and "(skyfe, heightfe, xfe, yfe, fwhmfe, betafe) = (a, b, c, d, - 1, f)"
        by blast
      then show ?thesis by simp
    qed
    from fitMoffat_solve_Inr[OF sol] show ?thesis
    proof (elim disjE conjE exE)
      assume "fwhm_fix"
        and f: "fitMoffat_fixed leastsq sky height xcen ycen beta fwhm s = Inr ((fit, soln, pf, (skyfe, heightfe, xfe, yfe, fwhmfe, betafe)), s1)"
      with fixed[OF f] show ?thesis by simp
    next
      fix p1 p2 p3 p4 p5 p6
      assume "\<not> fwhm_fix"
        and f: "fitMoffat_fixed leastsq sky height xcen ycen beta fwhm_min s = Inr ((fit, soln, pf, (skyfe, heightfe, xfe, yfe, fwhmfe, betafe)), s1)"
      with fixed[OF f] show ?thesis by simp
    next
      fix p1 p2 p3 p4 p5 p6 q1 q2 q3 q4 q5 q6
      assume "\<not> fwhm_fix"
        and "sqrt_diag (lsq_cov (moffat_free_solve leastsq sky height xcen ycen fwhm beta s)) = Inr [q1, q2, q3, q4, q5, q6]"
        and "(skyfe, heightfe, xfe, yfe, fwhmfe, betafe) = (q1, q2, q3, q4, q5, q6)"
      then show ?thesis by simp
    qed
  qed
  from c1 c2 c3 c4 c5 c6 c7 c8 c9 c10 c11 c12 show ?thesis by (intro conjI)
qed

lemma fitMoffat_result_last:
  assumes "fitMoffat leastsq wind sky height xcen ycen fwhm fwhm_min fwhm_fix beta read gain thresh st = Some (Inr res)"
  shows "\<exists>s. (fitMoffat_next leastsq wind sky height xcen ycen fwhm fwhm_min fwhm_fix beta thresh)\<^sup>*\<^sup>* (fitMoffat_init wind fwhm read gain st) s \<and> fitMoffat_iter leastsq wind sky height xcen ycen fwhm fwhm_min fwhm_fix beta thresh s = Break res"
proof -
  have nx: "fitMoffat_next leastsq wind sky height xcen ycen fwhm fwhm_min fwhm_fix beta thresh = (\<lambda>s s'. fitMoffat_iter leastsq wind sky height xcen ycen fwhm fwhm_min fwhm_fix beta thresh s = Continue s')"
    by (intro ext) (simp add: fitMoffat_next_def)
  from fitMoffat_loop_last[OF assms[unfolded fitMoffat_def]] show ?thesis
    unfolding nx by simp
qed

lemma fitGaussian_error_rescaling:
  assumes w: "window_ok wind st"
    and r0: "(fitGaussian_next leastsq wind sky height xcen ycen fwhm fwhm_min fwhm_fix thresh)\<^sup>*\<^sup>* (fitGaussian_init wind fwhm read gain st) s"
    and sol: "fitGaussian_solve leastsq sky height xcen ycen fwhm fwhm_min fwhm_fix s = Inr ((fit, soln, pf, (skyfe, heightfe, xfe, yfe, fwhmfe)), s1)"
    and dom: "length soln < card (included (cells (gmem s) (g1_sigma (gfit1 s))))"
    and it: "fitGaussian_iter leastsq wind sky height xcen ycen fwhm fwhm_min fwhm_fix thresh s = Break ((pars, (esky, eheight, excen, eycen, efwhm), ext), s')"
  shows "pars = pf \<and>
         esky = skyfe * spec_sfac (cells (gmem s) (wdata wind)) fit (cells (gmem s) (g1_sigma (gfit1 s))) (length soln) \<and>
         eheight = heightfe * spec_sfac (cells (gmem s) (wdata wind)) fit (cells (gmem s) (g1_sigma (gfit1 s))) (length soln) \<and>
         excen = xfe * spec_sfac (cells (gmem s) (wdata wind)) fit (cells (gmem s) (g1_sigma (gfit1 s))) (length soln) \<and>
         eycen = yfe * spec_sfac (cells (gmem s) (wdata wind)) fit (cells (gmem s) (g1_sigma (gfit1 s))) (length soln) \<and>
         efwhm = (if fwhmfe > 0 then fwhmfe * spec_sfac (cells (gmem s) (wdata wind)) fit (cells (gmem s) (g1_sigma (gfit1 s))) (length soln) else fwhmfe) \<and>
         (fwhmfe = - 1 \<longrightarrow> efwhm = - 1) \<and>
         (0 \<le> fwhmfe \<longrightarrow> efwhm = fwhmfe * spec_sfac (cells (gmem s) (wdata wind)) fit (cells (gmem s) (g1_sigma (gfit1 s))) (length soln)) \<and>
         cells (gmem s') (g1_sigma (gfit1 s)) = cells (gmem s) (g1_sigma (gfit1 s)) \<and>
         fst (snd (snd (reject_outliers (g1_sigma (gfit1 s)) (wdata wind) fit (length soln) thresh (gmem s)))) = spec_sfac (cells (gmem s) (wdata wind)) fit (cells (gmem s) (g1_sigma (gfit1 s))) (length soln) \<and>
         ((fwhm_fix \<and> fwhmfe = - 1 \<and>
            sqrt_diag (lsq_cov (gauss_fixed_solve leastsq sky height xcen ycen fwhm s)) = Inr [skyfe, heightfe, xfe, yfe]) \<or>
           (\<not> fwhm_fix \<and> fwhmfe = - 1 \<and>
            sqrt_diag (lsq_cov (gauss_fixed_solve leastsq sky height xcen ycen fwhm_min s)) = Inr [skyfe, heightfe, xfe, yfe]) \<or>
           (\<not> fwhm_fix \<and>
            sqrt_diag (lsq_cov (gauss_free_solve leastsq sky height xcen ycen fwhm s)) = Inr [skyfe, heightfe, xfe, yfe, fwhmfe]))"
proof -
  let ?a = "g1_sigma (gfit1 s)"
  let ?sg = "cells (gmem s) ?a"
  let ?dat = "cells (gmem s) (wdata wind)"
  let ?sf = "spec_sfac ?dat fit ?sg (length soln)"
  from w r0 have ok: "gauss_ok wind s" by (rule fitGaussian_init_reach_ok)
  note keep = fitGaussian_solve_keeps[OF sol]
  note eq = fitGaussian_iter_eq[OF sol ok, of thresh]
  from it eq have same: "map (spec_rejected ?dat fit ?sg (length soln) thresh) [0..<length ?sg] = ?sg"
    by (auto split: if_splits)
  from it eq[unfolded same] have br: "Break ((pars, (esky, eheight, excen, eycen, efwhm), ext), s') =
      Break ((pf, (skyfe * ?sf, heightfe * ?sf, xfe * ?sf, yfe * ?sf,
                 (if fwhmfe > 0 then fwhmfe * ?sf else fwhmfe)),
                (fit, fst (g1_xy (gfit1 s)), snd (g1_xy (gfit1 s)), ?a,
                 spec_chisq ?dat fit ?sg, count_ok ?sg,
                 int (length ?sg) - int (count_ok ?sg), length soln)),
               s1\<lparr>gmem := (gmem s)\<lparr>cells := (cells (gmem s))(?a := ?sg)\<rparr>\<rparr>)"
    by simp
  then have c1: "pars = pf" and c2: "esky = skyfe * ?sf" and c3: "eheight = heightfe * ?sf"
    and c4: "excen = xfe * ?sf" and c5: "eycen = yfe * ?sf"
    and c7: "efwhm = (if fwhmfe > 0 then fwhmfe * ?sf else fwhmfe)"
    and s': "s' = s1\<lparr>gmem := (gmem s)\<lparr>cells := (cells (gmem s))(?a := ?sg)\<rparr>\<rparr>"
    by simp_all
  have c8: "fwhmfe = - 1 \<longrightarrow> efwhm = - 1" unfolding c7 by simp
  have c9: "0 \<le> fwhmfe \<longrightarrow> efwhm = fwhmfe * ?sf" unfolding c7 by auto
  have c10: "cells (gmem s') ?a = ?sg" unfolding s' by simp
  have len: "length ?sg = ny wind * nx wind" "length ?dat = ny wind * nx wind"
      "length fit = ny wind * nx wind"
    using ok fitGaussian_solve_fit_length[OF sol ok] by (simp_all add: gauss_ok_def)
  obtain chisq nok1 sf st2 where
    rej: "reject_outliers ?a (wdata wind) fit (length soln) thresh (gmem s) = (chisq, nok1, sf, st2)"
    by (cases "reject_outliers ?a (wdata wind) fit (length soln) thresh (gmem s)") auto
  have c11: "fst (snd (snd (reject_outliers ?a (wdata wind) fit (length soln) thresh (gmem s)))) = ?sf"
    unfolding rej using reject_outliers_spec(3)[OF rej len] by simp
  have c12: "(fwhm_fix \<and> fwhmfe = - 1 \<and>
            sqrt_diag (lsq_cov (gauss_fixed_solve leastsq sky height xcen ycen fwhm s)) = Inr [skyfe, heightfe, xfe, yfe]) \<or>
           (\<not> fwhm_fix \<and> fwhmfe = - 1 \<and>
            sqrt_diag (lsq_cov (gauss_fixed_solve leastsq sky height xcen ycen fwhm_min s)) = Inr [skyfe, heightfe, xfe, yfe]) \<or>
           (\<not> fwhm_fix \<and>
            sqrt_diag (lsq_cov (gauss_free_solve leastsq sky height xcen ycen fwhm s)) = Inr [skyfe, heightfe, xfe, yfe, fwhmfe])"
  proof -
    have fixed: "fwhmfe = - 1 \<and>
        sqrt_diag (lsq_cov (gauss_fixed_solve leastsq sky height xcen ycen fw s)) = Inr [skyfe, heightfe, xfe, yfe]"
      if "fitGaussian_fixed leastsq sky height xcen ycen fw s = Inr ((fit, soln, pf, (skyfe, heightfe, xfe, yfe, fwhmfe)), s1)" for fw
    proof -
      from fitGaussian_fixed_Inr(3)[OF that] obtain a b c d where
        "sqrt_diag (lsq_cov (gauss_fixed_solve leastsq sky height xcen ycen fw s)) = Inr [a, b, c, d]"
        and "(skyfe, heightfe, xfe, yfe, fwhmfe) = (a, b, c, d, - 1)"
        by blast
      then show ?thesis by simp
    qed
    from fitGaussian_solve_Inr[OF sol] show ?thesis
    proof (elim disjE conjE exE)
      assume "fwhm_fix"
        and f: "fitGaussian_fixed leastsq sky height xcen ycen fwhm s = Inr ((fit, soln, pf, (skyfe, heightfe, xfe, yfe, fwhmfe)), s1)"
      with fixed[OF f] show ?thesis by simp
    next
      fix p1 p2 p3 p4 p5
      assume "\<not> fwhm_fix"
        and f: "fitGaussian_fixed leastsq sky height xcen ycen fwhm_min s = Inr ((fit, soln, pf, (skyfe, heightfe, xfe, yfe, fwhmfe)), s1)"
      with fixed[OF f] show ?thesis by simp
    next
      fix p1 p2 p3 p4 p5 q1 q2 q3 q4 q5
      assume "\<not> fwhm_fix"
        and "sqrt_diag (lsq_cov (gauss_free_solve leastsq sky height xcen ycen fwhm s)) = Inr [q1, q2, q3, q4, q5]"
        and "(skyfe, heightfe, xfe, yfe, fwhmfe) = (q1, q2, q3, q4, q5)"
      then show ?thesis by simp
    qed
  qed
  from c1 c2 c3 c4 c5  c7 c8 c9 c10 c11 c12 show ?thesis by (intro conjI)
qed

lemma fitGaussian_result_last:
  assumes "fitGaussian leastsq wind sky height xcen ycen fwhm fwhm_min fwhm_fix read gain thresh st = Some (Inr res)"
  shows "\<exists>s. (fitGaussian_next leastsq wind sky height xcen ycen fwhm fwhm_min fwhm_fix thresh)\<^sup>*\<^sup>* (fitGaussian_init wind fwhm read gain st) s \<and> fitGaussian_iter leastsq wind sky height xcen ycen fwhm fwhm_min fwhm_fix thresh s = Break res"
proof -
  have nx: "fitGaussian_next leastsq wind sky height xcen ycen fwhm fwhm_min fwhm_fix thresh = (\<lambda>s s'. fitGaussian_iter leastsq wind sky height xcen ycen fwhm fwhm_min fwhm_fix thresh s = Continue s')"
    by (intro ext) (simp add: fitGaussian_next_def)
  from fitGaussian_loop_last[OF assms[unfolded fitGaussian_def]] show ?thesis
    unfolding nx by simp
qed


text \<open>
  Claim C3. When a pass of the loop of \<^verbatim>\<open>fitMoffat\<close> or \<^verbatim>\<open>fitGaussian\<close> breaks (in a state that
  a call on a well-shaped window reaches, with more included pixels than parameters: the
  domain on which the scale factor is a real number, as in claim C2), no sigma entry was
  changed by it, the parameters
  it reports are those of its solve, and every error it reports is the error that the solve
  derived from the covariance (the square root of the diagonal entry) times the scale factor
  of this pass, but for the error of the FWHM: that one is the solve's value times the scale
  factor when the value is positive and the value itself otherwise. The value is \<open>-1\<close> and is
  reported as \<open>-1\<close> when the FWHM was held (fixed by the caller, or at the floor after the
  fall-back); when it was estimated by the free fit and is not negative it is reported times
  the scale factor. What a call returns is what its last pass breaks with.
\<close>

theorem final_error_rescaling:
  "(window_ok wind st \<and>
    (fitMoffat_next leastsq wind sky height xcen ycen fwhm fwhm_min fwhm_fix beta thresh)\<^sup>*\<^sup>* (fitMoffat_init wind fwhm read gain st) s \<and>
    fitMoffat_solve leastsq sky height xcen ycen fwhm fwhm_min fwhm_fix beta s = Inr ((fit, soln, pf, (skyfe, heightfe, xfe, yfe, fwhmfe, betafe)), s1) \<and>
    length soln < card (included (cells (mem s) (m1_sigma (mfit1 s)))) \<and>
    fitMoffat_iter leastsq wind sky height xcen ycen fwhm fwhm_min fwhm_fix beta thresh s = Break ((pars, (esky, eheight, excen, eycen, efwhm, ebeta), ext), s')
      \<longrightarrow> pars = pf \<and>
          esky = skyfe * spec_sfac (cells (mem s) (wdata wind)) fit (cells (mem s) (m1_sigma (mfit1 s))) (length soln) \<and>
          eheight = heightfe * spec_sfac (cells (mem s) (wdata wind)) fit (cells (mem s) (m1_sigma (mfit1 s))) (length soln) \<and>
          excen = xfe * spec_sfac (cells (mem s) (wdata wind)) fit (cells (mem s) (m1_sigma (mfit1 s))) (length soln) \<and>
          eycen = yfe * spec_sfac (cells (mem s) (wdata wind)) fit (cells (mem s) (m1_sigma (mfit1 s))) (length soln) \<and>
          ebeta = betafe * spec_sfac (cells (mem s) (wdata wind)) fit (cells (mem s) (m1_sigma (mfit1 s))) (length soln) \<and>
          efwhm = (if fwhmfe > 0 then fwhmfe * spec_sfac (cells (mem s) (wdata wind)) fit (cells (mem s) (m1_sigma (mfit1 s))) (length soln) else fwhmfe) \<and>
          (fwhmfe = - 1 \<longrightarrow> efwhm = - 1) \<and>
          (0 \<le> fwhmfe \<longrightarrow> efwhm = fwhmfe * spec_sfac (cells (mem s) (wdata wind)) fit (cells (mem s) (m1_sigma (mfit1 s))) (length soln)) \<and>
          cells (mem s') (m1_sigma (mfit1 s)) = cells (mem s) (m1_sigma (mfit1 s)) \<and>
          fst (snd (snd (reject_outliers (m1_sigma (mfit1 s)) (wdata wind) fit (length soln) thresh (mem s)))) = spec_sfac (cells (mem s) (wdata wind)) fit (cells (mem s) (m1_sigma (mfit1 s))) (length soln) \<and>
          ((fwhm_fix \<and> fwhmfe = - 1 \<and>
            sqrt_diag (lsq_cov (moffat_fixed_solve leastsq sky height xcen ycen beta fwhm s)) = Inr [skyfe, heightfe, xfe, yfe, betafe]) \<or>
           (\<not> fwhm_fix \<and> fwhmfe = - 1 \<and>
            sqrt_diag (lsq_cov (moffat_fixed_solve leastsq sky height xcen ycen beta fwhm_min s)) = Inr [skyfe, heightfe, xfe, yfe, betafe]) \<or>
           (\<not> fwhm_fix \<and>
            sqrt_diag (lsq_cov (moffat_free_solve leastsq sky height xcen ycen fwhm beta s)) = Inr [skyfe, heightfe, xfe, yfe, fwhmfe, betafe]))) \<and>
   (fitMoffat leastsq wind sky height xcen ycen fwhm fwhm_min fwhm_fix beta read gain thresh st = Some (Inr (res, sF))
      \<longrightarrow> (\<exists>s. (fitMoffat_next leastsq wind sky height xcen ycen fwhm fwhm_min fwhm_fix beta thresh)\<^sup>*\<^sup>* (fitMoffat_init wind fwhm read gain st) s \<and> fitMoffat_iter leastsq wind sky height xcen ycen fwhm fwhm_min fwhm_fix beta thresh s = Break (res, sF))) \<and>
   (window_ok wind st \<and>
    (fitGaussian_next leastsq wind sky height xcen ycen fwhm fwhm_min fwhm_fix thresh)\<^sup>*\<^sup>* (fitGaussian_init wind fwhm read gain st) gs \<and>
    fitGaussian_solve leastsq sky height xcen ycen fwhm fwhm_min fwhm_fix gs = Inr ((gfit, gsoln, gpf, (gskyfe, gheightfe, gxfe, gyfe, gfwhmfe)), gs1) \<and>
    length gsoln < card (included (cells (gmem gs) (g1_sigma (gfit1 gs)))) \<and>
    fitGaussian_iter leastsq wind sky height xcen ycen fwhm fwhm_min fwhm_fix thresh gs = Break ((gpars, (gesky, geheight, gexcen, geycen, gefwhm), gext), gs')
      \<longrightarrow> gpars = gpf \<and>
          gesky = gskyfe * spec_sfac (cells (gmem gs) (wdata wind)) gfit (cells (gmem gs) (g1_sigma (gfit1 gs))) (length gsoln) \<and>
          geheight = gheightfe * spec_sfac (cells (gmem gs) (wdata wind)) gfit (cells (gmem gs) (g1_sigma (gfit1 gs))) (length gsoln) \<and>
          gexcen = gxfe * spec_sfac (cells (gmem gs) (wdata wind)) gfit (cells (gmem gs) (g1_sigma (gfit1 gs))) (length gsoln) \<and>
          geycen = gyfe * spec_sfac (cells (gmem gs) (wdata wind)) gfit (cells (gmem gs) (g1_sigma (gfit1 gs))) (length gsoln) \<and>
          gefwhm = (if gfwhmfe > 0 then gfwhmfe * spec_sfac (cells (gmem gs) (wdata wind)) gfit (cells (gmem gs) (g1_sigma (gfit1 gs))) (length gsoln) else gfwhmfe) \<and>
          (gfwhmfe = - 1 \<longrightarrow> gefwhm = - 1) \<and>
          (0 \<le> gfwhmfe \<longrightarrow> gefwhm = gfwhmfe * spec_sfac (cells (gmem gs) (wdata wind)) gfit (cells (gmem gs) (g1_sigma (gfit1 gs))) (length gsoln)) \<and>
          cells (gmem gs') (g1_sigma (gfit1 gs)) = cells (gmem gs) (g1_sigma (gfit1 gs)) \<and>
          fst (snd (snd (reject_outliers (g1_sigma (gfit1 gs)) (wdata wind) gfit (length gsoln) thresh (gmem gs)))) = spec_sfac (cells (gmem gs) (wdata wind)) gfit (cells (gmem gs) (g1_sigma (gfit1 gs))) (length gsoln) \<and>
          ((fwhm_fix \<and> gfwhmfe = - 1 \<and>
            sqrt_diag (lsq_cov (gauss_fixed_solve leastsq sky height xcen ycen fwhm gs)) = Inr [gskyfe, gheightfe, gxfe, gyfe]) \<or>
           (\<not> fwhm_fix \<and> gfwhmfe = - 1 \<and>
            sqrt_diag (lsq_cov (gauss_fixed_solve leastsq sky height xcen ycen fwhm_min gs)) = Inr [gskyfe, gheightfe, gxfe, gyfe]) \<or>
           (\<not> fwhm_fix \<and>
            sqrt_diag (lsq_cov (gauss_free_solve leastsq sky height xcen ycen fwhm gs)) = Inr [gskyfe, gheightfe, gxfe, gyfe, gfwhmfe]))) \<and>
   (fitGaussian leastsq wind sky height xcen ycen fwhm fwhm_min fwhm_fix read gain thresh st = Some (Inr (gres, gsF))
      \<longrightarrow> (\<exists>s. (fitGaussian_next leastsq wind sky height xcen ycen fwhm fwhm_min fwhm_fix thresh)\<^sup>*\<^sup>* (fitGaussian_init wind fwhm read gain st) s \<and> fitGaussian_iter leastsq wind sky height xcen ycen fwhm fwhm_min fwhm_fix thresh s = Break (gres, gsF)))"
proof -
  have m1: "(window_ok wind st \<and>
    (fitMoffat_next leastsq wind sky height xcen ycen fwhm fwhm_min fwhm_fix beta thresh)\<^sup>*\<^sup>* (fitMoffat_init wind fwhm read gain st) s \<and>
    fitMoffat_solve leastsq sky height xcen ycen fwhm fwhm_min fwhm_fix beta s = Inr ((fit, soln, pf, (skyfe, heightfe, xfe, yfe, fwhmfe, betafe)), s1) \<and>
    length soln < card (included (cells (mem s) (m1_sigma (mfit1 s)))) \<and>
    fitMoffat_iter leastsq wind sky height xcen ycen fwhm fwhm_min fwhm_fix beta thresh s = Break ((pars, (esky, eheight, excen, eycen, efwhm, ebeta), ext), s')
      \<longrightarrow> pars = pf \<and>
          esky = skyfe * spec_sfac (cells (mem s) (wdata wind)) fit (cells (mem s) (m1_sigma (mfit1 s))) (length soln) \<and>
          eheight = heightfe * spec_sfac (cells (mem s) (wdata wind)) fit (cells (mem s) (m1_sigma (mfit1 s))) (length soln) \<and>
          excen = xfe * spec_sfac (cells (mem s) (wdata wind)) fit (cells (mem s) (m1_sigma (mfit1 s))) (length soln) \<and>
          eycen = yfe * spec_sfac (cells (mem s) (wdata wind)) fit (cells (mem s) (m1_sigma (mfit1 s))) (length soln) \<and>
          ebeta = betafe * spec_sfac (cells (mem s) (wdata wind)) fit (cells (mem s) (m1_sigma (mfit1 s))) (length soln) \<and>
          efwhm = (if fwhmfe > 0 then fwhmfe * spec_sfac (cells (mem s) (wdata wind)) fit (cells (mem s) (m1_sigma (mfit1 s))) (length soln) else fwhmfe) \<and>
          (fwhmfe = - 1 \<longrightarrow> efwhm = - 1) \<and>
          (0 \<le> fwhmfe \<longrightarrow> efwhm = fwhmfe * spec_sfac (cells (mem s) (wdata wind)) fit (cells (mem s) (m1_sigma (mfit1 s))) (length soln)) \<and>
          cells (mem s') (m1_sigma (mfit1 s)) = cells (mem s) (m1_sigma (mfit1 s)) \<and>
          fst (snd (snd (reject_outliers (m1_sigma (mfit1 s)) (wdata wind) fit (length soln) thresh (mem s)))) = spec_sfac (cells (mem s) (wdata wind)) fit (cells (mem s) (m1_sigma (mfit1 s))) (length soln) \<and>
          ((fwhm_fix \<and> fwhmfe = - 1 \<and>
            sqrt_diag (lsq_cov (moffat_fixed_solve leastsq sky height xcen ycen beta fwhm s)) = Inr [skyfe, heightfe, xfe, yfe, betafe]) \<or>
           (\<not> fwhm_fix \<and> fwhmfe = - 1 \<and>
            sqrt_diag (lsq_cov (moffat_fixed_solve leastsq sky height xcen ycen beta fwhm_min s)) = Inr [skyfe, heightfe, xfe, yfe, betafe]) \<or>
           (\<not> fwhm_fix \<and>
            sqrt_diag (lsq_cov (moffat_free_solve leastsq sky height xcen ycen fwhm beta s)) = Inr [skyfe, heightfe, xfe, yfe, fwhmfe, betafe])))"
    by (intro impI, elim conjE, rule fitMoffat_error_rescaling; assumption)
  have m2: "(fitMoffat leastsq wind sky height xcen ycen fwhm fwhm_min fwhm_fix beta read gain thresh st = Some (Inr (res, sF))
      \<longrightarrow> (\<exists>s. (fitMoffat_next leastsq wind sky height xcen ycen fwhm fwhm_min fwhm_fix beta thresh)\<^sup>*\<^sup>* (fitMoffat_init wind fwhm read gain st) s \<and> fitMoffat_iter leastsq wind sky height xcen ycen fwhm fwhm_min fwhm_fix beta thresh s = Break (res, sF)))"
    by (intro impI, rule fitMoffat_result_last, assumption)
  have g1: "(window_ok wind st \<and>
    (fitGaussian_next leastsq wind sky height xcen ycen fwhm fwhm_min fwhm_fix thresh)\<^sup>*\<^sup>* (fitGaussian_init wind fwhm read gain st) gs \<and>
    fitGaussian_solve leastsq sky height xcen ycen fwhm fwhm_min fwhm_fix gs = Inr ((gfit, gsoln, gpf, (gskyfe, gheightfe, gxfe, gyfe, gfwhmfe)), gs1) \<and>
    length gsoln < card (included (cells (gmem gs) (g1_sigma (gfit1 gs)))) \<and>
    fitGaussian_iter leastsq wind sky height xcen ycen fwhm fwhm_min fwhm_fix thresh gs = Break ((gpars, (gesky, geheight, gexcen, geycen, gefwhm), gext), gs')
      \<longrightarrow> gpars = gpf \<and>
          gesky = gskyfe * spec_sfac (cells (gmem gs) (wdata wind)) gfit (cells (gmem gs) (g1_sigma (gfit1 gs))) (length gsoln) \<and>
          geheight = gheightfe * spec_sfac (cells (gmem gs) (wdata wind)) gfit (cells (gmem gs) (g1_sigma (gfit1 gs))) (length gsoln) \<and>
          gexcen = gxfe * spec_sfac (cells (gmem gs) (wdata wind)) gfit (cells (gmem gs) (g1_sigma (gfit1 gs))) (length gsoln) \<and>
          geycen = gyfe * spec_sfac (cells (gmem gs) (wdata wind)) gfit (cells (gmem gs) (g1_sigma (gfit1 gs))) (length gsoln) \<and>
          gefwhm = (if gfwhmfe > 0 then gfwhmfe * spec_sfac (cells (gmem gs) (wdata wind)) gfit (cells (gmem gs) (g1_sigma (gfit1 gs))) (length gsoln) else gfwhmfe) \<and>
          (gfwhmfe = - 1 \<longrightarrow> gefwhm = - 1) \<and>
          (0 \<le> gfwhmfe \<longrightarrow> gefwhm = gfwhmfe * spec_sfac (cells (gmem gs) (wdata wind)) gfit (cells (gmem gs) (g1_sigma (gfit1 gs))) (length gsoln)) \<and>
          cells (gmem gs') (g1_sigma (gfit1 gs)) = cells (gmem gs) (g1_sigma (gfit1 gs)) \<and>
          fst (snd (snd (reject_outliers (g1_sigma (gfit1 gs)) (wdata wind) gfit (length gsoln) thresh (gmem gs)))) = spec_sfac (cells (gmem gs) (wdata wind)) gfit (cells (gmem gs) (g1_sigma (gfit1 gs))) (length gsoln) \<and>
          ((fwhm_fix \<and> gfwhmfe = - 1 \<and>
            sqrt_diag (lsq_cov (gauss_fixed_solve leastsq sky height xcen ycen fwhm gs)) = Inr [gskyfe, gheightfe, gxfe, gyfe]) \<or>
           (\<not> fwhm_fix \<and> gfwhmfe = - 1 \<and>
            sqrt_diag (lsq_cov (gauss_fixed_solve leastsq sky height xcen ycen fwhm_min gs)) = Inr [gskyfe, gheightfe, gxfe, gyfe]) \<or>
           (\<not> fwhm_fix \<and>
            sqrt_diag (lsq_cov (gauss_free_solve leastsq sky height xcen ycen fwhm gs)) = Inr [gskyfe, gheightfe, gxfe, gyfe, gfwhmfe])))"
    by (intro impI, elim conjE, rule fitGaussian_error_rescaling; assumption)
  have g2: "(fitGaussian leastsq wind sky height xcen ycen fwhm fwhm_min fwhm_fix read gain thresh st = Some (Inr (gres, gsF))
      \<longrightarrow> (\<exists>s. (fitGaussian_next leastsq wind sky height xcen ycen fwhm fwhm_min fwhm_fix thresh)\<^sup>*\<^sup>* (fitGaussian_init wind fwhm read gain st) s \<and> fitGaussian_iter leastsq wind sky height xcen ycen fwhm fwhm_min fwhm_fix thresh s = Break (gres, gsF)))"
    by (intro impI, rule fitGaussian_result_last, assumption)
  from m1 m2 g1 g2 show ?thesis by (intro conjI)
qed

theorem final_error_rescaling_witness:
  "(window_ok ex_wind ex_store \<and>
   (fitMoffat_next ex_leastsq ex_wind 0 0 1 1 2 1 False 2 2)\<^sup>*\<^sup>* (fitMoffat_init ex_wind 2 (\<lambda>_. 1) (\<lambda>_. 1) ex_store) ex_m1 \<and>
   fitMoffat_solve ex_leastsq 0 0 1 1 2 1 False 2 ex_m1 = Inr ((replicate 11 0, [0, 0, 1, 1, 2, 2], (0, 0, 1, 1, 2, 2), (1, 1, 1, 1, 1, 1)), ex_m1) \<and>
   length ([0, 0, 1, 1, 2, 2] :: real list) < card (included (cells (mem ex_m1) (m1_sigma (mfit1 ex_m1)))) \<and>
   fitMoffat_iter ex_leastsq ex_wind 0 0 1 1 2 1 False 2 2 ex_m1 = Break (((0, 0, 1, 1, 2, 2), (1/2, 1/2, 1/2, 1/2, 1/2, 1/2), (replicate 11 0, 2, 3, 1, 1, 10, 1, 6)), ex_m1) \<and>
   spec_sfac (cells (mem ex_m1) (wdata ex_wind)) (replicate 11 0) (cells (mem ex_m1) (m1_sigma (mfit1 ex_m1))) (length ([0, 0, 1, 1, 2, 2] :: real list)) = 1 / 2 \<and>
   (1 / 2 :: real) = 1 * spec_sfac (cells (mem ex_m1) (wdata ex_wind)) (replicate 11 0) (cells (mem ex_m1) (m1_sigma (mfit1 ex_m1))) (length ([0, 0, 1, 1, 2, 2] :: real list)) \<and>
   sqrt_diag (lsq_cov (moffat_free_solve ex_leastsq 0 0 1 1 2 2 ex_m1)) = Inr [1, 1, 1, 1, 1, 1] \<and>
   window_ok ex_wind ex_fstore \<and>
   (fitMoffat_next ex_leastsq ex_wind 0 0 1 1 2 3 False 2 2)\<^sup>*\<^sup>* (fitMoffat_init ex_wind 2 (\<lambda>_. 1) (\<lambda>_. 1) ex_fstore) ex_f0 \<and>
   fitMoffat_solve ex_leastsq 0 0 1 1 2 3 False 2 ex_f0 = Inr ((replicate 11 0, [0, 0, 1, 1, 2], (0, 0, 1, 1, 3, 2), (1, 1, 1, 1, - 1, 1)), ex_f1) \<and>
   length ([0, 0, 1, 1, 2] :: real list) < card (included (cells (mem ex_f0) (m1_sigma (mfit1 ex_f0)))) \<and>
   fitMoffat_iter ex_leastsq ex_wind 0 0 1 1 2 3 False 2 2 ex_f0 = Break (((0, 0, 1, 1, 3, 2), (2, 2, 2, 2, - 1, 2), (replicate 11 0, 2, 3, 1, 24, 11, 0, 5)), ex_f1) \<and>
   spec_sfac (cells (mem ex_f0) (wdata ex_wind)) (replicate 11 0) (cells (mem ex_f0) (m1_sigma (mfit1 ex_f0))) (length ([0, 0, 1, 1, 2] :: real list)) = 2 \<and>
   sqrt_diag (lsq_cov (moffat_fixed_solve ex_leastsq 0 0 1 1 2 3 ex_f0)) = Inr [1, 1, 1, 1, 1] \<and>
   fitMoffat ex_leastsq ex_wind 0 0 1 1 2 3 False 2 (\<lambda>_. 1) (\<lambda>_. 1) 2 ex_fstore = Some (Inr (((0, 0, 1, 1, 3, 2), (2, 2, 2, 2, - 1, 2), (replicate 11 0, 2, 3, 1, 24, 11, 0, 5)), ex_f1)) \<and>
   (\<exists>s. (fitMoffat_next ex_leastsq ex_wind 0 0 1 1 2 3 False 2 2)\<^sup>*\<^sup>* (fitMoffat_init ex_wind 2 (\<lambda>_. 1) (\<lambda>_. 1) ex_fstore) s \<and> fitMoffat_iter ex_leastsq ex_wind 0 0 1 1 2 3 False 2 2 s = Break (((0, 0, 1, 1, 3, 2), (2, 2, 2, 2, - 1, 2), (replicate 11 0, 2, 3, 1, 24, 11, 0, 5)), ex_f1))) \<and>
   (window_ok ex_wind ex_gstore \<and>
   (fitGaussian_next ex_leastsq ex_wind 0 0 1 1 2 1 False 1)\<^sup>*\<^sup>* (fitGaussian_init ex_wind 2 (\<lambda>_. 1) (\<lambda>_. 1) ex_gstore) ex_g1 \<and>
   fitGaussian_solve ex_leastsq 0 0 1 1 2 1 False ex_g1 = Inr ((replicate 11 0, [0, 0, 1, 1, 2], (0, 0, 1, 1, 2), (1, 1, 1, 1, 1)), ex_g1) \<and>
   length ([0, 0, 1, 1, 2] :: real list) < card (included (cells (gmem ex_g1) (g1_sigma (gfit1 ex_g1)))) \<and>
   fitGaussian_iter ex_leastsq ex_wind 0 0 1 1 2 1 False 1 ex_g1 = Break (((0, 0, 1, 1, 2), (2, 2, 2, 2, 2), (replicate 11 0, 2, 3, 1, 20, 10, 1, 5)), ex_g1) \<and>
   spec_sfac (cells (gmem ex_g1) (wdata ex_wind)) (replicate 11 0) (cells (gmem ex_g1) (g1_sigma (gfit1 ex_g1))) (length ([0, 0, 1, 1, 2] :: real list)) = 2 \<and>
   (2 :: real) = 1 * spec_sfac (cells (gmem ex_g1) (wdata ex_wind)) (replicate 11 0) (cells (gmem ex_g1) (g1_sigma (gfit1 ex_g1))) (length ([0, 0, 1, 1, 2] :: real list)) \<and>
   sqrt_diag (lsq_cov (gauss_free_solve ex_leastsq 0 0 1 1 2 ex_g1)) = Inr [1, 1, 1, 1, 1] \<and>
   window_ok ex_wind ex_hstore \<and>
   (fitGaussian_next ex_leastsq ex_wind 0 0 1 1 2 3 False 2)\<^sup>*\<^sup>* (fitGaussian_init ex_wind 2 (\<lambda>_. 1) (\<lambda>_. 1) ex_hstore) ex_h0 \<and>
   fitGaussian_solve ex_leastsq 0 0 1 1 2 3 False ex_h0 = Inr ((replicate 11 0, [0, 0, 1, 1], (0, 0, 1, 1, 3), (1, 1, 1, 1, - 1)), ex_h1) \<and>
   length ([0, 0, 1, 1] :: real list) < card (included (cells (gmem ex_h0) (g1_sigma (gfit1 ex_h0)))) \<and>
   fitGaussian_iter ex_leastsq ex_wind 0 0 1 1 2 3 False 2 ex_h0 = Break (((0, 0, 1, 1, 3), (2, 2, 2, 2, - 1), (replicate 11 0, 2, 3, 1, 28, 11, 0, 4)), ex_h1) \<and>
   spec_sfac (cells (gmem ex_h0) (wdata ex_wind)) (replicate 11 0) (cells (gmem ex_h0) (g1_sigma (gfit1 ex_h0))) (length ([0, 0, 1, 1] :: real list)) = 2 \<and>
   sqrt_diag (lsq_cov (gauss_fixed_solve ex_leastsq 0 0 1 1 3 ex_h0)) = Inr [1, 1, 1, 1] \<and>
   fitGaussian ex_leastsq ex_wind 0 0 1 1 2 3 False (\<lambda>_. 1) (\<lambda>_. 1) 2 ex_hstore = Some (Inr (((0, 0, 1, 1, 3), (2, 2, 2, 2, - 1), (replicate 11 0, 2, 3, 1, 28, 11, 0, 4)), ex_h1)) \<and>
   (\<exists>s. (fitGaussian_next ex_leastsq ex_wind 0 0 1 1 2 3 False 2)\<^sup>*\<^sup>* (fitGaussian_init ex_wind 2 (\<lambda>_. 1) (\<lambda>_. 1) ex_hstore) s \<and> fitGaussian_iter ex_leastsq ex_wind 0 0 1 1 2 3 False 2 s = Break (((0, 0, 1, 1, 3), (2, 2, 2, 2, - 1), (replicate 11 0, 2, 3, 1, 28, 11, 0, 4)), ex_h1)))"
proof -
  have m: "window_ok ex_wind ex_store \<and>
   (fitMoffat_next ex_leastsq ex_wind 0 0 1 1 2 1 False 2 2)\<^sup>*\<^sup>* (fitMoffat_init ex_wind 2 (\<lambda>_. 1) (\<lambda>_. 1) ex_store) ex_m1 \<and>
   fitMoffat_solve ex_leastsq 0 0 1 1 2 1 False 2 ex_m1 = Inr ((replicate 11 0, [0, 0, 1, 1, 2, 2], (0, 0, 1, 1, 2, 2), (1, 1, 1, 1, 1, 1)), ex_m1) \<and>
   length ([0, 0, 1, 1, 2, 2] :: real list) < card (included (cells (mem ex_m1) (m1_sigma (mfit1 ex_m1)))) \<and>
   fitMoffat_iter ex_leastsq ex_wind 0 0 1 1 2 1 False 2 2 ex_m1 = Break (((0, 0, 1, 1, 2, 2), (1/2, 1/2, 1/2, 1/2, 1/2, 1/2), (replicate 11 0, 2, 3, 1, 1, 10, 1, 6)), ex_m1) \<and>
   spec_sfac (cells (mem ex_m1) (wdata ex_wind)) (replicate 11 0) (cells (mem ex_m1) (m1_sigma (mfit1 ex_m1))) (length ([0, 0, 1, 1, 2, 2] :: real list)) = 1 / 2 \<and>
   (1 / 2 :: real) = 1 * spec_sfac (cells (mem ex_m1) (wdata ex_wind)) (replicate 11 0) (cells (mem ex_m1) (m1_sigma (mfit1 ex_m1))) (length ([0, 0, 1, 1, 2, 2] :: real list)) \<and>
   sqrt_diag (lsq_cov (moffat_free_solve ex_leastsq 0 0 1 1 2 2 ex_m1)) = Inr [1, 1, 1, 1, 1, 1] \<and>
   window_ok ex_wind ex_fstore \<and>
   (fitMoffat_next ex_leastsq ex_wind 0 0 1 1 2 3 False 2 2)\<^sup>*\<^sup>* (fitMoffat_init ex_wind 2 (\<lambda>_. 1) (\<lambda>_. 1) ex_fstore) ex_f0 \<and>
   fitMoffat_solve ex_leastsq 0 0 1 1 2 3 False 2 ex_f0 = Inr ((replicate 11 0, [0, 0, 1, 1, 2], (0, 0, 1, 1, 3, 2), (1, 1, 1, 1, - 1, 1)), ex_f1) \<and>
   length ([0, 0, 1, 1, 2] :: real list) < card (included (cells (mem ex_f0) (m1_sigma (mfit1 ex_f0)))) \<and>
   fitMoffat_iter ex_leastsq ex_wind 0 0 1 1 2 3 False 2 2 ex_f0 = Break (((0, 0, 1, 1, 3, 2), (2, 2, 2, 2, - 1, 2), (replicate 11 0, 2, 3, 1, 24, 11, 0, 5)), ex_f1) \<and>
   spec_sfac (cells (mem ex_f0) (wdata ex_wind)) (replicate 11 0) (cells (mem ex_f0) (m1_sigma (mfit1 ex_f0))) (length ([0, 0, 1, 1, 2] :: real list)) = 2 \<and>
   sqrt_diag (lsq_cov (moffat_fixed_solve ex_leastsq 0 0 1 1 2 3 ex_f0)) = Inr [1, 1, 1, 1, 1] \<and>
   fitMoffat ex_leastsq ex_wind 0 0 1 1 2 3 False 2 (\<lambda>_. 1) (\<lambda>_. 1) 2 ex_fstore = Some (Inr (((0, 0, 1, 1, 3, 2), (2, 2, 2, 2, - 1, 2), (replicate 11 0, 2, 3, 1, 24, 11, 0, 5)), ex_f1)) \<and>
   (\<exists>s. (fitMoffat_next ex_leastsq ex_wind 0 0 1 1 2 3 False 2 2)\<^sup>*\<^sup>* (fitMoffat_init ex_wind 2 (\<lambda>_. 1) (\<lambda>_. 1) ex_fstore) s \<and> fitMoffat_iter ex_leastsq ex_wind 0 0 1 1 2 3 False 2 2 s = Break (((0, 0, 1, 1, 3, 2), (2, 2, 2, 2, - 1, 2), (replicate 11 0, 2, 3, 1, 24, 11, 0, 5)), ex_f1))"
  proof -
    have w1: "window_ok ex_wind ex_store" by (rule ex_window_ok)
    have "fitMoffat_next ex_leastsq ex_wind 0 0 1 1 2 1 False 2 2 ex_m0 ex_m1"
      by (simp add: fitMoffat_next_def ex_m0_iter)
    then have r1: "(fitMoffat_next ex_leastsq ex_wind 0 0 1 1 2 1 False 2 2)\<^sup>*\<^sup>* (fitMoffat_init ex_wind 2 (\<lambda>_. 1) (\<lambda>_. 1) ex_store) ex_m1"
      unfolding ex_m0_def[symmetric] by (rule r_into_rtranclp)
    have a1: "m1_sigma (mfit1 ex_m1) = 1"
      by (simp add: ex_m1_def ex_m0_cells)
    have a2: "cells (mem ex_m1) 1 = [1, 1, 1, - 1, 1, 1, 1, 1, 1, 1, 1]"
      by (simp add: ex_m1_def ex_m0_cells)
    have k1: "length ([0, 0, 1, 1, 2, 2] :: real list) < card (included (cells (mem ex_m1) (m1_sigma (mfit1 ex_m1))))"
      unfolding included_def count_ok_card[symmetric] a1 a2
      by (simp add: count_ok_def np_mask_def np_gt0_def)
    have h1: "window_ok ex_wind ex_store \<and>
      (fitMoffat_next ex_leastsq ex_wind 0 0 1 1 2 1 False 2 2)\<^sup>*\<^sup>* (fitMoffat_init ex_wind 2 (\<lambda>_. 1) (\<lambda>_. 1) ex_store) ex_m1 \<and>
      fitMoffat_solve ex_leastsq 0 0 1 1 2 1 False 2 ex_m1 = Inr ((replicate 11 0, [0, 0, 1, 1, 2, 2], (0, 0, 1, 1, 2, 2), (1, 1, 1, 1, 1, 1)), ex_m1) \<and>
      length ([0, 0, 1, 1, 2, 2] :: real list) < card (included (cells (mem ex_m1) (m1_sigma (mfit1 ex_m1)))) \<and>
      fitMoffat_iter ex_leastsq ex_wind 0 0 1 1 2 1 False 2 2 ex_m1 = Break (((0, 0, 1, 1, 2, 2), (1/2, 1/2, 1/2, 1/2, 1/2, 1/2), (replicate 11 0, 2, 3, 1, 1, 10, 1, 6)), ex_m1)"
      using w1 r1 ex_m1_solve k1 ex_m1_iter by (intro conjI)
    note t1 = final_error_rescaling[where leastsq = ex_leastsq and wind = ex_wind and sky = 0 and height = 0 and xcen = 1 and ycen = 1 and fwhm = 2 and fwhm_fix = False and read = "\<lambda>_. 1" and gain = "\<lambda>_. 1" and fwhm_min = 1 and beta = 2 and thresh = 2 and st = ex_store and s = ex_m1 and s' = ex_m1 and ?s1.0 = ex_m1 and fit = "replicate 11 0" and soln = "[0, 0, 1, 1, 2, 2]" and pf = "(0, 0, 1, 1, 2, 2)" and skyfe = 1 and heightfe = 1 and xfe = 1 and yfe = 1 and fwhmfe = 1 and betafe = 1 and pars = "(0, 0, 1, 1, 2, 2)" and esky = "1/2" and eheight = "1/2" and excen = "1/2" and eycen = "1/2" and efwhm = "1/2" and ebeta = "1/2" and ext = "(replicate 11 0, 2, 3, 1, 1, 10, 1, 6)", THEN conjunct1, rule_format, OF h1]
    from t1[THEN conjunct2, THEN conjunct1] have sf1: "spec_sfac (cells (mem ex_m1) (wdata ex_wind)) (replicate 11 0) (cells (mem ex_m1) (m1_sigma (mfit1 ex_m1))) (length ([0, 0, 1, 1, 2, 2] :: real list)) = 1 / 2" by simp
    from t1[THEN conjunct2, THEN conjunct2, THEN conjunct2, THEN conjunct2, THEN conjunct2, THEN conjunct2, THEN conjunct2, THEN conjunct2, THEN conjunct1] have e1: "(1 / 2 :: real) = 1 * spec_sfac (cells (mem ex_m1) (wdata ex_wind)) (replicate 11 0) (cells (mem ex_m1) (m1_sigma (mfit1 ex_m1))) (length ([0, 0, 1, 1, 2, 2] :: real list))" by simp
    from t1[THEN conjunct2, THEN conjunct2, THEN conjunct2, THEN conjunct2, THEN conjunct2, THEN conjunct2, THEN conjunct2, THEN conjunct2, THEN conjunct2, THEN conjunct2, THEN conjunct2] have o1: "sqrt_diag (lsq_cov (moffat_free_solve ex_leastsq 0 0 1 1 2 2 ex_m1)) = Inr [1, 1, 1, 1, 1, 1]" by simp
    have w2: "window_ok ex_wind ex_fstore" by (rule ex_fwindow_ok)
    have r2: "(fitMoffat_next ex_leastsq ex_wind 0 0 1 1 2 3 False 2 2)\<^sup>*\<^sup>* (fitMoffat_init ex_wind 2 (\<lambda>_. 1) (\<lambda>_. 1) ex_fstore) ex_f0"
      unfolding ex_f0_def by (rule rtranclp.rtrancl_refl)
    have k2: "length ([0, 0, 1, 1, 2] :: real list) < card (included (cells (mem ex_f0) (m1_sigma (mfit1 ex_f0))))"
      unfolding included_def count_ok_card[symmetric] ex_f0_cells
      by (simp add: count_ok_def np_mask_def np_gt0_def)
    have h2: "window_ok ex_wind ex_fstore \<and>
      (fitMoffat_next ex_leastsq ex_wind 0 0 1 1 2 3 False 2 2)\<^sup>*\<^sup>* (fitMoffat_init ex_wind 2 (\<lambda>_. 1) (\<lambda>_. 1) ex_fstore) ex_f0 \<and>
      fitMoffat_solve ex_leastsq 0 0 1 1 2 3 False 2 ex_f0 = Inr ((replicate 11 0, [0, 0, 1, 1, 2], (0, 0, 1, 1, 3, 2), (1, 1, 1, 1, - 1, 1)), ex_f1) \<and>
      length ([0, 0, 1, 1, 2] :: real list) < card (included (cells (mem ex_f0) (m1_sigma (mfit1 ex_f0)))) \<and>
      fitMoffat_iter ex_leastsq ex_wind 0 0 1 1 2 3 False 2 2 ex_f0 = Break (((0, 0, 1, 1, 3, 2), (2, 2, 2, 2, - 1, 2), (replicate 11 0, 2, 3, 1, 24, 11, 0, 5)), ex_f1)"
      using w2 r2 ex_f0_solve k2 ex_f0_iter by (intro conjI)
    note t2 = final_error_rescaling[where leastsq = ex_leastsq and wind = ex_wind and sky = 0 and height = 0 and xcen = 1 and ycen = 1 and fwhm = 2 and fwhm_fix = False and read = "\<lambda>_. 1" and gain = "\<lambda>_. 1" and fwhm_min = 3 and beta = 2 and thresh = 2 and st = ex_fstore and s = ex_f0 and s' = ex_f1 and ?s1.0 = ex_f1 and fit = "replicate 11 0" and soln = "[0, 0, 1, 1, 2]" and pf = "(0, 0, 1, 1, 3, 2)" and skyfe = 1 and heightfe = 1 and xfe = 1 and yfe = 1 and fwhmfe = "- 1" and betafe = 1 and pars = "(0, 0, 1, 1, 3, 2)" and esky = 2 and eheight = 2 and excen = 2 and eycen = 2 and efwhm = "- 1" and ebeta = 2 and ext = "(replicate 11 0, 2, 3, 1, 24, 11, 0, 5)", THEN conjunct1, rule_format, OF h2]
    from t2[THEN conjunct2, THEN conjunct1] have sf2: "spec_sfac (cells (mem ex_f0) (wdata ex_wind)) (replicate 11 0) (cells (mem ex_f0) (m1_sigma (mfit1 ex_f0))) (length ([0, 0, 1, 1, 2] :: real list)) = 2" by simp
    have nf: "sqrt_diag (lsq_cov (moffat_free_solve ex_leastsq 0 0 1 1 2 2 ex_f0)) \<noteq> Inr [1, 1, 1, 1, - 1, 1]"
      by (simp add: moffat_free_solve_def ex_leastsq_simps)
    from t2[THEN conjunct2, THEN conjunct2, THEN conjunct2, THEN conjunct2, THEN conjunct2, THEN conjunct2, THEN conjunct2, THEN conjunct2, THEN conjunct2, THEN conjunct2, THEN conjunct2] nf have o2: "sqrt_diag (lsq_cov (moffat_fixed_solve ex_leastsq 0 0 1 1 2 3 ex_f0)) = Inr [1, 1, 1, 1, 1]" by simp
    note t3 = final_error_rescaling[where leastsq = ex_leastsq and wind = ex_wind and sky = 0 and height = 0 and xcen = 1 and ycen = 1 and fwhm = 2 and fwhm_fix = False and read = "\<lambda>_. 1" and gain = "\<lambda>_. 1" and fwhm_min = 3 and beta = 2 and thresh = 2 and st = ex_fstore and res = "((0, 0, 1, 1, 3, 2), (2, 2, 2, 2, - 1, 2), (replicate 11 0, 2, 3, 1, 24, 11, 0, 5))" and sF = ex_f1, THEN conjunct2, THEN conjunct1, rule_format, OF ex_fmoffat_fit]
    from w1 r1 ex_m1_solve k1 ex_m1_iter sf1 e1 o1 w2 r2 ex_f0_solve k2 ex_f0_iter sf2 o2 ex_fmoffat_fit t3
    show ?thesis by (intro conjI)
  qed
  have g: "window_ok ex_wind ex_gstore \<and>
   (fitGaussian_next ex_leastsq ex_wind 0 0 1 1 2 1 False 1)\<^sup>*\<^sup>* (fitGaussian_init ex_wind 2 (\<lambda>_. 1) (\<lambda>_. 1) ex_gstore) ex_g1 \<and>
   fitGaussian_solve ex_leastsq 0 0 1 1 2 1 False ex_g1 = Inr ((replicate 11 0, [0, 0, 1, 1, 2], (0, 0, 1, 1, 2), (1, 1, 1, 1, 1)), ex_g1) \<and>
   length ([0, 0, 1, 1, 2] :: real list) < card (included (cells (gmem ex_g1) (g1_sigma (gfit1 ex_g1)))) \<and>
   fitGaussian_iter ex_leastsq ex_wind 0 0 1 1 2 1 False 1 ex_g1 = Break (((0, 0, 1, 1, 2), (2, 2, 2, 2, 2), (replicate 11 0, 2, 3, 1, 20, 10, 1, 5)), ex_g1) \<and>
   spec_sfac (cells (gmem ex_g1) (wdata ex_wind)) (replicate 11 0) (cells (gmem ex_g1) (g1_sigma (gfit1 ex_g1))) (length ([0, 0, 1, 1, 2] :: real list)) = 2 \<and>
   (2 :: real) = 1 * spec_sfac (cells (gmem ex_g1) (wdata ex_wind)) (replicate 11 0) (cells (gmem ex_g1) (g1_sigma (gfit1 ex_g1))) (length ([0, 0, 1, 1, 2] :: real list)) \<and>
   sqrt_diag (lsq_cov (gauss_free_solve ex_leastsq 0 0 1 1 2 ex_g1)) = Inr [1, 1, 1, 1, 1] \<and>
   window_ok ex_wind ex_hstore \<and>
   (fitGaussian_next ex_leastsq ex_wind 0 0 1 1 2 3 False 2)\<^sup>*\<^sup>* (fitGaussian_init ex_wind 2 (\<lambda>_. 1) (\<lambda>_. 1) ex_hstore) ex_h0 \<and>
   fitGaussian_solve ex_leastsq 0 0 1 1 2 3 False ex_h0 = Inr ((replicate 11 0, [0, 0, 1, 1], (0, 0, 1, 1, 3), (1, 1, 1, 1, - 1)), ex_h1) \<and>
   length ([0, 0, 1, 1] :: real list) < card (included (cells (gmem ex_h0) (g1_sigma (gfit1 ex_h0)))) \<and>
   fitGaussian_iter ex_leastsq ex_wind 0 0 1 1 2 3 False 2 ex_h0 = Break (((0, 0, 1, 1, 3), (2, 2, 2, 2, - 1), (replicate 11 0, 2, 3, 1, 28, 11, 0, 4)), ex_h1) \<and>
   spec_sfac (cells (gmem ex_h0) (wdata ex_wind)) (replicate 11 0) (cells (gmem ex_h0) (g1_sigma (gfit1 ex_h0))) (length ([0, 0, 1, 1] :: real list)) = 2 \<and>
   sqrt_diag (lsq_cov (gauss_fixed_solve ex_leastsq 0 0 1 1 3 ex_h0)) = Inr [1, 1, 1, 1] \<and>
   fitGaussian ex_leastsq ex_wind 0 0 1 1 2 3 False (\<lambda>_. 1) (\<lambda>_. 1) 2 ex_hstore = Some (Inr (((0, 0, 1, 1, 3), (2, 2, 2, 2, - 1), (replicate 11 0, 2, 3, 1, 28, 11, 0, 4)), ex_h1)) \<and>
   (\<exists>s. (fitGaussian_next ex_leastsq ex_wind 0 0 1 1 2 3 False 2)\<^sup>*\<^sup>* (fitGaussian_init ex_wind 2 (\<lambda>_. 1) (\<lambda>_. 1) ex_hstore) s \<and> fitGaussian_iter ex_leastsq ex_wind 0 0 1 1 2 3 False 2 s = Break (((0, 0, 1, 1, 3), (2, 2, 2, 2, - 1), (replicate 11 0, 2, 3, 1, 28, 11, 0, 4)), ex_h1))"
  proof -
    have w1: "window_ok ex_wind ex_gstore" by (rule ex_gwindow_ok)
    have "fitGaussian_next ex_leastsq ex_wind 0 0 1 1 2 1 False 1 ex_g0 ex_g1"
      by (simp add: fitGaussian_next_def ex_g0_iter)
    then have r1: "(fitGaussian_next ex_leastsq ex_wind 0 0 1 1 2 1 False 1)\<^sup>*\<^sup>* (fitGaussian_init ex_wind 2 (\<lambda>_. 1) (\<lambda>_. 1) ex_gstore) ex_g1"
      unfolding ex_g0_def[symmetric] by (rule r_into_rtranclp)
    have a1: "g1_sigma (gfit1 ex_g1) = 1"
      by (simp add: ex_g1_def ex_g0_cells)
    have a2: "cells (gmem ex_g1) 1 = [1, 1, 1, - 1, 1, 1, 1, 1, 1, 1, 1]"
      by (simp add: ex_g1_def ex_g0_cells)
    have k1: "length ([0, 0, 1, 1, 2] :: real list) < card (included (cells (gmem ex_g1) (g1_sigma (gfit1 ex_g1))))"
      unfolding included_def count_ok_card[symmetric] a1 a2
      by (simp add: count_ok_def np_mask_def np_gt0_def)
    have h1: "window_ok ex_wind ex_gstore \<and>
      (fitGaussian_next ex_leastsq ex_wind 0 0 1 1 2 1 False 1)\<^sup>*\<^sup>* (fitGaussian_init ex_wind 2 (\<lambda>_. 1) (\<lambda>_. 1) ex_gstore) ex_g1 \<and>
      fitGaussian_solve ex_leastsq 0 0 1 1 2 1 False ex_g1 = Inr ((replicate 11 0, [0, 0, 1, 1, 2], (0, 0, 1, 1, 2), (1, 1, 1, 1, 1)), ex_g1) \<and>
      length ([0, 0, 1, 1, 2] :: real list) < card (included (cells (gmem ex_g1) (g1_sigma (gfit1 ex_g1)))) \<and>
      fitGaussian_iter ex_leastsq ex_wind 0 0 1 1 2 1 False 1 ex_g1 = Break (((0, 0, 1, 1, 2), (2, 2, 2, 2, 2), (replicate 11 0, 2, 3, 1, 20, 10, 1, 5)), ex_g1)"
      using w1 r1 ex_g1_solve k1 ex_g1_iter by (intro conjI)
    note t1 = final_error_rescaling[where leastsq = ex_leastsq and wind = ex_wind and sky = 0 and height = 0 and xcen = 1 and ycen = 1 and fwhm = 2 and fwhm_fix = False and read = "\<lambda>_. 1" and gain = "\<lambda>_. 1" and fwhm_min = 1 and thresh = 1 and st = ex_gstore and gs = ex_g1 and gs' = ex_g1 and ?gs1.0 = ex_g1 and gfit = "replicate 11 0" and gsoln = "[0, 0, 1, 1, 2]" and gpf = "(0, 0, 1, 1, 2)" and gskyfe = 1 and gheightfe = 1 and gxfe = 1 and gyfe = 1 and gfwhmfe = 1 and gpars = "(0, 0, 1, 1, 2)" and gesky = 2 and geheight = 2 and gexcen = 2 and geycen = 2 and gefwhm = 2 and gext = "(replicate 11 0, 2, 3, 1, 20, 10, 1, 5)", THEN conjunct2, THEN conjunct2, THEN conjunct1, rule_format, OF h1]
    from t1[THEN conjunct2, THEN conjunct1] have sf1: "spec_sfac (cells (gmem ex_g1) (wdata ex_wind)) (replicate 11 0) (cells (gmem ex_g1) (g1_sigma (gfit1 ex_g1))) (length ([0, 0, 1, 1, 2] :: real list)) = 2" by simp
    from t1[THEN conjunct2, THEN conjunct2, THEN conjunct2, THEN conjunct2, THEN conjunct2, THEN conjunct2, THEN conjunct2, THEN conjunct1] have e1: "(2 :: real) = 1 * spec_sfac (cells (gmem ex_g1) (wdata ex_wind)) (replicate 11 0) (cells (gmem ex_g1) (g1_sigma (gfit1 ex_g1))) (length ([0, 0, 1, 1, 2] :: real list))" by simp
    from t1[THEN conjunct2, THEN conjunct2, THEN conjunct2, THEN conjunct2, THEN conjunct2, THEN conjunct2, THEN conjunct2, THEN conjunct2, THEN conjunct2, THEN conjunct2] have o1: "sqrt_diag (lsq_cov (gauss_free_solve ex_leastsq 0 0 1 1 2 ex_g1)) = Inr [1, 1, 1, 1, 1]" by simp
    have w2: "window_ok ex_wind ex_hstore" by (rule ex_hwindow_ok)
    have r2: "(fitGaussian_next ex_leastsq ex_wind 0 0 1 1 2 3 False 2)\<^sup>*\<^sup>* (fitGaussian_init ex_wind 2 (\<lambda>_. 1) (\<lambda>_. 1) ex_hstore) ex_h0"
      unfolding ex_h0_def by (rule rtranclp.rtrancl_refl)
    have k2: "length ([0, 0, 1, 1] :: real list) < card (included (cells (gmem ex_h0) (g1_sigma (gfit1 ex_h0))))"
      unfolding included_def count_ok_card[symmetric] ex_h0_cells
      by (simp add: count_ok_def np_mask_def np_gt0_def)
    have h2: "window_ok ex_wind ex_hstore \<and>
      (fitGaussian_next ex_leastsq ex_wind 0 0 1 1 2 3 False 2)\<^sup>*\<^sup>* (fitGaussian_init ex_wind 2 (\<lambda>_. 1) (\<lambda>_. 1) ex_hstore) ex_h0 \<and>
      fitGaussian_solve ex_leastsq 0 0 1 1 2 3 False ex_h0 = Inr ((replicate 11 0, [0, 0, 1, 1], (0, 0, 1, 1, 3), (1, 1, 1, 1, - 1)), ex_h1) \<and>
      length ([0, 0, 1, 1] :: real list) < card (included (cells (gmem ex_h0) (g1_sigma (gfit1 ex_h0)))) \<and>
      fitGaussian_iter ex_leastsq ex_wind 0 0 1 1 2 3 False 2 ex_h0 = Break (((0, 0, 1, 1, 3), (2, 2, 2, 2, - 1), (replicate 11 0, 2, 3, 1, 28, 11, 0, 4)), ex_h1)"
      using w2 r2 ex_h0_solve k2 ex_h0_iter by (intro conjI)
    note t2 = final_error_rescaling[where leastsq = ex_leastsq and wind = ex_wind and sky = 0 and height = 0 and xcen = 1 and ycen = 1 and fwhm = 2 and fwhm_fix = False and read = "\<lambda>_. 1" and gain = "\<lambda>_. 1" and fwhm_min = 3 and thresh = 2 and st = ex_hstore and gs = ex_h0 and gs' = ex_h1 and ?gs1.0 = ex_h1 and gfit = "replicate 11 0" and gsoln = "[0, 0, 1, 1]" and gpf = "(0, 0, 1, 1, 3)" and gskyfe = 1 and gheightfe = 1 and gxfe = 1 and gyfe = 1 and gfwhmfe = "- 1" and gpars = "(0, 0, 1, 1, 3)" and gesky = 2 and geheight = 2 and gexcen = 2 and geycen = 2 and gefwhm = "- 1" and gext = "(replicate 11 0, 2, 3, 1, 28, 11, 0, 4)", THEN conjunct2, THEN conjunct2, THEN conjunct1, rule_format, OF h2]
    from t2[THEN conjunct2, THEN conjunct1] have sf2: "spec_sfac (cells (gmem ex_h0) (wdata ex_wind)) (replicate 11 0) (cells (gmem ex_h0) (g1_sigma (gfit1 ex_h0))) (length ([0, 0, 1, 1] :: real list)) = 2" by simp
    have nf: "sqrt_diag (lsq_cov (gauss_free_solve ex_leastsq 0 0 1 1 2 ex_h0)) \<noteq> Inr [1, 1, 1, 1, - 1]"
      by (simp add: gauss_free_solve_def ex_leastsq_simps)
    from t2[THEN conjunct2, THEN conjunct2, THEN conjunct2, THEN conjunct2, THEN conjunct2, THEN conjunct2, THEN conjunct2, THEN conjunct2, THEN conjunct2, THEN conjunct2] nf have o2: "sqrt_diag (lsq_cov (gauss_fixed_solve ex_leastsq 0 0 1 1 3 ex_h0)) = Inr [1, 1, 1, 1]" by simp
    note t3 = final_error_rescaling[where leastsq = ex_leastsq and wind = ex_wind and sky = 0 and height = 0 and xcen = 1 and ycen = 1 and fwhm = 2 and fwhm_fix = False and read = "\<lambda>_. 1" and gain = "\<lambda>_. 1" and fwhm_min = 3 and thresh = 2 and st = ex_hstore and gres = "((0, 0, 1, 1, 3), (2, 2, 2, 2, - 1), (replicate 11 0, 2, 3, 1, 28, 11, 0, 4))" and gsF = ex_h1, THEN conjunct2, THEN conjunct2, THEN conjunct2, rule_format, OF ex_hgauss_fit]
    from w1 r1 ex_g1_solve k1 ex_g1_iter sf1 e1 o1 w2 r2 ex_h0_solve k2 ex_h0_iter sf2 o2 ex_hgauss_fit t3
    show ?thesis by (intro conjI)
  qed
  from m g show ?thesis by (rule conjI)
qed
section \<open>The two stages of the FWHM\<close>

lemma fitMoffat_iter_Break_solve:
  assumes it: "fitMoffat_iter leastsq wind sky height xcen ycen fwhm fwhm_min fwhm_fix beta thresh s = Break ((pars, (p1, p2, p3, p4, p5, p6), ext), s')"
  shows "\<exists>fit soln a b c d e f s1.
           fitMoffat_solve leastsq sky height xcen ycen fwhm fwhm_min fwhm_fix beta s = Inr ((fit, soln, pars, (a, b, c, d, e, f)), s1) \<and> (e = - 1 \<longrightarrow> p5 = - 1)"
proof -
  from it have "\<And>e. fitMoffat_iter leastsq wind sky height xcen ycen fwhm fwhm_min fwhm_fix beta thresh s \<noteq> Raise e" by simp
  from fitMoffat_iter_solved[OF this]
  obtain fit soln pf a b c d e f s1 where
    sol: "fitMoffat_solve leastsq sky height xcen ycen fwhm fwhm_min fwhm_fix beta s = Inr ((fit, soln, pf, (a, b, c, d, e, f)), s1)"
    by blast
  obtain q1 q2 q3 q4 q5 q6 where pf: "pf = (q1, q2, q3, q4, q5, q6)" by (cases pf) auto
  from it have "pars = pf \<and> (e = - 1 \<longrightarrow> p5 = - 1)"
    by (auto simp: fitMoffat_iter_def sol pf Let_def split: prod.splits if_splits)
  with sol show ?thesis by blast
qed

lemma fitMoffat_two_stage:
  assumes nf: "\<not> fwhm_fix"
    and good: "\<not> bad_status (moffat_free_solve leastsq sky height xcen ycen fwhm beta s)"
    and x: "lsq_x (moffat_free_solve leastsq sky height xcen ycen fwhm beta s) = [skyf, heightf, xf, yf, fwhmf, betaf]"
  shows "(fwhmf \<le> fwhm_min \<longrightarrow>
           fitMoffat_solve leastsq sky height xcen ycen fwhm fwhm_min fwhm_fix beta s = fitMoffat_fixed leastsq sky height xcen ycen beta fwhm_min s \<and>
           (fitMoffat_solve leastsq sky height xcen ycen fwhm fwhm_min fwhm_fix beta s = Inr ((fit, soln, (skyr, heightr, xr, yr, fwhmr, betar), (skye, heighte, xe, ye, fwhme, betae)), s1)
            \<longrightarrow> fwhmr = fwhm_min \<and>
                fwhme = - 1 \<and>
                \<not> bad_status (moffat_fixed_solve leastsq sky height xcen ycen beta fwhm_min s) \<and>
                soln = lsq_x (moffat_fixed_solve leastsq sky height xcen ycen beta fwhm_min s) \<and>
                soln = [skyr, heightr, xr, yr, betar] \<and>
                sqrt_diag (lsq_cov (moffat_fixed_solve leastsq sky height xcen ycen beta fwhm_min s)) = Inr [skye, heighte, xe, ye, betae] \<and>
                fit = moffat (cells (mem s) (fst (m2_xy (mfit2 s))), cells (mem s) (snd (m2_xy (mfit2 s)))) skyr heightr xr yr fwhm_min betar \<and>
                s1 = s\<lparr>mfit2 := (mfit2 s)\<lparr>m2_fwhm := fwhm_min\<rparr>, dmfit2 := (dmfit2 s)\<lparr>dm2_fwhm := fwhm_min\<rparr>\<rparr>) \<and>
           (fitMoffat_iter leastsq wind sky height xcen ycen fwhm fwhm_min fwhm_fix beta thresh s = Break (((ska, hta, xa, ya, fwa, bta), (skb, htb, xb, yb, fwb, btb), ext), s')
            \<longrightarrow> fwa = fwhm_min \<and> fwb = - 1)) \<and>
         (fwhm_min < fwhmf \<longrightarrow>
           (fitMoffat_solve leastsq sky height xcen ycen fwhm fwhm_min fwhm_fix beta s = Inr ((fit, soln, (skyr, heightr, xr, yr, fwhmr, betar), (skye, heighte, xe, ye, fwhme, betae)), s1)
            \<longrightarrow> soln = [skyf, heightf, xf, yf, fwhmf, betaf] \<and>
                (skyr, heightr, xr, yr, fwhmr, betar) = (skyf, heightf, xf, yf, fwhmf, betaf) \<and>
                sqrt_diag (lsq_cov (moffat_free_solve leastsq sky height xcen ycen fwhm beta s)) = Inr [skye, heighte, xe, ye, fwhme, betae] \<and>
                fit = moffat (cells (mem s) (fst (m1_xy (mfit1 s))), cells (mem s) (snd (m1_xy (mfit1 s)))) skyf heightf xf yf fwhmf betaf \<and>
                s1 = s) \<and>
           (fitMoffat_iter leastsq wind sky height xcen ycen fwhm fwhm_min fwhm_fix beta thresh s = Break (((ska, hta, xa, ya, fwa, bta), (skb, htb, xb, yb, fwb, btb), ext), s')
            \<longrightarrow> (ska, hta, xa, ya, fwa, bta) = (skyf, heightf, xf, yf, fwhmf, betaf)))"
proof -
  have fall: "fwhmr = fwhm_min \<and> fwhme = - 1 \<and>
        \<not> bad_status (moffat_fixed_solve leastsq sky height xcen ycen beta fwhm_min s) \<and>
        soln = lsq_x (moffat_fixed_solve leastsq sky height xcen ycen beta fwhm_min s) \<and>
        soln = [skyr, heightr, xr, yr, betar] \<and>
        sqrt_diag (lsq_cov (moffat_fixed_solve leastsq sky height xcen ycen beta fwhm_min s)) = Inr [skye, heighte, xe, ye, betae] \<and>
        fit = moffat (cells (mem s) (fst (m2_xy (mfit2 s))), cells (mem s) (snd (m2_xy (mfit2 s)))) skyr heightr xr yr fwhm_min betar \<and>
        s1 = s\<lparr>mfit2 := (mfit2 s)\<lparr>m2_fwhm := fwhm_min\<rparr>, dmfit2 := (dmfit2 s)\<lparr>dm2_fwhm := fwhm_min\<rparr>\<rparr>"
    if le: "fwhmf \<le> fwhm_min" and sol: "fitMoffat_solve leastsq sky height xcen ycen fwhm fwhm_min fwhm_fix beta s = Inr ((fit, soln, (skyr, heightr, xr, yr, fwhmr, betar), (skye, heighte, xe, ye, fwhme, betae)), s1)"
    for fit soln skyr heightr xr yr fwhmr betar skye heighte xe ye fwhme betae s1
  proof -
    from sol have fx: "fitMoffat_fixed leastsq sky height xcen ycen beta fwhm_min s = Inr ((fit, soln, (skyr, heightr, xr, yr, fwhmr, betar), (skye, heighte, xe, ye, fwhme, betae)), s1)"
      unfolding fitMoffat_solve_fallback[OF nf good x le] .
    from fitMoffat_fixed_Inr(3)[OF fx] obtain q1 q2 q3 q4 q5 r1 r2 r3 r4 r5 where
      q: "soln = [q1, q2, q3, q4, q5]" "(skyr, heightr, xr, yr, fwhmr, betar) = (q1, q2, q3, q4, fwhm_min, q5)"
        "sqrt_diag (lsq_cov (moffat_fixed_solve leastsq sky height xcen ycen beta fwhm_min s)) = Inr [r1, r2, r3, r4, r5]"
        "(skye, heighte, xe, ye, fwhme, betae) = (r1, r2, r3, r4, - 1, r5)"
        "fit = moffat (cells (mem s) (fst (m2_xy (mfit2 s))), cells (mem s) (snd (m2_xy (mfit2 s)))) q1 q2 q3 q4 fwhm_min q5"
      by blast
    from q fitMoffat_fixed_Inr(1,2)[OF fx] fitMoffat_fixed_state[OF fx] show ?thesis by simp
  qed
  have kept: "soln = [skyf, heightf, xf, yf, fwhmf, betaf] \<and>
        (skyr, heightr, xr, yr, fwhmr, betar) = (skyf, heightf, xf, yf, fwhmf, betaf) \<and>
        sqrt_diag (lsq_cov (moffat_free_solve leastsq sky height xcen ycen fwhm beta s)) = Inr [skye, heighte, xe, ye, fwhme, betae] \<and>
        fit = moffat (cells (mem s) (fst (m1_xy (mfit1 s))), cells (mem s) (snd (m1_xy (mfit1 s)))) skyf heightf xf yf fwhmf betaf \<and>
        s1 = s"
    if gt: "fwhm_min < fwhmf" and sol: "fitMoffat_solve leastsq sky height xcen ycen fwhm fwhm_min fwhm_fix beta s = Inr ((fit, soln, (skyr, heightr, xr, yr, fwhmr, betar), (skye, heighte, xe, ye, fwhme, betae)), s1)"
    for fit soln skyr heightr xr yr fwhmr betar skye heighte xe ye fwhme betae s1
    using fitMoffat_solve_Inr[OF sol] nf x gt by (elim disjE conjE exE) simp_all
  have A: "(fwhmf \<le> fwhm_min \<longrightarrow>
           fitMoffat_solve leastsq sky height xcen ycen fwhm fwhm_min fwhm_fix beta s = fitMoffat_fixed leastsq sky height xcen ycen beta fwhm_min s \<and>
           (fitMoffat_solve leastsq sky height xcen ycen fwhm fwhm_min fwhm_fix beta s = Inr ((fit, soln, (skyr, heightr, xr, yr, fwhmr, betar), (skye, heighte, xe, ye, fwhme, betae)), s1)
            \<longrightarrow> fwhmr = fwhm_min \<and>
                fwhme = - 1 \<and>
                \<not> bad_status (moffat_fixed_solve leastsq sky height xcen ycen beta fwhm_min s) \<and>
                soln = lsq_x (moffat_fixed_solve leastsq sky height xcen ycen beta fwhm_min s) \<and>
                soln = [skyr, heightr, xr, yr, betar] \<and>
                sqrt_diag (lsq_cov (moffat_fixed_solve leastsq sky height xcen ycen beta fwhm_min s)) = Inr [skye, heighte, xe, ye, betae] \<and>
                fit = moffat (cells (mem s) (fst (m2_xy (mfit2 s))), cells (mem s) (snd (m2_xy (mfit2 s)))) skyr heightr xr yr fwhm_min betar \<and>
                s1 = s\<lparr>mfit2 := (mfit2 s)\<lparr>m2_fwhm := fwhm_min\<rparr>, dmfit2 := (dmfit2 s)\<lparr>dm2_fwhm := fwhm_min\<rparr>\<rparr>) \<and>
           (fitMoffat_iter leastsq wind sky height xcen ycen fwhm fwhm_min fwhm_fix beta thresh s = Break (((ska, hta, xa, ya, fwa, bta), (skb, htb, xb, yb, fwb, btb), ext), s')
            \<longrightarrow> fwa = fwhm_min \<and> fwb = - 1))"
  proof (intro impI)
    assume le: "fwhmf \<le> fwhm_min"
    have a1: "fitMoffat_solve leastsq sky height xcen ycen fwhm fwhm_min fwhm_fix beta s = fitMoffat_fixed leastsq sky height xcen ycen beta fwhm_min s"
      by (rule fitMoffat_solve_fallback[OF nf good x le])
    have a2: "fitMoffat_solve leastsq sky height xcen ycen fwhm fwhm_min fwhm_fix beta s = Inr ((fit, soln, (skyr, heightr, xr, yr, fwhmr, betar), (skye, heighte, xe, ye, fwhme, betae)), s1)
            \<longrightarrow> fwhmr = fwhm_min \<and>
                fwhme = - 1 \<and>
                \<not> bad_status (moffat_fixed_solve leastsq sky height xcen ycen beta fwhm_min s) \<and>
                soln = lsq_x (moffat_fixed_solve leastsq sky height xcen ycen beta fwhm_min s) \<and>
                soln = [skyr, heightr, xr, yr, betar] \<and>
                sqrt_diag (lsq_cov (moffat_fixed_solve leastsq sky height xcen ycen beta fwhm_min s)) = Inr [skye, heighte, xe, ye, betae] \<and>
                fit = moffat (cells (mem s) (fst (m2_xy (mfit2 s))), cells (mem s) (snd (m2_xy (mfit2 s)))) skyr heightr xr yr fwhm_min betar \<and>
                s1 = s\<lparr>mfit2 := (mfit2 s)\<lparr>m2_fwhm := fwhm_min\<rparr>, dmfit2 := (dmfit2 s)\<lparr>dm2_fwhm := fwhm_min\<rparr>\<rparr>"
    proof
      assume sol: "fitMoffat_solve leastsq sky height xcen ycen fwhm fwhm_min fwhm_fix beta s = Inr ((fit, soln, (skyr, heightr, xr, yr, fwhmr, betar), (skye, heighte, xe, ye, fwhme, betae)), s1)"
      from fall[OF le sol] show "fwhmr = fwhm_min \<and>
                fwhme = - 1 \<and>
                \<not> bad_status (moffat_fixed_solve leastsq sky height xcen ycen beta fwhm_min s) \<and>
                soln = lsq_x (moffat_fixed_solve leastsq sky height xcen ycen beta fwhm_min s) \<and>
                soln = [skyr, heightr, xr, yr, betar] \<and>
                sqrt_diag (lsq_cov (moffat_fixed_solve leastsq sky height xcen ycen beta fwhm_min s)) = Inr [skye, heighte, xe, ye, betae] \<and>
                fit = moffat (cells (mem s) (fst (m2_xy (mfit2 s))), cells (mem s) (snd (m2_xy (mfit2 s)))) skyr heightr xr yr fwhm_min betar \<and>
                s1 = s\<lparr>mfit2 := (mfit2 s)\<lparr>m2_fwhm := fwhm_min\<rparr>, dmfit2 := (dmfit2 s)\<lparr>dm2_fwhm := fwhm_min\<rparr>\<rparr>" .
    qed
    have a3: "fitMoffat_iter leastsq wind sky height xcen ycen fwhm fwhm_min fwhm_fix beta thresh s = Break (((ska, hta, xa, ya, fwa, bta), (skb, htb, xb, yb, fwb, btb), ext), s')
            \<longrightarrow> fwa = fwhm_min \<and> fwb = - 1"
    proof
      assume it: "fitMoffat_iter leastsq wind sky height xcen ycen fwhm fwhm_min fwhm_fix beta thresh s = Break (((ska, hta, xa, ya, fwa, bta), (skb, htb, xb, yb, fwb, btb), ext), s')"
      from fitMoffat_iter_Break_solve[OF it] obtain fit soln a b c d e f s1 where
        sol: "fitMoffat_solve leastsq sky height xcen ycen fwhm fwhm_min fwhm_fix beta s = Inr ((fit, soln, (ska, hta, xa, ya, fwa, bta), (a, b, c, d, e, f)), s1)"
        and e: "e = - 1 \<longrightarrow> fwb = - 1"
        by blast
      from fall[OF le sol] have "fwa = fwhm_min" "e = - 1" by blast+
      with e show "fwa = fwhm_min \<and> fwb = - 1" by blast
    qed
    from a1 a2 a3 show "fitMoffat_solve leastsq sky height xcen ycen fwhm fwhm_min fwhm_fix beta s = fitMoffat_fixed leastsq sky height xcen ycen beta fwhm_min s \<and>
           (fitMoffat_solve leastsq sky height xcen ycen fwhm fwhm_min fwhm_fix beta s = Inr ((fit, soln, (skyr, heightr, xr, yr, fwhmr, betar), (skye, heighte, xe, ye, fwhme, betae)), s1)
            \<longrightarrow> fwhmr = fwhm_min \<and>
                fwhme = - 1 \<and>
                \<not> bad_status (moffat_fixed_solve leastsq sky height xcen ycen beta fwhm_min s) \<and>
                soln = lsq_x (moffat_fixed_solve leastsq sky height xcen ycen beta fwhm_min s) \<and>
                soln = [skyr, heightr, xr, yr, betar] \<and>
                sqrt_diag (lsq_cov (moffat_fixed_solve leastsq sky height xcen ycen beta fwhm_min s)) = Inr [skye, heighte, xe, ye, betae] \<and>
                fit = moffat (cells (mem s) (fst (m2_xy (mfit2 s))), cells (mem s) (snd (m2_xy (mfit2 s)))) skyr heightr xr yr fwhm_min betar \<and>
                s1 = s\<lparr>mfit2 := (mfit2 s)\<lparr>m2_fwhm := fwhm_min\<rparr>, dmfit2 := (dmfit2 s)\<lparr>dm2_fwhm := fwhm_min\<rparr>\<rparr>) \<and>
           (fitMoffat_iter leastsq wind sky height xcen ycen fwhm fwhm_min fwhm_fix beta thresh s = Break (((ska, hta, xa, ya, fwa, bta), (skb, htb, xb, yb, fwb, btb), ext), s')
            \<longrightarrow> fwa = fwhm_min \<and> fwb = - 1)" by (intro conjI)
  qed
  have B: "(fwhm_min < fwhmf \<longrightarrow>
           (fitMoffat_solve leastsq sky height xcen ycen fwhm fwhm_min fwhm_fix beta s = Inr ((fit, soln, (skyr, heightr, xr, yr, fwhmr, betar), (skye, heighte, xe, ye, fwhme, betae)), s1)
            \<longrightarrow> soln = [skyf, heightf, xf, yf, fwhmf, betaf] \<and>
                (skyr, heightr, xr, yr, fwhmr, betar) = (skyf, heightf, xf, yf, fwhmf, betaf) \<and>
                sqrt_diag (lsq_cov (moffat_free_solve leastsq sky height xcen ycen fwhm beta s)) = Inr [skye, heighte, xe, ye, fwhme, betae] \<and>
                fit = moffat (cells (mem s) (fst (m1_xy (mfit1 s))), cells (mem s) (snd (m1_xy (mfit1 s)))) skyf heightf xf yf fwhmf betaf \<and>
                s1 = s) \<and>
           (fitMoffat_iter leastsq wind sky height xcen ycen fwhm fwhm_min fwhm_fix beta thresh s = Break (((ska, hta, xa, ya, fwa, bta), (skb, htb, xb, yb, fwb, btb), ext), s')
            \<longrightarrow> (ska, hta, xa, ya, fwa, bta) = (skyf, heightf, xf, yf, fwhmf, betaf)))"
  proof (intro impI)
    assume gt: "fwhm_min < fwhmf"
    have b1: "fitMoffat_solve leastsq sky height xcen ycen fwhm fwhm_min fwhm_fix beta s = Inr ((fit, soln, (skyr, heightr, xr, yr, fwhmr, betar), (skye, heighte, xe, ye, fwhme, betae)), s1)
            \<longrightarrow> soln = [skyf, heightf, xf, yf, fwhmf, betaf] \<and>
                (skyr, heightr, xr, yr, fwhmr, betar) = (skyf, heightf, xf, yf, fwhmf, betaf) \<and>
                sqrt_diag (lsq_cov (moffat_free_solve leastsq sky height xcen ycen fwhm beta s)) = Inr [skye, heighte, xe, ye, fwhme, betae] \<and>
                fit = moffat (cells (mem s) (fst (m1_xy (mfit1 s))), cells (mem s) (snd (m1_xy (mfit1 s)))) skyf heightf xf yf fwhmf betaf \<and>
                s1 = s"
    proof
      assume sol: "fitMoffat_solve leastsq sky height xcen ycen fwhm fwhm_min fwhm_fix beta s = Inr ((fit, soln, (skyr, heightr, xr, yr, fwhmr, betar), (skye, heighte, xe, ye, fwhme, betae)), s1)"
      from kept[OF gt sol] show "soln = [skyf, heightf, xf, yf, fwhmf, betaf] \<and>
                (skyr, heightr, xr, yr, fwhmr, betar) = (skyf, heightf, xf, yf, fwhmf, betaf) \<and>
                sqrt_diag (lsq_cov (moffat_free_solve leastsq sky height xcen ycen fwhm beta s)) = Inr [skye, heighte, xe, ye, fwhme, betae] \<and>
                fit = moffat (cells (mem s) (fst (m1_xy (mfit1 s))), cells (mem s) (snd (m1_xy (mfit1 s)))) skyf heightf xf yf fwhmf betaf \<and>
                s1 = s" .
    qed
    have b2: "fitMoffat_iter leastsq wind sky height xcen ycen fwhm fwhm_min fwhm_fix beta thresh s = Break (((ska, hta, xa, ya, fwa, bta), (skb, htb, xb, yb, fwb, btb), ext), s')
            \<longrightarrow> (ska, hta, xa, ya, fwa, bta) = (skyf, heightf, xf, yf, fwhmf, betaf)"
    proof
      assume it: "fitMoffat_iter leastsq wind sky height xcen ycen fwhm fwhm_min fwhm_fix beta thresh s = Break (((ska, hta, xa, ya, fwa, bta), (skb, htb, xb, yb, fwb, btb), ext), s')"
      from fitMoffat_iter_Break_solve[OF it] obtain fit soln a b c d e f s1 where
        sol: "fitMoffat_solve leastsq sky height xcen ycen fwhm fwhm_min fwhm_fix beta s = Inr ((fit, soln, (ska, hta, xa, ya, fwa, bta), (a, b, c, d, e, f)), s1)"
        by blast
      from kept[OF gt sol] show "(ska, hta, xa, ya, fwa, bta) = (skyf, heightf, xf, yf, fwhmf, betaf)" by blast
    qed
    from b1 b2 show "(fitMoffat_solve leastsq sky height xcen ycen fwhm fwhm_min fwhm_fix beta s = Inr ((fit, soln, (skyr, heightr, xr, yr, fwhmr, betar), (skye, heighte, xe, ye, fwhme, betae)), s1)
            \<longrightarrow> soln = [skyf, heightf, xf, yf, fwhmf, betaf] \<and>
                (skyr, heightr, xr, yr, fwhmr, betar) = (skyf, heightf, xf, yf, fwhmf, betaf) \<and>
                sqrt_diag (lsq_cov (moffat_free_solve leastsq sky height xcen ycen fwhm beta s)) = Inr [skye, heighte, xe, ye, fwhme, betae] \<and>
                fit = moffat (cells (mem s) (fst (m1_xy (mfit1 s))), cells (mem s) (snd (m1_xy (mfit1 s)))) skyf heightf xf yf fwhmf betaf \<and>
                s1 = s) \<and>
           (fitMoffat_iter leastsq wind sky height xcen ycen fwhm fwhm_min fwhm_fix beta thresh s = Break (((ska, hta, xa, ya, fwa, bta), (skb, htb, xb, yb, fwb, btb), ext), s')
            \<longrightarrow> (ska, hta, xa, ya, fwa, bta) = (skyf, heightf, xf, yf, fwhmf, betaf))" by (rule conjI)
  qed
  from A B show ?thesis by (rule conjI)
qed

lemma fitMoffat_two_stage_result:
  assumes nf: "\<not> fwhm_fix"
    and res: "fitMoffat leastsq wind sky height xcen ycen fwhm fwhm_min fwhm_fix beta read gain thresh st = Some (Inr (((ska, hta, xa, ya, fwa, bta), (skb, htb, xb, yb, fwb, btb), ext), sF))"
  shows "(\<exists>s skyf heightf xf yf fwhmf betaf.
           (fitMoffat_next leastsq wind sky height xcen ycen fwhm fwhm_min fwhm_fix beta thresh)\<^sup>*\<^sup>* (fitMoffat_init wind fwhm read gain st) s \<and>
           fitMoffat_iter leastsq wind sky height xcen ycen fwhm fwhm_min fwhm_fix beta thresh s = Break (((ska, hta, xa, ya, fwa, bta), (skb, htb, xb, yb, fwb, btb), ext), sF) \<and>
           \<not> bad_status (moffat_free_solve leastsq sky height xcen ycen fwhm beta s) \<and>
           lsq_x (moffat_free_solve leastsq sky height xcen ycen fwhm beta s) = [skyf, heightf, xf, yf, fwhmf, betaf] \<and>
           ((fwhmf \<le> fwhm_min \<and> fwa = fwhm_min \<and> fwb = - 1) \<or>
            (fwhm_min < fwhmf \<and> (ska, hta, xa, ya, fwa, bta) = (skyf, heightf, xf, yf, fwhmf, betaf))))"
proof -
  from fitMoffat_result_last[OF res] obtain s where
    r: "(fitMoffat_next leastsq wind sky height xcen ycen fwhm fwhm_min fwhm_fix beta thresh)\<^sup>*\<^sup>* (fitMoffat_init wind fwhm read gain st) s"
    and it: "fitMoffat_iter leastsq wind sky height xcen ycen fwhm fwhm_min fwhm_fix beta thresh s = Break (((ska, hta, xa, ya, fwa, bta), (skb, htb, xb, yb, fwb, btb), ext), sF)"
    by blast
  from fitMoffat_iter_Break_solve[OF it] obtain fit soln a b c d e f s1 where
    sol: "fitMoffat_solve leastsq sky height xcen ycen fwhm fwhm_min fwhm_fix beta s = Inr ((fit, soln, (ska, hta, xa, ya, fwa, bta), (a, b, c, d, e, f)), s1)"
    by blast
  from fitMoffat_solve_Inr[OF sol] nf obtain skyf heightf xf yf fwhmf betaf where
    good: "\<not> bad_status (moffat_free_solve leastsq sky height xcen ycen fwhm beta s)"
    and x: "lsq_x (moffat_free_solve leastsq sky height xcen ycen fwhm beta s) = [skyf, heightf, xf, yf, fwhmf, betaf]"
    by (elim disjE conjE exE) simp_all
  note ts = fitMoffat_two_stage[OF nf good x, where fwhm_min = fwhm_min and wind = wind and thresh = thresh
      and ext = ext and s' = sF and ska = ska and hta = hta and xa = xa and ya = ya and fwa = fwa and skb = skb and htb = htb and xb = xb and yb = yb and fwb = fwb and bta = bta and btb = btb]
  have "(fwhmf \<le> fwhm_min \<and> fwa = fwhm_min \<and> fwb = - 1) \<or>
        (fwhm_min < fwhmf \<and> (ska, hta, xa, ya, fwa, bta) = (skyf, heightf, xf, yf, fwhmf, betaf))"
  proof (cases "fwhmf \<le> fwhm_min")
    case True
    with ts[THEN conjunct1] it show ?thesis by simp
  next
    case False
    with ts[THEN conjunct2] it show ?thesis by simp
  qed
  with r it good x show ?thesis by blast
qed

lemma fitGaussian_iter_Break_solve:
  assumes it: "fitGaussian_iter leastsq wind sky height xcen ycen fwhm fwhm_min fwhm_fix thresh s = Break ((pars, (p1, p2, p3, p4, p5), ext), s')"
  shows "\<exists>fit soln a b c d e s1.
           fitGaussian_solve leastsq sky height xcen ycen fwhm fwhm_min fwhm_fix s = Inr ((fit, soln, pars, (a, b, c, d, e)), s1) \<and> (e = - 1 \<longrightarrow> p5 = - 1)"
proof -
  from it have "\<And>e. fitGaussian_iter leastsq wind sky height xcen ycen fwhm fwhm_min fwhm_fix thresh s \<noteq> Raise e" by simp
  from fitGaussian_iter_solved[OF this]
  obtain fit soln pf a b c d e s1 where
    sol: "fitGaussian_solve leastsq sky height xcen ycen fwhm fwhm_min fwhm_fix s = Inr ((fit, soln, pf, (a, b, c, d, e)), s1)"
    by blast
  obtain q1 q2 q3 q4 q6 where pf: "pf = (q1, q2, q3, q4, q6)" by (cases pf) auto
  from it have "pars = pf \<and> (e = - 1 \<longrightarrow> p5 = - 1)"
    by (auto simp: fitGaussian_iter_def sol pf Let_def split: prod.splits if_splits)
  with sol show ?thesis by blast
qed

lemma fitGaussian_two_stage:
  assumes nf: "\<not> fwhm_fix"
    and good: "\<not> bad_status (gauss_free_solve leastsq sky height xcen ycen fwhm s)"
    and x: "lsq_x (gauss_free_solve leastsq sky height xcen ycen fwhm s) = [skyf, heightf, xf, yf, fwhmf]"
  shows "(fwhmf \<le> fwhm_min \<longrightarrow>
           fitGaussian_solve leastsq sky height xcen ycen fwhm fwhm_min fwhm_fix s = fitGaussian_fixed leastsq sky height xcen ycen fwhm_min s \<and>
           (fitGaussian_solve leastsq sky height xcen ycen fwhm fwhm_min fwhm_fix s = Inr ((fit, soln, (skyr, heightr, xr, yr, fwhmr), (skye, heighte, xe, ye, fwhme)), s1)
            \<longrightarrow> fwhmr = fwhm_min \<and>
                fwhme = - 1 \<and>
                \<not> bad_status (gauss_fixed_solve leastsq sky height xcen ycen fwhm_min s) \<and>
                soln = lsq_x (gauss_fixed_solve leastsq sky height xcen ycen fwhm_min s) \<and>
                soln = [skyr, heightr, xr, yr] \<and>
                sqrt_diag (lsq_cov (gauss_fixed_solve leastsq sky height xcen ycen fwhm_min s)) = Inr [skye, heighte, xe, ye] \<and>
                fit = gaussian (cells (gmem s) (fst (g2_xy (gfit2 s))), cells (gmem s) (snd (g2_xy (gfit2 s)))) skyr heightr xr yr fwhm_min \<and>
                s1 = s\<lparr>gfit2 := (gfit2 s)\<lparr>g2_fwhm := fwhm_min\<rparr>, dgfit2 := (dgfit2 s)\<lparr>dg2_fwhm := fwhm_min\<rparr>\<rparr>) \<and>
           (fitGaussian_iter leastsq wind sky height xcen ycen fwhm fwhm_min fwhm_fix thresh s = Break (((ska, hta, xa, ya, fwa), (skb, htb, xb, yb, fwb), ext), s')
            \<longrightarrow> fwa = fwhm_min \<and> fwb = - 1)) \<and>
         (fwhm_min < fwhmf \<longrightarrow>
           (fitGaussian_solve leastsq sky height xcen ycen fwhm fwhm_min fwhm_fix s = Inr ((fit, soln, (skyr, heightr, xr, yr, fwhmr), (skye, heighte, xe, ye, fwhme)), s1)
            \<longrightarrow> soln = [skyf, heightf, xf, yf, fwhmf] \<and>
                (skyr, heightr, xr, yr, fwhmr) = (skyf, heightf, xf, yf, fwhmf) \<and>
                sqrt_diag (lsq_cov (gauss_free_solve leastsq sky height xcen ycen fwhm s)) = Inr [skye, heighte, xe, ye, fwhme] \<and>
                fit = gaussian (cells (gmem s) (fst (g1_xy (gfit1 s))), cells (gmem s) (snd (g1_xy (gfit1 s)))) skyf heightf xf yf fwhmf \<and>
                s1 = s) \<and>
           (fitGaussian_iter leastsq wind sky height xcen ycen fwhm fwhm_min fwhm_fix thresh s = Break (((ska, hta, xa, ya, fwa), (skb, htb, xb, yb, fwb), ext), s')
            \<longrightarrow> (ska, hta, xa, ya, fwa) = (skyf, heightf, xf, yf, fwhmf)))"
proof -
  have fall: "fwhmr = fwhm_min \<and> fwhme = - 1 \<and>
        \<not> bad_status (gauss_fixed_solve leastsq sky height xcen ycen fwhm_min s) \<and>
        soln = lsq_x (gauss_fixed_solve leastsq sky height xcen ycen fwhm_min s) \<and>
        soln = [skyr, heightr, xr, yr] \<and>
        sqrt_diag (lsq_cov (gauss_fixed_solve leastsq sky height xcen ycen fwhm_min s)) = Inr [skye, heighte, xe, ye] \<and>
        fit = gaussian (cells (gmem s) (fst (g2_xy (gfit2 s))), cells (gmem s) (snd (g2_xy (gfit2 s)))) skyr heightr xr yr fwhm_min \<and>
        s1 = s\<lparr>gfit2 := (gfit2 s)\<lparr>g2_fwhm := fwhm_min\<rparr>, dgfit2 := (dgfit2 s)\<lparr>dg2_fwhm := fwhm_min\<rparr>\<rparr>"
    if le: "fwhmf \<le> fwhm_min" and sol: "fitGaussian_solve leastsq sky height xcen ycen fwhm fwhm_min fwhm_fix s = Inr ((fit, soln, (skyr, heightr, xr, yr, fwhmr), (skye, heighte, xe, ye, fwhme)), s1)"
    for fit soln skyr heightr xr yr fwhmr skye heighte xe ye fwhme s1
  proof -
    from sol have fx: "fitGaussian_fixed leastsq sky height xcen ycen fwhm_min s = Inr ((fit, soln, (skyr, heightr, xr, yr, fwhmr), (skye, heighte, xe, ye, fwhme)), s1)"
      unfolding fitGaussian_solve_fallback[OF nf good x le] .
    from fitGaussian_fixed_Inr(3)[OF fx] obtain q1 q2 q3 q4 r1 r2 r3 r4 where
      q: "soln = [q1, q2, q3, q4]" "(skyr, heightr, xr, yr, fwhmr) = (q1, q2, q3, q4, fwhm_min)"
        "sqrt_diag (lsq_cov (gauss_fixed_solve leastsq sky height xcen ycen fwhm_min s)) = Inr [r1, r2, r3, r4]"
        "(skye, heighte, xe, ye, fwhme) = (r1, r2, r3, r4, - 1)"
        "fit = gaussian (cells (gmem s) (fst (g2_xy (gfit2 s))), cells (gmem s) (snd (g2_xy (gfit2 s)))) q1 q2 q3 q4 fwhm_min"
      by blast
    from q fitGaussian_fixed_Inr(1,2)[OF fx] fitGaussian_fixed_state[OF fx] show ?thesis by simp
  qed
  have kept: "soln = [skyf, heightf, xf, yf, fwhmf] \<and>
        (skyr, heightr, xr, yr, fwhmr) = (skyf, heightf, xf, yf, fwhmf) \<and>
        sqrt_diag (lsq_cov (gauss_free_solve leastsq sky height xcen ycen fwhm s)) = Inr [skye, heighte, xe, ye, fwhme] \<and>
        fit = gaussian (cells (gmem s) (fst (g1_xy (gfit1 s))), cells (gmem s) (snd (g1_xy (gfit1 s)))) skyf heightf xf yf fwhmf \<and>
        s1 = s"
    if gt: "fwhm_min < fwhmf" and sol: "fitGaussian_solve leastsq sky height xcen ycen fwhm fwhm_min fwhm_fix s = Inr ((fit, soln, (skyr, heightr, xr, yr, fwhmr), (skye, heighte, xe, ye, fwhme)), s1)"
    for fit soln skyr heightr xr yr fwhmr skye heighte xe ye fwhme s1
    using fitGaussian_solve_Inr[OF sol] nf x gt by (elim disjE conjE exE) simp_all
  have A: "(fwhmf \<le> fwhm_min \<longrightarrow>
           fitGaussian_solve leastsq sky height xcen ycen fwhm fwhm_min fwhm_fix s = fitGaussian_fixed leastsq sky height xcen ycen fwhm_min s \<and>
           (fitGaussian_solve leastsq sky height xcen ycen fwhm fwhm_min fwhm_fix s = Inr ((fit, soln, (skyr, heightr, xr, yr, fwhmr), (skye, heighte, xe, ye, fwhme)), s1)
            \<longrightarrow> fwhmr = fwhm_min \<and>
                fwhme = - 1 \<and>
                \<not> bad_status (gauss_fixed_solve leastsq sky height xcen ycen fwhm_min s) \<and>
                soln = lsq_x (gauss_fixed_solve leastsq sky height xcen ycen fwhm_min s) \<and>
                soln = [skyr, heightr, xr, yr] \<and>
                sqrt_diag (lsq_cov (gauss_fixed_solve leastsq sky height xcen ycen fwhm_min s)) = Inr [skye, heighte, xe, ye] \<and>
                fit = gaussian (cells (gmem s) (fst (g2_xy (gfit2 s))), cells (gmem s) (snd (g2_xy (gfit2 s)))) skyr heightr xr yr fwhm_min \<and>
                s1 = s\<lparr>gfit2 := (gfit2 s)\<lparr>g2_fwhm := fwhm_min\<rparr>, dgfit2 := (dgfit2 s)\<lparr>dg2_fwhm := fwhm_min\<rparr>\<rparr>) \<and>
           (fitGaussian_iter leastsq wind sky height xcen ycen fwhm fwhm_min fwhm_fix thresh s = Break (((ska, hta, xa, ya, fwa), (skb, htb, xb, yb, fwb), ext), s')
            \<longrightarrow> fwa = fwhm_min \<and> fwb = - 1))"
  proof (intro impI)
    assume le: "fwhmf \<le> fwhm_min"
    have a1: "fitGaussian_solve leastsq sky height xcen ycen fwhm fwhm_min fwhm_fix s = fitGaussian_fixed leastsq sky height xcen ycen fwhm_min s"
      by (rule fitGaussian_solve_fallback[OF nf good x le])
    have a2: "fitGaussian_solve leastsq sky height xcen ycen fwhm fwhm_min fwhm_fix s = Inr ((fit, soln, (skyr, heightr, xr, yr, fwhmr), (skye, heighte, xe, ye, fwhme)), s1)
            \<longrightarrow> fwhmr = fwhm_min \<and>
                fwhme = - 1 \<and>
                \<not> bad_status (gauss_fixed_solve leastsq sky height xcen ycen fwhm_min s) \<and>
                soln = lsq_x (gauss_fixed_solve leastsq sky height xcen ycen fwhm_min s) \<and>
                soln = [skyr, heightr, xr, yr] \<and>
                sqrt_diag (lsq_cov (gauss_fixed_solve leastsq sky height xcen ycen fwhm_min s)) = Inr [skye, heighte, xe, ye] \<and>
                fit = gaussian (cells (gmem s) (fst (g2_xy (gfit2 s))), cells (gmem s) (snd (g2_xy (gfit2 s)))) skyr heightr xr yr fwhm_min \<and>
                s1 = s\<lparr>gfit2 := (gfit2 s)\<lparr>g2_fwhm := fwhm_min\<rparr>, dgfit2 := (dgfit2 s)\<lparr>dg2_fwhm := fwhm_min\<rparr>\<rparr>"
    proof
      assume sol: "fitGaussian_solve leastsq sky height xcen ycen fwhm fwhm_min fwhm_fix s = Inr ((fit, soln, (skyr, heightr, xr, yr, fwhmr), (skye, heighte, xe, ye, fwhme)), s1)"
      from fall[OF le sol] show "fwhmr = fwhm_min \<and>
                fwhme = - 1 \<and>
                \<not> bad_status (gauss_fixed_solve leastsq sky height xcen ycen fwhm_min s) \<and>
                soln = lsq_x (gauss_fixed_solve leastsq sky height xcen ycen fwhm_min s) \<and>
                soln = [skyr, heightr, xr, yr] \<and>
                sqrt_diag (lsq_cov (gauss_fixed_solve leastsq sky height xcen ycen fwhm_min s)) = Inr [skye, heighte, xe, ye] \<and>
                fit = gaussian (cells (gmem s) (fst (g2_xy (gfit2 s))), cells (gmem s) (snd (g2_xy (gfit2 s)))) skyr heightr xr yr fwhm_min \<and>
                s1 = s\<lparr>gfit2 := (gfit2 s)\<lparr>g2_fwhm := fwhm_min\<rparr>, dgfit2 := (dgfit2 s)\<lparr>dg2_fwhm := fwhm_min\<rparr>\<rparr>" .
    qed
    have a3: "fitGaussian_iter leastsq wind sky height xcen ycen fwhm fwhm_min fwhm_fix thresh s = Break (((ska, hta, xa, ya, fwa), (skb, htb, xb, yb, fwb), ext), s')
            \<longrightarrow> fwa = fwhm_min \<and> fwb = - 1"
    proof
      assume it: "fitGaussian_iter leastsq wind sky height xcen ycen fwhm fwhm_min fwhm_fix thresh s = Break (((ska, hta, xa, ya, fwa), (skb, htb, xb, yb, fwb), ext), s')"
      from fitGaussian_iter_Break_solve[OF it] obtain fit soln a b c d e s1 where
        sol: "fitGaussian_solve leastsq sky height xcen ycen fwhm fwhm_min fwhm_fix s = Inr ((fit, soln, (ska, hta, xa, ya, fwa), (a, b, c, d, e)), s1)"
        and e: "e = - 1 \<longrightarrow> fwb = - 1"
        by blast
      from fall[OF le sol] have "fwa = fwhm_min" "e = - 1" by blast+
      with e show "fwa = fwhm_min \<and> fwb = - 1" by blast
    qed
    from a1 a2 a3 show "fitGaussian_solve leastsq sky height xcen ycen fwhm fwhm_min fwhm_fix s = fitGaussian_fixed leastsq sky height xcen ycen fwhm_min s \<and>
           (fitGaussian_solve leastsq sky height xcen ycen fwhm fwhm_min fwhm_fix s = Inr ((fit, soln, (skyr, heightr, xr, yr, fwhmr), (skye, heighte, xe, ye, fwhme)), s1)
            \<longrightarrow> fwhmr = fwhm_min \<and>
                fwhme = - 1 \<and>
                \<not> bad_status (gauss_fixed_solve leastsq sky height xcen ycen fwhm_min s) \<and>
                soln = lsq_x (gauss_fixed_solve leastsq sky height xcen ycen fwhm_min s) \<and>
                soln = [skyr, heightr, xr, yr] \<and>
                sqrt_diag (lsq_cov (gauss_fixed_solve leastsq sky height xcen ycen fwhm_min s)) = Inr [skye, heighte, xe, ye] \<and>
                fit = gaussian (cells (gmem s) (fst (g2_xy (gfit2 s))), cells (gmem s) (snd (g2_xy (gfit2 s)))) skyr heightr xr yr fwhm_min \<and>
                s1 = s\<lparr>gfit2 := (gfit2 s)\<lparr>g2_fwhm := fwhm_min\<rparr>, dgfit2 := (dgfit2 s)\<lparr>dg2_fwhm := fwhm_min\<rparr>\<rparr>) \<and>
           (fitGaussian_iter leastsq wind sky height xcen ycen fwhm fwhm_min fwhm_fix thresh s = Break (((ska, hta, xa, ya, fwa), (skb, htb, xb, yb, fwb), ext), s')
            \<longrightarrow> fwa = fwhm_min \<and> fwb = - 1)" by (intro conjI)
  qed
  have B: "(fwhm_min < fwhmf \<longrightarrow>
           (fitGaussian_solve leastsq sky height xcen ycen fwhm fwhm_min fwhm_fix s = Inr ((fit, soln, (skyr, heightr, xr, yr, fwhmr), (skye, heighte, xe, ye, fwhme)), s1)
            \<longrightarrow> soln = [skyf, heightf, xf, yf, fwhmf] \<and>
                (skyr, heightr, xr, yr, fwhmr) = (skyf, heightf, xf, yf, fwhmf) \<and>
                sqrt_diag (lsq_cov (gauss_free_solve leastsq sky height xcen ycen fwhm s)) = Inr [skye, heighte, xe, ye, fwhme] \<and>
                fit = gaussian (cells (gmem s) (fst (g1_xy (gfit1 s))), cells (gmem s) (snd (g1_xy (gfit1 s)))) skyf heightf xf yf fwhmf \<and>
                s1 = s) \<and>
           (fitGaussian_iter leastsq wind sky height xcen ycen fwhm fwhm_min fwhm_fix thresh s = Break (((ska, hta, xa, ya, fwa), (skb, htb, xb, yb, fwb), ext), s')
            \<longrightarrow> (ska, hta, xa, ya, fwa) = (skyf, heightf, xf, yf, fwhmf)))"
  proof (intro impI)
    assume gt: "fwhm_min < fwhmf"
    have b1: "fitGaussian_solve leastsq sky height xcen ycen fwhm fwhm_min fwhm_fix s = Inr ((fit, soln, (skyr, heightr, xr, yr, fwhmr), (skye, heighte, xe, ye, fwhme)), s1)
            \<longrightarrow> soln = [skyf, heightf, xf, yf, fwhmf] \<and>
                (skyr, heightr, xr, yr, fwhmr) = (skyf, heightf, xf, yf, fwhmf) \<and>
                sqrt_diag (lsq_cov (gauss_free_solve leastsq sky height xcen ycen fwhm s)) = Inr [skye, heighte, xe, ye, fwhme] \<and>
                fit = gaussian (cells (gmem s) (fst (g1_xy (gfit1 s))), cells (gmem s) (snd (g1_xy (gfit1 s)))) skyf heightf xf yf fwhmf \<and>
                s1 = s"
    proof
      assume sol: "fitGaussian_solve leastsq sky height xcen ycen fwhm fwhm_min fwhm_fix s = Inr ((fit, soln, (skyr, heightr, xr, yr, fwhmr), (skye, heighte, xe, ye, fwhme)), s1)"
      from kept[OF gt sol] show "soln = [skyf, heightf, xf, yf, fwhmf] \<and>
                (skyr, heightr, xr, yr, fwhmr) = (skyf, heightf, xf, yf, fwhmf) \<and>
                sqrt_diag (lsq_cov (gauss_free_solve leastsq sky height xcen ycen fwhm s)) = Inr [skye, heighte, xe, ye, fwhme] \<and>
                fit = gaussian (cells (gmem s) (fst (g1_xy (gfit1 s))), cells (gmem s) (snd (g1_xy (gfit1 s)))) skyf heightf xf yf fwhmf \<and>
                s1 = s" .
    qed
    have b2: "fitGaussian_iter leastsq wind sky height xcen ycen fwhm fwhm_min fwhm_fix thresh s = Break (((ska, hta, xa, ya, fwa), (skb, htb, xb, yb, fwb), ext), s')
            \<longrightarrow> (ska, hta, xa, ya, fwa) = (skyf, heightf, xf, yf, fwhmf)"
    proof
      assume it: "fitGaussian_iter leastsq wind sky height xcen ycen fwhm fwhm_min fwhm_fix thresh s = Break (((ska, hta, xa, ya, fwa), (skb, htb, xb, yb, fwb), ext), s')"
      from fitGaussian_iter_Break_solve[OF it] obtain fit soln a b c d e s1 where
        sol: "fitGaussian_solve leastsq sky height xcen ycen fwhm fwhm_min fwhm_fix s = Inr ((fit, soln, (ska, hta, xa, ya, fwa), (a, b, c, d, e)), s1)"
        by blast
      from kept[OF gt sol] show "(ska, hta, xa, ya, fwa) = (skyf, heightf, xf, yf, fwhmf)" by blast
    qed
    from b1 b2 show "(fitGaussian_solve leastsq sky height xcen ycen fwhm fwhm_min fwhm_fix s = Inr ((fit, soln, (skyr, heightr, xr, yr, fwhmr), (skye, heighte, xe, ye, fwhme)), s1)
            \<longrightarrow> soln = [skyf, heightf, xf, yf, fwhmf] \<and>
                (skyr, heightr, xr, yr, fwhmr) = (skyf, heightf, xf, yf, fwhmf) \<and>
                sqrt_diag (lsq_cov (gauss_free_solve leastsq sky height xcen ycen fwhm s)) = Inr [skye, heighte, xe, ye, fwhme] \<and>
                fit = gaussian (cells (gmem s) (fst (g1_xy (gfit1 s))), cells (gmem s) (snd (g1_xy (gfit1 s)))) skyf heightf xf yf fwhmf \<and>
                s1 = s) \<and>
           (fitGaussian_iter leastsq wind sky height xcen ycen fwhm fwhm_min fwhm_fix thresh s = Break (((ska, hta, xa, ya, fwa), (skb, htb, xb, yb, fwb), ext), s')
            \<longrightarrow> (ska, hta, xa, ya, fwa) = (skyf, heightf, xf, yf, fwhmf))" by (rule conjI)
  qed
  from A B show ?thesis by (rule conjI)
qed

lemma fitGaussian_two_stage_result:
  assumes nf: "\<not> fwhm_fix"
    and res: "fitGaussian leastsq wind sky height xcen ycen fwhm fwhm_min fwhm_fix read gain thresh st = Some (Inr (((ska, hta, xa, ya, fwa), (skb, htb, xb, yb, fwb), ext), sF))"
  shows "(\<exists>s skyf heightf xf yf fwhmf.
           (fitGaussian_next leastsq wind sky height xcen ycen fwhm fwhm_min fwhm_fix thresh)\<^sup>*\<^sup>* (fitGaussian_init wind fwhm read gain st) s \<and>
           fitGaussian_iter leastsq wind sky height xcen ycen fwhm fwhm_min fwhm_fix thresh s = Break (((ska, hta, xa, ya, fwa), (skb, htb, xb, yb, fwb), ext), sF) \<and>
           \<not> bad_status (gauss_free_solve leastsq sky height xcen ycen fwhm s) \<and>
           lsq_x (gauss_free_solve leastsq sky height xcen ycen fwhm s) = [skyf, heightf, xf, yf, fwhmf] \<and>
           ((fwhmf \<le> fwhm_min \<and> fwa = fwhm_min \<and> fwb = - 1) \<or>
            (fwhm_min < fwhmf \<and> (ska, hta, xa, ya, fwa) = (skyf, heightf, xf, yf, fwhmf))))"
proof -
  from fitGaussian_result_last[OF res] obtain s where
    r: "(fitGaussian_next leastsq wind sky height xcen ycen fwhm fwhm_min fwhm_fix thresh)\<^sup>*\<^sup>* (fitGaussian_init wind fwhm read gain st) s"
    and it: "fitGaussian_iter leastsq wind sky height xcen ycen fwhm fwhm_min fwhm_fix thresh s = Break (((ska, hta, xa, ya, fwa), (skb, htb, xb, yb, fwb), ext), sF)"
    by blast
  from fitGaussian_iter_Break_solve[OF it] obtain fit soln a b c d e s1 where
    sol: "fitGaussian_solve leastsq sky height xcen ycen fwhm fwhm_min fwhm_fix s = Inr ((fit, soln, (ska, hta, xa, ya, fwa), (a, b, c, d, e)), s1)"
    by blast
  from fitGaussian_solve_Inr[OF sol] nf obtain skyf heightf xf yf fwhmf where
    good: "\<not> bad_status (gauss_free_solve leastsq sky height xcen ycen fwhm s)"
    and x: "lsq_x (gauss_free_solve leastsq sky height xcen ycen fwhm s) = [skyf, heightf, xf, yf, fwhmf]"
    by (elim disjE conjE exE) simp_all
  note ts = fitGaussian_two_stage[OF nf good x, where fwhm_min = fwhm_min and wind = wind and thresh = thresh
      and ext = ext and s' = sF and ska = ska and hta = hta and xa = xa and ya = ya and fwa = fwa and skb = skb and htb = htb and xb = xb and yb = yb and fwb = fwb]
  have "(fwhmf \<le> fwhm_min \<and> fwa = fwhm_min \<and> fwb = - 1) \<or>
        (fwhm_min < fwhmf \<and> (ska, hta, xa, ya, fwa) = (skyf, heightf, xf, yf, fwhmf))"
  proof (cases "fwhmf \<le> fwhm_min")
    case True
    with ts[THEN conjunct1] it show ?thesis by simp
  next
    case False
    with ts[THEN conjunct2] it show ?thesis by simp
  qed
  with r it good x show ?thesis by blast
qed


text \<open>
  Claim C1. In a pass of \<^verbatim>\<open>fitMoffat\<close> or \<^verbatim>\<open>fitGaussian\<close> with \<^verbatim>\<open>fwhm_fix\<close> false whose free
  solve succeeds with the FWHM \<open>fwhmf\<close>: if \<open>fwhmf\<close> is at most \<^verbatim>\<open>fwhm_min\<close>, the solve of the
  pass is the fixed solve with the FWHM held at \<^verbatim>\<open>fwhm_min\<close>; when that succeeds its solution
  vector, fit and errors are the ones kept (those of the free solve are not used), the FWHM
  is \<^verbatim>\<open>fwhm_min\<close> and its error is \<open>-1\<close>, and a pass that breaks reports FWHM \<^verbatim>\<open>fwhm_min\<close> with
  error \<open>-1\<close>. If \<open>fwhmf\<close> is greater than \<^verbatim>\<open>fwhm_min\<close>, solution vector, parameters, fit and
  errors are those of the free solve, and a pass that breaks reports its parameters. For the
  result of a whole call with \<^verbatim>\<open>fwhm_fix\<close> false: it is what the last pass breaks with, the
  free solve of that pass succeeded, and either its FWHM was at most \<^verbatim>\<open>fwhm_min\<close> and the result
  has FWHM \<^verbatim>\<open>fwhm_min\<close> with error \<open>-1\<close>, or it was greater and the result has the parameters
  of the free solve.
\<close>

theorem two_stage_fwhm:
  "(\<not> fwhm_fix \<and>
    \<not> bad_status (moffat_free_solve leastsq sky height xcen ycen fwhm beta s) \<and>
    lsq_x (moffat_free_solve leastsq sky height xcen ycen fwhm beta s) = [skyf, heightf, xf, yf, fwhmf, betaf]
      \<longrightarrow> (fwhmf \<le> fwhm_min \<longrightarrow>
           fitMoffat_solve leastsq sky height xcen ycen fwhm fwhm_min fwhm_fix beta s = fitMoffat_fixed leastsq sky height xcen ycen beta fwhm_min s \<and>
           (fitMoffat_solve leastsq sky height xcen ycen fwhm fwhm_min fwhm_fix beta s = Inr ((fit, soln, (skyr, heightr, xr, yr, fwhmr, betar), (skye, heighte, xe, ye, fwhme, betae)), s1)
            \<longrightarrow> fwhmr = fwhm_min \<and>
                fwhme = - 1 \<and>
                \<not> bad_status (moffat_fixed_solve leastsq sky height xcen ycen beta fwhm_min s) \<and>
                soln = lsq_x (moffat_fixed_solve leastsq sky height xcen ycen beta fwhm_min s) \<and>
                soln = [skyr, heightr, xr, yr, betar] \<and>
                sqrt_diag (lsq_cov (moffat_fixed_solve leastsq sky height xcen ycen beta fwhm_min s)) = Inr [skye, heighte, xe, ye, betae] \<and>
                fit = moffat (cells (mem s) (fst (m2_xy (mfit2 s))), cells (mem s) (snd (m2_xy (mfit2 s)))) skyr heightr xr yr fwhm_min betar \<and>
                s1 = s\<lparr>mfit2 := (mfit2 s)\<lparr>m2_fwhm := fwhm_min\<rparr>, dmfit2 := (dmfit2 s)\<lparr>dm2_fwhm := fwhm_min\<rparr>\<rparr>) \<and>
           (fitMoffat_iter leastsq wind sky height xcen ycen fwhm fwhm_min fwhm_fix beta thresh s = Break (((ska, hta, xa, ya, fwa, bta), (skb, htb, xb, yb, fwb, btb), ext), s')
            \<longrightarrow> fwa = fwhm_min \<and> fwb = - 1)) \<and>
         (fwhm_min < fwhmf \<longrightarrow>
           (fitMoffat_solve leastsq sky height xcen ycen fwhm fwhm_min fwhm_fix beta s = Inr ((fit, soln, (skyr, heightr, xr, yr, fwhmr, betar), (skye, heighte, xe, ye, fwhme, betae)), s1)
            \<longrightarrow> soln = [skyf, heightf, xf, yf, fwhmf, betaf] \<and>
                (skyr, heightr, xr, yr, fwhmr, betar) = (skyf, heightf, xf, yf, fwhmf, betaf) \<and>
                sqrt_diag (lsq_cov (moffat_free_solve leastsq sky height xcen ycen fwhm beta s)) = Inr [skye, heighte, xe, ye, fwhme, betae] \<and>
                fit = moffat (cells (mem s) (fst (m1_xy (mfit1 s))), cells (mem s) (snd (m1_xy (mfit1 s)))) skyf heightf xf yf fwhmf betaf \<and>
                s1 = s) \<and>
           (fitMoffat_iter leastsq wind sky height xcen ycen fwhm fwhm_min fwhm_fix beta thresh s = Break (((ska, hta, xa, ya, fwa, bta), (skb, htb, xb, yb, fwb, btb), ext), s')
            \<longrightarrow> (ska, hta, xa, ya, fwa, bta) = (skyf, heightf, xf, yf, fwhmf, betaf)))) \<and>
   (\<not> fwhm_fix \<and>
    fitMoffat leastsq wind sky height xcen ycen fwhm fwhm_min fwhm_fix beta read gain thresh st = Some (Inr (((ska, hta, xa, ya, fwa, bta), (skb, htb, xb, yb, fwb, btb), ext), sF))
      \<longrightarrow> (\<exists>s skyf heightf xf yf fwhmf betaf.
           (fitMoffat_next leastsq wind sky height xcen ycen fwhm fwhm_min fwhm_fix beta thresh)\<^sup>*\<^sup>* (fitMoffat_init wind fwhm read gain st) s \<and>
           fitMoffat_iter leastsq wind sky height xcen ycen fwhm fwhm_min fwhm_fix beta thresh s = Break (((ska, hta, xa, ya, fwa, bta), (skb, htb, xb, yb, fwb, btb), ext), sF) \<and>
           \<not> bad_status (moffat_free_solve leastsq sky height xcen ycen fwhm beta s) \<and>
           lsq_x (moffat_free_solve leastsq sky height xcen ycen fwhm beta s) = [skyf, heightf, xf, yf, fwhmf, betaf] \<and>
           ((fwhmf \<le> fwhm_min \<and> fwa = fwhm_min \<and> fwb = - 1) \<or>
            (fwhm_min < fwhmf \<and> (ska, hta, xa, ya, fwa, bta) = (skyf, heightf, xf, yf, fwhmf, betaf))))) \<and>
   (\<not> fwhm_fix \<and>
    \<not> bad_status (gauss_free_solve leastsq sky height xcen ycen fwhm gs) \<and>
    lsq_x (gauss_free_solve leastsq sky height xcen ycen fwhm gs) = [gskyf, gheightf, gxf, gyf, gfwhmf]
      \<longrightarrow> (gfwhmf \<le> fwhm_min \<longrightarrow>
           fitGaussian_solve leastsq sky height xcen ycen fwhm fwhm_min fwhm_fix gs = fitGaussian_fixed leastsq sky height xcen ycen fwhm_min gs \<and>
           (fitGaussian_solve leastsq sky height xcen ycen fwhm fwhm_min fwhm_fix gs = Inr ((gfit, gsoln, (gskyr, gheightr, gxr, gyr, gfwhmr), (gskye, gheighte, gxe, gye, gfwhme)), gs1)
            \<longrightarrow> gfwhmr = fwhm_min \<and>
                gfwhme = - 1 \<and>
                \<not> bad_status (gauss_fixed_solve leastsq sky height xcen ycen fwhm_min gs) \<and>
                gsoln = lsq_x (gauss_fixed_solve leastsq sky height xcen ycen fwhm_min gs) \<and>
                gsoln = [gskyr, gheightr, gxr, gyr] \<and>
                sqrt_diag (lsq_cov (gauss_fixed_solve leastsq sky height xcen ycen fwhm_min gs)) = Inr [gskye, gheighte, gxe, gye] \<and>
                gfit = gaussian (cells (gmem gs) (fst (g2_xy (gfit2 gs))), cells (gmem gs) (snd (g2_xy (gfit2 gs)))) gskyr gheightr gxr gyr fwhm_min \<and>
                gs1 = gs\<lparr>gfit2 := (gfit2 gs)\<lparr>g2_fwhm := fwhm_min\<rparr>, dgfit2 := (dgfit2 gs)\<lparr>dg2_fwhm := fwhm_min\<rparr>\<rparr>) \<and>
           (fitGaussian_iter leastsq wind sky height xcen ycen fwhm fwhm_min fwhm_fix thresh gs = Break (((gska, ghta, gxa, gya, gfwa), (gskb, ghtb, gxb, gyb, gfwb), gext), gs')
            \<longrightarrow> gfwa = fwhm_min \<and> gfwb = - 1)) \<and>
         (fwhm_min < gfwhmf \<longrightarrow>
           (fitGaussian_solve leastsq sky height xcen ycen fwhm fwhm_min fwhm_fix gs = Inr ((gfit, gsoln, (gskyr, gheightr, gxr, gyr, gfwhmr), (gskye, gheighte, gxe, gye, gfwhme)), gs1)
            \<longrightarrow> gsoln = [gskyf, gheightf, gxf, gyf, gfwhmf] \<and>
                (gskyr, gheightr, gxr, gyr, gfwhmr) = (gskyf, gheightf, gxf, gyf, gfwhmf) \<and>
                sqrt_diag (lsq_cov (gauss_free_solve leastsq sky height xcen ycen fwhm gs)) = Inr [gskye, gheighte, gxe, gye, gfwhme] \<and>
                gfit = gaussian (cells (gmem gs) (fst (g1_xy (gfit1 gs))), cells (gmem gs) (snd (g1_xy (gfit1 gs)))) gskyf gheightf gxf gyf gfwhmf \<and>
                gs1 = gs) \<and>
           (fitGaussian_iter leastsq wind sky height xcen ycen fwhm fwhm_min fwhm_fix thresh gs = Break (((gska, ghta, gxa, gya, gfwa), (gskb, ghtb, gxb, gyb, gfwb), gext), gs')
            \<longrightarrow> (gska, ghta, gxa, gya, gfwa) = (gskyf, gheightf, gxf, gyf, gfwhmf)))) \<and>
   (\<not> fwhm_fix \<and>
    fitGaussian leastsq wind sky height xcen ycen fwhm fwhm_min fwhm_fix read gain thresh st = Some (Inr (((gska, ghta, gxa, gya, gfwa), (gskb, ghtb, gxb, gyb, gfwb), gext), gsF))
      \<longrightarrow> (\<exists>s skyf heightf xf yf fwhmf.
           (fitGaussian_next leastsq wind sky height xcen ycen fwhm fwhm_min fwhm_fix thresh)\<^sup>*\<^sup>* (fitGaussian_init wind fwhm read gain st) s \<and>
           fitGaussian_iter leastsq wind sky height xcen ycen fwhm fwhm_min fwhm_fix thresh s = Break (((gska, ghta, gxa, gya, gfwa), (gskb, ghtb, gxb, gyb, gfwb), gext), gsF) \<and>
           \<not> bad_status (gauss_free_solve leastsq sky height xcen ycen fwhm s) \<and>
           lsq_x (gauss_free_solve leastsq sky height xcen ycen fwhm s) = [skyf, heightf, xf, yf, fwhmf] \<and>
           ((fwhmf \<le> fwhm_min \<and> gfwa = fwhm_min \<and> gfwb = - 1) \<or>
            (fwhm_min < fwhmf \<and> (gska, ghta, gxa, gya, gfwa) = (skyf, heightf, xf, yf, fwhmf)))))"
proof -
  have m1: "(\<not> fwhm_fix \<and>
    \<not> bad_status (moffat_free_solve leastsq sky height xcen ycen fwhm beta s) \<and>
    lsq_x (moffat_free_solve leastsq sky height xcen ycen fwhm beta s) = [skyf, heightf, xf, yf, fwhmf, betaf]
      \<longrightarrow> (fwhmf \<le> fwhm_min \<longrightarrow>
           fitMoffat_solve leastsq sky height xcen ycen fwhm fwhm_min fwhm_fix beta s = fitMoffat_fixed leastsq sky height xcen ycen beta fwhm_min s \<and>
           (fitMoffat_solve leastsq sky height xcen ycen fwhm fwhm_min fwhm_fix beta s = Inr ((fit, soln, (skyr, heightr, xr, yr, fwhmr, betar), (skye, heighte, xe, ye, fwhme, betae)), s1)
            \<longrightarrow> fwhmr = fwhm_min \<and>
                fwhme = - 1 \<and>
                \<not> bad_status (moffat_fixed_solve leastsq sky height xcen ycen beta fwhm_min s) \<and>
                soln = lsq_x (moffat_fixed_solve leastsq sky height xcen ycen beta fwhm_min s) \<and>
                soln = [skyr, heightr, xr, yr, betar] \<and>
                sqrt_diag (lsq_cov (moffat_fixed_solve leastsq sky height xcen ycen beta fwhm_min s)) = Inr [skye, heighte, xe, ye, betae] \<and>
                fit = moffat (cells (mem s) (fst (m2_xy (mfit2 s))), cells (mem s) (snd (m2_xy (mfit2 s)))) skyr heightr xr yr fwhm_min betar \<and>
                s1 = s\<lparr>mfit2 := (mfit2 s)\<lparr>m2_fwhm := fwhm_min\<rparr>, dmfit2 := (dmfit2 s)\<lparr>dm2_fwhm := fwhm_min\<rparr>\<rparr>) \<and>
           (fitMoffat_iter leastsq wind sky height xcen ycen fwhm fwhm_min fwhm_fix beta thresh s = Break (((ska, hta, xa, ya, fwa, bta), (skb, htb, xb, yb, fwb, btb), ext), s')
            \<longrightarrow> fwa = fwhm_min \<and> fwb = - 1)) \<and>
         (fwhm_min < fwhmf \<longrightarrow>
           (fitMoffat_solve leastsq sky height xcen ycen fwhm fwhm_min fwhm_fix beta s = Inr ((fit, soln, (skyr, heightr, xr, yr, fwhmr, betar), (skye, heighte, xe, ye, fwhme, betae)), s1)
            \<longrightarrow> soln = [skyf, heightf, xf, yf, fwhmf, betaf] \<and>
                (skyr, heightr, xr, yr, fwhmr, betar) = (skyf, heightf, xf, yf, fwhmf, betaf) \<and>
                sqrt_diag (lsq_cov (moffat_free_solve leastsq sky height xcen ycen fwhm beta s)) = Inr [skye, heighte, xe, ye, fwhme, betae] \<and>
                fit = moffat (cells (mem s) (fst (m1_xy (mfit1 s))), cells (mem s) (snd (m1_xy (mfit1 s)))) skyf heightf xf yf fwhmf betaf \<and>
                s1 = s) \<and>
           (fitMoffat_iter leastsq wind sky height xcen ycen fwhm fwhm_min fwhm_fix beta thresh s = Break (((ska, hta, xa, ya, fwa, bta), (skb, htb, xb, yb, fwb, btb), ext), s')
            \<longrightarrow> (ska, hta, xa, ya, fwa, bta) = (skyf, heightf, xf, yf, fwhmf, betaf))))"
    by (intro impI, elim conjE, rule fitMoffat_two_stage; assumption)
  have m2: "(\<not> fwhm_fix \<and>
    fitMoffat leastsq wind sky height xcen ycen fwhm fwhm_min fwhm_fix beta read gain thresh st = Some (Inr (((ska, hta, xa, ya, fwa, bta), (skb, htb, xb, yb, fwb, btb), ext), sF))
      \<longrightarrow> (\<exists>s skyf heightf xf yf fwhmf betaf.
           (fitMoffat_next leastsq wind sky height xcen ycen fwhm fwhm_min fwhm_fix beta thresh)\<^sup>*\<^sup>* (fitMoffat_init wind fwhm read gain st) s \<and>
           fitMoffat_iter leastsq wind sky height xcen ycen fwhm fwhm_min fwhm_fix beta thresh s = Break (((ska, hta, xa, ya, fwa, bta), (skb, htb, xb, yb, fwb, btb), ext), sF) \<and>
           \<not> bad_status (moffat_free_solve leastsq sky height xcen ycen fwhm beta s) \<and>
           lsq_x (moffat_free_solve leastsq sky height xcen ycen fwhm beta s) = [skyf, heightf, xf, yf, fwhmf, betaf] \<and>
           ((fwhmf \<le> fwhm_min \<and> fwa = fwhm_min \<and> fwb = - 1) \<or>
            (fwhm_min < fwhmf \<and> (ska, hta, xa, ya, fwa, bta) = (skyf, heightf, xf, yf, fwhmf, betaf)))))"
    by (intro impI, elim conjE, rule fitMoffat_two_stage_result; assumption)
  have g1: "(\<not> fwhm_fix \<and>
    \<not> bad_status (gauss_free_solve leastsq sky height xcen ycen fwhm gs) \<and>
    lsq_x (gauss_free_solve leastsq sky height xcen ycen fwhm gs) = [gskyf, gheightf, gxf, gyf, gfwhmf]
      \<longrightarrow> (gfwhmf \<le> fwhm_min \<longrightarrow>
           fitGaussian_solve leastsq sky height xcen ycen fwhm fwhm_min fwhm_fix gs = fitGaussian_fixed leastsq sky height xcen ycen fwhm_min gs \<and>
           (fitGaussian_solve leastsq sky height xcen ycen fwhm fwhm_min fwhm_fix gs = Inr ((gfit, gsoln, (gskyr, gheightr, gxr, gyr, gfwhmr), (gskye, gheighte, gxe, gye, gfwhme)), gs1)
            \<longrightarrow> gfwhmr = fwhm_min \<and>
                gfwhme = - 1 \<and>
                \<not> bad_status (gauss_fixed_solve leastsq sky height xcen ycen fwhm_min gs) \<and>
                gsoln = lsq_x (gauss_fixed_solve leastsq sky height xcen ycen fwhm_min gs) \<and>
                gsoln = [gskyr, gheightr, gxr, gyr] \<and>
                sqrt_diag (lsq_cov (gauss_fixed_solve leastsq sky height xcen ycen fwhm_min gs)) = Inr [gskye, gheighte, gxe, gye] \<and>
                gfit = gaussian (cells (gmem gs) (fst (g2_xy (gfit2 gs))), cells (gmem gs) (snd (g2_xy (gfit2 gs)))) gskyr gheightr gxr gyr fwhm_min \<and>
                gs1 = gs\<lparr>gfit2 := (gfit2 gs)\<lparr>g2_fwhm := fwhm_min\<rparr>, dgfit2 := (dgfit2 gs)\<lparr>dg2_fwhm := fwhm_min\<rparr>\<rparr>) \<and>
           (fitGaussian_iter leastsq wind sky height xcen ycen fwhm fwhm_min fwhm_fix thresh gs = Break (((gska, ghta, gxa, gya, gfwa), (gskb, ghtb, gxb, gyb, gfwb), gext), gs')
            \<longrightarrow> gfwa = fwhm_min \<and> gfwb = - 1)) \<and>
         (fwhm_min < gfwhmf \<longrightarrow>
           (fitGaussian_solve leastsq sky height xcen ycen fwhm fwhm_min fwhm_fix gs = Inr ((gfit, gsoln, (gskyr, gheightr, gxr, gyr, gfwhmr), (gskye, gheighte, gxe, gye, gfwhme)), gs1)
            \<longrightarrow> gsoln = [gskyf, gheightf, gxf, gyf, gfwhmf] \<and>
                (gskyr, gheightr, gxr, gyr, gfwhmr) = (gskyf, gheightf, gxf, gyf, gfwhmf) \<and>
                sqrt_diag (lsq_cov (gauss_free_solve leastsq sky height xcen ycen fwhm gs)) = Inr [gskye, gheighte, gxe, gye, gfwhme] \<and>
                gfit = gaussian (cells (gmem gs) (fst (g1_xy (gfit1 gs))), cells (gmem gs) (snd (g1_xy (gfit1 gs)))) gskyf gheightf gxf gyf gfwhmf \<and>
                gs1 = gs) \<and>
           (fitGaussian_iter leastsq wind sky height xcen ycen fwhm fwhm_min fwhm_fix thresh gs = Break (((gska, ghta, gxa, gya, gfwa), (gskb, ghtb, gxb, gyb, gfwb), gext), gs')
            \<longrightarrow> (gska, ghta, gxa, gya, gfwa) = (gskyf, gheightf, gxf, gyf, gfwhmf))))"
    by (intro impI, elim conjE, rule fitGaussian_two_stage; assumption)
  have g2: "(\<not> fwhm_fix \<and>
    fitGaussian leastsq wind sky height xcen ycen fwhm fwhm_min fwhm_fix read gain thresh st = Some (Inr (((gska, ghta, gxa, gya, gfwa), (gskb, ghtb, gxb, gyb, gfwb), gext), gsF))
      \<longrightarrow> (\<exists>s skyf heightf xf yf fwhmf.
           (fitGaussian_next leastsq wind sky height xcen ycen fwhm fwhm_min fwhm_fix thresh)\<^sup>*\<^sup>* (fitGaussian_init wind fwhm read gain st) s \<and>
           fitGaussian_iter leastsq wind sky height xcen ycen fwhm fwhm_min fwhm_fix thresh s = Break (((gska, ghta, gxa, gya, gfwa), (gskb, ghtb, gxb, gyb, gfwb), gext), gsF) \<and>
           \<not> bad_status (gauss_free_solve leastsq sky height xcen ycen fwhm s) \<and>
           lsq_x (gauss_free_solve leastsq sky height xcen ycen fwhm s) = [skyf, heightf, xf, yf, fwhmf] \<and>
           ((fwhmf \<le> fwhm_min \<and> gfwa = fwhm_min \<and> gfwb = - 1) \<or>
            (fwhm_min < fwhmf \<and> (gska, ghta, gxa, gya, gfwa) = (skyf, heightf, xf, yf, fwhmf)))))"
    by (intro impI, elim conjE, rule fitGaussian_two_stage_result; assumption)
  from m1 m2 g1 g2 show ?thesis by (intro conjI)
qed

theorem two_stage_fwhm_witness:
  "(\<not> bad_status (moffat_free_solve ex_leastsq 0 0 1 1 2 2 ex_f0) \<and>
   lsq_x (moffat_free_solve ex_leastsq 0 0 1 1 2 2 ex_f0) = [0, 0, 1, 1, 2, 2] \<and>
   (2::real) \<le> 3 \<and>
   fitMoffat_solve ex_leastsq 0 0 1 1 2 3 False 2 ex_f0 = fitMoffat_fixed ex_leastsq 0 0 1 1 2 3 ex_f0 \<and>
   fitMoffat_solve ex_leastsq 0 0 1 1 2 3 False 2 ex_f0 = Inr ((replicate 11 0, [0, 0, 1, 1, 2], (0, 0, 1, 1, 3, 2), (1, 1, 1, 1, - 1, 1)), ex_f1) \<and>
   \<not> bad_status (moffat_fixed_solve ex_leastsq 0 0 1 1 2 3 ex_f0) \<and>
   [0, 0, 1, 1, 2] = lsq_x (moffat_fixed_solve ex_leastsq 0 0 1 1 2 3 ex_f0) \<and>
   sqrt_diag (lsq_cov (moffat_fixed_solve ex_leastsq 0 0 1 1 2 3 ex_f0)) = Inr [1, 1, 1, 1, 1] \<and>
   fitMoffat_iter ex_leastsq ex_wind 0 0 1 1 2 3 False 2 2 ex_f0 = Break (((0, 0, 1, 1, 3, 2), (2, 2, 2, 2, - 1, 2), (replicate 11 0, 2, 3, 1, 24, 11, 0, 5)), ex_f1) \<and>
   \<not> bad_status (moffat_free_solve ex_leastsq 0 0 1 1 2 2 ex_m1) \<and>
   lsq_x (moffat_free_solve ex_leastsq 0 0 1 1 2 2 ex_m1) = [0, 0, 1, 1, 2, 2] \<and>
   (1::real) < 2 \<and>
   fitMoffat_solve ex_leastsq 0 0 1 1 2 1 False 2 ex_m1 = Inr ((replicate 11 0, [0, 0, 1, 1, 2, 2], (0, 0, 1, 1, 2, 2), (1, 1, 1, 1, 1, 1)), ex_m1) \<and>
   sqrt_diag (lsq_cov (moffat_free_solve ex_leastsq 0 0 1 1 2 2 ex_m1)) = Inr [1, 1, 1, 1, 1, 1] \<and>
   fitMoffat_iter ex_leastsq ex_wind 0 0 1 1 2 1 False 2 2 ex_m1 = Break (((0, 0, 1, 1, 2, 2), (1/2, 1/2, 1/2, 1/2, 1/2, 1/2), (replicate 11 0, 2, 3, 1, 1, 10, 1, 6)), ex_m1) \<and>
   fitMoffat ex_leastsq ex_wind 0 0 1 1 2 3 False 2 (\<lambda>_. 1) (\<lambda>_. 1) 2 ex_fstore = Some (Inr (((0, 0, 1, 1, 3, 2), (2, 2, 2, 2, - 1, 2), (replicate 11 0, 2, 3, 1, 24, 11, 0, 5)), ex_f1)) \<and>
   (\<exists>s skyf heightf xf yf fwhmf betaf.
      (fitMoffat_next ex_leastsq ex_wind 0 0 1 1 2 3 False 2 2)\<^sup>*\<^sup>* (fitMoffat_init ex_wind 2 (\<lambda>_. 1) (\<lambda>_. 1) ex_fstore) s \<and>
      fitMoffat_iter ex_leastsq ex_wind 0 0 1 1 2 3 False 2 2 s = Break (((0, 0, 1, 1, 3, 2), (2, 2, 2, 2, - 1, 2), (replicate 11 0, 2, 3, 1, 24, 11, 0, 5)), ex_f1) \<and>
      \<not> bad_status (moffat_free_solve ex_leastsq 0 0 1 1 2 2 s) \<and>
      lsq_x (moffat_free_solve ex_leastsq 0 0 1 1 2 2 s) = [skyf, heightf, xf, yf, fwhmf, betaf] \<and>
      ((fwhmf \<le> 3 \<and> (3::real) = 3 \<and> (- 1::real) = - 1) \<or>
       (3 < fwhmf \<and> (0, 0, 1, 1, 3, 2) = (skyf, heightf, xf, yf, fwhmf, betaf))))) \<and>
   (\<not> bad_status (gauss_free_solve ex_leastsq 0 0 1 1 2 ex_h0) \<and>
   lsq_x (gauss_free_solve ex_leastsq 0 0 1 1 2 ex_h0) = [0, 0, 1, 1, 2] \<and>
   (2::real) \<le> 3 \<and>
   fitGaussian_solve ex_leastsq 0 0 1 1 2 3 False ex_h0 = fitGaussian_fixed ex_leastsq 0 0 1 1 3 ex_h0 \<and>
   fitGaussian_solve ex_leastsq 0 0 1 1 2 3 False ex_h0 = Inr ((replicate 11 0, [0, 0, 1, 1], (0, 0, 1, 1, 3), (1, 1, 1, 1, - 1)), ex_h1) \<and>
   \<not> bad_status (gauss_fixed_solve ex_leastsq 0 0 1 1 3 ex_h0) \<and>
   [0, 0, 1, 1] = lsq_x (gauss_fixed_solve ex_leastsq 0 0 1 1 3 ex_h0) \<and>
   sqrt_diag (lsq_cov (gauss_fixed_solve ex_leastsq 0 0 1 1 3 ex_h0)) = Inr [1, 1, 1, 1] \<and>
   fitGaussian_iter ex_leastsq ex_wind 0 0 1 1 2 3 False 2 ex_h0 = Break (((0, 0, 1, 1, 3), (2, 2, 2, 2, - 1), (replicate 11 0, 2, 3, 1, 28, 11, 0, 4)), ex_h1) \<and>
   \<not> bad_status (gauss_free_solve ex_leastsq 0 0 1 1 2 ex_g1) \<and>
   lsq_x (gauss_free_solve ex_leastsq 0 0 1 1 2 ex_g1) = [0, 0, 1, 1, 2] \<and>
   (1::real) < 2 \<and>
   fitGaussian_solve ex_leastsq 0 0 1 1 2 1 False ex_g1 = Inr ((replicate 11 0, [0, 0, 1, 1, 2], (0, 0, 1, 1, 2), (1, 1, 1, 1, 1)), ex_g1) \<and>
   sqrt_diag (lsq_cov (gauss_free_solve ex_leastsq 0 0 1 1 2 ex_g1)) = Inr [1, 1, 1, 1, 1] \<and>
   fitGaussian_iter ex_leastsq ex_wind 0 0 1 1 2 1 False 1 ex_g1 = Break (((0, 0, 1, 1, 2), (2, 2, 2, 2, 2), (replicate 11 0, 2, 3, 1, 20, 10, 1, 5)), ex_g1) \<and>
   fitGaussian ex_leastsq ex_wind 0 0 1 1 2 3 False (\<lambda>_. 1) (\<lambda>_. 1) 2 ex_hstore = Some (Inr (((0, 0, 1, 1, 3), (2, 2, 2, 2, - 1), (replicate 11 0, 2, 3, 1, 28, 11, 0, 4)), ex_h1)) \<and>
   (\<exists>s skyf heightf xf yf fwhmf.
      (fitGaussian_next ex_leastsq ex_wind 0 0 1 1 2 3 False 2)\<^sup>*\<^sup>* (fitGaussian_init ex_wind 2 (\<lambda>_. 1) (\<lambda>_. 1) ex_hstore) s \<and>
      fitGaussian_iter ex_leastsq ex_wind 0 0 1 1 2 3 False 2 s = Break (((0, 0, 1, 1, 3), (2, 2, 2, 2, - 1), (replicate 11 0, 2, 3, 1, 28, 11, 0, 4)), ex_h1) \<and>
      \<not> bad_status (gauss_free_solve ex_leastsq 0 0 1 1 2 s) \<and>
      lsq_x (gauss_free_solve ex_leastsq 0 0 1 1 2 s) = [skyf, heightf, xf, yf, fwhmf] \<and>
      ((fwhmf \<le> 3 \<and> (3::real) = 3 \<and> (- 1::real) = - 1) \<or>
       (3 < fwhmf \<and> (0, 0, 1, 1, 3) = (skyf, heightf, xf, yf, fwhmf)))))"
proof -
  have m: "\<not> bad_status (moffat_free_solve ex_leastsq 0 0 1 1 2 2 ex_f0) \<and>
   lsq_x (moffat_free_solve ex_leastsq 0 0 1 1 2 2 ex_f0) = [0, 0, 1, 1, 2, 2] \<and>
   (2::real) \<le> 3 \<and>
   fitMoffat_solve ex_leastsq 0 0 1 1 2 3 False 2 ex_f0 = fitMoffat_fixed ex_leastsq 0 0 1 1 2 3 ex_f0 \<and>
   fitMoffat_solve ex_leastsq 0 0 1 1 2 3 False 2 ex_f0 = Inr ((replicate 11 0, [0, 0, 1, 1, 2], (0, 0, 1, 1, 3, 2), (1, 1, 1, 1, - 1, 1)), ex_f1) \<and>
   \<not> bad_status (moffat_fixed_solve ex_leastsq 0 0 1 1 2 3 ex_f0) \<and>
   [0, 0, 1, 1, 2] = lsq_x (moffat_fixed_solve ex_leastsq 0 0 1 1 2 3 ex_f0) \<and>
   sqrt_diag (lsq_cov (moffat_fixed_solve ex_leastsq 0 0 1 1 2 3 ex_f0)) = Inr [1, 1, 1, 1, 1] \<and>
   fitMoffat_iter ex_leastsq ex_wind 0 0 1 1 2 3 False 2 2 ex_f0 = Break (((0, 0, 1, 1, 3, 2), (2, 2, 2, 2, - 1, 2), (replicate 11 0, 2, 3, 1, 24, 11, 0, 5)), ex_f1) \<and>
   \<not> bad_status (moffat_free_solve ex_leastsq 0 0 1 1 2 2 ex_m1) \<and>
   lsq_x (moffat_free_solve ex_leastsq 0 0 1 1 2 2 ex_m1) = [0, 0, 1, 1, 2, 2] \<and>
   (1::real) < 2 \<and>
   fitMoffat_solve ex_leastsq 0 0 1 1 2 1 False 2 ex_m1 = Inr ((replicate 11 0, [0, 0, 1, 1, 2, 2], (0, 0, 1, 1, 2, 2), (1, 1, 1, 1, 1, 1)), ex_m1) \<and>
   sqrt_diag (lsq_cov (moffat_free_solve ex_leastsq 0 0 1 1 2 2 ex_m1)) = Inr [1, 1, 1, 1, 1, 1] \<and>
   fitMoffat_iter ex_leastsq ex_wind 0 0 1 1 2 1 False 2 2 ex_m1 = Break (((0, 0, 1, 1, 2, 2), (1/2, 1/2, 1/2, 1/2, 1/2, 1/2), (replicate 11 0, 2, 3, 1, 1, 10, 1, 6)), ex_m1) \<and>
   fitMoffat ex_leastsq ex_wind 0 0 1 1 2 3 False 2 (\<lambda>_. 1) (\<lambda>_. 1) 2 ex_fstore = Some (Inr (((0, 0, 1, 1, 3, 2), (2, 2, 2, 2, - 1, 2), (replicate 11 0, 2, 3, 1, 24, 11, 0, 5)), ex_f1)) \<and>
   (\<exists>s skyf heightf xf yf fwhmf betaf.
      (fitMoffat_next ex_leastsq ex_wind 0 0 1 1 2 3 False 2 2)\<^sup>*\<^sup>* (fitMoffat_init ex_wind 2 (\<lambda>_. 1) (\<lambda>_. 1) ex_fstore) s \<and>
      fitMoffat_iter ex_leastsq ex_wind 0 0 1 1 2 3 False 2 2 s = Break (((0, 0, 1, 1, 3, 2), (2, 2, 2, 2, - 1, 2), (replicate 11 0, 2, 3, 1, 24, 11, 0, 5)), ex_f1) \<and>
      \<not> bad_status (moffat_free_solve ex_leastsq 0 0 1 1 2 2 s) \<and>
      lsq_x (moffat_free_solve ex_leastsq 0 0 1 1 2 2 s) = [skyf, heightf, xf, yf, fwhmf, betaf] \<and>
      ((fwhmf \<le> 3 \<and> (3::real) = 3 \<and> (- 1::real) = - 1) \<or>
       (3 < fwhmf \<and> (0, 0, 1, 1, 3, 2) = (skyf, heightf, xf, yf, fwhmf, betaf))))"
  proof -
    have f0: "\<not> bad_status (moffat_free_solve ex_leastsq 0 0 1 1 2 2 ex_f0)" "lsq_x (moffat_free_solve ex_leastsq 0 0 1 1 2 2 ex_f0) = [0, 0, 1, 1, 2, 2]"
      by (simp_all add: moffat_free_solve_def ex_leastsq_simps)
    have le: "(2::real) \<le> 3" by simp
    have h1: "\<not> False \<and>
      \<not> bad_status (moffat_free_solve ex_leastsq 0 0 1 1 2 2 ex_f0) \<and>
      lsq_x (moffat_free_solve ex_leastsq 0 0 1 1 2 2 ex_f0) = [0, 0, 1, 1, 2, 2]"
      using f0 by simp
    note t1 = two_stage_fwhm[where leastsq = ex_leastsq and sky = 0 and height = 0 and xcen = 1 and ycen = 1 and fwhm = 2 and fwhm_fix = False and wind = ex_wind and fwhm_min = 3 and beta = 2 and thresh = 2 and s = ex_f0 and skyf = 0 and heightf = 0 and xf = 1 and yf = 1 and fwhmf = 2 and betaf = 2 and fit = "replicate 11 0" and soln = "[0, 0, 1, 1, 2]" and skyr = 0 and heightr = 0 and xr = 1 and yr = 1 and fwhmr = 3 and betar = 2 and skye = 1 and heighte = 1 and xe = 1 and ye = 1 and fwhme = "- 1" and betae = 1 and ?s1.0 = ex_f1 and ska = 0 and hta = 0 and xa = 1 and ya = 1 and fwa = 3 and bta = 2 and skb = 2 and htb = 2 and xb = 2 and yb = 2 and fwb = "- 1" and btb = 2 and ext = "(replicate 11 0, 2, 3, 1, 24, 11, 0, 5)" and s' = ex_f1, THEN conjunct1, rule_format, OF h1, THEN conjunct1, rule_format, OF le]
    note a1 = t1[THEN conjunct1]
    note a2 = t1[THEN conjunct2, THEN conjunct1, rule_format, OF ex_f0_solve]
    note w5 = a2[THEN conjunct2, THEN conjunct2, THEN conjunct1]
    note w6 = a2[THEN conjunct2, THEN conjunct2, THEN conjunct2, THEN conjunct1]
    note w7 = a2[THEN conjunct2, THEN conjunct2, THEN conjunct2, THEN conjunct2, THEN conjunct2, THEN conjunct1]
    have f1: "\<not> bad_status (moffat_free_solve ex_leastsq 0 0 1 1 2 2 ex_m1)" "lsq_x (moffat_free_solve ex_leastsq 0 0 1 1 2 2 ex_m1) = [0, 0, 1, 1, 2, 2]"
      by (simp_all add: moffat_free_solve_def ex_leastsq_simps)
    have gt: "(1::real) < 2" by simp
    have h2: "\<not> False \<and>
      \<not> bad_status (moffat_free_solve ex_leastsq 0 0 1 1 2 2 ex_m1) \<and>
      lsq_x (moffat_free_solve ex_leastsq 0 0 1 1 2 2 ex_m1) = [0, 0, 1, 1, 2, 2]"
      using f1 by simp
    note t2 = two_stage_fwhm[where leastsq = ex_leastsq and sky = 0 and height = 0 and xcen = 1 and ycen = 1 and fwhm = 2 and fwhm_fix = False and wind = ex_wind and fwhm_min = 1 and beta = 2 and thresh = 2 and s = ex_m1 and skyf = 0 and heightf = 0 and xf = 1 and yf = 1 and fwhmf = 2 and betaf = 2 and fit = "replicate 11 0" and soln = "[0, 0, 1, 1, 2, 2]" and skyr = 0 and heightr = 0 and xr = 1 and yr = 1 and fwhmr = 2 and betar = 2 and skye = 1 and heighte = 1 and xe = 1 and ye = 1 and fwhme = 1 and betae = 1 and ?s1.0 = ex_m1 and ska = 0 and hta = 0 and xa = 1 and ya = 1 and fwa = 2 and bta = 2 and skb = "1/2" and htb = "1/2" and xb = "1/2" and yb = "1/2" and fwb = "1/2" and btb = "1/2" and ext = "(replicate 11 0, 2, 3, 1, 1, 10, 1, 6)" and s' = ex_m1, THEN conjunct1, rule_format, OF h2, THEN conjunct2, rule_format, OF gt]
    note b1 = t2[THEN conjunct1, rule_format, OF ex_m1_solve]
    note w13 = b1[THEN conjunct2, THEN conjunct2, THEN conjunct1]
    have h3: "\<not> False \<and>
      fitMoffat ex_leastsq ex_wind 0 0 1 1 2 3 False 2 (\<lambda>_. 1) (\<lambda>_. 1) 2 ex_fstore = Some (Inr (((0, 0, 1, 1, 3, 2), (2, 2, 2, 2, - 1, 2), (replicate 11 0, 2, 3, 1, 24, 11, 0, 5)), ex_f1))"
      using ex_fmoffat_fit by simp
    note t3 = two_stage_fwhm[where leastsq = ex_leastsq and sky = 0 and height = 0 and xcen = 1 and ycen = 1 and fwhm = 2 and fwhm_fix = False and wind = ex_wind and fwhm_min = 3 and beta = 2 and thresh = 2 and read = "\<lambda>_. 1" and gain = "\<lambda>_. 1" and st = ex_fstore and ska = 0 and hta = 0 and xa = 1 and ya = 1 and fwa = 3 and bta = 2 and skb = 2 and htb = 2 and xb = 2 and yb = 2 and fwb = "- 1" and btb = 2 and ext = "(replicate 11 0, 2, 3, 1, 24, 11, 0, 5)" and sF = ex_f1, THEN conjunct2, THEN conjunct1, rule_format, OF h3]
    from f0 le a1 ex_f0_solve w5 w6 w7 ex_f0_iter f1 gt ex_m1_solve w13 ex_m1_iter ex_fmoffat_fit t3
    show ?thesis by (intro conjI)
  qed
  have g: "\<not> bad_status (gauss_free_solve ex_leastsq 0 0 1 1 2 ex_h0) \<and>
   lsq_x (gauss_free_solve ex_leastsq 0 0 1 1 2 ex_h0) = [0, 0, 1, 1, 2] \<and>
   (2::real) \<le> 3 \<and>
   fitGaussian_solve ex_leastsq 0 0 1 1 2 3 False ex_h0 = fitGaussian_fixed ex_leastsq 0 0 1 1 3 ex_h0 \<and>
   fitGaussian_solve ex_leastsq 0 0 1 1 2 3 False ex_h0 = Inr ((replicate 11 0, [0, 0, 1, 1], (0, 0, 1, 1, 3), (1, 1, 1, 1, - 1)), ex_h1) \<and>
   \<not> bad_status (gauss_fixed_solve ex_leastsq 0 0 1 1 3 ex_h0) \<and>
   [0, 0, 1, 1] = lsq_x (gauss_fixed_solve ex_leastsq 0 0 1 1 3 ex_h0) \<and>
   sqrt_diag (lsq_cov (gauss_fixed_solve ex_leastsq 0 0 1 1 3 ex_h0)) = Inr [1, 1, 1, 1] \<and>
   fitGaussian_iter ex_leastsq ex_wind 0 0 1 1 2 3 False 2 ex_h0 = Break (((0, 0, 1, 1, 3), (2, 2, 2, 2, - 1), (replicate 11 0, 2, 3, 1, 28, 11, 0, 4)), ex_h1) \<and>
   \<not> bad_status (gauss_free_solve ex_leastsq 0 0 1 1 2 ex_g1) \<and>
   lsq_x (gauss_free_solve ex_leastsq 0 0 1 1 2 ex_g1) = [0, 0, 1, 1, 2] \<and>
   (1::real) < 2 \<and>
   fitGaussian_solve ex_leastsq 0 0 1 1 2 1 False ex_g1 = Inr ((replicate 11 0, [0, 0, 1, 1, 2], (0, 0, 1, 1, 2), (1, 1, 1, 1, 1)), ex_g1) \<and>
   sqrt_diag (lsq_cov (gauss_free_solve ex_leastsq 0 0 1 1 2 ex_g1)) = Inr [1, 1, 1, 1, 1] \<and>
   fitGaussian_iter ex_leastsq ex_wind 0 0 1 1 2 1 False 1 ex_g1 = Break (((0, 0, 1, 1, 2), (2, 2, 2, 2, 2), (replicate 11 0, 2, 3, 1, 20, 10, 1, 5)), ex_g1) \<and>
   fitGaussian ex_leastsq ex_wind 0 0 1 1 2 3 False (\<lambda>_. 1) (\<lambda>_. 1) 2 ex_hstore = Some (Inr (((0, 0, 1, 1, 3), (2, 2, 2, 2, - 1), (replicate 11 0, 2, 3, 1, 28, 11, 0, 4)), ex_h1)) \<and>
   (\<exists>s skyf heightf xf yf fwhmf.
      (fitGaussian_next ex_leastsq ex_wind 0 0 1 1 2 3 False 2)\<^sup>*\<^sup>* (fitGaussian_init ex_wind 2 (\<lambda>_. 1) (\<lambda>_. 1) ex_hstore) s \<and>
      fitGaussian_iter ex_leastsq ex_wind 0 0 1 1 2 3 False 2 s = Break (((0, 0, 1, 1, 3), (2, 2, 2, 2, - 1), (replicate 11 0, 2, 3, 1, 28, 11, 0, 4)), ex_h1) \<and>
      \<not> bad_status (gauss_free_solve ex_leastsq 0 0 1 1 2 s) \<and>
      lsq_x (gauss_free_solve ex_leastsq 0 0 1 1 2 s) = [skyf, heightf, xf, yf, fwhmf] \<and>
      ((fwhmf \<le> 3 \<and> (3::real) = 3 \<and> (- 1::real) = - 1) \<or>
       (3 < fwhmf \<and> (0, 0, 1, 1, 3) = (skyf, heightf, xf, yf, fwhmf))))"
  proof -
    have f0: "\<not> bad_status (gauss_free_solve ex_leastsq 0 0 1 1 2 ex_h0)" "lsq_x (gauss_free_solve ex_leastsq 0 0 1 1 2 ex_h0) = [0, 0, 1, 1, 2]"
      by (simp_all add: gauss_free_solve_def ex_leastsq_simps)
    have le: "(2::real) \<le> 3" by simp
    have h1: "\<not> False \<and>
      \<not> bad_status (gauss_free_solve ex_leastsq 0 0 1 1 2 ex_h0) \<and>
      lsq_x (gauss_free_solve ex_leastsq 0 0 1 1 2 ex_h0) = [0, 0, 1, 1, 2]"
      using f0 by simp
    note t1 = two_stage_fwhm[where leastsq = ex_leastsq and sky = 0 and height = 0 and xcen = 1 and ycen = 1 and fwhm = 2 and fwhm_fix = False and wind = ex_wind and fwhm_min = 3 and thresh = 2 and gs = ex_h0 and gskyf = 0 and gheightf = 0 and gxf = 1 and gyf = 1 and gfwhmf = 2 and gfit = "replicate 11 0" and gsoln = "[0, 0, 1, 1]" and gskyr = 0 and gheightr = 0 and gxr = 1 and gyr = 1 and gfwhmr = 3 and gskye = 1 and gheighte = 1 and gxe = 1 and gye = 1 and gfwhme = "- 1" and ?gs1.0 = ex_h1 and gska = 0 and ghta = 0 and gxa = 1 and gya = 1 and gfwa = 3 and gskb = 2 and ghtb = 2 and gxb = 2 and gyb = 2 and gfwb = "- 1" and gext = "(replicate 11 0, 2, 3, 1, 28, 11, 0, 4)" and gs' = ex_h1, THEN conjunct2, THEN conjunct2, THEN conjunct1, rule_format, OF h1, THEN conjunct1, rule_format, OF le]
    note a1 = t1[THEN conjunct1]
    note a2 = t1[THEN conjunct2, THEN conjunct1, rule_format, OF ex_h0_solve]
    note w5 = a2[THEN conjunct2, THEN conjunct2, THEN conjunct1]
    note w6 = a2[THEN conjunct2, THEN conjunct2, THEN conjunct2, THEN conjunct1]
    note w7 = a2[THEN conjunct2, THEN conjunct2, THEN conjunct2, THEN conjunct2, THEN conjunct2, THEN conjunct1]
    have f1: "\<not> bad_status (gauss_free_solve ex_leastsq 0 0 1 1 2 ex_g1)" "lsq_x (gauss_free_solve ex_leastsq 0 0 1 1 2 ex_g1) = [0, 0, 1, 1, 2]"
      by (simp_all add: gauss_free_solve_def ex_leastsq_simps)
    have gt: "(1::real) < 2" by simp
    have h2: "\<not> False \<and>
      \<not> bad_status (gauss_free_solve ex_leastsq 0 0 1 1 2 ex_g1) \<and>
      lsq_x (gauss_free_solve ex_leastsq 0 0 1 1 2 ex_g1) = [0, 0, 1, 1, 2]"
      using f1 by simp
    note t2 = two_stage_fwhm[where leastsq = ex_leastsq and sky = 0 and height = 0 and xcen = 1 and ycen = 1 and fwhm = 2 and fwhm_fix = False and wind = ex_wind and fwhm_min = 1 and thresh = 1 and gs = ex_g1 and gskyf = 0 and gheightf = 0 and gxf = 1 and gyf = 1 and gfwhmf = 2 and gfit = "replicate 11 0" and gsoln = "[0, 0, 1, 1, 2]" and gskyr = 0 and gheightr = 0 and gxr = 1 and gyr = 1 and gfwhmr = 2 and gskye = 1 and gheighte = 1 and gxe = 1 and gye = 1 and gfwhme = 1 and ?gs1.0 = ex_g1 and gska = 0 and ghta = 0 and gxa = 1 and gya = 1 and gfwa = 2 and gskb = 2 and ghtb = 2 and gxb = 2 and gyb = 2 and gfwb = 2 and gext = "(replicate 11 0, 2, 3, 1, 20, 10, 1, 5)" and gs' = ex_g1, THEN conjunct2, THEN conjunct2, THEN conjunct1, rule_format, OF h2, THEN conjunct2, rule_format, OF gt]
    note b1 = t2[THEN conjunct1, rule_format, OF ex_g1_solve]
    note w13 = b1[THEN conjunct2, THEN conjunct2, THEN conjunct1]
    have h3: "\<not> False \<and>
      fitGaussian ex_leastsq ex_wind 0 0 1 1 2 3 False (\<lambda>_. 1) (\<lambda>_. 1) 2 ex_hstore = Some (Inr (((0, 0, 1, 1, 3), (2, 2, 2, 2, - 1), (replicate 11 0, 2, 3, 1, 28, 11, 0, 4)), ex_h1))"
      using ex_hgauss_fit by simp
    note t3 = two_stage_fwhm[where leastsq = ex_leastsq and sky = 0 and height = 0 and xcen = 1 and ycen = 1 and fwhm = 2 and fwhm_fix = False and wind = ex_wind and fwhm_min = 3 and thresh = 2 and read = "\<lambda>_. 1" and gain = "\<lambda>_. 1" and st = ex_hstore and gska = 0 and ghta = 0 and gxa = 1 and gya = 1 and gfwa = 3 and gskb = 2 and ghtb = 2 and gxb = 2 and gyb = 2 and gfwb = "- 1" and gext = "(replicate 11 0, 2, 3, 1, 28, 11, 0, 4)" and gsF = ex_h1, THEN conjunct2, THEN conjunct2, THEN conjunct2, rule_format, OF h3]
    from f0 le a1 ex_h0_solve w5 w6 w7 ex_h0_iter f1 gt ex_g1_solve w13 ex_g1_iter ex_hgauss_fit t3
    show ?thesis by (intro conjI)
  qed
  from m g show ?thesis by (rule conjI)
qed
end
